(* ===== verification/Prelude.thy ===== *)
theory Prelude
  imports Main "HOL-Library.Word" "HOL-Library.Sublist"
begin

text \<open>
  Shared vocabulary of the development: machine integers, Rust's \<open>Result\<close> extended with
  the panics the code can raise, actions on a state, checked arithmetic, and the string
  operations of the standard library the sources use.

  Arithmetic on \<open>u64\<close> panics on overflow: the node is built with the debug profile (the
  README installs it with \<open>--debug\<close>, the Dockerfile runs a plain \<open>cargo build\<close>), where
  overflow checks are on.  A Rust string is its sequence of bytes, one \<open>char\<close> each, so
  \<open>length\<close> is Rust's \<open>len()\<close>.
\<close>

section \<open>Collections of facts\<close>

named_theorems outcome_simps \<open>unfolding of results and actions\<close>
named_theorems codec_simps \<open>printing and parsing\<close>

section \<open>Types\<close>

type_synonym u8 = "8 word"
type_synonym u16 = "16 word"
type_synonym u32 = "32 word"
type_synonym u64 = "64 word"
type_synonym bytes = "u8 list"

section \<open>Results that may also panic\<close>

text \<open>\<open>Ok\<close> and \<open>Err\<close> are Rust's \<open>Result\<close>; \<open>Panic\<close> is a panicking \<open>unwrap\<close>,
  \<open>expect\<close>, \<open>panic!\<close>, index or arithmetic overflow.\<close>

datatype ('e, 'a) outcome = Ok 'a | Err 'e | Panic

fun and_then :: "('e, 'a) outcome \<Rightarrow> ('a \<Rightarrow> ('e, 'b) outcome) \<Rightarrow> ('e, 'b) outcome" where
  "and_then (Ok a) f = f a"
| "and_then (Err e) f = Err e"
| "and_then Panic f = Panic"

fun map_err :: "('e \<Rightarrow> 'f) \<Rightarrow> ('e, 'a) outcome \<Rightarrow> ('f, 'a) outcome" where
  "map_err h (Ok a) = Ok a"
| "map_err h (Err e) = Err (h e)"
| "map_err h Panic = Panic"

text \<open>\<open>ok_or\<close> on an option, \<open>unwrap\<close> on an option and on a result.\<close>

definition ok_or :: "'e \<Rightarrow> 'a option \<Rightarrow> ('e, 'a) outcome" where
  "ok_or e x = (case x of None \<Rightarrow> Err e | Some a \<Rightarrow> Ok a)"

definition unwrap :: "'a option \<Rightarrow> ('e, 'a) outcome" where
  "unwrap x = (case x of None \<Rightarrow> Panic | Some a \<Rightarrow> Ok a)"

fun unwrap_res :: "('e, 'a) outcome \<Rightarrow> ('f, 'a) outcome" where
  "unwrap_res (Ok a) = Ok a"
| "unwrap_res (Err e) = Panic"
| "unwrap_res Panic = Panic"

definition guard_or :: "bool \<Rightarrow> 'e \<Rightarrow> ('e, unit) outcome" where
  "guard_or b e = (if b then Ok () else Err e)"

lemmas [outcome_simps] = ok_or_def unwrap_def guard_or_def

lemma and_then_eq_Ok: "and_then m f = Ok b \<longleftrightarrow> (\<exists>a. m = Ok a \<and> f a = Ok b)"
  by (cases m) auto

lemma and_then_eq_Err:
  "and_then m f = Err e \<longleftrightarrow> m = Err e \<or> (\<exists>a. m = Ok a \<and> f a = Err e)"
  by (cases m) auto

lemma and_then_eq_Panic:
  "and_then m f = Panic \<longleftrightarrow> m = Panic \<or> (\<exists>a. m = Ok a \<and> f a = Panic)"
  by (cases m) auto

lemma and_then_assoc: "and_then (and_then m f) g = and_then m (\<lambda>a. and_then (f a) g)"
  by (cases m) auto

lemma ok_or_eq_Ok [simp]: "ok_or e x = Ok a \<longleftrightarrow> x = Some a"
  by (cases x) (auto simp: ok_or_def)

lemma unwrap_eq_Ok [simp]: "unwrap x = Ok a \<longleftrightarrow> x = Some a"
  by (cases x) (auto simp: unwrap_def)

lemma ok_or_simps [simp]: "ok_or e (Some a) = Ok a" "ok_or e None = Err e"
  by (simp_all add: ok_or_def)

lemma unwrap_simps [simp]: "unwrap (Some a) = Ok a" "unwrap None = Panic"
  by (simp_all add: unwrap_def)

lemma unwrap_not_Err [simp]: "unwrap x \<noteq> Err e"
  by (cases x) auto

lemma guard_or_simps [simp]: "guard_or True e = Ok ()" "guard_or False e = Err e"
  by (simp_all add: guard_or_def)

lemma guard_or_eq_Ok [simp]: "guard_or b e = Ok u \<longleftrightarrow> b"
  by (simp add: guard_or_def)

text \<open>Running a fallible step over a list, stopping at the first failure: a \<open>for\<close> loop
  whose body uses \<open>?\<close>.\<close>

fun map_outcome :: "('a \<Rightarrow> ('e, 'b) outcome) \<Rightarrow> 'a list \<Rightarrow> ('e, 'b list) outcome" where
  "map_outcome f [] = Ok []"
| "map_outcome f (x # xs) =
     and_then (f x) (\<lambda>y. and_then (map_outcome f xs) (\<lambda>ys. Ok (y # ys)))"

lemma map_outcome_Ok:
  "map_outcome f xs = Ok ys \<longleftrightarrow> list_all2 (\<lambda>x y. f x = Ok y) xs ys"
  by (induction xs arbitrary: ys) (auto simp: and_then_eq_Ok list_all2_Cons1)

lemma map_outcome_append:
  "map_outcome f (xs @ ys) = and_then (map_outcome f xs) (\<lambda>as. and_then (map_outcome f ys) (\<lambda>bs. Ok (as @ bs)))"
proof (induction xs)
  case Nil
  show ?case by (cases "map_outcome f ys") simp_all
next
  case (Cons x xs)
  then show ?case by (cases "f x"; cases "map_outcome f xs"; cases "map_outcome f ys") simp_all
qed

section \<open>Actions on a state\<close>

type_synonym ('s, 'e, 'a) action = "'s \<Rightarrow> ('e, 'a) outcome \<times> 's"

definition act_bind ::
  "('s, 'e, 'a) action \<Rightarrow> ('a \<Rightarrow> ('s, 'e, 'b) action) \<Rightarrow> ('s, 'e, 'b) action" where
  "act_bind m f s =
     (case m s of (Ok a, t) \<Rightarrow> f a t | (Err e, t) \<Rightarrow> (Err e, t) | (Panic, t) \<Rightarrow> (Panic, t))"

definition act_lift :: "('e, 'a) outcome \<Rightarrow> ('s, 'e, 'a) action" where
  "act_lift r s = (r, s)"

definition act_return :: "'a \<Rightarrow> ('s, 'e, 'a) action" where
  "act_return a s = (Ok a, s)"

definition act_get :: "('s \<Rightarrow> 'a) \<Rightarrow> ('s, 'e, 'a) action" where
  "act_get f s = (Ok (f s), s)"

definition act_modify :: "('s \<Rightarrow> 's) \<Rightarrow> ('s, 'e, unit) action" where
  "act_modify f s = (Ok (), f s)"

lemma act_simps [simp]:
  "act_lift r s = (r, s)"
  "act_return a s = (Ok a, s)"
  "act_get f s = (Ok (f s), s)"
  "act_modify g s = (Ok (), g s)"
  by (simp_all add: act_lift_def act_return_def act_get_def act_modify_def)

lemma act_bind_simps [simp]:
  "act_bind (act_return a) f = f a"
  "act_bind (act_lift (Ok a)) f = f a"
  "act_bind (act_lift (Err e)) f = act_lift (Err e)"
  "act_bind (act_lift Panic) f = act_lift Panic"
  by (auto simp: act_bind_def fun_eq_iff)

lemma act_bind_get [simp]: "act_bind (act_get g) f s = f (g s) s"
  by (simp add: act_bind_def)

lemma act_bind_modify [simp]: "act_bind (act_modify g) f s = f () (g s)"
  by (simp add: act_bind_def)

lemma act_bind_Ok:
  "act_bind m f s = (Ok b, t) \<longleftrightarrow> (\<exists>a u. m s = (Ok a, u) \<and> f a u = (Ok b, t))"
  by (auto simp: act_bind_def split: prod.splits outcome.splits)

lemma act_bind_Err:
  "act_bind m f s = (Err e, t) \<longleftrightarrow> m s = (Err e, t) \<or> (\<exists>a u. m s = (Ok a, u) \<and> f a u = (Err e, t))"
  by (auto simp: act_bind_def split: prod.splits outcome.splits)

lemma act_bind_step: "m s = (Ok a, t) \<Longrightarrow> act_bind m f s = f a t"
  by (simp add: act_bind_def)

lemma act_bind_Err_step: "m s = (Err e, t) \<Longrightarrow> act_bind m f s = (Err e, t)"
  by (simp add: act_bind_def)

lemma act_bind_Panic_step: "m s = (Panic, t) \<Longrightarrow> act_bind m f s = (Panic, t)"
  by (simp add: act_bind_def)

text \<open>An action for each element of a list, in order, until one fails.\<close>

fun act_map :: "('a \<Rightarrow> ('s, 'e, 'b) action) \<Rightarrow> 'a list \<Rightarrow> ('s, 'e, 'b list) action" where
  "act_map f [] = act_return []"
| "act_map f (x # xs) = act_bind (f x) (\<lambda>y. act_bind (act_map f xs) (\<lambda>ys. act_return (y # ys)))"

text \<open>A state predicate that an action keeps, whatever its result.\<close>

definition keeps :: "('s \<Rightarrow> bool) \<Rightarrow> ('s, 'e, 'a) action \<Rightarrow> bool" where
  "keeps P m \<longleftrightarrow> (\<forall>s. P s \<longrightarrow> P (snd (m s)))"

lemma keeps_bind:
  assumes "keeps P m" and "\<And>a. keeps P (f a)"
  shows "keeps P (act_bind m f)"
  using assms unfolding keeps_def act_bind_def
  by (fastforce split: prod.splits outcome.splits)

lemma keeps_lift [intro, simp]: "keeps P (act_lift r)"
  by (simp add: keeps_def)

lemma keeps_return [intro, simp]: "keeps P (act_return r)"
  by (simp add: keeps_def)

lemma keeps_get [intro, simp]: "keeps P (act_get g)"
  by (simp add: keeps_def)

lemma keeps_act_map: "(\<And>x. x \<in> set xs \<Longrightarrow> keeps P (f x)) \<Longrightarrow> keeps P (act_map f xs)"
  by (induction xs) (auto intro!: keeps_bind)

lemma keepsD: "keeps P m \<Longrightarrow> P s \<Longrightarrow> m s = (r, t) \<Longrightarrow> P t"
  by (force simp: keeps_def)

section \<open>Mutexes\<close>

text \<open>
  An action under \<open>lock().unwrap()\<close>: it panics when the mutex is poisoned, and a panic inside poisons it.
\<close>

locale poisoning_lock =
  fixes locked :: "('s, 'e, 'a) action \<Rightarrow> ('s, 'e, 'a) action"
    and dead :: "'s \<Rightarrow> bool"
    and poison :: "'s \<Rightarrow> 's"
  assumes locked_dead: "dead s \<Longrightarrow> locked m s = (Panic, s)"
    and locked_alive: "\<not> dead s \<Longrightarrow> locked m s = (case m s of (Panic, t) \<Rightarrow> (Panic, poison t) | r \<Rightarrow> r)"
    and dead_poison: "dead (poison s)"
begin

lemma locked_Ok: "locked m s = (Ok a, t) \<longleftrightarrow> \<not> dead s \<and> m s = (Ok a, t)"
  by (cases "dead s") (auto simp: locked_dead locked_alive split: prod.splits outcome.splits)

lemma locked_Err: "locked m s = (Err e, t) \<longleftrightarrow> \<not> dead s \<and> m s = (Err e, t)"
  by (cases "dead s") (auto simp: locked_dead locked_alive split: prod.splits outcome.splits)

lemma locked_Panic: "locked m s = (Panic, t) \<Longrightarrow> dead t"
  by (cases "dead s") (auto simp: locked_dead locked_alive dead_poison split: prod.splits outcome.splits)

lemma locked_panics_again: "locked m s = (Panic, t) \<Longrightarrow> locked m' t = (Panic, t)"
  by (blast intro: locked_dead locked_Panic)

lemma locked_keeps: "keeps P m \<Longrightarrow> (\<And>s. P s \<Longrightarrow> P (poison s)) \<Longrightarrow> keeps P (locked m)"
proof -
  assume m: "keeps P m" and p: "\<And>s. P s \<Longrightarrow> P (poison s)"
  have "P (snd (locked m s))" if "P s" for s
    using keepsD [OF m that] that p
    by (cases "dead s"; cases "m s"; cases "fst (m s)") (auto simp: locked_dead locked_alive)
  then show ?thesis by (simp add: keeps_def)
qed

end

section \<open>Checked arithmetic\<close>

definition add_u64 :: "u64 \<Rightarrow> u64 \<Rightarrow> ('e, u64) outcome" where
  "add_u64 a b = (if unat a + unat b < 2 ^ 64 then Ok (a + b) else Panic)"

definition mul_u64 :: "u64 \<Rightarrow> u64 \<Rightarrow> ('e, u64) outcome" where
  "mul_u64 a b = (if unat a * unat b < 2 ^ 64 then Ok (a * b) else Panic)"

definition sub_u64 :: "u64 \<Rightarrow> u64 \<Rightarrow> ('e, u64) outcome" where
  "sub_u64 a b = (if b \<le> a then Ok (a - b) else Panic)"

definition checked_sub :: "u64 \<Rightarrow> u64 \<Rightarrow> u64 option" where
  "checked_sub a b = (if b \<le> a then Some (a - b) else None)"

definition saturating_sub :: "u64 \<Rightarrow> u64 \<Rightarrow> u64" where
  "saturating_sub a b = (if b \<le> a then a - b else 0)"

text \<open>\<open>iter().sum::<u64>()\<close>: a left fold of the checked addition.\<close>

fun sum_u64_from :: "u64 \<Rightarrow> u64 list \<Rightarrow> ('e, u64) outcome" where
  "sum_u64_from acc [] = Ok acc"
| "sum_u64_from acc (x # xs) = and_then (add_u64 acc x) (\<lambda>a. sum_u64_from a xs)"

definition sum_u64 :: "u64 list \<Rightarrow> ('e, u64) outcome" where
  "sum_u64 xs = sum_u64_from 0 xs"

lemma unat_add_u64: "add_u64 a b = Ok c \<Longrightarrow> unat c = unat a + unat b"
  by (auto simp: add_u64_def unat_word_ariths split: if_splits)

lemma add_u64_not_Err [simp]: "add_u64 a b \<noteq> Err e"
  by (simp add: add_u64_def)

lemma mul_u64_not_Err [simp]: "mul_u64 a b \<noteq> Err e"
  by (simp add: mul_u64_def)

lemma sub_u64_not_Err [simp]: "sub_u64 a b \<noteq> Err e"
  by (simp add: sub_u64_def)

lemma unat_sub_u64: "sub_u64 a b = Ok c \<Longrightarrow> unat c = unat a - unat b \<and> b \<le> a"
  by (auto simp: sub_u64_def unat_sub split: if_splits)

lemma unat_mul_u64: "mul_u64 a b = Ok c \<Longrightarrow> unat c = unat a * unat b"
  by (auto simp: mul_u64_def unat_word_ariths split: if_splits)

lemma checked_sub_Some: "checked_sub a b = Some c \<longleftrightarrow> b \<le> a \<and> unat c = unat a - unat b"
  by (auto simp: checked_sub_def unat_sub word_le_nat_alt intro!: word_unat_eq_iff [THEN iffD2])

lemma saturating_sub_pos:
  "c \<noteq> 0 \<Longrightarrow> saturating_sub a b = c \<longleftrightarrow> unat a = unat b + unat c"
proof -
  assume c: "c \<noteq> 0"
  then have pos: "unat c > 0" by (simp add: unat_gt_0)
  show ?thesis
  proof (cases "b \<le> a")
    case True
    then have "unat (a - b) = unat a - unat b" by (simp add: unat_sub)
    then show ?thesis
      using True by (auto simp: saturating_sub_def word_unat_eq_iff word_le_nat_alt)
  next
    case False
    then have "unat a < unat b" by (simp add: word_le_nat_alt)
    then show ?thesis using c False by (auto simp: saturating_sub_def)
  qed
qed

lemma checked_sub_zero: "checked_sub a b = Some 0 \<longleftrightarrow> a = b"
  by (auto simp: checked_sub_def)

lemma sum_u64_from_Ok:
  "sum_u64_from acc xs = Ok s \<longleftrightarrow>
     unat acc + sum_list (map unat xs) < 2 ^ 64 \<and> unat s = unat acc + sum_list (map unat xs)"
proof (induction xs arbitrary: acc)
  case Nil
  have "unat acc < 2 ^ 64" using unsigned_less [of acc] by simp
  then show ?case by (auto simp: word_unat_eq_iff)
next
  case (Cons x xs)
  show ?case
  proof (cases "unat acc + unat x < 2 ^ 64")
    case True
    then have "unat (acc + x) = unat acc + unat x" by (simp add: unat_word_ariths)
    with True Cons.IH show ?thesis by (simp add: add_u64_def add.assoc)
  next
    case False
    then show ?thesis by (simp add: add_u64_def)
  qed
qed

lemma sum_u64_from_not_Err: "sum_u64_from acc xs \<noteq> Err e"
  by (induction xs arbitrary: acc) (auto simp: and_then_eq_Err)

lemma sum_u64_Ok:
  "sum_u64 xs = Ok s \<longleftrightarrow>
     sum_list (map unat xs) < 2 ^ 64 \<and> unat s = sum_list (map unat xs)"
  by (simp add: sum_u64_def sum_u64_from_Ok)

section \<open>Strings\<close>

text \<open>\<open>str::split\<close> on a character.\<close>

fun split_on :: "char \<Rightarrow> string \<Rightarrow> string list" where
  "split_on c [] = [[]]"
| "split_on c (x # xs) =
     (if x = c then [] # split_on c xs
      else (case split_on c xs of [] \<Rightarrow> [[x]] | y # ys \<Rightarrow> (x # y) # ys))"

lemma split_on_not_Nil [simp]: "split_on c s \<noteq> []"
  by (induction s) (auto split: list.splits)

lemma split_on_id [simp]: "c \<notin> set s \<Longrightarrow> split_on c s = [s]"
  by (induction s) auto

lemma split_on_append [simp]: "c \<notin> set a \<Longrightarrow> split_on c (a @ c # b) = a # split_on c b"
  by (induction a) auto

lemma hd_split_on: "hd (split_on c s) = takeWhile (\<lambda>x. x \<noteq> c) s"
proof (induction s)
  case (Cons x xs)
  then show ?case by (cases "split_on c xs") (auto dest: split_on_not_Nil [THEN notE])
qed simp

lemma split_on_no_sep: "p \<in> set (split_on c s) \<Longrightarrow> c \<notin> set p"
  by (induction s arbitrary: p) (auto split: if_splits list.splits)

text \<open>\<open>str::trim\<close>, on the ASCII white space characters.\<close>

definition is_ws :: "char \<Rightarrow> bool" where
  "is_ws c \<longleftrightarrow> of_char c \<in> {9, 10, 11, 12, 13, 32 :: nat}"

definition trim :: "string \<Rightarrow> string" where
  "trim s = rev (dropWhile is_ws (rev (dropWhile is_ws s)))"

lemma trim_id: "\<forall>c \<in> set s. \<not> is_ws c \<Longrightarrow> trim s = s"
proof -
  assume a: "\<forall>c \<in> set s. \<not> is_ws c"
  have d: "dropWhile is_ws t = t" if "\<forall>c \<in> set t. \<not> is_ws c" for t
    using that by (cases t) auto
  show ?thesis using a by (simp add: trim_def d)
qed

text \<open>\<open>str::lines\<close>: split at newlines, no last empty line, one carriage return removed at
  the end of a line.\<close>

abbreviation newline :: char where
  "newline \<equiv> CHR 0x0A"

definition strip_cr :: "string \<Rightarrow> string" where
  "strip_cr s = (if s \<noteq> [] \<and> last s = CHR 0x0D then butlast s else s)"

definition lines_of :: "string \<Rightarrow> string list" where
  "lines_of s =
     (let ps = split_on newline s
      in map strip_cr (if last ps = [] then butlast ps else ps))"

lemma strip_cr_id [simp]: "CHR 0x0D \<notin> set s \<Longrightarrow> strip_cr s = s"
  by (metis last_in_set strip_cr_def)

text \<open>Joining with a separator, \<open>[String]::join\<close>.\<close>

fun join_with :: "string \<Rightarrow> string list \<Rightarrow> string" where
  "join_with sep [] = []"
| "join_with sep [x] = x"
| "join_with sep (x # y # ys) = x @ sep @ join_with sep (y # ys)"

lemma split_on_join:
  "xs \<noteq> [] \<Longrightarrow> \<forall>x \<in> set xs. c \<notin> set x \<Longrightarrow> split_on c (join_with [c] xs) = xs"
  by (induction "[c]" xs rule: join_with.induct) auto

lemma lines_of_join:
  assumes "\<forall>x \<in> set xs. x \<noteq> [] \<and> newline \<notin> set x \<and> CHR 0x0D \<notin> set x"
  shows "lines_of (join_with [newline] xs) = xs"
proof (cases "xs = []")
  case True
  then show ?thesis by (simp add: lines_of_def)
next
  case False
  have "split_on newline (join_with [newline] xs) = xs"
    using False assms by (intro split_on_join) auto
  moreover have "last xs \<noteq> []" using assms False by auto
  moreover have "map strip_cr xs = xs" using assms by (induction xs) auto
  ultimately show ?thesis by (simp add: lines_of_def)
qed

lemma lines_of_terminated:
  assumes "\<forall>x \<in> set xs. newline \<notin> set x \<and> CHR 0x0D \<notin> set x"
  shows "lines_of (concat (map (\<lambda>x. x @ [newline]) xs)) = xs"
proof -
  have "split_on newline (concat (map (\<lambda>x. x @ [newline]) xs)) = xs @ [[]]"
    using assms by (induction xs) auto
  moreover have "map strip_cr xs = xs" using assms by (induction xs) auto
  ultimately show ?thesis by (simp add: lines_of_def)
qed

section \<open>Decimal numbers\<close>

text \<open>\<open>u64::to_string\<close> and \<open>str::parse::<u64>\<close>, which takes an optional plus sign.\<close>

fun show_nat :: "nat \<Rightarrow> string" where
  "show_nat n = (if n < 10 then [char_of (48 + n)] else show_nat (n div 10) @ [char_of (48 + n mod 10)])"

declare show_nat.simps [simp del]

definition digit_value :: "char \<Rightarrow> nat option" where
  "digit_value c =
     (let n = of_char c :: nat in if 48 \<le> n \<and> n \<le> 57 then Some (n - 48) else None)"

fun digits_value :: "nat \<Rightarrow> string \<Rightarrow> nat option" where
  "digits_value acc [] = Some acc"
| "digits_value acc (c # cs) =
     (case digit_value c of None \<Rightarrow> None | Some d \<Rightarrow> digits_value (acc * 10 + d) cs)"

definition parse_unsigned :: "nat \<Rightarrow> string \<Rightarrow> nat option" where
  "parse_unsigned bound s =
     (let d = (case s of c # cs \<Rightarrow> (if c = CHR ''+'' then cs else s) | [] \<Rightarrow> [])
      in if d = [] then None
         else (case digits_value 0 d of
                 None \<Rightarrow> None
               | Some n \<Rightarrow> if n < bound then Some n else None))"

definition show_u64 :: "u64 \<Rightarrow> string" where
  "show_u64 w = show_nat (unat w)"

definition parse_u64 :: "string \<Rightarrow> u64 option" where
  "parse_u64 s = map_option of_nat (parse_unsigned (2 ^ 64) s)"

lemma digit_value_char [simp]: "d < 10 \<Longrightarrow> digit_value (char_of (48 + d)) = Some d"
  by (simp add: digit_value_def)

lemma digits_value_append:
  "digits_value acc (xs @ ys) =
     (case digits_value acc xs of None \<Rightarrow> None | Some a \<Rightarrow> digits_value a ys)"
  by (induction xs arbitrary: acc) (auto split: option.splits)

lemma show_nat_not_Nil [simp]: "show_nat n \<noteq> []"
  by (subst show_nat.simps) simp

lemma digits_value_show: "digits_value 0 (show_nat n) = Some n"
proof (induction n rule: show_nat.induct)
  case (1 n)
  show ?case
  proof (cases "n < 10")
    case True
    then show ?thesis by (simp add: show_nat.simps [of n])
  next
    case False
    with 1 show ?thesis by (simp add: show_nat.simps [of n] digits_value_append)
  qed
qed

lemma show_nat_digits: "c \<in> set (show_nat n) \<Longrightarrow> \<exists>d < (10::nat). c = char_of (48 + d)"
proof (induction n rule: show_nat.induct)
  case (1 n)
  show ?case
  proof (cases "n < 10")
    case True
    with "1.prems" show ?thesis by (auto simp: show_nat.simps [of n])
  next
    case False
    with "1.prems" have "c = char_of (48 + n mod 10) \<or> c \<in> set (show_nat (n div 10))"
      by (simp add: show_nat.simps [of n])
    moreover have "n mod 10 < 10" by simp
    ultimately show ?thesis using "1.IH" False by blast
  qed
qed

lemma show_nat_chars: "c \<in> set (show_nat n) \<Longrightarrow> 48 \<le> (of_char c :: nat) \<and> (of_char c :: nat) \<le> 57"
  using show_nat_digits [of c n] by auto

lemma parse_unsigned_show: "n < bound \<Longrightarrow> parse_unsigned bound (show_nat n) = Some n"
proof -
  assume n: "n < bound"
  obtain c cs where s: "show_nat n = c # cs" by (cases "show_nat n") auto
  then have "48 \<le> (of_char c :: nat)" using show_nat_chars [of c n] by simp
  then have "c \<noteq> CHR ''+''" by auto
  then show ?thesis
    using n digits_value_show [of n] s by (simp add: parse_unsigned_def)
qed

lemma parse_u64_show [codec_simps, simp]: "parse_u64 (show_u64 w) = Some w"
proof -
  have "unat w < 2 ^ 64" using unsigned_less [where ?'a = nat and w = w] by simp
  then have "parse_unsigned (2 ^ 64) (show_nat (unat w)) = Some (unat w)"
    by (rule parse_unsigned_show)
  then show ?thesis by (simp only: parse_u64_def show_u64_def option.map) simp
qed

lemma show_u64_chars:
  "c \<in> set (show_u64 w) \<Longrightarrow> 48 \<le> (of_char c :: nat) \<and> (of_char c :: nat) \<le> 57"
  by (simp add: show_u64_def show_nat_chars)

lemma show_u64_not_Nil [simp]: "show_u64 w \<noteq> []"
  by (simp add: show_u64_def)

end
