(* ===== verification/Errors.thy ===== *)
theory Errors
  imports Prelude
begin

text \<open>
  \<open>src/src/error.rs\<close>: the errors of the API, their messages, their names, the HTTP status each
  is answered with, and the conversion from the errors of the RGB library.

  Values of foreign error types (\<open>std::io::Error\<close>, axum's \<open>JsonRejection\<close>, the RGB library's
  \<open>BitcoinNetwork\<close>) are kept as what the code reads of them: their display text, their debug
  text, and for a \<open>JsonRejection\<close> its status and body text.
\<close>

section \<open>Foreign values\<close>

record shown =
  shown_display :: string
  shown_debug :: string

record json_rejection =
  jr_status :: nat
  jr_body :: string
  jr_display :: string
  jr_debug :: string

text \<open>\<open>Debug\<close> of a string: quoted, with the escapes of \<open>char::escape_debug\<close> for ASCII.\<close>

definition hex_digit :: "nat \<Rightarrow> char" where
  "hex_digit n = char_of (if n < 10 then 48 + n else 87 + n)"

definition debug_char :: "char \<Rightarrow> string" where
  "debug_char c =
     (let n = of_char c :: nat in
      if n = 0 then [CHR 0x5C, CHR ''0'']
      else if n = 9 then [CHR 0x5C, CHR ''t'']
      else if n = 10 then [CHR 0x5C, CHR ''n'']
      else if n = 13 then [CHR 0x5C, CHR ''r'']
      else if n = 34 then [CHR 0x5C, CHR 0x22]
      else if n = 92 then [CHR 0x5C, CHR 0x5C]
      else if n < 16 then [CHR 0x5C] @ ''u{'' @ [hex_digit n] @ ''}''
      else if n < 32 \<or> n = 127 then [CHR 0x5C] @ ''u{'' @ [hex_digit (n div 16), hex_digit (n mod 16)] @ ''}''
      else [c])"

definition debug_str :: "string \<Rightarrow> string" where
  "debug_str s = CHR 0x22 # concat (map debug_char s) @ [CHR 0x22]"

text \<open>\<open>std::io::Error::other\<close> applied to a text.\<close>

definition io_other :: "string \<Rightarrow> shown" where
  "io_other s =
     \<lparr>shown_display = s, shown_debug = ''Custom { kind: Other, error: '' @ debug_str s @ '' }''\<rparr>"

section \<open>The error type of the API\<close>

datatype (plugins only: ) APIError =
    AllocationsAlreadyAvailable
  | AlreadyInitialized
  | AnchorsRequired
  | AlreadyUnlocked
  | AuthenticationDisabled
  | BatchTransferNotFound
  | CannotCloseChannel string
  | CannotEstimateFees
  | CannotFailBatchTransfer
  | ChangingState
  | DuplicatePayment string
  | ExpiredSwapOffer
  | FailedBdkSync string
  | FailedBitcoindConnection string
  | FailedBroadcast string
  | FailedClosingChannel string
  | FailedInvoiceCreation string
  | FailedIssuingAsset string
  | FailedKeysCreation string string
  | FailedOpenChannel string
  | FailedPayment string
  | FailedPeerConnection
  | FailedPeerDisconnection string
  | FailedSendingOnionMessage string
  | IncompleteRGBInfo
  | InsufficientAssets
  | InsufficientCapacity u64
  | InsufficientFunds u64
  | InvalidAddress string
  | InvalidAmount string
  | InvalidAnnounceAddresses string
  | InvalidAnnounceAlias string
  | InvalidAssetID string
  | InvalidAssignment
  | InvalidAttachments string
  | InvalidBackupPath
  | InvalidBiscuitToken
  | InvalidChannelID
  | InvalidDetails string
  | InvalidEstimationBlocks
  | InvalidFeeRate string
  | InvalidIndexer string
  | InvalidInvoice string
  | InvalidMediaDigest
  | InvalidName string
  | InvalidNodeIds string
  | InvalidOnionData string
  | InvalidPaymentHash string
  | InvalidPaymentSecret
  | InvalidPassword string
  | InvalidPeerInfo string
  | InvalidPrecision string
  | InvalidProxyEndpoint
  | InvalidProxyProtocol string
  | InvalidPubkey
  | InvalidRecipientData string
  | InvalidRecipientID
  | InvalidRecipientNetwork
  | InvalidSwap string
  | InvalidSwapString string string
  | InvalidTicker string
  | InvalidTlvType string
  | InvalidTransportEndpoint string
  | InvalidTransportEndpoints string
  | IO shown
  | JsonExtractorRejection json_rejection
  | LockedNode
  | MediaFileEmpty
  | MediaFileNotProvided
  | MaxFeeExceeded string
  | MinFeeNotMet string
  | MissingSwapPaymentPreimage
  | Network string
  | NetworkMismatch string shown
  | NoAvailableUtxos
  | NoRoute
  | NotInitialized
  | NoValidTransportEndpoint
  | OpenChannelInProgress
  | OutputBelowDustLimit
  | PaymentNotFound string
  | RecipientIDAlreadyUsed
  | SwapNotFound string
  | TemporaryChannelIdAlreadyUsed
  | Unexpected string
  | UnknownChannelId
  | UnknownContractId
  | UnknownLNInvoice
  | UnknownTemporaryChannelId
  | UnlockedNode
  | UnsupportedBackupVersion string
  | UnsupportedLayer1 string
  | UnsupportedTransportType
  | WrongPassword

text \<open>The messages of the \<open>thiserror\<close> attributes.\<close>

primrec to_string :: "APIError \<Rightarrow> string" where
    "to_string AllocationsAlreadyAvailable = ''Allocations already available''"
  | "to_string AlreadyInitialized = ''Node has already been initialized''"
  | "to_string AnchorsRequired = ''Anchor outputs are required for RGB channels''"
  | "to_string AlreadyUnlocked = ''Node has already been unlocked''"
  | "to_string AuthenticationDisabled = ''Authentication is disabled''"
  | "to_string BatchTransferNotFound = ''Batch transfer not found''"
  | "to_string (CannotCloseChannel a) = ''Cannot close channel''"
  | "to_string CannotEstimateFees = ''Cannot estimate fees''"
  | "to_string CannotFailBatchTransfer = ''Batch transfer cannot be set to failed status''"
  | "to_string ChangingState = ''Cannot call other APIs while node is changing state''"
  | "to_string (DuplicatePayment a) = ''Another payment for this invoice is already in status '' @ a"
  | "to_string ExpiredSwapOffer = ''The swap offer has expired''"
  | "to_string (FailedBdkSync a) = ''Failed to sync BDK: '' @ a"
  | "to_string (FailedBitcoindConnection a) = ''Failed to connect to bitcoind client: '' @ a"
  | "to_string (FailedBroadcast a) = ''Failed broadcast: '' @ a"
  | "to_string (FailedClosingChannel a) = ''Failed closing channel: '' @ a"
  | "to_string (FailedInvoiceCreation a) = ''Failed to create invoice: '' @ a"
  | "to_string (FailedIssuingAsset a) = ''Failed to issue asset: '' @ a"
  | "to_string (FailedKeysCreation a b) = ''Unable to create keys seed file '' @ a @ '': '' @ b"
  | "to_string (FailedOpenChannel a) = ''Failed to open channel: '' @ a"
  | "to_string (FailedPayment a) = ''Failed payment: '' @ a"
  | "to_string FailedPeerConnection = ''Failed to connect to peer''"
  | "to_string (FailedPeerDisconnection a) = ''Failed to disconnect to peer: '' @ a"
  | "to_string (FailedSendingOnionMessage a) = ''Failed to send onion message: '' @ a"
  | "to_string IncompleteRGBInfo = ''For an RGB operation both asset_id and asset_amount must be set''"
  | "to_string InsufficientAssets = ''Not enough assets''"
  | "to_string (InsufficientCapacity a) = ''Insufficient capacity to cover the commitment transaction fees ('' @ show_u64 a @ '' sat)''"
  | "to_string (InsufficientFunds a) = ''Not enough funds, get an address and send '' @ show_u64 a @ '' sats there''"
  | "to_string (InvalidAddress a) = ''Invalid address: '' @ a"
  | "to_string (InvalidAmount a) = ''Invalid amount: '' @ a"
  | "to_string (InvalidAnnounceAddresses a) = ''Invalid announce addresses: '' @ a"
  | "to_string (InvalidAnnounceAlias a) = ''Invalid announce alias: '' @ a"
  | "to_string (InvalidAssetID a) = ''Invalid asset ID: '' @ a"
  | "to_string InvalidAssignment = ''Invalid assignment''"
  | "to_string (InvalidAttachments a) = ''Invalid attachments: '' @ a"
  | "to_string InvalidBackupPath = ''Invalid backup path''"
  | "to_string InvalidBiscuitToken = ''Invalid Biscuit token''"
  | "to_string InvalidChannelID = ''Invalid channel ID''"
  | "to_string (InvalidDetails a) = ''Invalid details: '' @ a"
  | "to_string InvalidEstimationBlocks = ''Trying to request fee estimation for an invalid block number''"
  | "to_string (InvalidFeeRate a) = ''Invalid fee rate: '' @ a"
  | "to_string (InvalidIndexer a) = ''Invalid indexer: '' @ a"
  | "to_string (InvalidInvoice a) = ''Invalid invoice: '' @ a"
  | "to_string InvalidMediaDigest = ''Invalid media digest''"
  | "to_string (InvalidName a) = ''Invalid name: '' @ a"
  | "to_string (InvalidNodeIds a) = ''Invalid node IDs: '' @ a"
  | "to_string (InvalidOnionData a) = ''Invalid onion data: '' @ a"
  | "to_string (InvalidPaymentHash a) = ''Invalid payment hash: '' @ a"
  | "to_string InvalidPaymentSecret = ''Invalid payment secret''"
  | "to_string (InvalidPassword a) = ''Invalid password: '' @ a"
  | "to_string (InvalidPeerInfo a) = ''Invalid peer info: '' @ a"
  | "to_string (InvalidPrecision a) = ''Invalid precision: '' @ a"
  | "to_string InvalidProxyEndpoint = ''Invalid proxy endpoint''"
  | "to_string (InvalidProxyProtocol a) = ''Invalid proxy protocol version: '' @ a"
  | "to_string InvalidPubkey = ''Invalid pubkey''"
  | "to_string (InvalidRecipientData a) = ''The provided recipient data is invalid: '' @ a"
  | "to_string InvalidRecipientID = ''The provided recipient ID is neither a blinded UTXO or a script''"
  | "to_string InvalidRecipientNetwork = ''The provided recipient ID is for a different network than the wallet'' @ [CHR 0x27] @ ''s one''"
  | "to_string (InvalidSwap a) = ''Invalid swap: '' @ a"
  | "to_string (InvalidSwapString a b) = ''Invalid swap string '' @ [CHR 0x27] @ a @ [CHR 0x27] @ '': '' @ b"
  | "to_string (InvalidTicker a) = ''Invalid ticker: '' @ a"
  | "to_string (InvalidTlvType a) = ''Invalid tlv type: '' @ a"
  | "to_string (InvalidTransportEndpoint a) = ''Invalid transport endpoint: '' @ a"
  | "to_string (InvalidTransportEndpoints a) = ''Invalid transport endpoints: '' @ a"
  | "to_string (IO a) = ''IO error: '' @ shown_display a"
  | "to_string (JsonExtractorRejection a) = jr_display a"
  | "to_string LockedNode = ''Node is locked (hint: call unlock)''"
  | "to_string MediaFileEmpty = ''Media file is empty''"
  | "to_string MediaFileNotProvided = ''Media file has not been provided''"
  | "to_string (MaxFeeExceeded a) = ''Max fee exceeded for transfer with TXID: '' @ a"
  | "to_string (MinFeeNotMet a) = ''Min fee not met for transfer with TXID: '' @ a"
  | "to_string MissingSwapPaymentPreimage = ''Unable to find payment preimage, be sure you'' @ [CHR 0x27] @ ''ve provided the correct swap info''"
  | "to_string (Network a) = ''Network error: '' @ a"
  | "to_string (NetworkMismatch a b) = ''The network of the given bitcoind ('' @ a @ '') doesn'' @ [CHR 0x27] @ ''t match the node'' @ [CHR 0x27] @ ''s chain ('' @ shown_display b @ '')''"
  | "to_string NoAvailableUtxos = ''No uncolored UTXOs are available (hint: call createutxos)''"
  | "to_string NoRoute = ''No route found''"
  | "to_string NotInitialized = ''Wallet has not been initialized (hint: call init)''"
  | "to_string NoValidTransportEndpoint = ''No valid transport endpoint found''"
  | "to_string OpenChannelInProgress = ''Cannot perform this operation while an open channel operation is in progress''"
  | "to_string OutputBelowDustLimit = ''Output below the dust limit''"
  | "to_string (PaymentNotFound a) = ''Payment not found: '' @ a"
  | "to_string RecipientIDAlreadyUsed = ''Recipient ID already used''"
  | "to_string (SwapNotFound a) = ''Swap not found: '' @ a"
  | "to_string TemporaryChannelIdAlreadyUsed = ''Temporary channel ID already used''"
  | "to_string (Unexpected a) = ''Unexpected error: '' @ a"
  | "to_string UnknownChannelId = ''Unknown channel ID''"
  | "to_string UnknownContractId = ''Unknown RGB contract ID''"
  | "to_string UnknownLNInvoice = ''Unknown LN invoice''"
  | "to_string UnknownTemporaryChannelId = ''Unknown temporary channel ID''"
  | "to_string UnlockedNode = ''Node is unlocked (hint: call lock)''"
  | "to_string (UnsupportedBackupVersion a) = ''The provided backup has an unsupported version: '' @ a"
  | "to_string (UnsupportedLayer1 a) = ''Layer 1 '' @ a @ '' is not supported''"
  | "to_string UnsupportedTransportType = ''Transport type is not supported''"
  | "to_string WrongPassword = ''The provided password is incorrect''"

text \<open>The derived \<open>Debug\<close> text.\<close>

primrec debug_error :: "APIError \<Rightarrow> string" where
    "debug_error AllocationsAlreadyAvailable = ''AllocationsAlreadyAvailable''"
  | "debug_error AlreadyInitialized = ''AlreadyInitialized''"
  | "debug_error AnchorsRequired = ''AnchorsRequired''"
  | "debug_error AlreadyUnlocked = ''AlreadyUnlocked''"
  | "debug_error AuthenticationDisabled = ''AuthenticationDisabled''"
  | "debug_error BatchTransferNotFound = ''BatchTransferNotFound''"
  | "debug_error (CannotCloseChannel a) = ''CannotCloseChannel('' @ debug_str a @ '')''"
  | "debug_error CannotEstimateFees = ''CannotEstimateFees''"
  | "debug_error CannotFailBatchTransfer = ''CannotFailBatchTransfer''"
  | "debug_error ChangingState = ''ChangingState''"
  | "debug_error (DuplicatePayment a) = ''DuplicatePayment('' @ debug_str a @ '')''"
  | "debug_error ExpiredSwapOffer = ''ExpiredSwapOffer''"
  | "debug_error (FailedBdkSync a) = ''FailedBdkSync('' @ debug_str a @ '')''"
  | "debug_error (FailedBitcoindConnection a) = ''FailedBitcoindConnection('' @ debug_str a @ '')''"
  | "debug_error (FailedBroadcast a) = ''FailedBroadcast('' @ debug_str a @ '')''"
  | "debug_error (FailedClosingChannel a) = ''FailedClosingChannel('' @ debug_str a @ '')''"
  | "debug_error (FailedInvoiceCreation a) = ''FailedInvoiceCreation('' @ debug_str a @ '')''"
  | "debug_error (FailedIssuingAsset a) = ''FailedIssuingAsset('' @ debug_str a @ '')''"
  | "debug_error (FailedKeysCreation a b) = ''FailedKeysCreation('' @ debug_str a @ '', '' @ debug_str b @ '')''"
  | "debug_error (FailedOpenChannel a) = ''FailedOpenChannel('' @ debug_str a @ '')''"
  | "debug_error (FailedPayment a) = ''FailedPayment('' @ debug_str a @ '')''"
  | "debug_error FailedPeerConnection = ''FailedPeerConnection''"
  | "debug_error (FailedPeerDisconnection a) = ''FailedPeerDisconnection('' @ debug_str a @ '')''"
  | "debug_error (FailedSendingOnionMessage a) = ''FailedSendingOnionMessage('' @ debug_str a @ '')''"
  | "debug_error IncompleteRGBInfo = ''IncompleteRGBInfo''"
  | "debug_error InsufficientAssets = ''InsufficientAssets''"
  | "debug_error (InsufficientCapacity a) = ''InsufficientCapacity('' @ show_u64 a @ '')''"
  | "debug_error (InsufficientFunds a) = ''InsufficientFunds('' @ show_u64 a @ '')''"
  | "debug_error (InvalidAddress a) = ''InvalidAddress('' @ debug_str a @ '')''"
  | "debug_error (InvalidAmount a) = ''InvalidAmount('' @ debug_str a @ '')''"
  | "debug_error (InvalidAnnounceAddresses a) = ''InvalidAnnounceAddresses('' @ debug_str a @ '')''"
  | "debug_error (InvalidAnnounceAlias a) = ''InvalidAnnounceAlias('' @ debug_str a @ '')''"
  | "debug_error (InvalidAssetID a) = ''InvalidAssetID('' @ debug_str a @ '')''"
  | "debug_error InvalidAssignment = ''InvalidAssignment''"
  | "debug_error (InvalidAttachments a) = ''InvalidAttachments('' @ debug_str a @ '')''"
  | "debug_error InvalidBackupPath = ''InvalidBackupPath''"
  | "debug_error InvalidBiscuitToken = ''InvalidBiscuitToken''"
  | "debug_error InvalidChannelID = ''InvalidChannelID''"
  | "debug_error (InvalidDetails a) = ''InvalidDetails('' @ debug_str a @ '')''"
  | "debug_error InvalidEstimationBlocks = ''InvalidEstimationBlocks''"
  | "debug_error (InvalidFeeRate a) = ''InvalidFeeRate('' @ debug_str a @ '')''"
  | "debug_error (InvalidIndexer a) = ''InvalidIndexer('' @ debug_str a @ '')''"
  | "debug_error (InvalidInvoice a) = ''InvalidInvoice('' @ debug_str a @ '')''"
  | "debug_error InvalidMediaDigest = ''InvalidMediaDigest''"
  | "debug_error (InvalidName a) = ''InvalidName('' @ debug_str a @ '')''"
  | "debug_error (InvalidNodeIds a) = ''InvalidNodeIds('' @ debug_str a @ '')''"
  | "debug_error (InvalidOnionData a) = ''InvalidOnionData('' @ debug_str a @ '')''"
  | "debug_error (InvalidPaymentHash a) = ''InvalidPaymentHash('' @ debug_str a @ '')''"
  | "debug_error InvalidPaymentSecret = ''InvalidPaymentSecret''"
  | "debug_error (InvalidPassword a) = ''InvalidPassword('' @ debug_str a @ '')''"
  | "debug_error (InvalidPeerInfo a) = ''InvalidPeerInfo('' @ debug_str a @ '')''"
  | "debug_error (InvalidPrecision a) = ''InvalidPrecision('' @ debug_str a @ '')''"
  | "debug_error InvalidProxyEndpoint = ''InvalidProxyEndpoint''"
  | "debug_error (InvalidProxyProtocol a) = ''InvalidProxyProtocol('' @ debug_str a @ '')''"
  | "debug_error InvalidPubkey = ''InvalidPubkey''"
  | "debug_error (InvalidRecipientData a) = ''InvalidRecipientData('' @ debug_str a @ '')''"
  | "debug_error InvalidRecipientID = ''InvalidRecipientID''"
  | "debug_error InvalidRecipientNetwork = ''InvalidRecipientNetwork''"
  | "debug_error (InvalidSwap a) = ''InvalidSwap('' @ debug_str a @ '')''"
  | "debug_error (InvalidSwapString a b) = ''InvalidSwapString('' @ debug_str a @ '', '' @ debug_str b @ '')''"
  | "debug_error (InvalidTicker a) = ''InvalidTicker('' @ debug_str a @ '')''"
  | "debug_error (InvalidTlvType a) = ''InvalidTlvType('' @ debug_str a @ '')''"
  | "debug_error (InvalidTransportEndpoint a) = ''InvalidTransportEndpoint('' @ debug_str a @ '')''"
  | "debug_error (InvalidTransportEndpoints a) = ''InvalidTransportEndpoints('' @ debug_str a @ '')''"
  | "debug_error (IO a) = ''IO('' @ shown_debug a @ '')''"
  | "debug_error (JsonExtractorRejection a) = ''JsonExtractorRejection('' @ jr_debug a @ '')''"
  | "debug_error LockedNode = ''LockedNode''"
  | "debug_error MediaFileEmpty = ''MediaFileEmpty''"
  | "debug_error MediaFileNotProvided = ''MediaFileNotProvided''"
  | "debug_error (MaxFeeExceeded a) = ''MaxFeeExceeded('' @ debug_str a @ '')''"
  | "debug_error (MinFeeNotMet a) = ''MinFeeNotMet('' @ debug_str a @ '')''"
  | "debug_error MissingSwapPaymentPreimage = ''MissingSwapPaymentPreimage''"
  | "debug_error (Network a) = ''Network('' @ debug_str a @ '')''"
  | "debug_error (NetworkMismatch a b) = ''NetworkMismatch('' @ debug_str a @ '', '' @ shown_debug b @ '')''"
  | "debug_error NoAvailableUtxos = ''NoAvailableUtxos''"
  | "debug_error NoRoute = ''NoRoute''"
  | "debug_error NotInitialized = ''NotInitialized''"
  | "debug_error NoValidTransportEndpoint = ''NoValidTransportEndpoint''"
  | "debug_error OpenChannelInProgress = ''OpenChannelInProgress''"
  | "debug_error OutputBelowDustLimit = ''OutputBelowDustLimit''"
  | "debug_error (PaymentNotFound a) = ''PaymentNotFound('' @ debug_str a @ '')''"
  | "debug_error RecipientIDAlreadyUsed = ''RecipientIDAlreadyUsed''"
  | "debug_error (SwapNotFound a) = ''SwapNotFound('' @ debug_str a @ '')''"
  | "debug_error TemporaryChannelIdAlreadyUsed = ''TemporaryChannelIdAlreadyUsed''"
  | "debug_error (Unexpected a) = ''Unexpected('' @ debug_str a @ '')''"
  | "debug_error UnknownChannelId = ''UnknownChannelId''"
  | "debug_error UnknownContractId = ''UnknownContractId''"
  | "debug_error UnknownLNInvoice = ''UnknownLNInvoice''"
  | "debug_error UnknownTemporaryChannelId = ''UnknownTemporaryChannelId''"
  | "debug_error UnlockedNode = ''UnlockedNode''"
  | "debug_error (UnsupportedBackupVersion a) = ''UnsupportedBackupVersion { version: '' @ debug_str a @ '' }''"
  | "debug_error (UnsupportedLayer1 a) = ''UnsupportedLayer1('' @ debug_str a @ '')''"
  | "debug_error UnsupportedTransportType = ''UnsupportedTransportType''"
  | "debug_error WrongPassword = ''WrongPassword''"

text \<open>The name of the variant, as the enumeration spells it.\<close>

primrec variant_name :: "APIError \<Rightarrow> string" where
    "variant_name AllocationsAlreadyAvailable = ''AllocationsAlreadyAvailable''"
  | "variant_name AlreadyInitialized = ''AlreadyInitialized''"
  | "variant_name AnchorsRequired = ''AnchorsRequired''"
  | "variant_name AlreadyUnlocked = ''AlreadyUnlocked''"
  | "variant_name AuthenticationDisabled = ''AuthenticationDisabled''"
  | "variant_name BatchTransferNotFound = ''BatchTransferNotFound''"
  | "variant_name (CannotCloseChannel a) = ''CannotCloseChannel''"
  | "variant_name CannotEstimateFees = ''CannotEstimateFees''"
  | "variant_name CannotFailBatchTransfer = ''CannotFailBatchTransfer''"
  | "variant_name ChangingState = ''ChangingState''"
  | "variant_name (DuplicatePayment a) = ''DuplicatePayment''"
  | "variant_name ExpiredSwapOffer = ''ExpiredSwapOffer''"
  | "variant_name (FailedBdkSync a) = ''FailedBdkSync''"
  | "variant_name (FailedBitcoindConnection a) = ''FailedBitcoindConnection''"
  | "variant_name (FailedBroadcast a) = ''FailedBroadcast''"
  | "variant_name (FailedClosingChannel a) = ''FailedClosingChannel''"
  | "variant_name (FailedInvoiceCreation a) = ''FailedInvoiceCreation''"
  | "variant_name (FailedIssuingAsset a) = ''FailedIssuingAsset''"
  | "variant_name (FailedKeysCreation a b) = ''FailedKeysCreation''"
  | "variant_name (FailedOpenChannel a) = ''FailedOpenChannel''"
  | "variant_name (FailedPayment a) = ''FailedPayment''"
  | "variant_name FailedPeerConnection = ''FailedPeerConnection''"
  | "variant_name (FailedPeerDisconnection a) = ''FailedPeerDisconnection''"
  | "variant_name (FailedSendingOnionMessage a) = ''FailedSendingOnionMessage''"
  | "variant_name IncompleteRGBInfo = ''IncompleteRGBInfo''"
  | "variant_name InsufficientAssets = ''InsufficientAssets''"
  | "variant_name (InsufficientCapacity a) = ''InsufficientCapacity''"
  | "variant_name (InsufficientFunds a) = ''InsufficientFunds''"
  | "variant_name (InvalidAddress a) = ''InvalidAddress''"
  | "variant_name (InvalidAmount a) = ''InvalidAmount''"
  | "variant_name (InvalidAnnounceAddresses a) = ''InvalidAnnounceAddresses''"
  | "variant_name (InvalidAnnounceAlias a) = ''InvalidAnnounceAlias''"
  | "variant_name (InvalidAssetID a) = ''InvalidAssetID''"
  | "variant_name InvalidAssignment = ''InvalidAssignment''"
  | "variant_name (InvalidAttachments a) = ''InvalidAttachments''"
  | "variant_name InvalidBackupPath = ''InvalidBackupPath''"
  | "variant_name InvalidBiscuitToken = ''InvalidBiscuitToken''"
  | "variant_name InvalidChannelID = ''InvalidChannelID''"
  | "variant_name (InvalidDetails a) = ''InvalidDetails''"
  | "variant_name InvalidEstimationBlocks = ''InvalidEstimationBlocks''"
  | "variant_name (InvalidFeeRate a) = ''InvalidFeeRate''"
  | "variant_name (InvalidIndexer a) = ''InvalidIndexer''"
  | "variant_name (InvalidInvoice a) = ''InvalidInvoice''"
  | "variant_name InvalidMediaDigest = ''InvalidMediaDigest''"
  | "variant_name (InvalidName a) = ''InvalidName''"
  | "variant_name (InvalidNodeIds a) = ''InvalidNodeIds''"
  | "variant_name (InvalidOnionData a) = ''InvalidOnionData''"
  | "variant_name (InvalidPaymentHash a) = ''InvalidPaymentHash''"
  | "variant_name InvalidPaymentSecret = ''InvalidPaymentSecret''"
  | "variant_name (InvalidPassword a) = ''InvalidPassword''"
  | "variant_name (InvalidPeerInfo a) = ''InvalidPeerInfo''"
  | "variant_name (InvalidPrecision a) = ''InvalidPrecision''"
  | "variant_name InvalidProxyEndpoint = ''InvalidProxyEndpoint''"
  | "variant_name (InvalidProxyProtocol a) = ''InvalidProxyProtocol''"
  | "variant_name InvalidPubkey = ''InvalidPubkey''"
  | "variant_name (InvalidRecipientData a) = ''InvalidRecipientData''"
  | "variant_name InvalidRecipientID = ''InvalidRecipientID''"
  | "variant_name InvalidRecipientNetwork = ''InvalidRecipientNetwork''"
  | "variant_name (InvalidSwap a) = ''InvalidSwap''"
  | "variant_name (InvalidSwapString a b) = ''InvalidSwapString''"
  | "variant_name (InvalidTicker a) = ''InvalidTicker''"
  | "variant_name (InvalidTlvType a) = ''InvalidTlvType''"
  | "variant_name (InvalidTransportEndpoint a) = ''InvalidTransportEndpoint''"
  | "variant_name (InvalidTransportEndpoints a) = ''InvalidTransportEndpoints''"
  | "variant_name (IO a) = ''IO''"
  | "variant_name (JsonExtractorRejection a) = ''JsonExtractorRejection''"
  | "variant_name LockedNode = ''LockedNode''"
  | "variant_name MediaFileEmpty = ''MediaFileEmpty''"
  | "variant_name MediaFileNotProvided = ''MediaFileNotProvided''"
  | "variant_name (MaxFeeExceeded a) = ''MaxFeeExceeded''"
  | "variant_name (MinFeeNotMet a) = ''MinFeeNotMet''"
  | "variant_name MissingSwapPaymentPreimage = ''MissingSwapPaymentPreimage''"
  | "variant_name (Network a) = ''Network''"
  | "variant_name (NetworkMismatch a b) = ''NetworkMismatch''"
  | "variant_name NoAvailableUtxos = ''NoAvailableUtxos''"
  | "variant_name NoRoute = ''NoRoute''"
  | "variant_name NotInitialized = ''NotInitialized''"
  | "variant_name NoValidTransportEndpoint = ''NoValidTransportEndpoint''"
  | "variant_name OpenChannelInProgress = ''OpenChannelInProgress''"
  | "variant_name OutputBelowDustLimit = ''OutputBelowDustLimit''"
  | "variant_name (PaymentNotFound a) = ''PaymentNotFound''"
  | "variant_name RecipientIDAlreadyUsed = ''RecipientIDAlreadyUsed''"
  | "variant_name (SwapNotFound a) = ''SwapNotFound''"
  | "variant_name TemporaryChannelIdAlreadyUsed = ''TemporaryChannelIdAlreadyUsed''"
  | "variant_name (Unexpected a) = ''Unexpected''"
  | "variant_name UnknownChannelId = ''UnknownChannelId''"
  | "variant_name UnknownContractId = ''UnknownContractId''"
  | "variant_name UnknownLNInvoice = ''UnknownLNInvoice''"
  | "variant_name UnknownTemporaryChannelId = ''UnknownTemporaryChannelId''"
  | "variant_name UnlockedNode = ''UnlockedNode''"
  | "variant_name (UnsupportedBackupVersion a) = ''UnsupportedBackupVersion''"
  | "variant_name (UnsupportedLayer1 a) = ''UnsupportedLayer1''"
  | "variant_name UnsupportedTransportType = ''UnsupportedTransportType''"
  | "variant_name WrongPassword = ''WrongPassword''"

text \<open>The status each arm of \<open>into_response\<close> answers with.\<close>

primrec status_code :: "APIError \<Rightarrow> nat" where
    "status_code AllocationsAlreadyAvailable = 403"
  | "status_code AlreadyInitialized = 403"
  | "status_code AnchorsRequired = 400"
  | "status_code AlreadyUnlocked = 403"
  | "status_code AuthenticationDisabled = 403"
  | "status_code BatchTransferNotFound = 403"
  | "status_code (CannotCloseChannel a) = 403"
  | "status_code CannotEstimateFees = 403"
  | "status_code CannotFailBatchTransfer = 403"
  | "status_code ChangingState = 403"
  | "status_code (DuplicatePayment a) = 403"
  | "status_code ExpiredSwapOffer = 400"
  | "status_code (FailedBdkSync a) = 403"
  | "status_code (FailedBitcoindConnection a) = 403"
  | "status_code (FailedBroadcast a) = 403"
  | "status_code (FailedClosingChannel a) = 500"
  | "status_code (FailedInvoiceCreation a) = 500"
  | "status_code (FailedIssuingAsset a) = 500"
  | "status_code (FailedKeysCreation a b) = 500"
  | "status_code (FailedOpenChannel a) = 500"
  | "status_code (FailedPayment a) = 500"
  | "status_code FailedPeerConnection = 403"
  | "status_code (FailedPeerDisconnection a) = 500"
  | "status_code (FailedSendingOnionMessage a) = 500"
  | "status_code IncompleteRGBInfo = 400"
  | "status_code InsufficientAssets = 403"
  | "status_code (InsufficientCapacity a) = 403"
  | "status_code (InsufficientFunds a) = 403"
  | "status_code (InvalidAddress a) = 400"
  | "status_code (InvalidAmount a) = 400"
  | "status_code (InvalidAnnounceAddresses a) = 400"
  | "status_code (InvalidAnnounceAlias a) = 400"
  | "status_code (InvalidAssetID a) = 400"
  | "status_code InvalidAssignment = 400"
  | "status_code (InvalidAttachments a) = 400"
  | "status_code InvalidBackupPath = 400"
  | "status_code InvalidBiscuitToken = 400"
  | "status_code InvalidChannelID = 400"
  | "status_code (InvalidDetails a) = 400"
  | "status_code InvalidEstimationBlocks = 400"
  | "status_code (InvalidFeeRate a) = 400"
  | "status_code (InvalidIndexer a) = 403"
  | "status_code (InvalidInvoice a) = 400"
  | "status_code InvalidMediaDigest = 400"
  | "status_code (InvalidName a) = 400"
  | "status_code (InvalidNodeIds a) = 400"
  | "status_code (InvalidOnionData a) = 400"
  | "status_code (InvalidPaymentHash a) = 400"
  | "status_code InvalidPaymentSecret = 400"
  | "status_code (InvalidPassword a) = 400"
  | "status_code (InvalidPeerInfo a) = 400"
  | "status_code (InvalidPrecision a) = 400"
  | "status_code InvalidProxyEndpoint = 403"
  | "status_code (InvalidProxyProtocol a) = 403"
  | "status_code InvalidPubkey = 400"
  | "status_code (InvalidRecipientData a) = 400"
  | "status_code InvalidRecipientID = 400"
  | "status_code InvalidRecipientNetwork = 400"
  | "status_code (InvalidSwap a) = 400"
  | "status_code (InvalidSwapString a b) = 400"
  | "status_code (InvalidTicker a) = 400"
  | "status_code (InvalidTlvType a) = 400"
  | "status_code (InvalidTransportEndpoint a) = 400"
  | "status_code (InvalidTransportEndpoints a) = 400"
  | "status_code (IO a) = 500"
  | "status_code (JsonExtractorRejection a) = jr_status a"
  | "status_code LockedNode = 403"
  | "status_code MediaFileEmpty = 400"
  | "status_code MediaFileNotProvided = 400"
  | "status_code (MaxFeeExceeded a) = 403"
  | "status_code (MinFeeNotMet a) = 403"
  | "status_code MissingSwapPaymentPreimage = 400"
  | "status_code (Network a) = 503"
  | "status_code (NetworkMismatch a b) = 403"
  | "status_code NoAvailableUtxos = 403"
  | "status_code NoRoute = 403"
  | "status_code NotInitialized = 403"
  | "status_code NoValidTransportEndpoint = 503"
  | "status_code OpenChannelInProgress = 403"
  | "status_code OutputBelowDustLimit = 400"
  | "status_code (PaymentNotFound a) = 403"
  | "status_code RecipientIDAlreadyUsed = 403"
  | "status_code (SwapNotFound a) = 403"
  | "status_code TemporaryChannelIdAlreadyUsed = 403"
  | "status_code (Unexpected a) = 500"
  | "status_code UnknownChannelId = 403"
  | "status_code UnknownContractId = 403"
  | "status_code UnknownLNInvoice = 403"
  | "status_code UnknownTemporaryChannelId = 403"
  | "status_code UnlockedNode = 403"
  | "status_code (UnsupportedBackupVersion a) = 400"
  | "status_code (UnsupportedLayer1 a) = 403"
  | "status_code UnsupportedTransportType = 403"
  | "status_code WrongPassword = 401"

section \<open>Errors of the RGB library\<close>

text \<open>The variants the conversion names, with the fields it reads; every other variant is
  \<open>RL_other\<close> with its debug text.\<close>

datatype rgb_lib_error =
    RL_AllocationsAlreadyAvailable
  | RL_AssetNotFound
  | RL_BatchTransferNotFound
  | RL_CannotEstimateFees
  | RL_CannotFailBatchTransfer
  | RL_EmptyFile
  | RL_FailedBdkSync string
  | RL_FailedBroadcast string
  | RL_FailedIssuance string
  | RL_IO string
  | RL_Inconsistency string
  | RL_Indexer string
  | RL_InsufficientAllocationSlots
  | RL_InsufficientAssignments
  | RL_InsufficientBitcoins u64 u64
  | RL_InvalidAddress string
  | RL_InvalidAmountZero
  | RL_InvalidAssetID string
  | RL_InvalidAssignment
  | RL_InvalidAttachments string
  | RL_InvalidDetails string
  | RL_InvalidElectrum string
  | RL_InvalidEstimationBlocks
  | RL_InvalidFeeRate string
  | RL_InvalidFilePath
  | RL_InvalidIndexer string
  | RL_InvalidInvoice string
  | RL_InvalidName string
  | RL_InvalidPrecision string
  | RL_InvalidProxyProtocol string
  | RL_InvalidRecipientData string
  | RL_InvalidRecipientID
  | RL_InvalidRecipientNetwork
  | RL_InvalidTicker string
  | RL_InvalidTransportEndpoint string
  | RL_InvalidTransportEndpoints string
  | RL_MaxFeeExceeded string
  | RL_MinFeeNotMet string
  | RL_Network string
  | RL_NoIssuanceAmounts
  | RL_NoValidTransportEndpoint
  | RL_OutputBelowDustLimit
  | RL_Proxy string
  | RL_RecipientIDAlreadyUsed
  | RL_TooHighIssuanceAmounts
  | RL_UnsupportedLayer1 string
  | RL_UnsupportedTransportType
  | RL_other string

text \<open>\<open>From<RgbLibError> for APIError\<close>; the difference of the two amounts is a checked
  subtraction.\<close>

primrec from_rgb_lib_error :: "rgb_lib_error \<Rightarrow> ('e, APIError) outcome" where
    "from_rgb_lib_error RL_AllocationsAlreadyAvailable = Ok AllocationsAlreadyAvailable"
  | "from_rgb_lib_error RL_AssetNotFound = Ok UnknownContractId"
  | "from_rgb_lib_error RL_BatchTransferNotFound = Ok BatchTransferNotFound"
  | "from_rgb_lib_error RL_CannotEstimateFees = Ok CannotEstimateFees"
  | "from_rgb_lib_error RL_CannotFailBatchTransfer = Ok CannotFailBatchTransfer"
  | "from_rgb_lib_error RL_EmptyFile = Ok MediaFileEmpty"
  | "from_rgb_lib_error (RL_FailedBdkSync a) = Ok (FailedBdkSync a)"
  | "from_rgb_lib_error (RL_FailedBroadcast a) = Ok (FailedBroadcast a)"
  | "from_rgb_lib_error (RL_FailedIssuance a) = Ok (FailedIssuingAsset a)"
  | "from_rgb_lib_error (RL_IO a) = Ok (IO (io_other (''rgb-lib err: '' @ a)))"
  | "from_rgb_lib_error (RL_Inconsistency a) = Ok (Unexpected (''rgb-lib inconsistency detected: '' @ a))"
  | "from_rgb_lib_error (RL_Indexer a) = Ok (Network (''indexer err: '' @ a))"
  | "from_rgb_lib_error RL_InsufficientAllocationSlots = Ok NoAvailableUtxos"
  | "from_rgb_lib_error RL_InsufficientAssignments = Ok InsufficientAssets"
  | "from_rgb_lib_error (RL_InsufficientBitcoins a b) = and_then (sub_u64 a b) (\<lambda>d. Ok (InsufficientFunds d))"
  | "from_rgb_lib_error (RL_InvalidAddress a) = Ok (InvalidAddress a)"
  | "from_rgb_lib_error RL_InvalidAmountZero = Ok (InvalidAmount ''0'')"
  | "from_rgb_lib_error (RL_InvalidAssetID a) = Ok (InvalidAssetID a)"
  | "from_rgb_lib_error RL_InvalidAssignment = Ok InvalidAssignment"
  | "from_rgb_lib_error (RL_InvalidAttachments a) = Ok (InvalidAttachments a)"
  | "from_rgb_lib_error (RL_InvalidDetails a) = Ok (InvalidDetails a)"
  | "from_rgb_lib_error (RL_InvalidElectrum a) = Ok (InvalidIndexer a)"
  | "from_rgb_lib_error RL_InvalidEstimationBlocks = Ok InvalidEstimationBlocks"
  | "from_rgb_lib_error (RL_InvalidFeeRate a) = Ok (InvalidFeeRate a)"
  | "from_rgb_lib_error RL_InvalidFilePath = Ok MediaFileNotProvided"
  | "from_rgb_lib_error (RL_InvalidIndexer a) = Ok (InvalidIndexer a)"
  | "from_rgb_lib_error (RL_InvalidInvoice a) = Ok (InvalidInvoice a)"
  | "from_rgb_lib_error (RL_InvalidName a) = Ok (InvalidName a)"
  | "from_rgb_lib_error (RL_InvalidPrecision a) = Ok (InvalidPrecision a)"
  | "from_rgb_lib_error (RL_InvalidProxyProtocol a) = Ok (InvalidProxyProtocol a)"
  | "from_rgb_lib_error (RL_InvalidRecipientData a) = Ok (InvalidRecipientData a)"
  | "from_rgb_lib_error RL_InvalidRecipientID = Ok InvalidRecipientID"
  | "from_rgb_lib_error RL_InvalidRecipientNetwork = Ok InvalidRecipientNetwork"
  | "from_rgb_lib_error (RL_InvalidTicker a) = Ok (InvalidTicker a)"
  | "from_rgb_lib_error (RL_InvalidTransportEndpoint a) = Ok (InvalidTransportEndpoint a)"
  | "from_rgb_lib_error (RL_InvalidTransportEndpoints a) = Ok (InvalidTransportEndpoints a)"
  | "from_rgb_lib_error (RL_MaxFeeExceeded a) = Ok (MaxFeeExceeded a)"
  | "from_rgb_lib_error (RL_MinFeeNotMet a) = Ok (MinFeeNotMet a)"
  | "from_rgb_lib_error (RL_Network a) = Ok (Network a)"
  | "from_rgb_lib_error RL_NoIssuanceAmounts = Ok (InvalidAmount ''issuance request with no provided amounts'')"
  | "from_rgb_lib_error RL_NoValidTransportEndpoint = Ok NoValidTransportEndpoint"
  | "from_rgb_lib_error RL_OutputBelowDustLimit = Ok OutputBelowDustLimit"
  | "from_rgb_lib_error (RL_Proxy a) = Ok (Network (''proxy err: '' @ a))"
  | "from_rgb_lib_error RL_RecipientIDAlreadyUsed = Ok RecipientIDAlreadyUsed"
  | "from_rgb_lib_error RL_TooHighIssuanceAmounts = Ok (InvalidAmount ''trying to issue too many assets'')"
  | "from_rgb_lib_error (RL_UnsupportedLayer1 a) = Ok (UnsupportedLayer1 a)"
  | "from_rgb_lib_error RL_UnsupportedTransportType = Ok UnsupportedTransportType"
  | "from_rgb_lib_error (RL_other a) = Ok (Unexpected (''Unmapped rgb-lib error: '' @ a))"

section \<open>The response\<close>

text \<open>\<open>APIError::name\<close>: the first piece of the debug text before an opening parenthesis, then
  the first piece of that before a space and an opening brace.\<close>

fun before_brace :: "string \<Rightarrow> string" where
  "before_brace [] = []"
| "before_brace (c # cs) =
     (if c = CHR '' '' \<and> cs \<noteq> [] \<and> hd cs = CHR ''{'' then [] else c # before_brace cs)"

definition api_error_name :: "APIError \<Rightarrow> string" where
  "api_error_name e = before_brace (hd (split_on (CHR ''('') (debug_error e)))"

record api_error_response =
  resp_error :: string
  resp_code :: nat
  resp_name :: string

definition error_text :: "APIError \<Rightarrow> string" where
  "error_text e = (case e of JsonExtractorRejection j \<Rightarrow> jr_body j | _ \<Rightarrow> to_string e)"

definition into_response :: "APIError \<Rightarrow> nat \<times> api_error_response" where
  "into_response e =
     (let text = map (\<lambda>c. if c = newline then CHR '' '' else c) (error_text e)
      in (status_code e,
          \<lparr>resp_error = text, resp_code = status_code e, resp_name = api_error_name e\<rparr>))"

section \<open>The error type of the application\<close>

datatype AppError =
    InvalidAuthenticationArgs
  | InvalidRevokedTokensFile
  | InvalidRootKey
  | AppIO shown
  | UnavailablePort u16

section \<open>Properties\<close>

lemma api_error_name_eq: "api_error_name e = before_brace (takeWhile (\<lambda>c. c \<noteq> CHR ''('') (debug_error e))"
  by (simp add: api_error_name_def hd_split_on)

text \<open>
  The name an error response carries is the spelling of the enumeration's variant, whatever
  text or numbers the error holds.
\<close>

theorem error_response_name:
  "resp_name (snd (into_response e)) = variant_name e"
  by (cases e) (simp_all add: into_response_def api_error_name_eq Let_def debug_str_def)

text \<open>
  An error response carries its HTTP status as its code, no newline in its text, and a
  status which, except for a rejected JSON body, is one of 400, 401, 403, 500 and 503.
\<close>

theorem error_response_shape:
  "resp_code (snd (into_response e)) = fst (into_response e)
   \<and> newline \<notin> set (resp_error (snd (into_response e)))
   \<and> (case e of JsonExtractorRejection j \<Rightarrow> fst (into_response e) = jr_status j
      | _ \<Rightarrow> fst (into_response e) \<in> {400, 401, 403, 500, 503})"
proof -
  have status: "fst (into_response e) = status_code e"
    by (simp add: into_response_def Let_def)
  have "case e of JsonExtractorRejection j \<Rightarrow> status_code e = jr_status j
      | _ \<Rightarrow> status_code e \<in> {400, 401, 403, 500, 503}"
    by (cases e) simp_all
  moreover have "resp_code (snd (into_response e)) = status_code e
      \<and> newline \<notin> set (resp_error (snd (into_response e)))"
    by (auto simp: into_response_def Let_def)
  ultimately show ?thesis unfolding status by blast
qed

end
