(* ===== verification/Utils.thy ===== *)
theory Utils
  imports Errors
begin

text \<open>
  \<open>src/src/utils.rs\<close>: hexadecimal text, channel ids, peer addresses, passwords and the
  mnemonic file, the largest RGB amount of the channels, the route request.

  Foreign operations (\<open>PublicKey::from_slice\<close>, socket address resolution, the cipher of the
  mnemonic file, the router) are arguments of the definitions that use them.
\<close>

section \<open>Names of the foreign identifiers\<close>

text \<open>A channel id and a payment hash are their 32 bytes, a public key its 33 bytes, a contract id
  and a transaction id the text they print as.\<close>

type_synonym channel_id = bytes
type_synonym payment_hash = bytes
type_synonym pubkey = bytes
type_synonym contract_id = string
type_synonym txid = string

section \<open>Hexadecimal text\<close>

text \<open>\<open>hex_str\<close>: two lower case digits per byte.\<close>

definition hex_byte :: "u8 \<Rightarrow> string" where
  "hex_byte v = [hex_digit (unat v div 16), hex_digit (unat v mod 16)]"

definition hex_str :: "bytes \<Rightarrow> string" where
  "hex_str value = concat (map hex_byte value)"

text \<open>\<open>hex_str_to_vec\<close>: the loop over the bytes of the text with its counter \<open>idx\<close>, its byte
  under construction \<open>b\<close> and its output.\<close>

definition hex_nibble :: "char \<Rightarrow> u8 option" where
  "hex_nibble c =
     (let n = of_char c :: nat in
      if 65 \<le> n \<and> n \<le> 70 then Some (of_nat (n - 65) + 10)
      else if 97 \<le> n \<and> n \<le> 102 then Some (of_nat (n - 97) + 10)
      else if 48 \<le> n \<and> n \<le> 57 then Some (of_nat (n - 48))
      else None)"

fun hex_loop :: "nat \<Rightarrow> u8 \<Rightarrow> bytes \<Rightarrow> string \<Rightarrow> bytes option" where
  "hex_loop idx b out [] = Some out"
| "hex_loop idx b out (c # cs) =
     (case hex_nibble c of
        None \<Rightarrow> None
      | Some d \<Rightarrow>
          (let b' = or (push_bit 4 b) d in
           if idx mod 2 = 1 then hex_loop (idx + 1) 0 (out @ [b']) cs
           else hex_loop (idx + 1) b' out cs))"

definition hex_str_to_vec :: "string \<Rightarrow> bytes option" where
  "hex_str_to_vec hex = hex_loop 0 0 [] hex"

subsection \<open>What the loop computes\<close>

definition is_hex :: "char \<Rightarrow> bool" where
  "is_hex c \<longleftrightarrow> hex_nibble c \<noteq> None"

text \<open>The reading of a text two digits at a time; an odd last digit is dropped.\<close>

fun hex_pairs :: "string \<Rightarrow> bytes" where
  "hex_pairs (c # d # cs) = or (push_bit 4 (the (hex_nibble c))) (the (hex_nibble d)) # hex_pairs cs"
| "hex_pairs [c] = []"
| "hex_pairs [] = []"

lemma hex_loop_pairs:
  "idx mod 2 = 0 \<Longrightarrow>
   hex_loop idx 0 out s = (if \<forall>c \<in> set s. is_hex c then Some (out @ hex_pairs s) else None)"
proof (induction s arbitrary: idx out rule: hex_pairs.induct)
  case (1 c d cs)
  have odd: "Suc idx mod 2 = 1" and even: "Suc (Suc idx) mod 2 = 0"
    using "1.prems" by presburger+
  have IH: "hex_loop (Suc (Suc idx)) 0 o' cs =
      (if \<forall>c \<in> set cs. is_hex c then Some (o' @ hex_pairs cs) else None)" for o'
    using "1.IH" even by simp
  show ?case
    using "1.prems" odd even by (auto simp: IH is_hex_def Let_def split: option.splits)
qed (auto simp: is_hex_def Let_def split: option.splits)

lemma hex_str_to_vec_eq:
  "hex_str_to_vec s = (if \<forall>c \<in> set s. is_hex c then Some (hex_pairs s) else None)"
  by (simp add: hex_str_to_vec_def hex_loop_pairs)

lemma length_hex_pairs [simp]: "length (hex_pairs s) = length s div 2"
  by (induction s rule: hex_pairs.induct) auto

subsection \<open>Printing and reading back\<close>

lemma hex_nibble_digit: "n < 16 \<Longrightarrow> hex_nibble (hex_digit n) = Some (of_nat n)"
proof (cases "n < 10")
  case True
  then show ?thesis by (simp add: hex_nibble_def hex_digit_def)
next
  case False
  assume "n < 16"
  moreover from False obtain k where "n = 10 + k" using le_Suc_ex by (metis not_less)
  ultimately show ?thesis by (simp add: hex_nibble_def hex_digit_def)
qed

lemma or_nibbles: "or (push_bit 4 (of_nat (unat v div 16))) (of_nat (unat v mod 16)) = (v :: u8)"
proof -
  have id: "of_nat (unat w) = w" for w :: u8 by simp
  have "unat (drop_bit 4 v) = unat v div 16" by (simp add: drop_bit_eq_div unat_div_distrib)
  then have d: "of_nat (unat v div 16) = drop_bit 4 v" by (metis id)
  have "unat (take_bit 4 v) = unat v mod 16" by (simp add: take_bit_eq_mod unat_mod_distrib)
  then have m: "of_nat (unat v mod 16) = take_bit 4 v" by (metis id)
  show ?thesis unfolding d m
    by (rule bit_word_eqI) (auto simp: bit_simps)
qed

lemma length_hex_str [simp]: "length (hex_str v) = 2 * length v"
  by (induction v) (auto simp: hex_str_def hex_byte_def)

lemma hex_pairs_str [simp]: "hex_pairs (hex_str v) = v"
proof (induction v)
  case (Cons x xs)
  have "unat x div 16 < 16" using unsigned_less [where ?'a = nat and w = x] by simp
  with Cons show ?case by (simp add: hex_str_def hex_byte_def hex_nibble_digit or_nibbles)
qed (simp add: hex_str_def)

lemma is_hex_digit: "n < 16 \<Longrightarrow> is_hex (hex_digit n)"
  by (simp add: is_hex_def hex_nibble_digit)

lemma is_hex_str: "c \<in> set (hex_str v) \<Longrightarrow> is_hex c"
proof (induction v)
  case (Cons x xs)
  have "unat x div 16 < 16" using unsigned_less [where ?'a = nat and w = x] by simp
  with Cons show ?case by (auto simp: hex_str_def hex_byte_def is_hex_digit)
qed (simp add: hex_str_def)

lemma hex_str_to_vec_str [codec_simps, simp]: "hex_str_to_vec (hex_str v) = Some v"
  using is_hex_str by (simp add: hex_str_to_vec_eq)


lemma is_hex_iff:
  "is_hex c \<longleftrightarrow>
     (of_char c :: nat) \<in> {48..57} \<or> (of_char c :: nat) \<in> {65..70} \<or> (of_char c :: nat) \<in> {97..102}"
  by (auto simp: is_hex_def hex_nibble_def Let_def)

definition to_lower :: "char \<Rightarrow> char" where
  "to_lower c = (if (of_char c :: nat) \<in> {65..90} then char_of ((of_char c :: nat) + 32) else c)"

lemma char_digit_eq: "hex_nibble c = Some d \<Longrightarrow> hex_digit (unat d) = to_lower c \<and> unat d < 16"
proof -
  assume a: "hex_nibble c = Some d"
  let ?n = "of_char c :: nat"
  have c: "char_of ?n = c" by simp
  have split: "\<exists>k. ?n = m + k \<and> k \<le> l - m" if "m \<le> ?n" "?n \<le> l" for m l
    using that by (intro exI [of _ "?n - m"]) auto
  have "is_hex c" using a by (simp add: is_hex_def)
  then consider (upper) k where "k < 6" "?n = 65 + k" | (lower) k where "k < 6" "?n = 97 + k"
    | (dec) k where "k < 10" "?n = 48 + k"
    unfolding is_hex_iff using split [of 65 70] split [of 97 102] split [of 48 57] by fastforce
  then show ?thesis
  proof cases
    case upper
    then have "d = of_nat (10 + k)" using a by (auto simp: hex_nibble_def add.commute)
    moreover have "to_lower c = char_of (97 + k)" using upper by (simp add: to_lower_def)
    moreover have "unat d = 10 + k"
      using calculation(1) upper(1) by (simp add: unat_of_nat del: of_nat_add)
    ultimately show ?thesis using upper(1) by (simp add: hex_digit_def)
  next
    case lower
    then have "d = of_nat (10 + k)" using a by (auto simp: hex_nibble_def add.commute)
    moreover have "to_lower c = char_of (97 + k)" using lower c by (simp add: to_lower_def)
    moreover have "unat d = 10 + k"
      using calculation(1) lower(1) by (simp add: unat_of_nat del: of_nat_add)
    ultimately show ?thesis using lower(1) by (simp add: hex_digit_def)
  next
    case dec
    then have "d = of_nat k" using a by (auto simp: hex_nibble_def add.commute)
    moreover have "to_lower c = char_of (48 + k)" using dec c by (simp add: to_lower_def)
    ultimately show ?thesis using dec(1) by (simp add: hex_digit_def unat_of_nat)
  qed
qed


lemma or_nibble_parts:
  assumes "unat a < 16" "unat b < 16"
  shows "unat (or (push_bit 4 a) b :: u8) = unat a * 16 + unat b"
proof -
  have disj: "and (push_bit 4 a) b = 0"
  proof (rule bit_word_eqI)
    fix n assume "n < LENGTH(8)"
    have "take_bit 4 b = b" using assms(2) by (simp add: take_bit_eq_mod word_unat_eq_iff unat_mod_distrib)
    then have "bit b n \<Longrightarrow> n < 4" by (metis bit_take_bit_iff)
    then show "bit (and (push_bit 4 a) b) n \<longleftrightarrow> bit (0 :: u8) n" by (auto simp: bit_simps)
  qed
  have "or (push_bit 4 a) b = push_bit 4 a + b" using disj by (simp add: disjunctive_add_eq_or)
  then show ?thesis using assms by (simp add: push_bit_eq_mult unat_word_ariths)
qed

lemma hex_str_pairs:
  "\<forall>c \<in> set s. is_hex c \<Longrightarrow> hex_str (hex_pairs s) = map to_lower (take (2 * (length s div 2)) s)"
proof (induction s rule: hex_pairs.induct)
  case (1 c d cs)
  then obtain x y where x: "hex_nibble c = Some x" and y: "hex_nibble d = Some y"
    by (auto simp: is_hex_def)
  note cx = char_digit_eq [OF x] and dy = char_digit_eq [OF y]
  from 1 x y cx dy show ?case
    by (simp add: hex_str_def hex_byte_def or_nibble_parts)
qed (auto simp: hex_str_def)


section \<open>Channel ids and public keys\<close>

definition check_channel_id :: "string \<Rightarrow> (APIError, channel_id) outcome" where
  "check_channel_id channel_id_str =
     (case hex_str_to_vec channel_id_str of
        Some channel_id_bytes \<Rightarrow>
          if length channel_id_bytes \<noteq> 32 then Err InvalidChannelID else Ok channel_id_bytes
      | None \<Rightarrow> Err InvalidChannelID)"

text \<open>\<open>from_slice\<close> is \<open>PublicKey::from_slice\<close>.\<close>

definition hex_str_to_compressed_pubkey ::
  "(bytes \<Rightarrow> pubkey option) \<Rightarrow> string \<Rightarrow> pubkey option" where
  "hex_str_to_compressed_pubkey from_slice hex =
     (if length hex \<noteq> 33 * 2 then None
      else case hex_str_to_vec (take (33 * 2) hex) of
             None \<Rightarrow> None
           | Some data \<Rightarrow> from_slice data)"

text \<open>\<open>resolve\<close> is \<open>to_socket_addrs\<close>: an error, or the addresses found.\<close>

definition parse_peer_info ::
  "(bytes \<Rightarrow> pubkey option) \<Rightarrow> (string \<Rightarrow> 'a list option) \<Rightarrow> string \<Rightarrow>
   (APIError, pubkey \<times> 'a option) outcome" where
  "parse_peer_info from_slice resolve s =
     (let parts = split_on (CHR ''@'') s;
          pk = hd parts
      in and_then
           (case tl parts of
              peer_addr_str # _ \<Rightarrow>
                (case resolve peer_addr_str of
                   None \<Rightarrow> Err (InvalidPeerInfo (''couldn'' @ [CHR 0x27] @ ''t parse pubkey@host:port into a socket address''))
                 | Some [] \<Rightarrow> Err (InvalidPeerInfo (''couldn'' @ [CHR 0x27] @ ''t parse pubkey@host:port into a socket address''))
                 | Some (a # _) \<Rightarrow> Ok (Some a))
            | [] \<Rightarrow> Ok None)
           (\<lambda>peer_addr.
              case hex_str_to_compressed_pubkey from_slice pk of
                None \<Rightarrow> Err (InvalidPeerInfo ''unable to parse given pubkey for node'')
              | Some k \<Rightarrow> Ok (k, peer_addr)))"

lemma check_channel_id_Ok:
  "check_channel_id s = Ok i \<longleftrightarrow>
     (\<forall>c \<in> set s. is_hex c) \<and> length s div 2 = 32 \<and> i = hex_pairs s"
  by (auto simp: check_channel_id_def hex_str_to_vec_eq split: if_splits option.splits)

lemma check_channel_id_not_Panic: "check_channel_id s \<noteq> Panic"
  by (auto simp: check_channel_id_def split: if_splits option.splits)

lemma check_channel_id_hex [simp]: "length i = 32 \<Longrightarrow> check_channel_id (hex_str i) = Ok i"
  by (simp add: check_channel_id_def)

lemma hex_str_to_compressed_pubkey_hex [simp]:
  "length d = 33 \<Longrightarrow> hex_str_to_compressed_pubkey from_slice (hex_str d) = from_slice d"
  by (simp add: hex_str_to_compressed_pubkey_def)

section \<open>Password and mnemonic\<close>

abbreviation password_min_length :: nat where
  "password_min_length \<equiv> 8"

definition check_password_strength :: "string \<Rightarrow> (APIError, unit) outcome" where
  "check_password_strength pw =
     (if length pw < password_min_length
      then Err (InvalidPassword (''must have at least '' @ show_nat password_min_length @ '' chars''))
      else Ok ())"

definition check_already_initialized :: "string option \<Rightarrow> (APIError, unit) outcome" where
  "check_already_initialized mnemonic_file =
     (if mnemonic_file \<noteq> None then Err AlreadyInitialized else Ok ())"

text \<open>\<open>decrypt\<close> and \<open>encrypt\<close> are the cipher keyed by the password, \<open>from_str\<close> is
  \<open>Mnemonic::from_str\<close>.  The mnemonic file is absent (or unreadable) or holds its text.\<close>

definition check_password_validity ::
  "(string \<Rightarrow> string \<Rightarrow> string option) \<Rightarrow> (string \<Rightarrow> 'm option) \<Rightarrow> string \<Rightarrow> string option \<Rightarrow>
   (APIError, 'm) outcome" where
  "check_password_validity decrypt from_str pw mnemonic_file =
     (case mnemonic_file of
        Some encrypted_mnemonic \<Rightarrow>
          and_then (ok_or WrongPassword (decrypt pw encrypted_mnemonic))
                   (\<lambda>mnemonic_str. unwrap (from_str mnemonic_str))
      | None \<Rightarrow> Err NotInitialized)"

text \<open>The write either succeeds or fails with an \<open>io::Error\<close>.\<close>

definition encrypt_and_save_mnemonic ::
  "(string \<Rightarrow> string \<Rightarrow> string) \<Rightarrow> shown option \<Rightarrow> string \<Rightarrow> string \<Rightarrow> string \<Rightarrow>
   (string option, APIError, unit) action" where
  "encrypt_and_save_mnemonic encrypt write_error pw mnemonic path mnemonic_file =
     (let encrypted_mnemonic = encrypt pw mnemonic
      in case write_error of
           None \<Rightarrow> (Ok (), Some encrypted_mnemonic)
         | Some e \<Rightarrow> (Err (FailedKeysCreation path (shown_display e)), mnemonic_file))"

section \<open>Peer connections\<close>

text \<open>The polling loop of \<open>do_connect_peer\<close> over what each turn of its \<open>select!\<close> sees: the
  connection was closed, or 10 ms went by and the peer was or was not listed.  \<open>None\<close>: the loop
  is still waiting after the given turns.\<close>

datatype connect_tick = Connection_closed | Slept (peer_listed: bool)

fun do_connect_loop :: "connect_tick list \<Rightarrow> (APIError, unit) outcome option" where
  "do_connect_loop [] = None"
| "do_connect_loop (Connection_closed # ts) = Some (Err FailedPeerConnection)"
| "do_connect_loop (Slept listed # ts) = (if listed then Some (Ok ()) else do_connect_loop ts)"

definition do_connect_peer :: "bool \<Rightarrow> connect_tick list \<Rightarrow> (APIError, unit) outcome option" where
  "do_connect_peer outbound ticks =
     (if outbound then do_connect_loop ticks else Some (Err FailedPeerConnection))"

definition connect_peer_if_necessary ::
  "pubkey list \<Rightarrow> bool \<Rightarrow> connect_tick list \<Rightarrow> pubkey \<Rightarrow> (APIError, unit) outcome option" where
  "connect_peer_if_necessary listed outbound ticks pk =
     (if pk \<in> set listed then Some (Ok ()) else do_connect_peer outbound ticks)"

lemma do_connect_loop_Ok:
  "do_connect_loop ts = Some (Ok u) \<longleftrightarrow>
     (\<exists>n rest. ts = replicate n (Slept False) @ Slept True # rest)"
proof (induction ts rule: do_connect_loop.induct)
  case (3 listed ts)
  show ?case
  proof (cases listed)
    case True
    then show ?thesis by (auto intro!: exI [of _ "0::nat"])
  next
    case False
    have "(\<exists>n rest. Slept False # ts = replicate n (Slept False) @ Slept True # rest)
       \<longleftrightarrow> (\<exists>n rest. ts = replicate n (Slept False) @ Slept True # rest)" (is "?l \<longleftrightarrow> ?r")
    proof
      assume ?l
      then obtain n rest where "Slept False # ts = replicate n (Slept False) @ Slept True # rest" by blast
      then show ?r by (cases n) auto
    next
      assume ?r
      then obtain n rest where "ts = replicate n (Slept False) @ Slept True # rest" by blast
      then show ?l by (auto intro!: exI [of _ "Suc n"])
    qed
    then show ?thesis using False 3 by simp
  qed
next
  case (2 ts)
  have "Connection_closed # ts \<noteq> replicate n (Slept False) @ Slept True # rest" for n rest
    by (cases n) auto
  then show ?case by simp
qed simp

section \<open>RGB information of the channels\<close>

record rgb_info =
  rgb_contract_id :: contract_id
  local_rgb_amount :: u64
  remote_rgb_amount :: u64

text \<open>What the RGB part of LDK keeps on disk for the channels: \<open>is_channel_rgb\<close>, the path of an
  information file (pending or not) and its reader.\<close>

record rgb_files =
  is_channel_rgb :: "channel_id \<Rightarrow> bool"
  rgb_channel_info_path :: "string \<Rightarrow> bool \<Rightarrow> string"
  parse_rgb_channel_info :: "string \<Rightarrow> rgb_info"

definition get_rgb_channel_info_optional ::
  "rgb_files \<Rightarrow> channel_id \<Rightarrow> bool \<Rightarrow> (rgb_info \<times> string) option" where
  "get_rgb_channel_info_optional fs cid pending =
     (if \<not> is_channel_rgb fs cid then None
      else let path = rgb_channel_info_path fs (hex_str cid) pending
           in Some (parse_rgb_channel_info fs path, path))"

fun max_local_loop :: "rgb_files \<Rightarrow> contract_id \<Rightarrow> u64 \<Rightarrow> channel_id list \<Rightarrow> u64" where
  "max_local_loop fs contract max_balance [] = max_balance"
| "max_local_loop fs contract max_balance (c # cs) =
     max_local_loop fs contract
       (case get_rgb_channel_info_optional fs c False of
          Some (info, _) \<Rightarrow>
            if rgb_contract_id info = contract \<and> local_rgb_amount info > max_balance
            then local_rgb_amount info else max_balance
        | None \<Rightarrow> max_balance) cs"

definition get_max_local_rgb_amount :: "rgb_files \<Rightarrow> contract_id \<Rightarrow> channel_id list \<Rightarrow> u64" where
  "get_max_local_rgb_amount fs contract channels = max_local_loop fs contract 0 channels"

text \<open>The local amounts of one contract over the channels.\<close>

definition local_amounts :: "rgb_files \<Rightarrow> contract_id \<Rightarrow> channel_id list \<Rightarrow> u64 list" where
  "local_amounts fs contract channels =
     concat (map (\<lambda>c. case get_rgb_channel_info_optional fs c False of
                          Some (info, _) \<Rightarrow>
                            if rgb_contract_id info = contract then [local_rgb_amount info] else []
                        | None \<Rightarrow> []) channels)"

lemma set_local_amounts:
  "set (local_amounts fs contract channels) = {local_rgb_amount info | c info path.
     c \<in> set channels \<and> get_rgb_channel_info_optional fs c False = Some (info, path)
     \<and> rgb_contract_id info = contract}"
proof (rule set_eqI)
  fix x
  have one: "x \<in> set (case g of Some (info, _) \<Rightarrow>
               if rgb_contract_id info = contract then [local_rgb_amount info] else [] | None \<Rightarrow> [])
     \<longleftrightarrow> (\<exists>info path. g = Some (info, path) \<and> rgb_contract_id info = contract
            \<and> x = local_rgb_amount info)" for g :: "(rgb_info \<times> string) option"
    by (cases g) auto
  have "x \<in> set (local_amounts fs contract channels) \<longleftrightarrow>
      (\<exists>c \<in> set channels. \<exists>info path. get_rgb_channel_info_optional fs c False = Some (info, path)
         \<and> rgb_contract_id info = contract \<and> x = local_rgb_amount info)"
    unfolding local_amounts_def set_concat set_map UN_iff bex_simps one by blast
  then show "x \<in> set (local_amounts fs contract channels) \<longleftrightarrow>
      x \<in> {local_rgb_amount info | c info path.
     c \<in> set channels \<and> get_rgb_channel_info_optional fs c False = Some (info, path)
     \<and> rgb_contract_id info = contract}" by blast
qed

lemma max_local_loop_fold:
  "max_local_loop fs contract m cs = fold max (local_amounts fs contract cs) m"
proof (induction cs arbitrary: m)
  case (Cons c cs)
  then show ?case
    by (auto simp: local_amounts_def max_def split: option.splits)
qed (simp add: local_amounts_def)

lemma get_max_local_fold:
  "get_max_local_rgb_amount fs contract cs = Max (insert 0 (set (local_amounts fs contract cs)))"
  by (simp add: get_max_local_rgb_amount_def max_local_loop_fold Max.set_eq_fold flip: list.set(2))

section \<open>Routes\<close>

record 'h payment_parameters =
  payee_node_id :: pubkey
  payee_route_hints :: "'h list"
  final_cltv_expiry_delta :: nat
  max_total_cltv_expiry_delta :: nat
  max_path_count :: nat
  max_path_length :: nat
  max_channel_saturation_power_of_half :: nat

record 'h route_parameters =
  payment_params :: "'h payment_parameters"
  route_value_msat :: u64
  route_rgb_payment :: "(contract_id \<times> u64) option"

abbreviation htlc_min_msat :: u64 where
  "htlc_min_msat \<equiv> 3000000"

abbreviation default_final_cltv_expiry_delta :: nat where
  "default_final_cltv_expiry_delta \<equiv> 14"

text \<open>\<open>get_route\<close>: the two limits come from LDK, \<open>find_route\<close> is its router, given the node the
  route starts from and the in-flight HTLCs.\<close>

definition get_route ::
  "nat \<Rightarrow> nat \<Rightarrow> (pubkey \<Rightarrow> 'h route_parameters \<Rightarrow> 'i \<Rightarrow> ('x, 'r) outcome) \<Rightarrow> 'i \<Rightarrow>
   pubkey \<Rightarrow> pubkey \<Rightarrow> u64 option \<Rightarrow> (contract_id \<times> u64) option \<Rightarrow> 'h list \<Rightarrow> 'r option" where
  "get_route max_cltv max_len find_route inflight start dest final_value_msat rgb_payment hints =
     (let pp = \<lparr>payee_node_id = dest, payee_route_hints = hints,
                final_cltv_expiry_delta = default_final_cltv_expiry_delta,
                max_total_cltv_expiry_delta = max_cltv, max_path_count = 1,
                max_path_length = max_len, max_channel_saturation_power_of_half = 2\<rparr>;
          rp = \<lparr>payment_params = pp,
                route_value_msat = (case final_value_msat of Some v \<Rightarrow> v | None \<Rightarrow> htlc_min_msat),
                route_rgb_payment = rgb_payment\<rparr>
      in case find_route start rp inflight of Ok r \<Rightarrow> Some r | _ \<Rightarrow> None)"


section \<open>Properties\<close>

lemma hex_str_inj: "hex_str v = hex_str w \<longleftrightarrow> v = w"
  by (metis hex_pairs_str)

lemma hex_decoded_iff:
  "hex_str_to_vec s = Some v \<longleftrightarrow>
     list_all is_hex s \<and> hex_str v = map to_lower (take (2 * (length s div 2)) s)"
proof (cases "list_all is_hex s")
  case True
  then have "\<forall>c \<in> set s. is_hex c" by (simp add: list_all_iff)
  note hex_str_pairs [OF this, symmetric]
  then show ?thesis using True by (auto simp: hex_str_to_vec_eq list_all_iff hex_str_inj)
qed (auto simp: hex_str_to_vec_eq list_all_iff)

text \<open>
  A text is decoded exactly when every character is a hexadecimal digit of either case, and
  the bytes found are those whose lower case text is the input up to a dropped odd last digit;
  the text of any bytes decodes to them.
\<close>

theorem hex_text_decoded:
  "(hex_str_to_vec s = Some v \<longleftrightarrow>
      list_all is_hex s \<and> hex_str v = map to_lower (take (2 * (length s div 2)) s))
   \<and> hex_str_to_vec (hex_str v) = Some v"
  by (simp only: hex_decoded_iff hex_str_to_vec_str)

text \<open>
  A text names a channel exactly when it has 64 or 65 hexadecimal digits, the channel id
  being the first 64 of them; the text of a channel id names it.
\<close>

theorem channel_id_text:
  "(check_channel_id s = Ok i \<longleftrightarrow>
      list_all is_hex s \<and> length s \<in> {64, 65} \<and> hex_str i = map to_lower (take 64 s))
   \<and> (check_channel_id (hex_str i) = Ok i \<longleftrightarrow> length i = 32)"
proof -
  have "check_channel_id s = Ok i \<longleftrightarrow> hex_str_to_vec s = Some i \<and> length s div 2 = 32"
    by (auto simp: check_channel_id_def hex_str_to_vec_eq split: if_splits)
  also have "\<dots> \<longleftrightarrow> list_all is_hex s \<and> length s \<in> {64, 65} \<and> hex_str i = map to_lower (take 64 s)"
    unfolding hex_decoded_iff by auto
  finally have "check_channel_id s = Ok i \<longleftrightarrow> \<dots>" .
  moreover have "check_channel_id (hex_str i) = Ok i \<longleftrightarrow> length i = 32"
    by (auto simp: check_channel_id_def)
  ultimately show ?thesis by blast
qed

text \<open>
  The RGB amount the node can spend in one payment is the largest local amount of that
  contract over its channels, zero when it has none.
\<close>

theorem max_local_rgb_amount:
  "get_max_local_rgb_amount fs contract channels =
     Max (insert 0 {local_rgb_amount info | c info path.
        c \<in> set channels \<and> get_rgb_channel_info_optional fs c False = Some (info, path)
        \<and> rgb_contract_id info = contract})"
  by (simp only: get_max_local_fold set_local_amounts)

text \<open>
  A node whose mnemonic was saved under a password can be unlocked with that password and
  gets that mnemonic; a password the cipher rejects is answered with \<open>WrongPassword\<close>; when the
  write fails the file is as it was.
\<close>

theorem saved_mnemonic_read_back:
  assumes law: "\<And>p m. decrypt p (encrypt p m) = Some m" and words: "from_str words = Some m"
  shows "check_password_validity decrypt from_str pw
           (snd (encrypt_and_save_mnemonic encrypt None pw words path f)) = Ok m
         \<and> (decrypt pw' (encrypt pw words) = None \<longrightarrow>
              check_password_validity decrypt from_str pw'
                (snd (encrypt_and_save_mnemonic encrypt None pw words path f)) = Err WrongPassword)
         \<and> snd (encrypt_and_save_mnemonic encrypt (Some e) pw words path f) = f"
  by (simp add: check_password_validity_def encrypt_and_save_mnemonic_def Let_def law words)

theorem saved_mnemonic_read_back_witness:
  "check_password_validity (\<lambda>p c. if take (length p) c = p then Some (drop (length p) c) else None)
     (\<lambda>w. Some w) ''password''
     (snd (encrypt_and_save_mnemonic (\<lambda>p m. p @ m) None ''password'' ''skill lamp'' ''mnemonic'' None))
   = Ok ''skill lamp''"
  using saved_mnemonic_read_back
    [of "\<lambda>p c. if take (length p) c = p then Some (drop (length p) c) else None" "\<lambda>p m. p @ m"
        "\<lambda>w. Some w" "''skill lamp''" "''skill lamp''" "''password''" "''mnemonic''" None
        "''password''" "io_other []"]
  by simp

end
