(* ===== verification/Swap.thy ===== *)
theory Swap
  imports Utils
begin

text \<open>
  \<open>src/src/swap.rs\<close> and the swap status of \<open>src/src/routes.rs\<close>: what a swap is, the text form
  \<open>qty_from/from_asset/qty_to/to_asset/expiry/payment_hash\<close> a maker hands to a taker, its
  printer and its parser.

  A contract id is the text it prints as; \<open>contract_from_str\<close> is the parser of the RGB library.
\<close>

section \<open>Data\<close>

datatype SwapStatus = SwapWaiting | SwapPending | SwapSucceeded | SwapExpired | SwapFailed

record SwapInfo =
  qty_from :: u64
  qty_to :: u64
  from_asset :: "contract_id option"
  to_asset :: "contract_id option"
  expiry :: u64

record SwapData =
  swap_info :: SwapInfo
  status :: SwapStatus
  requested_at :: u64
  initiated_at :: "u64 option"
  completed_at :: "u64 option"

definition create_from_swap_info :: "u64 \<Rightarrow> SwapInfo \<Rightarrow> SwapData" where
  "create_from_swap_info now info =
     \<lparr>swap_info = info, status = SwapWaiting, requested_at = now,
      initiated_at = None, completed_at = None\<rparr>"

definition same_asset :: "SwapInfo \<Rightarrow> bool" where
  "same_asset info \<longleftrightarrow> from_asset info = to_asset info"

definition is_from_btc :: "SwapInfo \<Rightarrow> bool" where
  "is_from_btc info \<longleftrightarrow> from_asset info = None"

definition is_from_asset :: "SwapInfo \<Rightarrow> bool" where
  "is_from_asset info \<longleftrightarrow> from_asset info \<noteq> None"

definition is_to_btc :: "SwapInfo \<Rightarrow> bool" where
  "is_to_btc info \<longleftrightarrow> to_asset info = None"

definition is_to_asset :: "SwapInfo \<Rightarrow> bool" where
  "is_to_asset info \<longleftrightarrow> to_asset info \<noteq> None"

definition is_asset_asset :: "SwapInfo \<Rightarrow> bool" where
  "is_asset_asset info \<longleftrightarrow> is_from_asset info \<and> is_to_asset info"

lemmas swap_kind_defs = same_asset_def is_from_btc_def is_from_asset_def is_to_btc_def
  is_to_asset_def is_asset_asset_def

section \<open>Printing and parsing a swap string\<close>

record SwapString =
  ss_swap_info :: SwapInfo
  ss_payment_hash :: payment_hash

definition show_asset :: "contract_id option \<Rightarrow> string" where
  "show_asset a = (case a of None \<Rightarrow> ''btc'' | Some c \<Rightarrow> c)"

definition swap_string_display :: "SwapString \<Rightarrow> string" where
  "swap_string_display s =
     (let info = ss_swap_info s
      in join_with ''/''
           [show_u64 (qty_from info), show_asset (from_asset info), show_u64 (qty_to info),
            show_asset (to_asset info), show_u64 (expiry info), hex_str (ss_payment_hash s)])"

definition parse_swapstring_asset ::
  "(string \<Rightarrow> contract_id option) \<Rightarrow> string \<Rightarrow> contract_id option option" where
  "parse_swapstring_asset contract_from_str asset =
     (if asset = ''btc'' then Some None
      else map_option Some (contract_from_str asset))"

definition parse_payment_hash :: "string \<Rightarrow> payment_hash option" where
  "parse_payment_hash s =
     (case hex_str_to_vec s of
        None \<Rightarrow> None
      | Some v \<Rightarrow> if length v = 32 then Some v else None)"

definition swap_string_from_str ::
  "(string \<Rightarrow> contract_id option) \<Rightarrow> string \<Rightarrow> (string, SwapString) outcome" where
  "swap_string_from_str contract_from_str s =
     (case split_on (CHR ''/'') s of
        [qf, fa, qt, ta, ex, ph] \<Rightarrow>
          (case (parse_u64 qf, parse_swapstring_asset contract_from_str fa, parse_u64 qt,
                 parse_swapstring_asset contract_from_str ta, parse_u64 ex, parse_payment_hash ph) of
             (Some qf', Some fa', Some qt', Some ta', Some ex', Some hash) \<Rightarrow>
               if qf' = 0 \<or> qt' = 0 \<or> ex' = 0
               then Err ''qty_from, qty_to and expiry should be positive''
               else
                 let info = \<lparr>qty_from = qf', qty_to = qt', from_asset = fa',
                             to_asset = ta', expiry = ex'\<rparr>
                 in if same_asset info then Err ''From and to assets should be different''
                    else Ok \<lparr>ss_swap_info = info, ss_payment_hash = hash\<rparr>
           | _ \<Rightarrow> Err ''Unable to parse'')
      | _ \<Rightarrow> Err ''Wrong number of parts'')"

section \<open>Fields of a separated text\<close>

text \<open>What a printer and a parser of one field promise: what is printed is read back and does
  not contain the separator.\<close>

locale field_codec =
  fixes valid :: "'a \<Rightarrow> bool"
    and print :: "'a \<Rightarrow> string"
    and parse :: "string \<Rightarrow> 'a option"
    and sep :: char
  assumes parse_print: "valid a \<Longrightarrow> parse (print a) = Some a"
    and sep_not_in_print: "valid a \<Longrightarrow> sep \<notin> set (print a)"
begin

lemma split_first: "valid a \<Longrightarrow> split_on sep (print a @ sep # rest) = print a # split_on sep rest"
  by (simp add: sep_not_in_print)

lemma split_last: "valid a \<Longrightarrow> split_on sep (print a) = [print a]"
  by (simp add: sep_not_in_print)

lemma read_first: "valid a \<Longrightarrow> parse (hd (split_on sep (print a @ sep # rest))) = Some a"
  by (simp add: split_first parse_print)

lemma print_inj: "valid a \<Longrightarrow> valid b \<Longrightarrow> print a = print b \<Longrightarrow> a = b"
  by (metis option.inject parse_print)

end

lemma sep_not_in_u64: "(of_char c :: nat) < 48 \<Longrightarrow> c \<notin> set (show_u64 w)"
  using show_u64_chars by fastforce

lemma sep_not_in_hex: "(of_char c :: nat) < 48 \<Longrightarrow> c \<notin> set (hex_str v)"
  using is_hex_str is_hex_iff by fastforce

interpretation u64_field: field_codec "\<lambda>_. True" show_u64 parse_u64 "CHR ''/''"
  by unfold_locales (simp_all add: sep_not_in_u64)

definition valid_hash :: "payment_hash \<Rightarrow> bool" where
  "valid_hash h \<longleftrightarrow> length h = 32"

interpretation hash_field: field_codec valid_hash hex_str parse_payment_hash "CHR ''/''"
  by unfold_locales (simp_all add: valid_hash_def parse_payment_hash_def sep_not_in_hex)

text \<open>The texts of contract ids the parser accepts: those it reads back as themselves, other than
  the word for bitcoin and without the separator.\<close>

definition valid_asset :: "(string \<Rightarrow> contract_id option) \<Rightarrow> contract_id option \<Rightarrow> bool" where
  "valid_asset contract_from_str a \<longleftrightarrow>
     (case a of
        None \<Rightarrow> True
      | Some c \<Rightarrow> c \<noteq> ''btc'' \<and> CHR ''/'' \<notin> set c \<and> contract_from_str c = Some c)"

interpretation asset_field:
  field_codec "valid_asset cfs" show_asset "parse_swapstring_asset cfs" "CHR ''/''" for cfs
  by unfold_locales
    (auto simp: valid_asset_def show_asset_def parse_swapstring_asset_def split: option.splits)

lemmas swap_fields =
  u64_field.split_first hash_field.split_last asset_field.split_first
  u64_field.parse_print hash_field.parse_print asset_field.parse_print

section \<open>Well-formed swap strings\<close>

definition swap_info_ok :: "SwapInfo \<Rightarrow> bool" where
  "swap_info_ok info \<longleftrightarrow>
     qty_from info \<noteq> 0 \<and> qty_to info \<noteq> 0 \<and> expiry info \<noteq> 0 \<and> \<not> same_asset info"

lemma swap_string_split:
  assumes "valid_asset cfs (from_asset (ss_swap_info s))"
    and "valid_asset cfs (to_asset (ss_swap_info s))"
    and "valid_hash (ss_payment_hash s)"
  shows "split_on (CHR ''/'') (swap_string_display s) =
     [show_u64 (qty_from (ss_swap_info s)), show_asset (from_asset (ss_swap_info s)),
      show_u64 (qty_to (ss_swap_info s)), show_asset (to_asset (ss_swap_info s)),
      show_u64 (expiry (ss_swap_info s)), hex_str (ss_payment_hash s)]"
  using assms by (simp add: swap_string_display_def swap_fields Let_def)

lemma swap_string_parses:
  assumes "swap_info_ok (ss_swap_info s)"
    and "valid_asset cfs (from_asset (ss_swap_info s))"
    and "valid_asset cfs (to_asset (ss_swap_info s))"
    and "length (ss_payment_hash s) = 32"
  shows "swap_string_from_str cfs (swap_string_display s) = Ok s"
proof -
  have h: "valid_hash (ss_payment_hash s)" using assms(4) by (simp add: valid_hash_def)
  show ?thesis
    using assms(1)
    by (simp add: swap_string_from_str_def swap_string_split [OF assms(2,3) h] swap_fields
        assms(2,3) h swap_info_ok_def same_asset_def)
qed



text \<open>
  A text is accepted as a swap string exactly when it has six parts that parse, with positive
  quantities and expiry and two different assets; in every case the parser returns a result or
  an error, it never panics.
\<close>

theorem swap_string_accepted:
  "swap_string_from_str contract_from_str t \<noteq> Panic
   \<and> (swap_string_from_str contract_from_str t = Ok s \<longleftrightarrow>
     (\<exists>qf fa qt ta ex ph. split_on (CHR ''/'') t = [qf, fa, qt, ta, ex, ph]
        \<and> parse_u64 qf = Some (qty_from (ss_swap_info s))
        \<and> parse_u64 qt = Some (qty_to (ss_swap_info s))
        \<and> parse_u64 ex = Some (expiry (ss_swap_info s))
        \<and> parse_swapstring_asset contract_from_str fa = Some (from_asset (ss_swap_info s))
        \<and> parse_swapstring_asset contract_from_str ta = Some (to_asset (ss_swap_info s))
        \<and> parse_payment_hash ph = Some (ss_payment_hash s))
     \<and> qty_from (ss_swap_info s) > 0 \<and> qty_to (ss_swap_info s) > 0 \<and> expiry (ss_swap_info s) > 0
     \<and> from_asset (ss_swap_info s) \<noteq> to_asset (ss_swap_info s))"
  (is "?p \<and> (?l \<longleftrightarrow> ?r)")
proof (rule conjI)
  show ?p
    by (auto simp: swap_string_from_str_def Let_def split: list.splits option.splits)
  show "?l \<longleftrightarrow> ?r"
  proof
    assume ?l
    then show ?r
      by (auto simp: swap_string_from_str_def same_asset_def Let_def word_gt_0
          split: list.splits option.splits if_splits)
  next
    assume ?r
    then obtain qf fa qt ta ex ph where
      p: "split_on (CHR ''/'') t = [qf, fa, qt, ta, ex, ph]"
         "parse_u64 qf = Some (qty_from (ss_swap_info s))"
         "parse_u64 qt = Some (qty_to (ss_swap_info s))"
         "parse_u64 ex = Some (expiry (ss_swap_info s))"
         "parse_swapstring_asset contract_from_str fa = Some (from_asset (ss_swap_info s))"
         "parse_swapstring_asset contract_from_str ta = Some (to_asset (ss_swap_info s))"
         "parse_payment_hash ph = Some (ss_payment_hash s)" by blast
    with \<open>?r\<close> show ?l by (simp add: swap_string_from_str_def same_asset_def word_gt_0)
  qed
qed

end
