(* ===== verification/Stores.thy ===== *)
theory Stores
  imports Swap "HOL-Library.AList"
begin

text \<open>
  The persisted stores of \<open>src/src/ldk.rs\<close> (lines 107-397): inbound and outbound payments, the
  swaps this node makes and takes, and the map from temporary to final channel ids.

  A store is a hash map under a mutex with a copy on disk.  The hash map is a list of entries
  with distinct keys, in its iteration order; \<open>on_disk\<close> is what the reader of the file would
  return (nothing when there is no file).  A thread that panics while it holds the mutex poisons
  it, and every later \<open>lock().unwrap()\<close> on it panics.  Each saving operation takes the outcome
  of its file write as an argument, and the time as another.
\<close>

section \<open>A store and its steps\<close>

record ('k, 'v) store =
  entries :: "('k \<times> 'v) list"
  on_disk :: "('k \<times> 'v) list"
  poisoned :: bool

type_synonym ('k, 'v, 'e, 'a) store_action = "(('k, 'v) store, 'e, 'a) action"

definition lock_store :: "('k, 'v, 'e, unit) store_action" where
  "lock_store s = (if poisoned s then (Panic, s) else (Ok (), s))"

text \<open>A panic while the guard is alive.\<close>

definition panic_locked :: "('k, 'v, 'e, 'a) store_action" where
  "panic_locked s = (Panic, s\<lparr>poisoned := True\<rparr>)"

definition save_store :: "bool \<Rightarrow> ('k, 'v, 'e, unit) store_action" where
  "save_store io s = (if io then (Ok (), s\<lparr>on_disk := entries s\<rparr>) else panic_locked s)"

definition insert_entry :: "'k \<Rightarrow> 'v \<Rightarrow> ('k, 'v, 'e, unit) store_action" where
  "insert_entry k v = act_modify (\<lambda>s. s\<lparr>entries := AList.update k v (entries s)\<rparr>)"

text \<open>\<open>get_mut(k).unwrap()\<close> under the lock.\<close>

definition entry_locked :: "'k \<Rightarrow> ('k, 'v, 'e, 'v) store_action" where
  "entry_locked k s =
     (case map_of (entries s) k of None \<Rightarrow> panic_locked s | Some v \<Rightarrow> (Ok v, s))"

text \<open>A clone of the map under the lock.\<close>

definition read_store :: "('k, 'v, 'e, ('k \<times> 'v) list) store_action" where
  "read_store = act_bind lock_store (\<lambda>_. act_get entries)"

definition put_and_save :: "bool \<Rightarrow> 'k \<Rightarrow> 'v \<Rightarrow> ('k, 'v, 'e, unit) store_action" where
  "put_and_save io k v =
     act_bind lock_store (\<lambda>_. act_bind (insert_entry k v) (\<lambda>_. save_store io))"

definition empty_store :: "('k, 'v) store" where
  "empty_store = \<lparr>entries = [], on_disk = [], poisoned = False\<rparr>"

text \<open>Opening: the reader of the file gives the entries, an empty map when it fails.\<close>

definition open_store :: "('k \<times> 'v) list option \<Rightarrow> ('k, 'v) store" where
  "open_store file =
     (let es = (case file of Some m \<Rightarrow> m | None \<Rightarrow> [])
      in \<lparr>entries = es, on_disk = es, poisoned = False\<rparr>)"

lemma open_store_simps [simp]:
  "entries (open_store f) = (case f of Some m \<Rightarrow> m | None \<Rightarrow> [])"
  "on_disk (open_store f) = (case f of Some m \<Rightarrow> m | None \<Rightarrow> [])"
  "\<not> poisoned (open_store f)"
  by (simp_all add: open_store_def Let_def)

text \<open>Well-formed: keys are distinct, and while the mutex is sound the disk holds the entries.\<close>

definition store_ok :: "('k, 'v) store \<Rightarrow> bool" where
  "store_ok s \<longleftrightarrow>
     distinct (map fst (entries s)) \<and> distinct (map fst (on_disk s))
     \<and> (\<not> poisoned s \<longrightarrow> on_disk s = entries s)"

section \<open>Swaps\<close>

type_synonym swap_store = "(payment_hash, SwapData) store"

definition add_swap :: "bool \<Rightarrow> payment_hash \<Rightarrow> SwapData \<Rightarrow> (payment_hash, SwapData, 'e, unit) store_action" where
  "add_swap io h swap = put_and_save io h swap"

text \<open>The effect of a status on a swap; \<open>None\<close> is the panic on a return to \<open>Waiting\<close>.\<close>

definition set_swap_status :: "u64 \<Rightarrow> SwapStatus \<Rightarrow> SwapData \<Rightarrow> SwapData option" where
  "set_swap_status now st swap =
     (case st of
        SwapWaiting \<Rightarrow> None
      | SwapPending \<Rightarrow> Some (swap\<lparr>initiated_at := Some now, status := st\<rparr>)
      | _ \<Rightarrow> Some (swap\<lparr>completed_at := Some now, status := st\<rparr>))"

definition update_swap_status ::
  "bool \<Rightarrow> u64 \<Rightarrow> payment_hash \<Rightarrow> SwapStatus \<Rightarrow> (payment_hash, SwapData, 'e, unit) store_action" where
  "update_swap_status io now h st =
     act_bind lock_store (\<lambda>_.
     act_bind (entry_locked h) (\<lambda>swap.
       case set_swap_status now st swap of
         None \<Rightarrow> panic_locked
       | Some swap' \<Rightarrow> act_bind (insert_entry h swap') (\<lambda>_. save_store io)))"

definition has_swap :: "payment_hash \<Rightarrow> (payment_hash, SwapData, 'e, bool) store_action" where
  "has_swap h = act_bind read_store (\<lambda>m. act_return (map_of m h \<noteq> None))"

section \<open>Payments\<close>

datatype HTLCStatus = HTLCPending | HTLCSucceeded | HTLCFailed

record PaymentInfo =
  preimage :: "bytes option"
  secret :: "bytes option"
  payment_status :: HTLCStatus
  amt_msat :: "u64 option"
  created_at :: u64
  updated_at :: u64
  payee_pubkey :: pubkey

type_synonym payment_store = "(payment_hash, PaymentInfo) store"

text \<open>A payment id is the 32 bytes of the hash of the payment, so both stores have the same keys.
  \<open>show_status\<close> is the derived display of a status.\<close>

definition add_outbound ::
  "(HTLCStatus \<Rightarrow> string) \<Rightarrow> bool \<Rightarrow> bytes \<Rightarrow> PaymentInfo \<Rightarrow>
   (bytes, PaymentInfo, APIError, unit) store_action" where
  "add_outbound show_status io payment_id info =
     act_bind lock_store (\<lambda>_.
     act_bind (act_get (\<lambda>s. map_of (entries s) payment_id)) (\<lambda>existing.
       case existing of
         Some p \<Rightarrow>
           if payment_status p \<noteq> HTLCFailed
           then act_lift (Err (DuplicatePayment (show_status (payment_status p))))
           else act_bind (insert_entry payment_id info) (\<lambda>_. save_store io)
       | None \<Rightarrow> act_bind (insert_entry payment_id info) (\<lambda>_. save_store io)))"

text \<open>\<open>fail_outbound_pending_payments\<close>: one pass over the entries, then a save when one was
  changed.\<close>

definition fail_if_not_recent :: "u64 \<Rightarrow> bytes list \<Rightarrow> bytes \<times> PaymentInfo \<Rightarrow> bytes \<times> PaymentInfo" where
  "fail_if_not_recent now recent kv =
     (if payment_status (snd kv) = HTLCPending \<and> fst kv \<notin> set recent
      then (fst kv, (snd kv)\<lparr>payment_status := HTLCFailed, updated_at := now\<rparr>) else kv)"

definition fail_pending ::
  "bool \<Rightarrow> u64 \<Rightarrow> bytes list \<Rightarrow> (bytes, PaymentInfo, 'e, unit) store_action" where
  "fail_pending io now recent =
     act_bind lock_store (\<lambda>_.
     act_bind (act_get (\<lambda>s. list_ex (\<lambda>(k, p). payment_status p = HTLCPending \<and> k \<notin> set recent) (entries s))) (\<lambda>failed.
     act_bind (act_modify (\<lambda>s. s\<lparr>entries := map (fail_if_not_recent now recent) (entries s)\<rparr>)) (\<lambda>_.
       if failed then save_store io else act_return ())))"

definition upsert_inbound ::
  "bool \<Rightarrow> u64 \<Rightarrow> payment_hash \<Rightarrow> HTLCStatus \<Rightarrow> bytes option \<Rightarrow> bytes option \<Rightarrow> u64 option \<Rightarrow> pubkey \<Rightarrow>
   (payment_hash, PaymentInfo, 'e, unit) store_action" where
  "upsert_inbound io now h st pre sec amt payee =
     act_bind lock_store (\<lambda>_.
     act_bind (act_get (\<lambda>s. map_of (entries s) h)) (\<lambda>e.
     act_bind
       (insert_entry h
          (case e of
             Some p \<Rightarrow> p\<lparr>payment_status := st, preimage := pre, secret := sec, updated_at := now\<rparr>
           | None \<Rightarrow> \<lparr>preimage = pre, secret = sec, payment_status = st, amt_msat = amt,
                      created_at = now, updated_at = now, payee_pubkey = payee\<rparr>))
       (\<lambda>_. save_store io)))"

definition update_outbound ::
  "bool \<Rightarrow> u64 \<Rightarrow> bytes \<Rightarrow> HTLCStatus \<Rightarrow> bytes option \<Rightarrow> (bytes, PaymentInfo, 'e, PaymentInfo) store_action" where
  "update_outbound io now payment_id st pre =
     act_bind lock_store (\<lambda>_.
     act_bind (entry_locked payment_id) (\<lambda>p.
       let p' = p\<lparr>payment_status := st, preimage := pre, updated_at := now\<rparr>
       in act_bind (insert_entry payment_id p') (\<lambda>_.
          act_bind (save_store io) (\<lambda>_. act_return p'))))"

definition update_outbound_status ::
  "bool \<Rightarrow> u64 \<Rightarrow> bytes \<Rightarrow> HTLCStatus \<Rightarrow> (bytes, PaymentInfo, 'e, unit) store_action" where
  "update_outbound_status io now payment_id st =
     act_bind lock_store (\<lambda>_.
     act_bind (entry_locked payment_id) (\<lambda>p.
     act_bind (insert_entry payment_id (p\<lparr>payment_status := st, updated_at := now\<rparr>)) (\<lambda>_.
       save_store io)))"

section \<open>Channel ids\<close>

definition delete_id :: "bool \<Rightarrow> channel_id \<Rightarrow> (channel_id, channel_id, 'e, unit) store_action" where
  "delete_id io cid =
     act_bind lock_store (\<lambda>_.
     act_bind (act_get (\<lambda>s. List.find (\<lambda>(tmp, c). c = cid) (entries s))) (\<lambda>found.
       case found of
         Some (tmp, _) \<Rightarrow>
           act_bind (act_modify (\<lambda>s. s\<lparr>entries := AList.delete tmp (entries s)\<rparr>)) (\<lambda>_. save_store io)
       | None \<Rightarrow> act_return ()))"


section \<open>The five stores of the unlocked node\<close>

record app_stores =
  maker_store :: swap_store
  taker_store :: swap_store
  inbound_store :: payment_store
  outbound_store :: payment_store
  channel_ids_store :: "(channel_id, channel_id) store"

text \<open>Running a store action on one component of a larger state.\<close>

definition zoom :: "('s \<Rightarrow> 'x) \<Rightarrow> ('x \<Rightarrow> 's \<Rightarrow> 's) \<Rightarrow> ('x, 'e, 'a) action \<Rightarrow> ('s, 'e, 'a) action" where
  "zoom get put m s = (case m (get s) of (r, x) \<Rightarrow> (r, put x s))"

abbreviation (input) "on_maker \<equiv> zoom maker_store (\<lambda>x. maker_store_update (\<lambda>_. x))"
abbreviation (input) "on_taker \<equiv> zoom taker_store (\<lambda>x. taker_store_update (\<lambda>_. x))"
abbreviation (input) "on_inbound \<equiv> zoom inbound_store (\<lambda>x. inbound_store_update (\<lambda>_. x))"
abbreviation (input) "on_outbound \<equiv> zoom outbound_store (\<lambda>x. outbound_store_update (\<lambda>_. x))"
abbreviation (input) "on_channel_ids \<equiv> zoom channel_ids_store (\<lambda>x. channel_ids_store_update (\<lambda>_. x))"

type_synonym ('x, 'e, 'a) app_action = "('x app_stores_scheme, 'e, 'a) action"

definition add_maker_swap :: "bool \<Rightarrow> payment_hash \<Rightarrow> SwapData \<Rightarrow> ('x, 'e, unit) app_action" where
  "add_maker_swap io h swap = on_maker (add_swap io h swap)"

definition update_maker_swap_status ::
  "bool \<Rightarrow> u64 \<Rightarrow> payment_hash \<Rightarrow> SwapStatus \<Rightarrow> ('x, 'e, unit) app_action" where
  "update_maker_swap_status io now h st = on_maker (update_swap_status io now h st)"

definition is_maker_swap :: "payment_hash \<Rightarrow> ('x, 'e, bool) app_action" where
  "is_maker_swap h = on_maker (has_swap h)"

definition add_taker_swap :: "bool \<Rightarrow> payment_hash \<Rightarrow> SwapData \<Rightarrow> ('x, 'e, unit) app_action" where
  "add_taker_swap io h swap = on_taker (add_swap io h swap)"

definition update_taker_swap_status ::
  "bool \<Rightarrow> u64 \<Rightarrow> payment_hash \<Rightarrow> SwapStatus \<Rightarrow> ('x, 'e, unit) app_action" where
  "update_taker_swap_status io now h st = on_taker (update_swap_status io now h st)"

definition is_taker_swap :: "payment_hash \<Rightarrow> ('x, 'e, bool) app_action" where
  "is_taker_swap h = on_taker (has_swap h)"

definition maker_swaps :: "('x, 'e, (payment_hash \<times> SwapData) list) app_action" where
  "maker_swaps = on_maker read_store"

definition taker_swaps :: "('x, 'e, (payment_hash \<times> SwapData) list) app_action" where
  "taker_swaps = on_taker read_store"

definition add_inbound_payment :: "bool \<Rightarrow> payment_hash \<Rightarrow> PaymentInfo \<Rightarrow> ('x, 'e, unit) app_action" where
  "add_inbound_payment io h info = on_inbound (put_and_save io h info)"

definition add_outbound_payment ::
  "(HTLCStatus \<Rightarrow> string) \<Rightarrow> bool \<Rightarrow> bytes \<Rightarrow> PaymentInfo \<Rightarrow> ('x, APIError, unit) app_action" where
  "add_outbound_payment show_status io pid info = on_outbound (add_outbound show_status io pid info)"

definition fail_outbound_pending_payments ::
  "bool \<Rightarrow> u64 \<Rightarrow> bytes list \<Rightarrow> ('x, 'e, unit) app_action" where
  "fail_outbound_pending_payments io now recent = on_outbound (fail_pending io now recent)"

definition inbound_payments :: "('x, 'e, (payment_hash \<times> PaymentInfo) list) app_action" where
  "inbound_payments = on_inbound read_store"

definition outbound_payments :: "('x, 'e, (bytes \<times> PaymentInfo) list) app_action" where
  "outbound_payments = on_outbound read_store"

definition upsert_inbound_payment ::
  "bool \<Rightarrow> u64 \<Rightarrow> payment_hash \<Rightarrow> HTLCStatus \<Rightarrow> bytes option \<Rightarrow> bytes option \<Rightarrow> u64 option \<Rightarrow> pubkey \<Rightarrow>
   ('x, 'e, unit) app_action" where
  "upsert_inbound_payment io now h st pre sec amt payee =
     on_inbound (upsert_inbound io now h st pre sec amt payee)"

definition update_outbound_payment ::
  "bool \<Rightarrow> u64 \<Rightarrow> bytes \<Rightarrow> HTLCStatus \<Rightarrow> bytes option \<Rightarrow> ('x, 'e, PaymentInfo) app_action" where
  "update_outbound_payment io now pid st pre = on_outbound (update_outbound io now pid st pre)"

definition update_outbound_payment_status ::
  "bool \<Rightarrow> u64 \<Rightarrow> bytes \<Rightarrow> HTLCStatus \<Rightarrow> ('x, 'e, unit) app_action" where
  "update_outbound_payment_status io now pid st = on_outbound (update_outbound_status io now pid st)"

definition channel_ids :: "('x, 'e, (channel_id \<times> channel_id) list) app_action" where
  "channel_ids = on_channel_ids read_store"

definition add_channel_id :: "bool \<Rightarrow> channel_id \<Rightarrow> channel_id \<Rightarrow> ('x, 'e, unit) app_action" where
  "add_channel_id io tmp cid = on_channel_ids (put_and_save io tmp cid)"

definition delete_channel_id :: "bool \<Rightarrow> channel_id \<Rightarrow> ('x, 'e, unit) app_action" where
  "delete_channel_id io cid = on_channel_ids (delete_id io cid)"

lemmas store_op_defs =
  add_maker_swap_def update_maker_swap_status_def is_maker_swap_def add_taker_swap_def
  update_taker_swap_status_def is_taker_swap_def maker_swaps_def taker_swaps_def
  add_inbound_payment_def add_outbound_payment_def fail_outbound_pending_payments_def
  inbound_payments_def outbound_payments_def upsert_inbound_payment_def
  update_outbound_payment_def update_outbound_payment_status_def channel_ids_def
  add_channel_id_def delete_channel_id_def

section \<open>The steps keep a store well-formed\<close>

lemma keepsI: "(\<And>s. P s \<Longrightarrow> P (snd (m s))) \<Longrightarrow> keeps P m"
  by (simp add: keeps_def)

lemma keeps_snd: "keeps P m \<Longrightarrow> P s \<Longrightarrow> P (snd (m s))"
  by (simp add: keeps_def)

text \<open>Between the change and the save the entries are distinct but the disk may lag; every path
  from there saves or poisons.\<close>

definition entries_ok :: "('k, 'v) store \<Rightarrow> bool" where
  "entries_ok s \<longleftrightarrow> distinct (map fst (entries s)) \<and> distinct (map fst (on_disk s))"

text \<open>An action that starts from distinct entries and ends well-formed.\<close>

definition settles :: "('k, 'v, 'e, 'a) store_action \<Rightarrow> bool" where
  "settles m \<longleftrightarrow> (\<forall>s. entries_ok s \<longrightarrow> store_ok (snd (m s)))"

lemma settles_save [intro, simp]: "settles (save_store io)"
  by (simp add: settles_def save_store_def panic_locked_def entries_ok_def store_ok_def)

lemma settles_save_then: "settles (act_bind (save_store io) (\<lambda>_. act_return a))"
  by (simp add: settles_def act_bind_def save_store_def panic_locked_def entries_ok_def store_ok_def)

lemma settles_insert:
  "settles (f ()) \<Longrightarrow> settles (act_bind (insert_entry k v) f)"
  by (simp add: settles_def insert_entry_def entries_ok_def distinct_update)

lemma settles_modify:
  "(\<And>es. distinct (map fst es) \<Longrightarrow> distinct (map fst (g es))) \<Longrightarrow> settles (f ()) \<Longrightarrow>
   settles (act_bind (act_modify (\<lambda>s. s\<lparr>entries := g (entries s)\<rparr>)) f)"
  by (simp add: settles_def entries_ok_def)

lemma settles_keeps: "settles m \<Longrightarrow> keeps store_ok m"
  by (simp add: settles_def keeps_def entries_ok_def store_ok_def)

lemma keeps_lock [intro, simp]: "keeps P lock_store"
  by (simp add: keeps_def lock_store_def)

lemma keeps_panic [intro, simp]: "keeps store_ok panic_locked"
  by (simp add: keeps_def panic_locked_def store_ok_def)

lemma keeps_entry [intro, simp]: "keeps store_ok (entry_locked k)"
  by (auto simp: keeps_def entry_locked_def panic_locked_def store_ok_def split: option.splits)

lemma keeps_read [intro, simp]: "keeps P read_store"
  by (simp add: read_store_def keeps_bind)

lemma keeps_put [intro, simp]: "keeps store_ok (put_and_save io k v)"
  unfolding put_and_save_def by (intro keeps_bind keeps_lock settles_keeps settles_insert settles_save)

lemma keeps_add_outbound [intro, simp]: "keeps store_ok (add_outbound show_status io pid info)"
  unfolding add_outbound_def
  by (intro keeps_bind keeps_lock keeps_get)
    (auto split: option.splits intro!: settles_keeps settles_insert)

lemma keeps_update_swap [intro, simp]: "keeps store_ok (update_swap_status io now h st)"
  unfolding update_swap_status_def
  by (intro keeps_bind keeps_lock keeps_entry)
    (auto split: option.splits intro!: settles_keeps settles_insert)

lemma keeps_has_swap [intro, simp]: "keeps P (has_swap h)"
  unfolding has_swap_def by (intro keeps_bind keeps_read keeps_return)

lemma fst_fail_if_not_recent [simp]: "fst (fail_if_not_recent now recent kv) = fst kv"
  by (simp add: fail_if_not_recent_def)

lemma fail_if_not_recent_id:
  "\<not> (payment_status (snd kv) = HTLCPending \<and> fst kv \<notin> set recent) \<Longrightarrow>
   fail_if_not_recent now recent kv = kv"
  by (auto simp: fail_if_not_recent_def)

lemma map_fst_fail [simp]: "map fst (map (fail_if_not_recent now recent) es) = map fst es"
  by (induction es) auto

lemma keeps_fail_pending [intro, simp]: "keeps store_ok (fail_pending io now recent)"
proof (rule keepsI)
  fix s :: "(bytes, PaymentInfo) store" assume ok: "store_ok s"
  let ?ex = "list_ex (\<lambda>(k, p). payment_status p = HTLCPending \<and> k \<notin> set recent) (entries s)"
  have "map (fail_if_not_recent now recent) (entries s) = entries s" if "\<not> ?ex"
    using that by (intro map_idI fail_if_not_recent_id) (auto simp: list_ex_iff)
  then show "store_ok (snd (fail_pending io now recent s))"
    using ok
    by (auto simp: fail_pending_def act_bind_def lock_store_def act_get_def act_modify_def
        act_return_def save_store_def panic_locked_def store_ok_def simp del: map_map)
qed

lemma keeps_upsert_inbound [intro, simp]:
  "keeps store_ok (upsert_inbound io now h st pre sec amt payee)"
  unfolding upsert_inbound_def
  by (intro keeps_bind keeps_lock keeps_get settles_keeps settles_insert settles_save)

lemma keeps_update_outbound [intro, simp]: "keeps store_ok (update_outbound io now pid st pre)"
  unfolding update_outbound_def Let_def
  by (intro keeps_bind keeps_lock keeps_entry settles_keeps settles_insert settles_save_then)

lemma keeps_update_outbound_status [intro, simp]:
  "keeps store_ok (update_outbound_status io now pid st)"
  unfolding update_outbound_status_def
  by (intro keeps_bind keeps_lock keeps_entry settles_keeps settles_insert settles_save)

lemma keeps_delete_id [intro, simp]: "keeps store_ok (delete_id io cid)"
  unfolding delete_id_def
  by (intro keeps_bind keeps_lock keeps_get)
    (auto split: option.splits intro!: settles_keeps settles_modify distinct_delete)


section \<open>A component of the state\<close>

locale component =
  fixes get :: "'s \<Rightarrow> 'x" and put :: "'x \<Rightarrow> 's \<Rightarrow> 's"
  assumes get_put: "get (put x s) = x"
    and put_get: "put (get s) s = s"
    and put_put: "put x (put y s) = put x s"
begin

lemma zoom_bind: "zoom get put (act_bind m f) = act_bind (zoom get put m) (\<lambda>a. zoom get put (f a))"
  by (auto simp: fun_eq_iff zoom_def act_bind_def get_put put_put split: prod.splits outcome.splits)

lemma zoom_keeps: "keeps P m \<Longrightarrow> keeps (\<lambda>s. P (get s)) (zoom get put m)"
  by (auto simp: keeps_def zoom_def get_put split: prod.splits)

lemma zoom_result: "fst (zoom get put m s) = fst (m (get s))"
  by (simp add: zoom_def split: prod.splits)

lemma zoom_get: "get (snd (zoom get put m s)) = snd (m (get s))"
  by (simp add: zoom_def get_put split: prod.splits)

lemma zoom_idle: "snd (m (get s)) = get s \<Longrightarrow> snd (zoom get put m s) = s"
  by (auto simp: zoom_def put_get split: prod.splits)

end

interpretation maker: component maker_store "\<lambda>x. maker_store_update (\<lambda>_. x)"
  by unfold_locales simp_all

interpretation taker: component taker_store "\<lambda>x. taker_store_update (\<lambda>_. x)"
  by unfold_locales simp_all

interpretation inbound: component inbound_store "\<lambda>x. inbound_store_update (\<lambda>_. x)"
  by unfold_locales simp_all

interpretation outbound: component outbound_store "\<lambda>x. outbound_store_update (\<lambda>_. x)"
  by unfold_locales simp_all

interpretation chan_ids: component channel_ids_store "\<lambda>x. channel_ids_store_update (\<lambda>_. x)"
  by unfold_locales simp_all

lemmas zoom_results = maker.zoom_result taker.zoom_result inbound.zoom_result
  outbound.zoom_result chan_ids.zoom_result

lemma zoom_elsewhere:
  "maker_store (snd (on_taker m s)) = maker_store s"
  "maker_store (snd (on_inbound n s)) = maker_store s"
  "maker_store (snd (on_outbound n s)) = maker_store s"
  "maker_store (snd (on_channel_ids c s)) = maker_store s"
  "taker_store (snd (on_maker m s)) = taker_store s"
  "taker_store (snd (on_inbound n s)) = taker_store s"
  "taker_store (snd (on_outbound n s)) = taker_store s"
  "taker_store (snd (on_channel_ids c s)) = taker_store s"
  "inbound_store (snd (on_maker m s)) = inbound_store s"
  "inbound_store (snd (on_taker m s)) = inbound_store s"
  "inbound_store (snd (on_outbound n s)) = inbound_store s"
  "inbound_store (snd (on_channel_ids c s)) = inbound_store s"
  "outbound_store (snd (on_maker m s)) = outbound_store s"
  "outbound_store (snd (on_taker m s)) = outbound_store s"
  "outbound_store (snd (on_inbound n s)) = outbound_store s"
  "outbound_store (snd (on_channel_ids c s)) = outbound_store s"
  "channel_ids_store (snd (on_maker m s)) = channel_ids_store s"
  "channel_ids_store (snd (on_taker m s)) = channel_ids_store s"
  "channel_ids_store (snd (on_inbound n s)) = channel_ids_store s"
  "channel_ids_store (snd (on_outbound n s)) = channel_ids_store s"
  by (simp_all add: zoom_def split: prod.splits)

lemmas zoom_here = maker.zoom_get taker.zoom_get inbound.zoom_get outbound.zoom_get
  chan_ids.zoom_get

section \<open>The invariant of the five stores\<close>

definition stores_ok :: "'x app_stores_scheme \<Rightarrow> bool" where
  "stores_ok s \<longleftrightarrow>
     store_ok (maker_store s) \<and> store_ok (taker_store s) \<and> store_ok (inbound_store s)
     \<and> store_ok (outbound_store s) \<and> store_ok (channel_ids_store s)"

lemma keeps_zoom_ok:
  "keeps store_ok m1 \<Longrightarrow> keeps stores_ok (on_maker m1)"
  "keeps store_ok m2 \<Longrightarrow> keeps stores_ok (on_taker m2)"
  "keeps store_ok m3 \<Longrightarrow> keeps stores_ok (on_inbound m3)"
  "keeps store_ok m4 \<Longrightarrow> keeps stores_ok (on_outbound m4)"
  "keeps store_ok m5 \<Longrightarrow> keeps stores_ok (on_channel_ids m5)"
  by (simp_all add: keeps_def stores_ok_def zoom_elsewhere zoom_here)

lemma keeps_add_swap [intro, simp]: "keeps store_ok (add_swap io h swap)"
  by (simp add: add_swap_def)

lemma store_ops_keep [intro, simp]:
  "keeps stores_ok (add_maker_swap io h swap)"
  "keeps stores_ok (update_maker_swap_status io now h st)"
  "keeps stores_ok (is_maker_swap h)"
  "keeps stores_ok (add_taker_swap io h swap)"
  "keeps stores_ok (update_taker_swap_status io now h st)"
  "keeps stores_ok (is_taker_swap h)"
  "keeps stores_ok maker_swaps"
  "keeps stores_ok taker_swaps"
  "keeps stores_ok (add_inbound_payment io h info)"
  "keeps stores_ok (add_outbound_payment show_status io h info)"
  "keeps stores_ok (fail_outbound_pending_payments io now recent)"
  "keeps stores_ok inbound_payments"
  "keeps stores_ok outbound_payments"
  "keeps stores_ok (upsert_inbound_payment io now h hst pre sec amt payee)"
  "keeps stores_ok (update_outbound_payment io now h hst pre)"
  "keeps stores_ok (update_outbound_payment_status io now h hst)"
  "keeps stores_ok channel_ids"
  "keeps stores_ok (add_channel_id io tmp cid)"
  "keeps stores_ok (delete_channel_id io cid)"
  unfolding store_op_defs by (intro keeps_zoom_ok; simp)+

section \<open>Runs of operations\<close>

text \<open>The operations other parts of the node call, with the outcome of their file write and the
  time.  Swaps enter the stores as the routes build them, from a \<open>SwapInfo\<close>.\<close>

datatype store_op =
    Add_maker bool u64 payment_hash SwapInfo
  | Update_maker bool u64 payment_hash SwapStatus
  | Add_taker bool u64 payment_hash SwapInfo
  | Update_taker bool u64 payment_hash SwapStatus
  | Add_inbound bool payment_hash PaymentInfo
  | Upsert_inbound bool u64 payment_hash HTLCStatus "bytes option" "bytes option" "u64 option" pubkey
  | Add_outbound bool bytes PaymentInfo
  | Fail_pending bool u64 "bytes list"
  | Update_outbound bool u64 bytes HTLCStatus "bytes option"
  | Update_outbound_status bool u64 bytes HTLCStatus
  | Add_channel_id bool channel_id channel_id
  | Delete_channel_id bool channel_id
  | Restart

text \<open>Starting again from the files: what \<open>start_ldk\<close> reads.\<close>

definition restart :: "app_stores \<Rightarrow> app_stores" where
  "restart s =
     \<lparr>maker_store = open_store (Some (on_disk (maker_store s))),
      taker_store = open_store (Some (on_disk (taker_store s))),
      inbound_store = open_store (Some (on_disk (inbound_store s))),
      outbound_store = open_store (Some (on_disk (outbound_store s))),
      channel_ids_store = open_store (Some (on_disk (channel_ids_store s)))\<rparr>"

fun exec_op :: "(HTLCStatus \<Rightarrow> string) \<Rightarrow> store_op \<Rightarrow> app_stores \<Rightarrow> (APIError, unit) outcome \<times> app_stores" where
  "exec_op sh (Add_maker io now h info) s = add_maker_swap io h (create_from_swap_info now info) s"
| "exec_op sh (Update_maker io now h st) s = update_maker_swap_status io now h st s"
| "exec_op sh (Add_taker io now h info) s = add_taker_swap io h (create_from_swap_info now info) s"
| "exec_op sh (Update_taker io now h st) s = update_taker_swap_status io now h st s"
| "exec_op sh (Add_inbound io h info) s = add_inbound_payment io h info s"
| "exec_op sh (Upsert_inbound io now h st pre sec amt payee) s =
     upsert_inbound_payment io now h st pre sec amt payee s"
| "exec_op sh (Add_outbound io pid info) s = add_outbound_payment sh io pid info s"
| "exec_op sh (Fail_pending io now recent) s = fail_outbound_pending_payments io now recent s"
| "exec_op sh (Update_outbound io now pid st pre) s =
     act_bind (update_outbound_payment io now pid st pre) (\<lambda>_. act_return ()) s"
| "exec_op sh (Update_outbound_status io now pid st) s = update_outbound_payment_status io now pid st s"
| "exec_op sh (Add_channel_id io tmp cid) s = add_channel_id io tmp cid s"
| "exec_op sh (Delete_channel_id io cid) s = delete_channel_id io cid s"
| "exec_op sh Restart s = (Ok (), restart s)"

text \<open>A task that panics ends, the others go on with the state it left.\<close>

definition run_ops :: "(HTLCStatus \<Rightarrow> string) \<Rightarrow> store_op list \<Rightarrow> app_stores \<Rightarrow> app_stores" where
  "run_ops sh ops s = fold (\<lambda>op s. snd (exec_op sh op s)) ops s"

definition no_stores :: app_stores where
  "no_stores = \<lparr>maker_store = empty_store, taker_store = empty_store, inbound_store = empty_store,
                outbound_store = empty_store, channel_ids_store = empty_store\<rparr>"

lemma reopen_ok: "store_ok s \<Longrightarrow> store_ok (open_store (Some (on_disk s)))"
  by (simp add: open_store_def store_ok_def Let_def)

lemma restart_ok: "stores_ok s \<Longrightarrow> stores_ok (restart s)"
  unfolding stores_ok_def restart_def by (simp add: reopen_ok)

lemma exec_op_ok: "stores_ok s \<Longrightarrow> stores_ok (snd (exec_op sh op s))"
proof (cases op)
  case Restart
  assume "stores_ok s"
  then show ?thesis using Restart by (simp add: restart_ok)
qed (simp_all only: exec_op.simps,
     (rule keeps_snd [where P = stores_ok]; (assumption | intro keeps_bind store_ops_keep keeps_return))+)

lemma run_ops_ok: "stores_ok s \<Longrightarrow> stores_ok (run_ops sh ops s)"
  unfolding run_ops_def by (induction ops arbitrary: s) (simp_all add: exec_op_ok)

lemma no_stores_ok [simp]: "stores_ok no_stores"
  by (simp add: stores_ok_def no_stores_def empty_store_def store_ok_def)


section \<open>A persisted map\<close>

text \<open>What a client of a store relies on: a saved insertion is seen by every later lookup and
  survives a restart, a restart of a sound store changes nothing, and a store in use is sound.\<close>

locale persisted_map =
  fixes look :: "'s \<Rightarrow> 'k \<Rightarrow> 'v option"
    and save :: "'k \<Rightarrow> 'v \<Rightarrow> 's \<Rightarrow> 's"
    and sound :: "'s \<Rightarrow> bool"
    and reopened :: "'s \<Rightarrow> 's"
  assumes look_save: "sound s \<Longrightarrow> look (save k v s) = (look s)(k \<mapsto> v)"
    and sound_save: "sound s \<Longrightarrow> sound (save k v s)"
    and look_reopened: "sound s \<Longrightarrow> look (reopened s) = look s"
    and sound_reopened: "sound s \<Longrightarrow> sound (reopened s)"
begin

definition save_all :: "('k \<times> 'v) list \<Rightarrow> 's \<Rightarrow> 's" where
  "save_all kvs s = fold (\<lambda>(k, v). save k v) kvs s"

lemma sound_save_all: "sound s \<Longrightarrow> sound (save_all kvs s)"
  unfolding save_all_def by (induction kvs arbitrary: s) (auto simp: sound_save)

lemma look_save_all: "sound s \<Longrightarrow> look (save_all kvs s) = look s ++ map_of (rev kvs)"
proof (induction kvs arbitrary: s)
  case (Cons kv kvs)
  obtain k v where kv: "kv = (k, v)" by force
  have "look (save_all (kv # kvs) s) = look (save_all kvs (save k v s))"
    by (simp add: save_all_def kv)
  also have "\<dots> = (look s)(k \<mapsto> v) ++ map_of (rev kvs)"
    by (simp only: Cons.IH [OF sound_save [OF Cons.prems]] look_save [OF Cons.prems])
  finally show ?case by (simp add: kv)
qed (simp add: save_all_def)

lemma saved_survives:
  "sound s \<Longrightarrow> look (reopened (save_all kvs s)) = look s ++ map_of (rev kvs)"
  by (simp add: look_reopened sound_save_all look_save_all)

end

definition store_sound :: "('k, 'v) store \<Rightarrow> bool" where
  "store_sound s \<longleftrightarrow> store_ok s \<and> \<not> poisoned s"

definition reopen :: "('k, 'v) store \<Rightarrow> ('k, 'v) store" where
  "reopen s = open_store (Some (on_disk s))"

definition saved :: "'k \<Rightarrow> 'v \<Rightarrow> ('k, 'v) store \<Rightarrow> ('k, 'v) store" where
  "saved k v s = snd (put_and_save True k v s :: (unit, unit) outcome \<times> ('k, 'v) store)"

lemma put_and_save_result:
  "\<not> poisoned s \<Longrightarrow> put_and_save True k v s =
     (Ok (), s\<lparr>entries := AList.update k v (entries s), on_disk := AList.update k v (entries s)\<rparr>)"
  by (simp add: put_and_save_def act_bind_def lock_store_def insert_entry_def act_modify_def save_store_def)

interpretation stored: persisted_map "\<lambda>s. map_of (entries s)" saved store_sound reopen
  by unfold_locales
    (auto simp: saved_def put_and_save_result store_sound_def store_ok_def reopen_def open_store_def
      update_conv' distinct_update Let_def)

lemma stored_is_put: "snd (put_and_save True k v s) = saved k v s"
proof (cases "poisoned s")
  case True
  then show ?thesis by (simp add: saved_def put_and_save_def act_bind_def lock_store_def)
next
  case False
  then show ?thesis by (simp add: saved_def put_and_save_result)
qed

section \<open>What the swaps keep\<close>

text \<open>A swap has the times its status calls for.\<close>

definition swap_wf :: "SwapData \<Rightarrow> bool" where
  "swap_wf d =
     (case status d of
        SwapWaiting \<Rightarrow> initiated_at d = None \<and> completed_at d = None
      | SwapPending \<Rightarrow> initiated_at d \<noteq> None
      | _ \<Rightarrow> completed_at d \<noteq> None)"

definition swaps_wf :: "swap_store \<Rightarrow> bool" where
  "swaps_wf s \<longleftrightarrow> (\<forall>d \<in> snd ` set (entries s) \<union> snd ` set (on_disk s). swap_wf d)"

lemma swap_wf_created [simp]: "swap_wf (create_from_swap_info now info)"
  by (simp add: swap_wf_def create_from_swap_info_def)

lemma swap_wf_set: "set_swap_status now st d = Some d' \<Longrightarrow> swap_wf d'"
  by (auto simp: set_swap_status_def swap_wf_def split: SwapStatus.splits)

lemma set_swap_status_Some:
  "set_swap_status now st d = Some d' \<longleftrightarrow>
     st \<noteq> SwapWaiting \<and>
     d' = (if st = SwapPending then d\<lparr>initiated_at := Some now, status := st\<rparr>
           else d\<lparr>completed_at := Some now, status := st\<rparr>)"
  by (cases st) (auto simp: set_swap_status_def)

lemma set_update_snd: "snd ` set (AList.update k v al) \<subseteq> insert v (snd ` set al)"
  by (induction al) auto

lemma swaps_wf_insert: "swap_wf v \<Longrightarrow> keeps swaps_wf (insert_entry k v)"
proof (rule keepsI)
  fix s assume v: "swap_wf v" and s: "swaps_wf s"
  have "\<forall>d \<in> snd ` set (AList.update k v (entries s)). swap_wf d"
    using v s set_update_snd [of k v "entries s"] unfolding swaps_wf_def by blast
  then show "swaps_wf (snd (insert_entry k v s))"
    using s by (simp add: insert_entry_def swaps_wf_def ball_Un)
qed

lemma swaps_wf_steps [intro, simp]:
  "keeps swaps_wf (save_store io)" "keeps swaps_wf panic_locked" "keeps swaps_wf (entry_locked h)"
  by (auto simp: keeps_def save_store_def panic_locked_def swaps_wf_def entry_locked_def
      split: option.splits)

lemma swaps_wf_add: "swap_wf d \<Longrightarrow> keeps swaps_wf (add_swap io h d)"
  unfolding add_swap_def put_and_save_def
  by (intro keeps_bind keeps_lock swaps_wf_insert swaps_wf_steps)

lemma swaps_wf_update [intro, simp]: "keeps swaps_wf (update_swap_status io now h st)"
  unfolding update_swap_status_def
  by (intro keeps_bind keeps_lock swaps_wf_steps)
    (auto split: option.splits intro!: keeps_bind swaps_wf_insert dest: swap_wf_set)


section \<open>Properties\<close>

lemma reopen_same: "store_ok x \<Longrightarrow> poisoned x \<or> on_disk x = entries x"
  by (auto simp: store_ok_def)

lemma swaps_wf_reopen: "swaps_wf s \<Longrightarrow> swaps_wf (open_store (Some (on_disk s)))"
  by (simp add: open_store_def swaps_wf_def Let_def)

lemma exec_op_swaps:
  "swaps_wf (maker_store s) \<and> swaps_wf (taker_store s) \<Longrightarrow>
   swaps_wf (maker_store (snd (exec_op sh op s))) \<and> swaps_wf (taker_store (snd (exec_op sh op s)))"
proof (cases op)
  case (Update_outbound io now pid st pre)
  have "snd (act_bind m (\<lambda>_. act_return ()) s) = snd (m s)" for m :: "(app_stores, APIError, PaymentInfo) action"
    by (auto simp: act_bind_def split: prod.splits outcome.splits)
  moreover assume "swaps_wf (maker_store s) \<and> swaps_wf (taker_store s)"
  ultimately show ?thesis using Update_outbound by (simp add: store_op_defs zoom_elsewhere)
qed (simp_all add: store_op_defs zoom_elsewhere zoom_here keeps_snd [OF swaps_wf_add]
       keeps_snd [OF swaps_wf_update] restart_def swaps_wf_reopen)

text \<open>
  C2: whatever operations ran on the stores, with writes failing, tasks panicking and the node
  restarting in any order, each store whose mutex is sound holds in memory exactly what a restart
  would read from disk, and no key occurs twice.
\<close>

theorem stores_match_disk:
  "let s = run_ops sh ops no_stores; t = restart s in
     stores_ok s
     \<and> (poisoned (maker_store s) \<or> entries (maker_store t) = entries (maker_store s))
     \<and> (poisoned (taker_store s) \<or> entries (taker_store t) = entries (taker_store s))
     \<and> (poisoned (inbound_store s) \<or> entries (inbound_store t) = entries (inbound_store s))
     \<and> (poisoned (outbound_store s) \<or> entries (outbound_store t) = entries (outbound_store s))
     \<and> (poisoned (channel_ids_store s) \<or> entries (channel_ids_store t) = entries (channel_ids_store s))"
  using run_ops_ok [OF no_stores_ok, of sh ops]
  by (simp add: restart_def stores_ok_def Let_def reopen_same)

text \<open>
  In every run of operations, each swap of the maker and of the taker carries the times its
  status calls for: neither time while it waits, a start once it is pending, an end once it has
  succeeded, failed or expired.
\<close>

theorem swaps_have_their_times:
  "let s = run_ops sh ops no_stores in
     list_all swap_wf (map snd (entries (maker_store s)) @ map snd (entries (taker_store s)))"
proof -
  have "swaps_wf (maker_store (run_ops sh ops s)) \<and> swaps_wf (taker_store (run_ops sh ops s))"
    if "swaps_wf (maker_store s) \<and> swaps_wf (taker_store s)" for s
    using that unfolding run_ops_def
    by (induction ops arbitrary: s) (simp, simp only: fold_simps comp_apply exec_op_swaps)
  from this [of no_stores] show ?thesis
    by (auto simp: swaps_wf_def no_stores_def empty_store_def list_all_iff Let_def)
qed


text \<open>
  While the store of outbound payments is sound and its file can be written, a payment is
  recorded exactly when no payment with its id is pending or succeeded; otherwise the answer is
  \<open>DuplicatePayment\<close> and nothing changes.  A recorded payment is the only change.
\<close>

theorem outbound_payment_recorded_once:
  assumes "\<not> poisoned (outbound_store s)"
  shows "(case map_of (entries (outbound_store s)) pid of
            Some p \<Rightarrow>
              if payment_status p = HTLCFailed
              then fst (add_outbound_payment sh True pid info s) = Ok ()
              else add_outbound_payment sh io pid info s
                     = (Err (DuplicatePayment (sh (payment_status p))), s)
          | None \<Rightarrow> fst (add_outbound_payment sh True pid info s) = Ok ())
         \<and> (case fst (add_outbound_payment sh True pid info s) of
              Ok _ \<Rightarrow> snd (add_outbound_payment sh True pid info s) = s\<lparr>outbound_store := saved pid info (outbound_store s)\<rparr>
            | _ \<Rightarrow> snd (add_outbound_payment sh True pid info s) = s)"
  using assms
  by (simp add: add_outbound_payment_def zoom_def add_outbound_def act_bind_def lock_store_def
      saved_def put_and_save_result insert_entry_def save_store_def split: option.split)

definition example_payment :: "HTLCStatus \<Rightarrow> PaymentInfo" where
  "example_payment st = \<lparr>preimage = None, secret = None, payment_status = st, amt_msat = Some 3000000,
     created_at = 10, updated_at = 10, payee_pubkey = replicate 33 2\<rparr>"

theorem outbound_payment_recorded_once_witness:
  "add_outbound_payment (\<lambda>_. ''Pending'') True [1] (example_payment HTLCPending)
     (no_stores\<lparr>outbound_store := open_store (Some [([1], example_payment HTLCPending)])\<rparr>)
   = (Err (DuplicatePayment ''Pending''),
      no_stores\<lparr>outbound_store := open_store (Some [([1], example_payment HTLCPending)])\<rparr>)"
  using outbound_payment_recorded_once
    [where s = "no_stores\<lparr>outbound_store := open_store (Some [([1], example_payment HTLCPending)])\<rparr>"
       and pid = "[1]" and sh = "\<lambda>_. ''Pending''" and info = "example_payment HTLCPending"
       and io = True]
  by (simp add: example_payment_def)

lemma map_of_fail:
  "map_of (map (fail_if_not_recent now recent) es) k =
     map_option (\<lambda>p. snd (fail_if_not_recent now recent (k, p))) (map_of es k)"
  by (induction es) (auto simp: fail_if_not_recent_def)

lemma fail_pending_result:
  assumes "\<not> poisoned s" "store_ok s"
  shows "fail_pending True now recent s =
    (Ok (), s\<lparr>entries := map (fail_if_not_recent now recent) (entries s),
              on_disk := map (fail_if_not_recent now recent) (entries s)\<rparr>)"
proof -
  let ?ex = "list_ex (\<lambda>(k, p). payment_status p = HTLCPending \<and> k \<notin> set recent) (entries s)"
  have "map (fail_if_not_recent now recent) (entries s) = entries s" if "\<not> ?ex"
    using that by (intro map_idI fail_if_not_recent_id) (auto simp: list_ex_iff)
  then show ?thesis
    using assms
    by (auto simp: fail_pending_def act_bind_def lock_store_def act_get_def act_modify_def
        act_return_def save_store_def store_ok_def)
qed

text \<open>
  At start, exactly the outbound payments that are pending and unknown to the channel manager
  become failed, with the current time; every other payment and every other store is untouched,
  and memory and disk agree afterwards.
\<close>

theorem stale_outbound_payments_fail:
  assumes "store_sound (outbound_store s)"
  shows "\<exists>x. fail_outbound_pending_payments True now recent s = (Ok (), s\<lparr>outbound_store := x\<rparr>)
         \<and> store_sound x
         \<and> map_of (entries x) k
             = map_option (\<lambda>p. if payment_status p = HTLCPending \<and> k \<notin> set recent
                                then p\<lparr>payment_status := HTLCFailed, updated_at := now\<rparr> else p)
                 (map_of (entries (outbound_store s)) k)"
  using assms
  by (cases "map_of (entries (outbound_store s)) k")
    (auto simp: fail_outbound_pending_payments_def zoom_def fail_pending_result map_of_fail
      fail_if_not_recent_def store_sound_def store_ok_def simp del: map_map)

theorem stale_outbound_payments_fail_witness:
  "\<exists>x. fail_outbound_pending_payments True 99 [[2]]
         (no_stores\<lparr>outbound_store := open_store (Some [([1], example_payment HTLCPending),
                                                    ([2], example_payment HTLCPending)])\<rparr>)
       = (Ok (), no_stores\<lparr>outbound_store := x\<rparr>)
     \<and> map_of (entries x) [1] = Some ((example_payment HTLCFailed)\<lparr>updated_at := 99\<rparr>)"
  using stale_outbound_payments_fail
    [where s = "no_stores\<lparr>outbound_store := open_store (Some [([1], example_payment HTLCPending),
                                                 ([2], example_payment HTLCPending)])\<rparr>"
       and now = 99 and recent = "[[2]]" and k = "[1]"]
  by (auto simp: store_sound_def store_ok_def example_payment_def)


lemma update_swap_result:
  assumes "\<not> poisoned s"
  shows "update_swap_status io now h st s =
     (case map_of (entries s) h of
        None \<Rightarrow> (Panic, s\<lparr>poisoned := True\<rparr>)
      | Some d \<Rightarrow>
          (case set_swap_status now st d of
             None \<Rightarrow> (Panic, s\<lparr>poisoned := True\<rparr>)
           | Some d' \<Rightarrow> put_and_save io h d' s))"
  using assms
  by (auto simp: update_swap_status_def act_bind_def lock_store_def entry_locked_def panic_locked_def
      put_and_save_def split: option.splits)

lemma locked_out: "poisoned s \<Longrightarrow> act_bind lock_store f s = (Panic, s)"
  by (simp add: act_bind_def lock_store_def)

text \<open>
  A status update of a known maker swap that is not a return to waiting records the status and
  the time it calls for, keeps what the swap is about, and is on disk; an update of an unknown
  swap, or back to waiting, panics with the lock held, after which every operation on the maker's
  swaps panics.
\<close>

theorem maker_swap_status_update:
  assumes sound: "\<not> poisoned (maker_store s)"
  shows "case map_of (entries (maker_store s)) h of
      None \<Rightarrow>
        (let r = update_maker_swap_status io now h st s :: (APIError, unit) outcome \<times> app_stores
         in r = (Panic, s\<lparr>maker_store := (maker_store s)\<lparr>poisoned := True\<rparr>\<rparr>)
            \<and> fst (maker_swaps (snd r) :: (APIError, (payment_hash \<times> SwapData) list) outcome \<times> app_stores) = Panic
            \<and> fst (add_maker_swap io' h' d' (snd r) :: (APIError, unit) outcome \<times> app_stores) = Panic)
    | Some d \<Rightarrow>
        (if st = SwapWaiting
         then update_maker_swap_status io now h st s
                = (Panic, s\<lparr>maker_store := (maker_store s)\<lparr>poisoned := True\<rparr>\<rparr>)
         else \<exists>d'. update_maker_swap_status True now h st s
                      = (Ok (), s\<lparr>maker_store := saved h d' (maker_store s)\<rparr>)
                \<and> status d' = st \<and> swap_info d' = swap_info d \<and> requested_at d' = requested_at d
                \<and> initiated_at d' = (if st = SwapPending then Some now else initiated_at d)
                \<and> completed_at d' = (if st = SwapPending then completed_at d else Some now))"
proof (cases "map_of (entries (maker_store s)) h")
  case None
  then show ?thesis
    using sound
    by (simp add: update_maker_swap_status_def zoom_def update_swap_result maker_swaps_def
        add_maker_swap_def add_swap_def put_and_save_def read_store_def locked_out)
next
  case (Some d)
  then show ?thesis
    using sound
    by (cases st)
      (auto simp: update_maker_swap_status_def zoom_def update_swap_result set_swap_status_def
        saved_def put_and_save_result intro!: exI [of _ "the (set_swap_status now st d)"])
qed

theorem maker_swap_status_update_witness:
  "fst (maker_swaps (snd (update_maker_swap_status True 5 [1] SwapPending no_stores
       :: (APIError, unit) outcome \<times> app_stores))
     :: (APIError, (payment_hash \<times> SwapData) list) outcome \<times> app_stores) = Panic"
proof -
  have sound: "\<not> poisoned (maker_store no_stores)"
    and unknown: "map_of (entries (maker_store no_stores)) [1] = None"
    by (simp_all add: no_stores_def empty_store_def)
  show ?thesis
    using maker_swap_status_update [OF sound, where h = "[1]" and io = True and now = 5 and st = SwapPending]
    unfolding unknown option.case Let_def by blast
qed

lemma find_delete:
  "distinct (map fst es) \<Longrightarrow> distinct (map snd es) \<Longrightarrow>
   (case List.find (\<lambda>(t, c). c = cid) es of
      Some (tmp, _) \<Rightarrow> AList.delete tmp es | None \<Rightarrow> es) = filter (\<lambda>(t, c). c \<noteq> cid) es"
proof (induction es)
  case (Cons e es)
  obtain t c where e: "e = (t, c)" by force
  show ?case
  proof (cases "c = cid")
    case True
    have "t \<notin> fst ` set es" "cid \<notin> snd ` set es" using Cons.prems True by (auto simp: e)
    moreover have "AList.delete t es = es"
      using \<open>t \<notin> fst ` set es\<close> by simp
    moreover have "filter (\<lambda>(t, c). c \<noteq> cid) es = es"
      using \<open>cid \<notin> snd ` set es\<close> by (intro filter_True) force
    ultimately show ?thesis using True by (simp add: e)
  next
    case False
    have "tmp \<noteq> t" if "List.find (\<lambda>(t, c). c = cid) es = Some (tmp, c')" for tmp c'
    proof -
      have "(tmp, c') \<in> set es" using that by (auto simp: find_Some_iff) (metis nth_mem)
      then show ?thesis using Cons.prems by (force simp: e)
    qed
    then show ?thesis
      using False Cons by (auto simp: e split: option.splits)
  qed
qed simp


text \<open>
  When no two temporary ids stand for the same channel, closing a channel removes the one
  entry that names it, and only that one, from memory and from disk; closing a channel the map
  does not name changes nothing.
\<close>

theorem channel_id_deleted:
  assumes "store_sound (channel_ids_store s)"
    and "distinct (map snd (entries (channel_ids_store s)))"
  shows "delete_channel_id True cid s =
    (Ok (), s\<lparr>channel_ids_store := (channel_ids_store s)
       \<lparr>entries := filter (\<lambda>(t, c). c \<noteq> cid) (entries (channel_ids_store s)),
        on_disk := filter (\<lambda>(t, c). c \<noteq> cid) (entries (channel_ids_store s))\<rparr>\<rparr>)"
proof -
  let ?es = "entries (channel_ids_store s)"
  have d: "distinct (map fst ?es)" and np: "\<not> poisoned (channel_ids_store s)"
    and disk: "on_disk (channel_ids_store s) = ?es"
    using assms(1) by (simp_all add: store_sound_def store_ok_def)
  show ?thesis
    using find_delete [OF d assms(2), of cid] np disk
    by (auto simp: delete_channel_id_def zoom_def delete_id_def act_bind_def lock_store_def
        act_get_def act_modify_def act_return_def save_store_def split: option.splits)
qed

theorem channel_id_deleted_witness:
  "snd (delete_channel_id True [8]
      (no_stores\<lparr>channel_ids_store := open_store (Some [([1], [7]), ([2], [8])])\<rparr>)
      :: (unit, unit) outcome \<times> app_stores)
   = no_stores\<lparr>channel_ids_store := open_store (Some [([1], [7])])\<rparr>"
  by (subst channel_id_deleted) (simp_all add: store_sound_def store_ok_def open_store_def Let_def)

end
