(* ===== verification/Auth.thy ===== *)
theory Auth
  imports Utils
begin

text \<open>
  \<open>src/src/auth.rs\<close>, with the arguments it checks (\<open>src/src/args.rs\<close>), the routes it guards
  (\<open>src/src/main.rs\<close>) and the revocation handler of \<open>src/src/routes.rs\<close>.

  Biscuit tokens are a foreign type: \<open>biscuit\<close> is the record of what the code asks of them.
  Each authorizer reads the clock when it is built, so the requests of one check are numbered and
  \<open>clock\<close> gives the time of each.
\<close>

section \<open>Tokens\<close>

text \<open>The three authorizer programs of the code.\<close>

datatype auth_query = Allow_always | Allow_role string | Allow_operation string

record ('t, 'k) biscuit =
  from_base64 :: "string \<Rightarrow> 'k \<Rightarrow> 't option"
  revocation_identifiers :: "'t \<Rightarrow> bytes list"
  authorize :: "nat \<Rightarrow> auth_query \<Rightarrow> 't \<Rightarrow> bool"

definition is_role :: "('t, 'k) biscuit \<Rightarrow> nat \<Rightarrow> 't \<Rightarrow> string \<Rightarrow> bool" where
  "is_role bs now token role = authorize bs now (Allow_role role) token"

definition is_admin_role :: "('t, 'k) biscuit \<Rightarrow> nat \<Rightarrow> 't \<Rightarrow> bool" where
  "is_admin_role bs now token = is_role bs now token ''admin''"

definition is_custom_role :: "('t, 'k) biscuit \<Rightarrow> nat \<Rightarrow> 't \<Rightarrow> bool" where
  "is_custom_role bs now token = is_role bs now token ''custom''"

definition is_ready_only_role :: "('t, 'k) biscuit \<Rightarrow> nat \<Rightarrow> 't \<Rightarrow> bool" where
  "is_ready_only_role bs now token = is_role bs now token ''read-only''"

definition is_operation_permitted :: "('t, 'k) biscuit \<Rightarrow> nat \<Rightarrow> 't \<Rightarrow> string \<Rightarrow> bool" where
  "is_operation_permitted bs now token op = authorize bs now (Allow_operation op) token"

definition is_token_expired :: "('t, 'k) biscuit \<Rightarrow> nat \<Rightarrow> 't \<Rightarrow> bool" where
  "is_token_expired bs now token \<longleftrightarrow> \<not> authorize bs now Allow_always token"

section \<open>Operations\<close>

definition read_only_ops :: "string list" where
  "read_only_ops =
     [''/assetbalance'', ''/assetmetadata'', ''/btcbalance'', ''/checkindexerurl'',
      ''/checkproxyendpoint'', ''/decodelninvoice'', ''/decodergbinvoice'', ''/estimatefee'',
      ''/getassetmedia'', ''/getchannelid'', ''/getpayment'', ''/getswap'', ''/invoicestatus'',
      ''/listassets'', ''/listchannels'', ''/listpayments'', ''/listpeers'', ''/listswaps'',
      ''/listtransactions'', ''/listtransfers'', ''/listunspents'', ''/networkinfo'', ''/nodeinfo'']"

definition is_operation_readonly :: "string \<Rightarrow> bool" where
  "is_operation_readonly operation \<longleftrightarrow> operation \<in> set read_only_ops"

text \<open>The table of \<open>main.rs\<close>: path and method, \<open>True\<close> for POST.\<close>

definition routes :: "(string \<times> bool) list" where
  "routes =
     [(''/postassetmedia'', True), (''/address'', True), (''/assetbalance'', True),
      (''/assetmetadata'', True), (''/backup'', True), (''/btcbalance'', True),
      (''/changepassword'', True), (''/checkindexerurl'', True), (''/checkproxyendpoint'', True),
      (''/closechannel'', True), (''/connectpeer'', True), (''/createutxos'', True),
      (''/decodelninvoice'', True), (''/decodergbinvoice'', True), (''/disconnectpeer'', True),
      (''/estimatefee'', True), (''/failtransfers'', True), (''/getassetmedia'', True),
      (''/getchannelid'', True), (''/getpayment'', True), (''/getswap'', True), (''/init'', True),
      (''/invoicestatus'', True), (''/issueassetcfa'', True), (''/issueassetnia'', True),
      (''/issueassetuda'', True), (''/keysend'', True), (''/listassets'', True),
      (''/listchannels'', False), (''/listpayments'', False), (''/listpeers'', False),
      (''/listswaps'', False), (''/listtransactions'', True), (''/listtransfers'', True),
      (''/listunspents'', True), (''/lninvoice'', True), (''/lock'', True),
      (''/makerexecute'', True), (''/makerinit'', True), (''/networkinfo'', False),
      (''/nodeinfo'', False), (''/openchannel'', True), (''/refreshtransfers'', True),
      (''/restore'', True), (''/revoketoken'', True), (''/rgbinvoice'', True),
      (''/sendasset'', True), (''/sendbtc'', True), (''/sendonionmessage'', True),
      (''/sendpayment'', True), (''/shutdown'', True), (''/signmessage'', True), (''/sync'', True),
      (''/taker'', True), (''/unlock'', True)]"

section \<open>Start-up arguments\<close>

text \<open>\<open>from_bytes\<close> is \<open>PublicKey::from_bytes\<close> for Ed25519.\<close>

definition check_auth_args ::
  "(bytes \<Rightarrow> 'k option) \<Rightarrow> bool \<Rightarrow> string option \<Rightarrow> (AppError, 'k option) outcome" where
  "check_auth_args from_bytes disable_authentication root_public_key =
     (if disable_authentication \<and> root_public_key \<noteq> None then Err InvalidAuthenticationArgs
      else if \<not> disable_authentication \<and> root_public_key = None then Err InvalidAuthenticationArgs
      else case root_public_key of
             Some root_key_hex \<Rightarrow>
               and_then (ok_or InvalidRootKey (hex_str_to_vec root_key_hex)) (\<lambda>key_bytes.
                 if length key_bytes \<noteq> 32 then Err InvalidRootKey
                 else and_then (ok_or InvalidRootKey (from_bytes key_bytes)) (\<lambda>k. Ok (Some k)))
           | None \<Rightarrow> Ok None)"

record 'k user_args =
  daemon_listening_port :: u16
  ldk_peer_listening_port :: u16
  user_root_public_key :: "'k option"

text \<open>\<open>parse_startup_args\<close> after the command line is split; \<open>in_use\<close> tells the ports something
  answers on.\<close>

definition check_port_is_available :: "(u16 \<Rightarrow> bool) \<Rightarrow> u16 \<Rightarrow> (AppError, unit) outcome" where
  "check_port_is_available in_use port = (if in_use port then Err (UnavailablePort port) else Ok ())"

definition parse_startup_args ::
  "(bytes \<Rightarrow> 'k option) \<Rightarrow> (u16 \<Rightarrow> bool) \<Rightarrow> u16 \<Rightarrow> u16 \<Rightarrow> bool \<Rightarrow> string option \<Rightarrow>
   (AppError, 'k user_args) outcome" where
  "parse_startup_args from_bytes in_use daemon_port peer_port disable root =
     and_then (check_port_is_available in_use daemon_port) (\<lambda>_.
     and_then (check_port_is_available in_use peer_port) (\<lambda>_.
     and_then (check_auth_args from_bytes disable root) (\<lambda>k.
       Ok \<lparr>daemon_listening_port = daemon_port, ldk_peer_listening_port = peer_port,
           user_root_public_key = k\<rparr>)))"

section \<open>Revoked tokens\<close>

text \<open>\<open>revoked\<close> is the hash set in its iteration order, \<open>revoked_file\<close> the text of
  \<open>revoked_tokens.txt\<close>.  No critical section of its mutex can panic, so it is never poisoned.\<close>

record 'k auth_state =
  root_public_key :: "'k option"
  revoked :: "bytes list"
  revoked_file :: "string option"

definition is_token_revoked :: "('t, 'k) biscuit \<Rightarrow> 't \<Rightarrow> 'k auth_state \<Rightarrow> bool" where
  "is_token_revoked bs token s \<longleftrightarrow> set (revocation_identifiers bs token) \<inter> set (revoked s) \<noteq> {}"

definition revoked_body :: "bytes list \<Rightarrow> string" where
  "revoked_body ids = concat (map (\<lambda>i. hex_str i @ [newline]) ids)"

text \<open>The locked part of \<open>revoke_token\<close>: the insertions and the text to write.\<close>

definition revoke_begin :: "bytes list \<Rightarrow> 'k auth_state \<Rightarrow> string \<times> 'k auth_state" where
  "revoke_begin ids s =
     (let r = fold List.insert ids (revoked s) in (revoked_body r, s\<lparr>revoked := r\<rparr>))"

text \<open>The rest: a temporary file is written and renamed over the file, or an error at any stage
  leaves the file as it is.\<close>

definition revoke_finish :: "shown option \<Rightarrow> string \<Rightarrow> ('k auth_state, APIError, unit) action" where
  "revoke_finish io_error file_body s =
     (case io_error of
        Some e \<Rightarrow> (Err (IO e), s)
      | None \<Rightarrow> (Ok (), s\<lparr>revoked_file := Some file_body\<rparr>))"

definition revoke_token_state ::
  "('t, 'k) biscuit \<Rightarrow> shown option \<Rightarrow> 't \<Rightarrow> ('k auth_state, APIError, unit) action" where
  "revoke_token_state bs io_error token s =
     (let (file_body, t) = revoke_begin (revocation_identifiers bs token) s
      in revoke_finish io_error file_body t)"

text \<open>The handler of \<open>/revoketoken\<close>.\<close>

definition revoke_token ::
  "('t, 'k) biscuit \<Rightarrow> shown option \<Rightarrow> string \<Rightarrow> ('k auth_state, APIError, unit) action" where
  "revoke_token bs io_error token_text s =
     (case root_public_key s of
        None \<Rightarrow> (Err AuthenticationDisabled, s)
      | Some root_pubkey \<Rightarrow>
          (case from_base64 bs token_text root_pubkey of
             None \<Rightarrow> (Err InvalidBiscuitToken, s)
           | Some token \<Rightarrow> revoke_token_state bs io_error token s))"

text \<open>What opening and reading the file gives: each line, or the error of reading it.\<close>

datatype opened_file = Not_found | Open_error shown | Opened "(shown + string) list"

fun load_lines :: "bytes list \<Rightarrow> (shown + string) list \<Rightarrow> (AppError, bytes list) outcome" where
  "load_lines ids [] = Ok ids"
| "load_lines ids (Inl e # rest) = Err (AppIO e)"
| "load_lines ids (Inr line # rest) =
     (let s = trim line
      in if s = [] \<or> hd s = CHR ''#'' then load_lines ids rest
         else case hex_str_to_vec s of
                Some token_id \<Rightarrow> load_lines (List.insert token_id ids) rest
              | None \<Rightarrow> Err InvalidRevokedTokensFile)"

fun load_revoked_tokens :: "opened_file \<Rightarrow> (AppError, bytes list) outcome" where
  "load_revoked_tokens Not_found = Ok []"
| "load_revoked_tokens (Open_error e) = Err (AppIO e)"
| "load_revoked_tokens (Opened ls) = load_lines [] ls"

definition open_text :: "string option \<Rightarrow> opened_file" where
  "open_text file = (case file of None \<Rightarrow> Not_found | Some t \<Rightarrow> Opened (map Inr (lines_of t)))"

text \<open>\<open>start_daemon\<close>: the tokens are loaded when a root key is configured.\<close>

definition start_auth :: "'k option \<Rightarrow> string option \<Rightarrow> (AppError, 'k auth_state) outcome" where
  "start_auth root file =
     (let s = \<lparr>root_public_key = root, revoked = [], revoked_file = file\<rparr>
      in if root \<noteq> None
         then and_then (load_revoked_tokens (open_text file)) (\<lambda>ids. Ok (s\<lparr>revoked := ids\<rparr>))
         else Ok s)"

section \<open>The middleware\<close>

datatype auth_decision = Run_next | Refuse nat

definition strip_bearer :: "string \<Rightarrow> string option" where
  "strip_bearer h = (if take 7 h = ''Bearer '' then Some (drop 7 h) else None)"

definition conditional_auth_middleware ::
  "('t, 'k) biscuit \<Rightarrow> (nat \<Rightarrow> nat) \<Rightarrow> string option \<Rightarrow> string \<Rightarrow> 'k auth_state \<Rightarrow> auth_decision" where
  "conditional_auth_middleware bs clock header path s =
     (case root_public_key s of
        None \<Rightarrow> Run_next
      | Some root_pubkey \<Rightarrow>
          (case Option.bind header strip_bearer of
             None \<Rightarrow> Refuse 401
           | Some auth_token \<Rightarrow>
               (case from_base64 bs auth_token root_pubkey of
                  None \<Rightarrow> Refuse 401
                | Some token \<Rightarrow>
                    if is_token_revoked bs token s then Refuse 401
                    else if is_token_expired bs (clock 0) token then Refuse 401
                    else if is_admin_role bs (clock 1) token then Run_next
                    else if is_ready_only_role bs (clock 2) token
                    then (if is_operation_readonly path then Run_next else Refuse 403)
                    else if is_custom_role bs (clock 3) token
                    then (if is_operation_permitted bs (clock 4) token path then Run_next
                          else Refuse 403)
                    else Refuse 401)))"


section \<open>The revoked tokens file\<close>

lemma hex_char_plain:
  "is_hex c \<Longrightarrow> \<not> is_ws c \<and> c \<noteq> newline \<and> c \<noteq> CHR 0x0D \<and> c \<noteq> CHR ''#''"
  by (auto simp: is_hex_iff is_ws_def)

lemma trim_hex [simp]: "trim (hex_str i) = hex_str i"
  using is_hex_str hex_char_plain by (intro trim_id) blast

lemma hex_str_Nil [simp]: "hex_str i = [] \<longleftrightarrow> i = []"
  by (metis length_0_conv length_hex_str mult_eq_0_iff numeral_neq_zero)

lemma hd_hex_str: "i \<noteq> [] \<Longrightarrow> hd (hex_str i) \<noteq> CHR ''#''"
  using is_hex_str hex_char_plain by (metis hd_in_set hex_str_Nil)

lemma lines_of_body: "lines_of (revoked_body ids) = map hex_str ids"
proof -
  have "\<forall>x \<in> set (map hex_str ids). newline \<notin> set x \<and> CHR 0x0D \<notin> set x"
    using is_hex_str hex_char_plain by fastforce
  from lines_of_terminated [OF this] show ?thesis
    by (simp add: revoked_body_def comp_def)
qed

lemma load_hex_lines:
  "[] \<notin> set ids \<Longrightarrow> load_lines acc (map Inr (map hex_str ids)) = Ok (fold List.insert ids acc)"
  by (induction ids arbitrary: acc) (auto simp: hd_hex_str Let_def)

lemma set_fold_insert [simp]: "set (fold List.insert ids acc) = set ids \<union> set acc"
  by (induction ids arbitrary: acc) auto

lemma load_body:
  "[] \<notin> set ids \<Longrightarrow>
   \<exists>r. load_revoked_tokens (open_text (Some (revoked_body ids))) = Ok r \<and> set r = set ids"
  by (simp add: open_text_def lines_of_body load_hex_lines del: map_map)

lemma strip_bearer_Some: "strip_bearer h = Some t \<longleftrightarrow> h = ''Bearer '' @ t"
proof -
  have "length ''Bearer '' = 7" by simp
  then have "h = ''Bearer '' @ t \<longleftrightarrow> take 7 h = ''Bearer '' \<and> drop 7 h = t"
    using append_eq_conv_conj [of "''Bearer ''" t h] by metis
  then show ?thesis unfolding strip_bearer_def by simp
qed

text \<open>The file holds the tokens in memory, and no identifier is empty.\<close>

definition auth_synced :: "'k auth_state \<Rightarrow> bool" where
  "auth_synced s \<longleftrightarrow> [] \<notin> set (revoked s) \<and>
     (\<exists>ids. set ids = set (revoked s) \<and>
        (revoked_file s = Some (revoked_body ids) \<or> (ids = [] \<and> revoked_file s = None)))"

lemma revoke_token_state_Ok:
  "revoke_token_state bs None token s =
     (Ok (), s\<lparr>revoked := fold List.insert (revocation_identifiers bs token) (revoked s),
               revoked_file := Some (revoked_body (fold List.insert (revocation_identifiers bs token) (revoked s)))\<rparr>)"
  by (simp add: revoke_token_state_def revoke_begin_def revoke_finish_def Let_def)

section \<open>Properties\<close>

text \<open>
  C3: with a root key configured, a request reaches its handler exactly when it carries a bearer
  token that verifies under that key, of which no revocation id is revoked, that has not expired,
  and that is an admin token, or a read-only token on a read-only route, or, not being read-only,
  a custom token with the right for that route.  Without a root key every request passes.
\<close>

theorem middleware_admits:
  "conditional_auth_middleware bs clock header path s = Run_next \<longleftrightarrow>
     root_public_key s = None \<or>
     (\<exists>key text token. root_public_key s = Some key \<and> header = Some (''Bearer '' @ text)
        \<and> from_base64 bs text key = Some token
        \<and> set (revocation_identifiers bs token) \<inter> set (revoked s) = {}
        \<and> authorize bs (clock 0) Allow_always token
        \<and> (authorize bs (clock 1) (Allow_role ''admin'') token
           \<or> (if authorize bs (clock 2) (Allow_role ''read-only'') token
              then path \<in> set read_only_ops
              else authorize bs (clock 3) (Allow_role ''custom'') token
                   \<and> authorize bs (clock 4) (Allow_operation path) token)))"
proof (cases "root_public_key s")
  case None
  then show ?thesis by (simp add: conditional_auth_middleware_def)
next
  case key: (Some key)
  show ?thesis
  proof (cases "Option.bind header strip_bearer")
    case None
    then have "header \<noteq> Some (''Bearer '' @ tx)" for tx
      using strip_bearer_Some [of "''Bearer '' @ tx" tx] by (auto simp del: append.simps)
    then show ?thesis using key None by (simp add: conditional_auth_middleware_def)
  next
    case (Some tx)
    then have h: "header = Some (''Bearer '' @ tx') \<longleftrightarrow> tx' = tx" for tx'
      by (auto simp: bind_eq_Some_conv strip_bearer_Some simp del: append.simps)
    show ?thesis
      unfolding conditional_auth_middleware_def Some key h
      by (cases "from_base64 bs tx key")
        (simp_all add: is_token_revoked_def is_token_expired_def is_admin_role_def
          is_ready_only_role_def is_custom_role_def is_role_def is_operation_permitted_def
          is_operation_readonly_def)
  qed
qed

text \<open>
  Every operation a read-only token may call is a route of the server, and none of them is one
  of the routes that move funds, change the node's keys or state, or revoke tokens.
\<close>

theorem read_only_routes:
  "set read_only_ops \<subseteq> fst ` set routes
   \<and> set read_only_ops \<inter> {''/backup'', ''/changepassword'', ''/closechannel'', ''/connectpeer'',
        ''/createutxos'', ''/disconnectpeer'', ''/failtransfers'', ''/init'', ''/issueassetcfa'',
        ''/issueassetnia'', ''/issueassetuda'', ''/keysend'', ''/lninvoice'', ''/lock'',
        ''/makerexecute'', ''/makerinit'', ''/openchannel'', ''/postassetmedia'',
        ''/refreshtransfers'', ''/restore'', ''/revoketoken'', ''/rgbinvoice'', ''/sendasset'',
        ''/sendbtc'', ''/sendonionmessage'', ''/sendpayment'', ''/shutdown'', ''/signmessage'',
        ''/sync'', ''/taker'', ''/unlock'', ''/address''} = {}"
  by (simp add: read_only_ops_def routes_def)

text \<open>
  C4: once a revocation has succeeded, every token that shares an identifier with the revoked one
  is refused with status 401, and still is after a restart of the node with the same root key.
\<close>

theorem revoked_token_stays_refused:
  assumes "root_public_key s = Some key"
    and "[] \<notin> set (revocation_identifiers bs token) \<union> set (revoked s)"
    and "revoke_token_state bs None token s = (Ok (), t)"
    and "set (revocation_identifiers bs other) \<inter> set (revocation_identifiers bs token) \<noteq> {}"
    and "from_base64 bs text key = Some other"
  shows "conditional_auth_middleware bs clock (Some (''Bearer '' @ text)) path t = Refuse 401
         \<and> (\<exists>u. start_auth (Some key) (revoked_file t) = Ok u
              \<and> set (revoked u) = set (revoked t)
              \<and> conditional_auth_middleware bs clock (Some (''Bearer '' @ text)) path u = Refuse 401)"
proof -
  let ?ids = "fold List.insert (revocation_identifiers bs token) (revoked s)"
  have t: "revoked t = ?ids" "revoked_file t = Some (revoked_body ?ids)" "root_public_key t = Some key"
    using assms(1,3) by (auto simp: revoke_token_state_Ok)
  have refused: "conditional_auth_middleware bs clock (Some (''Bearer '' @ text)) path u = Refuse 401"
    if "root_public_key u = Some key" "set (revoked u) = set ?ids" for u
  proof -
    have "is_token_revoked bs other u" using assms(4) that(2) by (auto simp: is_token_revoked_def)
    then show ?thesis
      using that(1) assms(5) by (simp add: conditional_auth_middleware_def strip_bearer_def)
  qed
  obtain r where "load_revoked_tokens (open_text (Some (revoked_body ?ids))) = Ok r" "set r = set ?ids"
    using load_body [of ?ids] assms(2) by auto
  then show ?thesis using t refused by (auto simp: start_auth_def Let_def)
qed

definition example_biscuit :: "(bytes list, unit) biscuit" where
  "example_biscuit =
     \<lparr>from_base64 = (\<lambda>text _. map_option (\<lambda>i. [i]) (hex_str_to_vec text)),
      revocation_identifiers = (\<lambda>t. t),
      authorize = (\<lambda>_ _ _. True)\<rparr>"

theorem revoked_token_stays_refused_witness:
  "let s = \<lparr>root_public_key = Some (), revoked = [[7, 7]], revoked_file = None\<rparr>;
       t = snd (revoke_token_state example_biscuit None [[1, 2]] s)
   in conditional_auth_middleware example_biscuit id (Some (''Bearer '' @ hex_str [1, 2])) ''/nodeinfo'' s = Run_next
      \<and> conditional_auth_middleware example_biscuit id (Some (''Bearer '' @ hex_str [1, 2])) ''/nodeinfo'' t = Refuse 401"
proof -
  let ?s = "\<lparr>root_public_key = Some (), revoked = [[7, 7]], revoked_file = None\<rparr>"
  have "conditional_auth_middleware example_biscuit id (Some (''Bearer '' @ hex_str [1, 2])) ''/nodeinfo'' ?s = Run_next"
    by (simp add: conditional_auth_middleware_def strip_bearer_def example_biscuit_def
        is_token_revoked_def is_token_expired_def is_admin_role_def is_role_def)
  moreover have "conditional_auth_middleware example_biscuit id (Some (''Bearer '' @ hex_str [1, 2]))
      ''/nodeinfo'' (snd (revoke_token_state example_biscuit None [[1, 2]] ?s)) = Refuse 401"
    using revoked_token_stays_refused [of ?s "()" example_biscuit "[[1, 2]]" _ "[[1, 2]]" "hex_str [1, 2]"]
    by (simp add: revoke_token_state_Ok example_biscuit_def)
  ultimately show ?thesis by (simp add: Let_def)
qed

text \<open>
  Start-up leaves authentication off only when it is disabled and no root key is given, and on
  only when it is not disabled and the root key is the hexadecimal text of 32 bytes that make a
  key; every other combination is an error.
\<close>

theorem startup_authentication:
  "(check_auth_args from_bytes disable root = Ok None \<longleftrightarrow> disable \<and> root = None)
   \<and> (check_auth_args from_bytes disable root = Ok (Some key) \<longleftrightarrow>
        \<not> disable \<and> (\<exists>hex bs. root = Some hex \<and> hex_str_to_vec hex = Some bs \<and> length bs = 32
                           \<and> from_bytes bs = Some key))
   \<and> check_auth_args from_bytes disable root \<noteq> Panic"
  by (cases root; cases disable)
    (auto simp: check_auth_args_def and_then_eq_Ok ok_or_def split: option.splits)

section \<open>Concurrent revocations\<close>

text \<open>The mutex is released between the insertions and the write of the file, so the steps of two
  requests interleave: each begins once and finishes once with the text it took.\<close>

datatype revoke_step = Begins nat "bytes list" | Finishes nat

fun revoke_run ::
  "revoke_step list \<Rightarrow> (nat \<Rightarrow> string option) \<Rightarrow> 'k auth_state \<Rightarrow> 'k auth_state" where
  "revoke_run [] bodies s = s"
| "revoke_run (Begins i ids # steps) bodies s =
     (let (body, t) = revoke_begin ids s in revoke_run steps (bodies(i := Some body)) t)"
| "revoke_run (Finishes i # steps) bodies s =
     (case bodies i of
        Some body \<Rightarrow> revoke_run steps (bodies(i := None))
                       (snd (revoke_finish None body s :: (APIError, unit) outcome \<times> 'k auth_state))
      | None \<Rightarrow> revoke_run steps bodies s)"

text \<open>
  When two revocations overlap so that the first to begin is the last to finish, both succeed
  but the file loses the second: after a restart the second token is accepted again.
\<close>

theorem overlapping_revocations_lose_one:
  "let s = \<lparr>root_public_key = Some (), revoked = [], revoked_file = None\<rparr>;
       t = revoke_run [Begins 0 [[1]], Begins 1 [[2]], Finishes 1, Finishes 0] (\<lambda>_. None) s
   in revoked t = [[2], [1]]
      \<and> (\<exists>u. start_auth (Some ()) (revoked_file t) = Ok u \<and> revoked u = [[1]])"
proof -
  have "load_revoked_tokens (open_text (Some (revoked_body [[1]]))) = Ok [[1]]"
    by (simp add: open_text_def lines_of_body Let_def hd_hex_str)
  then show ?thesis
    by (simp add: revoke_begin_def revoke_finish_def start_auth_def Let_def)
qed

end
