(* ===== verification/Backup.thy ===== *)
theory Backup
  imports Utils "HOL-Library.AList"
begin

text \<open>
  \<open>src/src/backup.rs\<close>: the archive of the wallet directory, its encryption in chunks, and the way
  back.

  The zip container, the password hash and the stream cipher are foreign: \<open>backup_ops\<close> is the
  record of what the code calls.  A file is its bytes, a directory the list of names under it, in
  the order a walk visits them, with the contents of the files.  A read of a regular file returns
  as many bytes as are left, up to the length of the buffer.  Failing system calls are passed on by
  \<open>?\<close> and are not modelled, except the missing files of a damaged backup.
\<close>

section \<open>Foreign operations\<close>

record 'k backup_ops =
  derive_key :: "string \<Rightarrow> string \<Rightarrow> (APIError, 'k) outcome"
  encrypt_next :: "'k \<Rightarrow> string \<Rightarrow> nat \<Rightarrow> string \<Rightarrow> string option"
  encrypt_last :: "'k \<Rightarrow> string \<Rightarrow> nat \<Rightarrow> string \<Rightarrow> string option"
  decrypt_next :: "'k \<Rightarrow> string \<Rightarrow> nat \<Rightarrow> string \<Rightarrow> string option"
  decrypt_last :: "'k \<Rightarrow> string \<Rightarrow> nat \<Rightarrow> string \<Rightarrow> string option"
  zip_write :: "(string \<times> string) list \<Rightarrow> string"
  zip_read :: "string \<Rightarrow> (string \<times> string) list option"
  enclosed_name :: "string \<Rightarrow> string option"

text \<open>What is relied on: a chunk that was encrypted decrypts at the same position and is longer by
  the tag of 16 bytes, an archive is read back, a name without leading slash and parent steps is
  enclosed.\<close>

definition cipher_ok :: "'k backup_ops \<Rightarrow> bool" where
  "cipher_ok ops \<longleftrightarrow>
     (\<forall>k n i m c. encrypt_next ops k n i m = Some c \<longrightarrow>
        decrypt_next ops k n i c = Some m \<and> length c = length m + 16)
     \<and> (\<forall>k n i m c. encrypt_last ops k n i m = Some c \<longrightarrow>
        decrypt_last ops k n i c = Some m \<and> length c = length m + 16)"

definition zip_ok :: "'k backup_ops \<Rightarrow> bool" where
  "zip_ok ops \<longleftrightarrow> (\<forall>es. zip_read ops (zip_write ops es) = Some es)"

section \<open>Encryption in chunks\<close>

abbreviation backup_buffer_len_encrypt :: nat where
  "backup_buffer_len_encrypt \<equiv> 239"

abbreviation backup_buffer_len_decrypt :: nat where
  "backup_buffer_len_decrypt \<equiv> 255"

abbreviation backup_nonce_length :: nat where
  "backup_nonce_length \<equiv> 19"

abbreviation backup_version :: nat where
  "backup_version \<equiv> 1"

text \<open>The slice of the nonce text panics when it is too short.\<close>

definition get_cypher_secrets ::
  "'k backup_ops \<Rightarrow> string \<Rightarrow> string \<Rightarrow> string \<Rightarrow> (APIError, 'k \<times> string) outcome" where
  "get_cypher_secrets ops pw salt nonce =
     and_then (derive_key ops pw salt) (\<lambda>key.
       if length nonce < backup_nonce_length then Panic
       else Ok (key, take backup_nonce_length nonce))"

function encrypt_loop ::
  "'k backup_ops \<Rightarrow> 'k \<Rightarrow> string \<Rightarrow> nat \<Rightarrow> string \<Rightarrow> (APIError, string) outcome" where
  "encrypt_loop ops key nonce i src =
     (let buffer = take backup_buffer_len_encrypt src
      in if length buffer = backup_buffer_len_encrypt
         then (case encrypt_next ops key nonce i buffer of
                 None \<Rightarrow> Err (Unexpected ''Failed to encrypt next chunk: aead::Error'')
               | Some c \<Rightarrow>
                   and_then (encrypt_loop ops key nonce (i + 1) (drop backup_buffer_len_encrypt src))
                            (\<lambda>cs. Ok (c @ cs)))
         else (case encrypt_last ops key nonce i buffer of
                 None \<Rightarrow> Err (Unexpected ''Failed to encrypt last chunk: aead::Error'')
               | Some c \<Rightarrow> Ok c))"
  by auto

termination
  by (relation "measure (\<lambda>(ops, key, nonce, i, src). length src)") auto

declare encrypt_loop.simps [simp del]

definition encrypt_file ::
  "'k backup_ops \<Rightarrow> string \<Rightarrow> string \<Rightarrow> string \<Rightarrow> string \<Rightarrow> (APIError, string) outcome" where
  "encrypt_file ops pw salt nonce cleartext =
     and_then (get_cypher_secrets ops pw salt nonce) (\<lambda>(key, n). encrypt_loop ops key n 0 cleartext)"

function decrypt_loop ::
  "'k backup_ops \<Rightarrow> 'k \<Rightarrow> string \<Rightarrow> nat \<Rightarrow> string \<Rightarrow> (APIError, string) outcome" where
  "decrypt_loop ops key nonce i src =
     (let buffer = take backup_buffer_len_decrypt src
      in if length buffer = backup_buffer_len_decrypt
         then (case decrypt_next ops key nonce i buffer of
                 None \<Rightarrow> Err WrongPassword
               | Some m \<Rightarrow>
                   and_then (decrypt_loop ops key nonce (i + 1) (drop backup_buffer_len_decrypt src))
                            (\<lambda>ms. Ok (m @ ms)))
         else if buffer = [] then Ok []
         else (case decrypt_last ops key nonce i buffer of
                 None \<Rightarrow> Err WrongPassword
               | Some m \<Rightarrow> Ok m))"
  by auto

termination
  by (relation "measure (\<lambda>(ops, key, nonce, i, src). length src)") auto

declare decrypt_loop.simps [simp del]

definition decrypt_file ::
  "'k backup_ops \<Rightarrow> string \<Rightarrow> string \<Rightarrow> string \<Rightarrow> string \<Rightarrow> (APIError, string) outcome" where
  "decrypt_file ops pw salt nonce encrypted =
     and_then (get_cypher_secrets ops pw salt nonce) (\<lambda>(key, n). decrypt_loop ops key n 0 encrypted)"

section \<open>Archives\<close>

text \<open>One entry of a walk: the name relative to the root, and the contents of a file (\<open>None\<close> for a
  directory).\<close>

type_synonym walk = "(string \<times> string option) list"

text \<open>\<open>Path::ends_with\<close> on one component: the last component is the given text.\<close>

definition path_ends_with :: "string \<Rightarrow> string \<Rightarrow> bool" where
  "path_ends_with path component = (last (split_on (CHR ''/'') path) = component)"

definition str_ends_with :: "string \<Rightarrow> string \<Rightarrow> bool" where
  "str_ends_with s t = (length t \<le> length s \<and> drop (length s - length t) s = t)"

text \<open>\<open>add_directory\<close> stores the name with a slash at its end.\<close>

fun zip_entries :: "walk \<Rightarrow> (string \<times> string) list" where
  "zip_entries [] = []"
| "zip_entries ((name, Some content) # rest) =
     (if path_ends_with name ''log'' then zip_entries rest else (name, content) # zip_entries rest)"
| "zip_entries ((name, None) # rest) =
     (if name \<noteq> [] \<and> \<not> str_ends_with name ''logs'' then (name @ ''/'', []) # zip_entries rest
      else zip_entries rest)"

definition zip_dir :: "'k backup_ops \<Rightarrow> walk \<Rightarrow> string" where
  "zip_dir ops w = zip_write ops (zip_entries w)"

text \<open>The tree under the directory something is unpacked into: files with their contents.\<close>

type_synonym tree = "(string \<times> string) list"

fun unzip_entries :: "'k backup_ops \<Rightarrow> (string \<times> string) list \<Rightarrow> tree \<Rightarrow> tree" where
  "unzip_entries ops [] t = t"
| "unzip_entries ops ((name, content) # es) t =
     (case enclosed_name ops name of
        None \<Rightarrow> unzip_entries ops es t
      | Some outpath \<Rightarrow>
          if str_ends_with name ''/'' then unzip_entries ops es t
          else unzip_entries ops es (AList.update outpath content t))"

definition unzip :: "'k backup_ops \<Rightarrow> string \<Rightarrow> tree \<Rightarrow> (APIError, tree) outcome" where
  "unzip ops archive t =
     (case zip_read ops archive of
        None \<Rightarrow> Err (Unexpected ''Failed to read zip archive'')
      | Some es \<Rightarrow> Ok (unzip_entries ops es t))"

section \<open>Backup and restore\<close>

text \<open>\<open>do_backup\<close>: \<open>target\<close> is the backup file if it exists, \<open>salt\<close> and \<open>nonce\<close> the generated
  texts.  The working directory holds the encrypted archive, the nonce, the salt and the version
  when it is archived; the clear text archive was removed after its encryption.\<close>

definition do_backup ::
  "'k backup_ops \<Rightarrow> string \<Rightarrow> string \<Rightarrow> walk \<Rightarrow> string \<Rightarrow> string option \<Rightarrow> (APIError, string) outcome" where
  "do_backup ops salt nonce wallet_dir pw target =
     (if target \<noteq> None then Err InvalidBackupPath
      else and_then (encrypt_file ops pw salt nonce (zip_dir ops wallet_dir)) (\<lambda>enc.
        Ok (zip_dir ops
              [([], None), (''backup.enc'', Some enc), (''backup.nonce'', Some nonce),
               (''backup.salt'', Some salt), (''backup.version'', Some (show_nat backup_version))])))"

definition read_tree :: "tree \<Rightarrow> string \<Rightarrow> (APIError, string) outcome" where
  "read_tree t name =
     ok_or (IO \<lparr>shown_display = ''No such file or directory (os error 2)'',
               shown_debug = ''Os { code: 2, kind: NotFound, message: No such file or directory }''\<rparr>)
           (map_of t name)"

definition restore_backup ::
  "'k backup_ops \<Rightarrow> string \<Rightarrow> string \<Rightarrow> tree \<Rightarrow> (APIError, tree) outcome" where
  "restore_backup ops backup pw target_dir =
     and_then (unzip ops backup []) (\<lambda>files.
     and_then (read_tree files ''backup.nonce'') (\<lambda>nonce.
     and_then (read_tree files ''backup.salt'') (\<lambda>salt.
     and_then (read_tree files ''backup.version'') (\<lambda>version_text.
     and_then (ok_or (Unexpected ''Failed to get backup version'') (parse_unsigned 256 version_text)) (\<lambda>version.
       if version \<noteq> backup_version then Err (UnsupportedBackupVersion (show_nat version))
       else
         and_then (read_tree files ''backup.enc'') (\<lambda>enc.
         and_then (decrypt_file ops pw salt nonce enc) (\<lambda>zip.
           unzip ops zip target_dir)))))))"


section \<open>Decryption undoes encryption\<close>

lemma cipher_next:
  "cipher_ok ops \<Longrightarrow> encrypt_next ops k n i m = Some c \<Longrightarrow>
   decrypt_next ops k n i c = Some m \<and> length c = length m + 16"
  by (simp add: cipher_ok_def)

lemma cipher_last:
  "cipher_ok ops \<Longrightarrow> encrypt_last ops k n i m = Some c \<Longrightarrow>
   decrypt_last ops k n i c = Some m \<and> length c = length m + 16"
  by (simp add: cipher_ok_def)

lemma decrypt_next_chunk:
  "length c = 255 \<Longrightarrow> decrypt_next ops key nonce i c = Some m \<Longrightarrow>
   decrypt_loop ops key nonce i (c @ cs) =
     and_then (decrypt_loop ops key nonce (i + 1) cs) (\<lambda>ms. Ok (m @ ms))"
  by (subst decrypt_loop.simps) simp

lemma decrypt_last_chunk:
  "length c < 255 \<Longrightarrow> c \<noteq> [] \<Longrightarrow> decrypt_last ops key nonce i c = Some m \<Longrightarrow>
   decrypt_loop ops key nonce i c = Ok m"
  by (subst decrypt_loop.simps) simp

lemma decrypt_nothing: "decrypt_loop ops key nonce i [] = Ok []"
  by (subst decrypt_loop.simps) simp

text \<open>The two ways the encryption loop can end well.\<close>

lemma encrypt_loop_Ok_cases:
  assumes "encrypt_loop ops key nonce i src = Ok c"
  obtains (more) c1 cs where "239 \<le> length src" "encrypt_next ops key nonce i (take 239 src) = Some c1"
      "encrypt_loop ops key nonce (i + 1) (drop 239 src) = Ok cs" "c = c1 @ cs"
    | (final) "length src < 239" "encrypt_last ops key nonce i src = Some c"
proof (cases "239 \<le> length src")
  case True
  then show thesis
    using assms more
    by (subst (asm) encrypt_loop.simps) (auto simp: and_then_eq_Ok split: option.splits)
next
  case False
  then show thesis
    using assms final
    by (subst (asm) encrypt_loop.simps) (auto split: option.splits)
qed

lemma decrypt_encrypt_loop:
  assumes ok: "cipher_ok ops"
  shows "encrypt_loop ops key nonce i src = Ok c \<Longrightarrow> decrypt_loop ops key nonce i c = Ok src"
proof (induction "length src" arbitrary: i src c rule: less_induct)
  case less
  from less.prems show ?case
  proof (cases rule: encrypt_loop_Ok_cases)
    case (more c1 cs)
    have c1: "decrypt_next ops key nonce i c1 = Some (take 239 src)" "length c1 = 255"
      using cipher_next [OF ok more(2)] more(1) by simp_all
    have "decrypt_loop ops key nonce (i + 1) cs = Ok (drop 239 src)"
      using less.hyps [OF _ more(3)] more(1) by simp
    then show ?thesis using decrypt_next_chunk [OF c1(2,1)] more(4) by simp
  next
    case final
    have "decrypt_last ops key nonce i c = Some src" "length c = length src + 16"
      using cipher_last [OF ok final(2)] by simp_all
    then show ?thesis using final(1) by (intro decrypt_last_chunk) auto
  qed
qed

lemma decrypt_truncated_loop:
  assumes ok: "cipher_ok ops"
  shows "encrypt_loop ops key nonce i src = Ok c \<Longrightarrow> 239 * n \<le> length src \<Longrightarrow>
    decrypt_loop ops key nonce i (take (255 * n) c) = Ok (take (239 * n) src)"
proof (induction n arbitrary: i src c)
  case 0
  then show ?case by (simp add: decrypt_nothing)
next
  case (Suc n)
  from Suc.prems(1) show ?case
  proof (cases rule: encrypt_loop_Ok_cases)
    case (more c1 cs)
    have c1: "decrypt_next ops key nonce i c1 = Some (take 239 src)" "length c1 = 255"
      using cipher_next [OF ok more(2)] more(1) by simp_all
    have "decrypt_loop ops key nonce (i + 1) (take (255 * n) cs) = Ok (take (239 * n) (drop 239 src))"
      using Suc.IH [OF more(3)] Suc.prems(2) by simp
    moreover have "take (255 * Suc n) c = c1 @ take (255 * n) cs" using c1(2) more(4) by simp
    moreover have "take (239 * Suc n) src = take 239 src @ take (239 * n) (drop 239 src)"
      by (simp add: take_add)
    ultimately show ?thesis using decrypt_next_chunk [OF c1(2,1)] by simp
  next
    case final
    then show ?thesis using Suc.prems(2) by simp
  qed
qed

lemma decrypt_encrypt_file:
  "cipher_ok ops \<Longrightarrow> encrypt_file ops pw salt nonce clear = Ok enc \<Longrightarrow>
   decrypt_file ops pw salt nonce enc = Ok clear"
  by (auto simp: encrypt_file_def decrypt_file_def and_then_eq_Ok decrypt_encrypt_loop)

section \<open>Archives read back\<close>

definition archived_files :: "walk \<Rightarrow> (string \<times> string) list" where
  "archived_files w =
     concat (map (\<lambda>(n, c). case c of
                             Some content \<Rightarrow> if path_ends_with n ''log'' then [] else [(n, content)]
                           | None \<Rightarrow> []) w)"

definition plain_names :: "'k backup_ops \<Rightarrow> walk \<Rightarrow> bool" where
  "plain_names ops w \<longleftrightarrow>
     (\<forall>(n, c) \<in> set w. c \<noteq> None \<longrightarrow> enclosed_name ops n = Some n \<and> \<not> str_ends_with n ''/'')"

lemma ends_with_slash [simp]: "str_ends_with (n @ ''/'') ''/''"
  by (simp add: str_ends_with_def)

lemma unzip_zip_entries:
  "plain_names ops w \<Longrightarrow>
   unzip_entries ops (zip_entries w) t = fold (\<lambda>(n, c). AList.update n c) (archived_files w) t"
proof (induction w arbitrary: t rule: zip_entries.induct)
  case (3 name rest)
  then show ?case
    by (auto simp: plain_names_def archived_files_def split: option.splits)
qed (auto simp: plain_names_def archived_files_def)

lemma map_of_fold_update:
  "map_of (fold (\<lambda>(n, c). AList.update n c) es t) = map_of t ++ map_of (rev es)"
proof (induction es arbitrary: t)
  case (Cons e es)
  obtain n c where e: "e = (n, c)" by force
  have "map_of (fold (\<lambda>(n, c). AList.update n c) (e # es) t) = map_of (AList.update n c t) ++ map_of (rev es)"
    using Cons [of "AList.update n c t"] by (simp add: e)
  also have "\<dots> = map_of t ++ map_of (rev (e # es))"
    by (simp add: update_conv' e)
  finally show ?case .
qed simp


section \<open>Properties\<close>

definition working_names :: "string list" where
  "working_names = [''backup.enc'', ''backup.nonce'', ''backup.salt'', ''backup.version'']"

lemma working_files:
  assumes "zip_ok ops" and "\<forall>n \<in> set working_names. enclosed_name ops n = Some n"
  shows "unzip ops (zip_dir ops
      [([], None), (''backup.enc'', Some enc), (''backup.nonce'', Some nonce),
       (''backup.salt'', Some salt), (''backup.version'', Some v)]) []
    = Ok [(''backup.enc'', enc), (''backup.nonce'', nonce), (''backup.salt'', salt), (''backup.version'', v)]"
  using assms
  by (simp add: unzip_def zip_dir_def zip_ok_def working_names_def path_ends_with_def str_ends_with_def)

lemma restore_of_backup:
  assumes "cipher_ok ops" and "zip_ok ops"
    and "\<forall>n \<in> set working_names. enclosed_name ops n = Some n"
    and "plain_names ops wallet_dir"
    and "do_backup ops salt nonce wallet_dir pw None = Ok backup"
  shows "\<exists>t. restore_backup ops backup pw target = Ok t
         \<and> map_of t = map_of target ++ map_of (rev (archived_files wallet_dir))"
proof -
  from assms(5) obtain enc where enc: "encrypt_file ops pw salt nonce (zip_dir ops wallet_dir) = Ok enc"
    and b: "backup = zip_dir ops
              [([], None), (''backup.enc'', Some enc), (''backup.nonce'', Some nonce),
               (''backup.salt'', Some salt), (''backup.version'', Some (show_nat backup_version))]"
    by (auto simp: do_backup_def and_then_eq_Ok)
  have version: "parse_unsigned 256 (show_nat (Suc 0)) = Some (Suc 0)" by (simp add: parse_unsigned_show)
  have "restore_backup ops backup pw target = unzip ops (zip_dir ops wallet_dir) target"
    using decrypt_encrypt_file [OF assms(1) enc]
    by (simp add: restore_backup_def b working_files [OF assms(2,3)] read_tree_def version)
  also have "\<dots> = Ok (fold (\<lambda>(n, c). AList.update n c) (archived_files wallet_dir) target)"
    using assms(2,4) by (simp add: unzip_def zip_dir_def zip_ok_def unzip_zip_entries)
  finally show ?thesis by (simp add: map_of_fold_update)
qed

text \<open>
  C8: a backup of any wallet directory, of any size, is restored with the same password into the
  files of the directory with their contents, on top of what the target held; only files named
  exactly \<open>log\<close> are left out.
\<close>

theorem backup_restores:
  assumes "cipher_ok ops" and "zip_ok ops"
    and "\<forall>n \<in> set working_names. enclosed_name ops n = Some n"
    and "plain_names ops wallet_dir"
    and "do_backup ops salt nonce wallet_dir pw None = Ok backup"
  shows "\<exists>t. restore_backup ops backup pw target = Ok t
         \<and> map_of t = map_of target ++ map_of (rev (archived_files wallet_dir))"
  by (rule restore_of_backup [OF assms])

text \<open>A cipher and an archive for the witnesses: the tag is 16 zero bytes after the text, an archive
  is printed with lengths.\<close>

definition example_tag :: string where
  "example_tag = replicate 16 (CHR 0x00)"

fun example_zip_write :: "(string \<times> string) list \<Rightarrow> string" where
  "example_zip_write [] = []"
| "example_zip_write ((n, c) # es) =
     replicate (length n) (CHR ''n'') @ ''|'' @ n @ replicate (length c) (CHR ''c'') @ ''|'' @ c
       @ example_zip_write es"

function example_zip_read :: "string \<Rightarrow> (string \<times> string) list" where
  "example_zip_read s =
     (if s = [] then []
      else let l = length (takeWhile (\<lambda>x. x = CHR ''n'') s); s1 = drop (l + 1) s;
               n = take l s1; s2 = drop l s1;
               m = length (takeWhile (\<lambda>x. x = CHR ''c'') s2); s3 = drop (m + 1) s2
           in (n, take m s3) # example_zip_read (drop m s3))"
  by auto

termination
  by (relation "measure length") auto

declare example_zip_read.simps [simp del]

lemma example_zip_read_write: "example_zip_read (example_zip_write es) = es"
proof (induction es rule: example_zip_write.induct)
  case 1
  show ?case by (subst example_zip_read.simps) simp
next
  case (2 n c es)
  have run: "takeWhile (\<lambda>x. x = a) (replicate k a @ b # rest) = replicate k a" if "b \<noteq> a" for k a b and rest :: string
    using that by (induction k) auto
  show ?case
    by (subst example_zip_read.simps) (simp add: run 2 Let_def)
qed

definition example_ops :: "string backup_ops" where
  "example_ops =
     \<lparr>derive_key = (\<lambda>pw salt. Ok (pw @ salt)),
      encrypt_next = (\<lambda>k n i m. Some (m @ example_tag)),
      encrypt_last = (\<lambda>k n i m. Some (m @ example_tag)),
      decrypt_next = (\<lambda>k n i c. Some (take (length c - 16) c)),
      decrypt_last = (\<lambda>k n i c. Some (take (length c - 16) c)),
      zip_write = example_zip_write,
      zip_read = (\<lambda>s. Some (example_zip_read s)),
      enclosed_name = Some\<rparr>"

lemma example_ops_ok: "cipher_ok example_ops" "zip_ok example_ops" "enclosed_name example_ops n = Some n"
  by (simp_all add: cipher_ok_def zip_ok_def example_ops_def example_tag_def example_zip_read_write)

lemma example_encrypts: "\<exists>enc. encrypt_loop example_ops k n i src = Ok enc"
proof (induction "length src" arbitrary: i src rule: less_induct)
  case less
  show ?case
  proof (cases "239 \<le> length src")
    case True
    have "length (drop 239 src) < length src" using True unfolding length_drop by linarith
    then obtain cs where "encrypt_loop example_ops k n (i + 1) (drop 239 src) = Ok cs"
      using less by blast
    then show ?thesis using True by (subst encrypt_loop.simps) (simp add: example_ops_def)
  next
    case False
    then show ?thesis by (subst encrypt_loop.simps) (simp add: example_ops_def)
  qed
qed

lemma example_backup:
  assumes "length nonce = 19"
  shows "\<exists>b. do_backup example_ops salt nonce w pw None = Ok b"
proof -
  have "get_cypher_secrets example_ops pw salt nonce = Ok (pw @ salt, nonce)"
    using assms by (simp add: get_cypher_secrets_def) (simp add: example_ops_def)
  moreover obtain enc where "encrypt_loop example_ops (pw @ salt) nonce 0 (zip_dir example_ops w) = Ok enc"
    using example_encrypts by blast
  ultimately show ?thesis by (simp add: do_backup_def encrypt_file_def)
qed

theorem backup_restores_witness:
  "\<exists>backup t. do_backup example_ops ''salt'' (replicate 19 (CHR ''n''))
       [([], None), (''mnemonic'', Some ''skill lamp''), (''logs'', None), (''logs/log'', Some ''x'')]
       ''password'' None = Ok backup
     \<and> restore_backup example_ops backup ''password'' [] = Ok t
     \<and> map_of t ''mnemonic'' = Some ''skill lamp'' \<and> map_of t ''logs/log'' = None"
proof -
  let ?w = "[([], None), (''mnemonic'', Some ''skill lamp''), (''logs'', None), (''logs/log'', Some ''x'')]"
  let ?n = "replicate 19 (CHR ''n'')"
  obtain backup where b: "do_backup example_ops ''salt'' ?n ?w ''password'' None = Ok backup"
    using example_backup [of ?n "''salt''" ?w "''password''"] by auto
  have names: "\<forall>n \<in> set working_names. enclosed_name example_ops n = Some n"
    by (simp add: example_ops_ok)
  have plain: "plain_names example_ops ?w" by (simp add: plain_names_def example_ops_ok str_ends_with_def)
  from backup_restores [OF example_ops_ok(1,2) names plain b, of "[]"] obtain t where
    "restore_backup example_ops backup ''password'' [] = Ok t"
    "map_of t = map_of (rev (archived_files ?w))" by auto
  with b show ?thesis by (auto simp: archived_files_def path_ends_with_def)
qed

text \<open>
  An encrypted archive that was cut after any number of full chunks still decrypts without an
  error, to the clear text cut after the same number of chunks: the end of the archive is not
  authenticated.
\<close>

theorem truncated_backup_decrypts:
  assumes "cipher_ok ops" and "encrypt_file ops pw salt nonce clear = Ok enc"
    and "239 * n \<le> length clear"
  shows "decrypt_file ops pw salt nonce (take (255 * n) enc) = Ok (take (239 * n) clear)"
  using assms
  by (auto simp: encrypt_file_def decrypt_file_def and_then_eq_Ok decrypt_truncated_loop)

theorem truncated_backup_decrypts_witness:
  "\<exists>enc. encrypt_file example_ops ''password'' ''salt'' (replicate 19 (CHR ''n'')) (replicate 300 (CHR ''a''))
          = Ok enc
     \<and> length enc = 332
     \<and> decrypt_file example_ops ''password'' ''salt'' (replicate 19 (CHR ''n'')) (take 255 enc)
          = Ok (replicate 239 (CHR ''a''))"
proof -
  let ?a = "\<lambda>n. replicate n (CHR ''a'')"
  have last: "encrypt_loop example_ops k n (Suc 0) (?a 61) = Ok (?a 61 @ example_tag)" for k n
    by (subst encrypt_loop.simps) (simp add: example_ops_def)
  have "encrypt_loop example_ops k n 0 (?a 300) = Ok ((?a 239 @ example_tag) @ (?a 61 @ example_tag))" for k n
    by (subst encrypt_loop.simps) (simp add: example_ops_def last [unfolded example_ops_def])
  then have enc: "encrypt_file example_ops ''password'' ''salt'' (replicate 19 (CHR ''n'')) (?a 300)
      = Ok ((?a 239 @ example_tag) @ (?a 61 @ example_tag))"
    by (simp add: encrypt_file_def get_cypher_secrets_def) (simp add: example_ops_def)
  show ?thesis
    using truncated_backup_decrypts [OF example_ops_ok(1) enc, of 1] enc
    by (simp add: example_tag_def)
qed

end
