(* ===== verification/Peers.thy ===== *)
theory Peers
  imports Swap "HOL-Library.AList"
begin

text \<open>
  The file of channel peers (\<open>src/src/disk.rs\<close>) and the two handlers of \<open>src/src/routes.rs\<close> that
  connect and disconnect peers.

  The file is absent or a text with one line \<open>pubkey@address\<close> per peer.  A public key prints as the
  hexadecimal text of its 33 bytes.  \<open>show_addr\<close> prints a socket address and \<open>resolve\<close> finds the
  addresses of a text; a write is a temporary file renamed over the old one, so it happens whole.
\<close>

section \<open>The file\<close>

definition starts_with :: "string \<Rightarrow> string \<Rightarrow> bool" where
  "starts_with s p \<longleftrightarrow> take (length p) s = p"

text \<open>The lines that do not start with the given text, trimmed and joined.\<close>

definition other_peers :: "string \<Rightarrow> string \<Rightarrow> string" where
  "other_peers pk content =
     join_with [newline] (map trim (filter (\<lambda>line. \<not> starts_with (trim line) pk) (lines_of content)))"

definition persist_channel_peer ::
  "('a \<Rightarrow> string) \<Rightarrow> pubkey \<Rightarrow> 'a \<Rightarrow> string option \<Rightarrow> string option" where
  "persist_channel_peer show_addr pk address file =
     (let pk_text = hex_str pk
      in case file of
           Some content \<Rightarrow>
             let updated = other_peers pk_text content
             in Some (updated @ (if updated = [] then [] else [newline]) @ pk_text @ ''@'' @ show_addr address)
         | None \<Rightarrow> Some (pk_text @ ''@'' @ show_addr address))"

definition delete_channel_peer :: "string \<Rightarrow> string option \<Rightarrow> string option" where
  "delete_channel_peer pk_text file =
     (case file of Some content \<Rightarrow> Some (other_peers pk_text content) | None \<Rightarrow> None)"

fun read_peer_lines ::
  "(bytes \<Rightarrow> pubkey option) \<Rightarrow> (string \<Rightarrow> 'a list option) \<Rightarrow> (pubkey \<times> 'a) list \<Rightarrow> string list \<Rightarrow>
   (APIError, (pubkey \<times> 'a) list) outcome" where
  "read_peer_lines from_slice resolve peers [] = Ok peers"
| "read_peer_lines from_slice resolve peers (line # rest) =
     (case parse_peer_info from_slice resolve line of
        Ok (pk, Some a) \<Rightarrow> read_peer_lines from_slice resolve (AList.update pk a peers) rest
      | Ok (pk, None) \<Rightarrow> Panic
      | Err e \<Rightarrow> Err e
      | Panic \<Rightarrow> Panic)"

definition read_channel_peer_data ::
  "(bytes \<Rightarrow> pubkey option) \<Rightarrow> (string \<Rightarrow> 'a list option) \<Rightarrow> string option \<Rightarrow>
   (APIError, (pubkey \<times> 'a) list) outcome" where
  "read_channel_peer_data from_slice resolve file =
     (case file of
        None \<Rightarrow> Ok []
      | Some content \<Rightarrow> read_peer_lines from_slice resolve [] (lines_of content))"

section \<open>The handlers\<close>

record peer_state =
  peers_file :: "string option"
  connected_peers :: "pubkey list"

text \<open>\<open>connect_peer\<close>: \<open>connected\<close> is what \<open>connect_peer_if_necessary\<close> answers for the peer.\<close>

definition connect_peer ::
  "(bytes \<Rightarrow> pubkey option) \<Rightarrow> (string \<Rightarrow> 'a list option) \<Rightarrow> ('a \<Rightarrow> string) \<Rightarrow>
   (pubkey \<Rightarrow> 'a \<Rightarrow> (APIError, unit) outcome) \<Rightarrow> string \<Rightarrow> (peer_state, APIError, unit) action" where
  "connect_peer from_slice resolve show_addr connected peer_pubkey_and_addr s =
     (case parse_peer_info from_slice resolve peer_pubkey_and_addr of
        Err e \<Rightarrow> (Err e, s)
      | Panic \<Rightarrow> (Panic, s)
      | Ok (pk, None) \<Rightarrow>
          (Err (InvalidPeerInfo ''incorrectly formatted peer info. Should be formatted as: `pubkey@host:port`''), s)
      | Ok (pk, Some a) \<Rightarrow>
          (case connected pk a of
             Err e \<Rightarrow> (Err e, s)
           | Panic \<Rightarrow> (Panic, s)
           | Ok _ \<Rightarrow>
               (Ok (), s\<lparr>peers_file := persist_channel_peer show_addr pk a (peers_file s),
                        connected_peers := List.insert pk (connected_peers s)\<rparr>)))"

text \<open>\<open>disconnect_peer\<close>: \<open>from_str\<close> is \<open>PublicKey::from_str\<close>, \<open>counterparties\<close> the nodes the node
  has channels with.  The file is searched for the text of the request, not for the key.\<close>

definition disconnect_peer ::
  "(string \<Rightarrow> pubkey option) \<Rightarrow> pubkey list \<Rightarrow> string \<Rightarrow> (peer_state, APIError, unit) action" where
  "disconnect_peer from_str counterparties peer_pubkey s =
     (case from_str peer_pubkey of
        None \<Rightarrow> (Err InvalidPubkey, s)
      | Some pk \<Rightarrow>
          if pk \<in> set counterparties
          then (Err (FailedPeerDisconnection
                 ''node has an active channel with this peer, close any channels first''), s)
          else
            (let t = s\<lparr>peers_file := delete_channel_peer peer_pubkey (peers_file s)\<rparr>
             in if pk \<notin> set (connected_peers t)
                then (Err (FailedPeerDisconnection (''Could not find peer '' @ hex_str pk)), t)
                else (Ok (), t\<lparr>connected_peers := removeAll pk (connected_peers t)\<rparr>)))"

section \<open>Lines of peers\<close>

definition valid_pubkey :: "(bytes \<Rightarrow> pubkey option) \<Rightarrow> pubkey \<Rightarrow> bool" where
  "valid_pubkey from_slice pk \<longleftrightarrow> length pk = 33 \<and> from_slice pk = Some pk"

text \<open>Addresses that print without white space and resolve to themselves.\<close>

definition valid_addr :: "('a \<Rightarrow> string) \<Rightarrow> (string \<Rightarrow> 'a list option) \<Rightarrow> 'a \<Rightarrow> bool" where
  "valid_addr show_addr resolve a \<longleftrightarrow>
     (\<forall>c \<in> set (show_addr a). \<not> is_ws c \<and> c \<noteq> CHR ''@'')
     \<and> (\<exists>more. resolve (show_addr a) = Some (a # more))"

lemma at_not_in_hex: "CHR ''@'' \<notin> set (hex_str v)"
  using is_hex_str is_hex_iff by fastforce

interpretation pubkey_field:
  field_codec "valid_pubkey fs" hex_str "hex_str_to_compressed_pubkey fs" "CHR ''@''" for fs
  by unfold_locales (simp_all add: valid_pubkey_def at_not_in_hex)

definition resolve_first :: "(string \<Rightarrow> 'a list option) \<Rightarrow> string \<Rightarrow> 'a option" where
  "resolve_first resolve t = (case resolve t of Some (a # _) \<Rightarrow> Some a | _ \<Rightarrow> None)"

lemma resolve_valid: "valid_addr sa rs a \<Longrightarrow> resolve_first rs (sa a) = Some a"
  unfolding valid_addr_def resolve_first_def by (elim conjE exE) simp

lemma at_not_in_addr: "valid_addr sa rs a \<Longrightarrow> CHR ''@'' \<notin> set (sa a)"
  unfolding valid_addr_def by blast

interpretation addr_field: field_codec "valid_addr sa rs" sa "resolve_first rs" "CHR ''@''" for sa rs
  by unfold_locales (rule resolve_valid, assumption, rule at_not_in_addr)

definition peer_line :: "('a \<Rightarrow> string) \<Rightarrow> pubkey \<times> 'a \<Rightarrow> string" where
  "peer_line show_addr p = hex_str (fst p) @ ''@'' @ show_addr (snd p)"

definition peers_text :: "('a \<Rightarrow> string) \<Rightarrow> (pubkey \<times> 'a) list \<Rightarrow> string" where
  "peers_text show_addr ps = join_with [newline] (map (peer_line show_addr) ps)"

definition valid_peers ::
  "(bytes \<Rightarrow> pubkey option) \<Rightarrow> ('a \<Rightarrow> string) \<Rightarrow> (string \<Rightarrow> 'a list option) \<Rightarrow> (pubkey \<times> 'a) list \<Rightarrow> bool" where
  "valid_peers fs sa rs ps \<longleftrightarrow>
     distinct (map fst ps) \<and> (\<forall>(pk, a) \<in> set ps. valid_pubkey fs pk \<and> valid_addr sa rs a)"

lemma parse_peer_line:
  assumes "valid_pubkey fs pk" "valid_addr sa rs a"
  shows "parse_peer_info fs rs (peer_line sa (pk, a)) = Ok (pk, Some a)"
proof -
  have "split_on (CHR ''@'') (peer_line sa (pk, a)) = [hex_str pk, sa a]"
    using pubkey_field.split_first [OF assms(1), of "sa a"] addr_field.split_last [OF assms(2)]
    by (simp add: peer_line_def)
  moreover have "hex_str_to_compressed_pubkey fs (hex_str pk) = Some pk"
    by (rule pubkey_field.parse_print [OF assms(1)])
  moreover obtain more where "rs (sa a) = Some (a # more)"
    using assms(2) by (auto simp: valid_addr_def)
  ultimately show ?thesis by (simp add: parse_peer_info_def Let_def)
qed

lemma peer_line_chars:
  assumes "valid_addr sa rs a" "c \<in> set (peer_line sa (pk, a))"
  shows "\<not> is_ws c"
proof -
  have "\<not> is_ws d" if "is_hex d" for d using that by (auto simp: is_hex_iff is_ws_def)
  moreover have "\<not> is_ws (CHR ''@'')" by (simp add: is_ws_def)
  ultimately show ?thesis
    using assms is_hex_str [of c pk] by (auto simp: peer_line_def valid_addr_def)
qed

lemma ws_chars: "is_ws newline" "is_ws (CHR 0x0D)"
  by (simp_all add: is_ws_def)

lemma peer_line_plain:
  assumes "valid_addr sa rs a"
  shows "peer_line sa (pk, a) \<noteq> [] \<and> newline \<notin> set (peer_line sa (pk, a))
    \<and> CHR 0x0D \<notin> set (peer_line sa (pk, a)) \<and> trim (peer_line sa (pk, a)) = peer_line sa (pk, a)"
proof -
  have "newline \<notin> set (peer_line sa (pk, a))" "CHR 0x0D \<notin> set (peer_line sa (pk, a))"
    using peer_line_chars [OF assms] ws_chars by blast+
  moreover have "trim (peer_line sa (pk, a)) = peer_line sa (pk, a)"
    using peer_line_chars [OF assms] by (intro trim_id) blast
  ultimately show ?thesis by (simp add: peer_line_def)
qed

lemma lines_of_peers:
  assumes "valid_peers fs sa rs ps"
  shows "lines_of (peers_text sa ps) = map (peer_line sa) ps"
proof -
  have "x \<noteq> [] \<and> newline \<notin> set x \<and> CHR 0x0D \<notin> set x" if x: "x \<in> set (map (peer_line sa) ps)" for x
  proof -
    from x obtain pk a where "x = peer_line sa (pk, a)" "(pk, a) \<in> set ps" by auto
    moreover have "valid_addr sa rs a" using assms calculation(2) by (auto simp: valid_peers_def)
    ultimately show ?thesis using peer_line_plain [of sa rs a pk] by simp
  qed
  then show ?thesis unfolding peers_text_def by (intro lines_of_join) blast
qed

lemma starts_with_line:
  assumes "length pk = 33" "length k = 33"
  shows "starts_with (peer_line sa (k, a)) (hex_str pk) \<longleftrightarrow> k = pk"
  using assms by (auto simp: starts_with_def peer_line_def hex_str_inj)

lemma other_peers_text:
  assumes v: "valid_peers fs sa rs ps" and "length pk = 33"
  shows "other_peers (hex_str pk) (peers_text sa ps) = peers_text sa (filter (\<lambda>p. fst p \<noteq> pk) ps)"
proof -
  have each: "trim (peer_line sa p) = peer_line sa p"
     "starts_with (peer_line sa p) (hex_str pk) \<longleftrightarrow> fst p = pk" if p: "p \<in> set ps" for p
  proof -
    obtain k a where ka: "p = (k, a)" by force
    then have k: "length k = 33" and a: "valid_addr sa rs a"
      using v p by (auto simp: valid_peers_def valid_pubkey_def)
    show "trim (peer_line sa p) = peer_line sa p" using peer_line_plain [OF a] by (simp add: ka)
    show "starts_with (peer_line sa p) (hex_str pk) \<longleftrightarrow> fst p = pk"
      using starts_with_line [OF assms(2) k] by (simp add: ka)
  qed
  have "filter (\<lambda>line. \<not> starts_with (trim line) (hex_str pk)) (map (peer_line sa) ps)
      = map (peer_line sa) (filter (\<lambda>p. fst p \<noteq> pk) ps)"
    unfolding filter_map by (rule arg_cong [where f = "map _"], rule filter_cong) (auto simp: each)
  moreover have "map trim (map (peer_line sa) (filter (\<lambda>p. fst p \<noteq> pk) ps))
      = map (peer_line sa) (filter (\<lambda>p. fst p \<noteq> pk) ps)"
    by (simp add: each)
  ultimately show ?thesis
    by (simp only: other_peers_def lines_of_peers [OF v]) (simp add: peers_text_def)
qed

lemma valid_peers_filter: "valid_peers fs sa rs ps \<Longrightarrow> valid_peers fs sa rs (filter P ps)"
  by (auto simp: valid_peers_def distinct_map_filter)

lemma peers_text_Nil [simp]: "peers_text sa ps = [] \<longleftrightarrow> ps = []"
proof (cases ps)
  case (Cons p ps')
  then show ?thesis by (cases ps') (auto simp: peers_text_def peer_line_def)
qed (simp add: peers_text_def)

lemma join_snoc:
  "xs \<noteq> [] \<Longrightarrow> join_with sep (xs @ [y]) = join_with sep xs @ sep @ y"
  by (induction sep xs rule: join_with.induct) auto

lemma peers_text_snoc:
  "peers_text sa (ps @ [p]) = peers_text sa ps @ (if ps = [] then [] else [newline]) @ peer_line sa p"
  by (cases "ps = []") (simp_all add: peers_text_def join_snoc)

lemma read_peer_lines_valid:
  "valid_peers fs sa rs ps \<Longrightarrow> distinct (map fst (acc @ ps)) \<Longrightarrow>
   read_peer_lines fs rs acc (map (peer_line sa) ps) = Ok (acc @ ps)"
proof (induction ps arbitrary: acc)
  case (Cons p ps)
  obtain pk a where p: "p = (pk, a)" by force
  have "pk \<notin> fst ` set acc" using Cons.prems(2) by (auto simp: p)
  then have "AList.update pk a acc = acc @ [(pk, a)]" by (induction acc) auto
  then show ?case
    using Cons parse_peer_line [of fs pk sa rs a]
    by (auto simp: p valid_peers_def simp del: AList.update.simps)
qed simp

lemma read_peers_text:
  "valid_peers fs sa rs ps \<Longrightarrow> read_channel_peer_data fs rs (Some (peers_text sa ps)) = Ok ps"
proof -
  assume v: "valid_peers fs sa rs ps"
  then have "distinct (map fst ([] @ ps))" by (simp add: valid_peers_def)
  from read_peer_lines_valid [OF v this] show ?thesis
    by (simp add: read_channel_peer_data_def lines_of_peers [OF v])
qed


section \<open>The file refines a map\<close>

definition represents ::
  "(bytes \<Rightarrow> pubkey option) \<Rightarrow> ('a \<Rightarrow> string) \<Rightarrow> (string \<Rightarrow> 'a list option) \<Rightarrow> string option \<Rightarrow>
   (pubkey \<times> 'a) list \<Rightarrow> bool" where
  "represents fs sa rs fl ps \<longleftrightarrow>
     valid_peers fs sa rs ps \<and> (fl = Some (peers_text sa ps) \<or> (fl = None \<and> ps = []))"

lemma represents_read: "represents fs sa rs fl ps \<Longrightarrow> read_channel_peer_data fs rs fl = Ok ps"
  unfolding represents_def by (auto simp: read_peers_text) (simp add: read_channel_peer_data_def)

lemma represents_persist:
  assumes r: "represents fs sa rs fl ps" and pk: "valid_pubkey fs pk" and a: "valid_addr sa rs a"
  shows "represents fs sa rs (persist_channel_peer sa pk a fl) (filter (\<lambda>p. fst p \<noteq> pk) ps @ [(pk, a)])"
proof -
  let ?ps = "filter (\<lambda>p. fst p \<noteq> pk) ps"
  have v: "valid_peers fs sa rs ps" and len: "length pk = 33"
    using r pk by (simp_all add: represents_def valid_pubkey_def)
  have line: "hex_str pk @ ''@'' @ sa a = peer_line sa (pk, a)" by (simp add: peer_line_def)
  have "persist_channel_peer sa pk a fl = Some (peers_text sa (?ps @ [(pk, a)]))"
  proof (cases fl)
    case None
    then have "?ps = []" using r by (simp add: represents_def)
    then show ?thesis using None by (simp add: persist_channel_peer_def peers_text_def peer_line_def)
  next
    case (Some content)
    then have "content = peers_text sa ps" using r by (simp add: represents_def)
    then show ?thesis
      using Some
      by (simp only: persist_channel_peer_def Let_def option.case other_peers_text [OF v len]
          peers_text_snoc peers_text_Nil line)
  qed
  moreover have "valid_peers fs sa rs (?ps @ [(pk, a)])"
    using valid_peers_filter [OF v, of "\<lambda>p. fst p \<noteq> pk"] pk a by (auto simp: valid_peers_def)
  ultimately show ?thesis by (simp add: represents_def)
qed

lemma represents_delete:
  assumes r: "represents fs sa rs fl ps" and len: "length pk = 33"
  shows "represents fs sa rs (delete_channel_peer (hex_str pk) fl) (filter (\<lambda>p. fst p \<noteq> pk) ps)"
proof -
  have v: "valid_peers fs sa rs ps" using r by (simp add: represents_def)
  show ?thesis
    using r valid_peers_filter [OF v]
    by (auto simp: represents_def delete_channel_peer_def other_peers_text [OF v len])
qed

text \<open>What a client asks of the file: peers stored and forgotten, with keys as texts.\<close>

datatype 'a peer_op = Persist pubkey 'a | Forget pubkey

fun run_peer_op :: "('a \<Rightarrow> string) \<Rightarrow> 'a peer_op \<Rightarrow> string option \<Rightarrow> string option" where
  "run_peer_op sa (Persist pk a) fl = persist_channel_peer sa pk a fl"
| "run_peer_op sa (Forget pk) fl = delete_channel_peer (hex_str pk) fl"

text \<open>The abstract map.\<close>

fun abs_peer_op :: "'a peer_op \<Rightarrow> (pubkey \<rightharpoonup> 'a) \<Rightarrow> (pubkey \<rightharpoonup> 'a)" where
  "abs_peer_op (Persist pk a) m = m(pk \<mapsto> a)"
| "abs_peer_op (Forget pk) m = m(pk := None)"

fun valid_peer_op ::
  "(bytes \<Rightarrow> pubkey option) \<Rightarrow> ('a \<Rightarrow> string) \<Rightarrow> (string \<Rightarrow> 'a list option) \<Rightarrow> 'a peer_op \<Rightarrow> bool" where
  "valid_peer_op fs sa rs (Persist pk a) \<longleftrightarrow> valid_pubkey fs pk \<and> valid_addr sa rs a"
| "valid_peer_op fs sa rs (Forget pk) \<longleftrightarrow> valid_pubkey fs pk"

lemma map_of_filter_key: "map_of (filter (\<lambda>p. fst p \<noteq> k) ps) = (map_of ps)(k := None)"
  by (induction ps) auto

lemma represents_op:
  assumes "represents fs sa rs fl ps" and "valid_peer_op fs sa rs op"
  shows "\<exists>qs. represents fs sa rs (run_peer_op sa op fl) qs \<and> map_of qs = abs_peer_op op (map_of ps)"
proof (cases op)
  case (Persist pk a)
  have "map_of (filter (\<lambda>p. fst p \<noteq> pk) ps @ [(pk, a)]) = (map_of ps)(pk \<mapsto> a)"
    by (rule ext) (auto simp: map_add_def map_of_filter_key split: option.split)
  then show ?thesis using represents_persist [OF assms(1), of pk a] assms(2) Persist by auto
next
  case (Forget pk)
  then show ?thesis
    using represents_delete [OF assms(1), of pk] assms(2) map_of_filter_key [of pk ps]
    by (auto simp: valid_pubkey_def)
qed

text \<open>
  C9: the peers file refines a map from keys to addresses: after any sequence of peers stored and
  forgotten, starting without a file, reading it succeeds and gives exactly the peers last stored
  and not forgotten since, each with its last address.
\<close>

theorem peers_file_refines_map:
  assumes "list_all (valid_peer_op from_slice show_addr resolve) ops"
  shows "\<exists>ps. read_channel_peer_data from_slice resolve (fold (run_peer_op show_addr) ops None) = Ok ps
         \<and> distinct (map fst ps) \<and> map_of ps = fold abs_peer_op ops Map.empty"
proof -
  have "\<exists>qs. represents from_slice show_addr resolve (fold (run_peer_op show_addr) ops fl) qs
          \<and> map_of qs = fold abs_peer_op ops (map_of ps)"
    if "represents from_slice show_addr resolve fl ps" for fl ps
    using assms that
  proof (induction ops arbitrary: fl ps)
    case (Cons op ops)
    then obtain qs where "represents from_slice show_addr resolve (run_peer_op show_addr op fl) qs"
      "map_of qs = abs_peer_op op (map_of ps)"
      using represents_op by (metis list.pred_inject(2))
    then show ?case using Cons.IH Cons.prems(1) by fastforce
  qed auto
  from this [of None "[]"] show ?thesis
    using represents_read by (fastforce simp: represents_def valid_peers_def)
qed

theorem peers_file_refines_map_witness:
  "\<exists>ps. read_channel_peer_data Some (\<lambda>t. if t = ''10.0.0.1:9735'' then Some [t] else None)
      (fold (run_peer_op (\<lambda>a. a))
         [Persist (replicate 33 2) ''10.0.0.1:9735'', Persist (replicate 33 3) ''10.0.0.1:9735'',
          Forget (replicate 33 2)] None) = Ok ps
    \<and> map_of ps (replicate 33 3) = Some ''10.0.0.1:9735'' \<and> map_of ps (replicate 33 2) = None"
proof -
  have valid: "list_all (valid_peer_op Some (\<lambda>a. a) (\<lambda>t. if t = ''10.0.0.1:9735'' then Some [t] else None))
      [Persist (replicate 33 2) ''10.0.0.1:9735'', Persist (replicate 33 3) ''10.0.0.1:9735'',
       Forget (replicate 33 2)]"
    by (simp add: valid_pubkey_def valid_addr_def is_ws_def)
  have differ: "replicate 33 (2 :: u8) \<noteq> replicate 33 3" by (simp add: replicate_eq_replicate)
  obtain ps where "read_channel_peer_data Some (\<lambda>t. if t = ''10.0.0.1:9735'' then Some [t] else None)
      (fold (run_peer_op (\<lambda>a. a))
         [Persist (replicate 33 2) ''10.0.0.1:9735'', Persist (replicate 33 3) ''10.0.0.1:9735'',
          Forget (replicate 33 2)] None) = Ok ps"
    "map_of ps = fold abs_peer_op
         [Persist (replicate 33 2) ''10.0.0.1:9735'', Persist (replicate 33 3) ''10.0.0.1:9735'',
          Forget (replicate 33 2)] Map.empty"
    using peers_file_refines_map [OF valid] by blast
  then show ?thesis using differ by (auto simp del: replicate.simps)
qed

text \<open>
  A peer disconnected by another text of its key than the one it prints as (for example in
  upper case, which the parser of keys accepts) stays in the peers file although the request
  succeeds, so the node connects to it again at the next start.
\<close>

theorem disconnect_by_other_text_keeps_peer:
  assumes "represents from_slice show_addr resolve (peers_file s) ps"
    and "from_str key_text = Some pk" and "length key_text = 66" and "\<And>k. hex_str k \<noteq> key_text"
    and "pk \<in> set (connected_peers s)" and "pk \<notin> set counterparties"
  shows "fst (disconnect_peer from_str counterparties key_text s) = Ok ()
         \<and> read_channel_peer_data from_slice resolve
             (peers_file (snd (disconnect_peer from_str counterparties key_text s))) = Ok ps"
proof -
  have v: "valid_peers from_slice show_addr resolve ps" using assms(1) by (simp add: represents_def)
  have other: "other_peers key_text (peers_text show_addr ps) = peers_text show_addr ps"
  proof -
    have each: "trim (peer_line show_addr p) = peer_line show_addr p"
       "\<not> starts_with (peer_line show_addr p) key_text" if p: "p \<in> set ps" for p
    proof -
      obtain k a where ka: "p = (k, a)" by force
      then have k: "length k = 33" and a: "valid_addr show_addr resolve a"
        using v p by (auto simp: valid_peers_def valid_pubkey_def)
      show "trim (peer_line show_addr p) = peer_line show_addr p"
        using peer_line_plain [OF a] by (simp add: ka)
      show "\<not> starts_with (peer_line show_addr p) key_text"
        using k assms(3) assms(4) [of k] by (simp add: starts_with_def peer_line_def ka)
    qed
    have "filter (\<lambda>line. \<not> starts_with (trim line) key_text) (map (peer_line show_addr) ps)
        = map (peer_line show_addr) ps"
      by (intro filter_True) (auto simp: each)
    moreover have "map trim (map (peer_line show_addr) ps) = map (peer_line show_addr) ps"
      by (simp add: each)
    ultimately show ?thesis unfolding other_peers_def lines_of_peers [OF v] by (simp only: peers_text_def)
  qed
  have "represents from_slice show_addr resolve (delete_channel_peer key_text (peers_file s)) ps"
    using assms(1) by (auto simp: represents_def delete_channel_peer_def other)
  then show ?thesis
    using assms(2,5,6) represents_read by (simp add: disconnect_peer_def Let_def)
qed


definition upper_key :: string where
  "upper_key = concat (replicate 33 ''AB'')"

theorem disconnect_by_other_text_keeps_peer_witness:
  "let s = \<lparr>peers_file = Some (peers_text (\<lambda>a. a) [(replicate 33 0xAB, ''10.0.0.1:9735'')]),
             connected_peers = [replicate 33 0xAB]\<rparr>
   in read_channel_peer_data Some (\<lambda>t. Some [t])
        (peers_file (snd (disconnect_peer hex_str_to_vec [] upper_key s)))
      = Ok [(replicate 33 0xAB, ''10.0.0.1:9735'')]"
proof -
  let ?k = "replicate 33 (0xAB :: u8)"
  let ?s = "\<lparr>peers_file = Some (peers_text (\<lambda>a. a) [(?k, ''10.0.0.1:9735'')]), connected_peers = [?k]\<rparr>"
  have rep: "represents Some (\<lambda>a. a) (\<lambda>t. Some [t]) (peers_file ?s) [(?k, ''10.0.0.1:9735'')]"
    by (simp add: represents_def valid_peers_def valid_pubkey_def valid_addr_def is_ws_def)
  have nib: "hex_nibble (CHR ''A'') = Some 10" "hex_nibble (CHR ''B'') = Some 11"
    by (simp_all add: hex_nibble_def)
  have pairs: "hex_pairs (concat (replicate n ''AB'')) = replicate n 0xAB" for n
    by (induction n) (simp_all add: nib)
  have all_hex: "list_all is_hex (concat (replicate n ''AB''))" for n
    by (induction n) (simp_all add: is_hex_def nib)
  have "\<forall>c \<in> set (concat (replicate 33 ''AB'')). is_hex c"
    using all_hex [of 33] unfolding list_all_iff .
  then have from_str: "hex_str_to_vec upper_key = Some ?k"
    unfolding upper_key_def hex_str_to_vec_eq pairs by (rule if_P)
  have len: "length upper_key = 66" by (simp add: upper_key_def length_concat sum_list_replicate)
  have "\<not> hex_str k = upper_key" for k
  proof
    assume eq: "hex_str k = upper_key"
    then have hd: "hd (hex_str k) = CHR ''A''" by (simp add: upper_key_def numeral_eq_Suc)
    have "length (hex_str k) = 66" unfolding eq by (rule len)
    then have "k \<noteq> []" by auto
    then obtain x xs where k: "k = x # xs" by (cases k) auto
    have "unat x div 16 < 16" using unsigned_less [where ?'a = nat and w = x] by simp
    moreover have "of_char (hex_digit m) \<noteq> (65 :: nat)" if "m < 16" for m
      using that by (auto simp: hex_digit_def)
    ultimately have "of_char (hex_digit (unat x div 16)) \<noteq> (65 :: nat)" by blast
    then have "hex_digit (unat x div 16) \<noteq> CHR ''A''" by auto
    then have "hd (hex_str k) \<noteq> CHR ''A''" by (simp add: k hex_str_def hex_byte_def)
    with hd show False by simp
  qed
  from disconnect_by_other_text_keeps_peer
    [where s = ?s and counterparties = "[]" and from_str = hex_str_to_vec and key_text = upper_key, OF rep from_str len this]
  show ?thesis by (simp add: Let_def)
qed

end
