(* ===== verification/Intercept.thy ===== *)
theory Intercept
  imports Stores
begin

text \<open>
  Intercepted HTLCs, the core of an atomic swap for its taker: the arm \<open>HTLCIntercepted\<close> of the LDK
  event handler (\<open>src/src/ldk.rs\<close>, lines 1248-1372), with the state and the environment the whole
  handler works in.

  The channel manager, the RGB wallet and the files of the RGB part of LDK are foreign: \<open>ldk_env\<close>
  is the record of the answers they give, and each call with an effect is appended to \<open>calls\<close> of
  the state, in order.  An answer may depend on the calls made so far.  A file of the LDK data
  directory is its name with its text.
\<close>

section \<open>State and environment\<close>

record channel_details =
  cd_channel_id :: channel_id
  cd_short_channel_id :: "u64 option"
  cd_counterparty :: pubkey

text \<open>A hop of a route, with what the code reads and writes of it.\<close>

record route_hop =
  hop_pubkey :: pubkey
  hop_scid :: u64
  hop_fee_msat :: u64
  hop_rgb_payment :: "(contract_id \<times> u64) option"

datatype ext_call =
    Claim_funds bytes
  | Fail_intercepted bytes
  | Forward_intercepted bytes u64 pubkey u64 "(contract_id \<times> u64) option"
  | Update_rgb_amount string u64 u64
  | Accept_inbound channel_id pubkey
  | Send_begin contract_id string u64 "u64 option"
  | Send_btc_begin string u64
  | Sign_psbt string
  | Upsert_witness txid
  | Post_consignment string txid
  | Funding_generated channel_id pubkey txid
  | Send_end string
  | Send_btc_end string
  | Save_new_asset txid
  | Refresh bool
  | Track_outputs nat channel_id
  | Schedule_forward nat nat
  | Rgb_claim string string contract_id
  | Release_locked txid nat
  | Connect pubkey string
  | Create_inbound_payment "u64 option" nat
  | Write_payment_info payment_hash contract_id u64 bool bool
  | Send_spontaneous "route_hop list" bytes bytes
  | Send_keysend pubkey bytes u64 "(contract_id \<times> u64) option"
  | Pay_invoice payment_hash u64
  | Pay_offer bytes u64
  | Connect_peer pubkey string
  | Create_channel pubkey u64 u64 "channel_id option" "bool \<times> bool \<times> nat option \<times> nat option" "string option"
  | Write_channel_info channel_id contract_id u64 u64
  | Close_channel channel_id pubkey bool

record node = app_stores +
  calls :: "ext_call list"
  rgb_send_lock :: bool
  files :: "(string \<times> string) list"

type_synonym 'a node_action = "(node, unit, 'a) action"
type_synonym 'a handler = "(node, APIError, 'a) action"

definition call :: "ext_call \<Rightarrow> (node, 'e, 'a) action \<Rightarrow> (node, 'e, 'a) action" where
  "call c m s = m (s\<lparr>calls := calls s @ [c]\<rparr>)"

text \<open>A call answered with a boolean, unwrapped: it panics when refused.\<close>

definition call_unwrap :: "(ext_call list \<Rightarrow> bool) \<Rightarrow> ext_call \<Rightarrow> unit node_action" where
  "call_unwrap answer c s =
     (let t = s\<lparr>calls := calls s @ [c]\<rparr>
      in if answer (calls s) then (Ok (), t) else (Panic, t))"

record ldk_env =
  env_now :: u64
  env_io :: bool
  env_channels :: "channel_details list"
  env_rgb :: rgb_files
  fail_intercepted_ok :: "bytes \<Rightarrow> ext_call list \<Rightarrow> bool"
  forward_intercepted_ok :: "bytes \<Rightarrow> ext_call list \<Rightarrow> bool"

section \<open>An intercepted HTLC\<close>

record htlc_intercepted =
  is_swap :: bool
  hi_payment_hash :: payment_hash
  intercept_id :: bytes
  inbound_amount_msat :: u64
  expected_outbound_amount_msat :: u64
  inbound_rgb_amount :: "u64 option"
  expected_outbound_rgb_payment :: "(contract_id \<times> u64) option"
  requested_next_hop_scid :: u64
  prev_short_channel_id :: u64

definition fail_intercepted :: "ldk_env \<Rightarrow> bytes \<Rightarrow> unit node_action" where
  "fail_intercepted env i = call_unwrap (fail_intercepted_ok env i) (Fail_intercepted i)"

text \<open>The same call while the guard of the taker's swaps is alive: a panic poisons that mutex.\<close>

definition fail_intercepted_locked :: "ldk_env \<Rightarrow> bytes \<Rightarrow> unit node_action" where
  "fail_intercepted_locked env i s =
     (case fail_intercepted env i s of
        (Panic, t) \<Rightarrow> (Panic, t\<lparr>taker_store := (taker_store t)\<lparr>poisoned := True\<rparr>\<rparr>)
      | r \<Rightarrow> r)"

definition contract_of :: "rgb_files \<Rightarrow> channel_id \<Rightarrow> contract_id option" where
  "contract_of fs cid = map_option (\<lambda>(info, _). rgb_contract_id info) (get_rgb_channel_info_optional fs cid True)"

text \<open>The value of \<open>fail\<close>: whether the HTLC differs from the swap.\<close>

definition swap_mismatch ::
  "SwapInfo \<Rightarrow> htlc_intercepted \<Rightarrow> contract_id option \<Rightarrow> contract_id option \<Rightarrow> bool" where
  "swap_mismatch info e inbound_contract outbound_contract =
     (if is_from_btc info then
        let net_msat_diff = checked_sub (expected_outbound_amount_msat e) (inbound_amount_msat e)
        in inbound_rgb_amount e \<noteq> Some (qty_to info) \<or> inbound_contract \<noteq> to_asset info
           \<or> net_msat_diff \<noteq> Some (qty_from info)
      else if is_to_btc info then
        let net_msat_diff = saturating_sub (inbound_amount_msat e) (expected_outbound_amount_msat e)
        in map_option snd (expected_outbound_rgb_payment e) \<noteq> Some (qty_from info)
           \<or> outbound_contract \<noteq> from_asset info \<or> net_msat_diff \<noteq> qty_to info
      else
        let net_msat_diff = checked_sub (inbound_amount_msat e) (expected_outbound_amount_msat e)
        in net_msat_diff \<noteq> Some 0
           \<or> map_option snd (expected_outbound_rgb_payment e) \<noteq> Some (qty_from info)
           \<or> outbound_contract \<noteq> from_asset info
           \<or> inbound_rgb_amount e \<noteq> Some (qty_to info) \<or> inbound_contract \<noteq> to_asset info)"

definition handle_htlc_intercepted :: "ldk_env \<Rightarrow> htlc_intercepted \<Rightarrow> unit node_action" where
  "handle_htlc_intercepted env e =
     act_bind (if \<not> is_swap e then fail_intercepted env (intercept_id e) else act_return ()) (\<lambda>_.
     act_bind (act_lift (unwrap (List.find (\<lambda>d. cd_short_channel_id d = Some (prev_short_channel_id e)) (env_channels env)))) (\<lambda>inbound_channel.
     act_bind (act_lift (unwrap (List.find (\<lambda>d. cd_short_channel_id d = Some (requested_next_hop_scid e)) (env_channels env)))) (\<lambda>outbound_channel.
       let inbound_contract = contract_of (env_rgb env) (cd_channel_id inbound_channel);
           outbound_contract = contract_of (env_rgb env) (cd_channel_id outbound_channel)
       in act_bind (on_taker lock_store) (\<lambda>_.
          act_bind (act_get (\<lambda>s. map_of (entries (taker_store s)) (hi_payment_hash e))) (\<lambda>whitelisted.
            case whitelisted of
              None \<Rightarrow> fail_intercepted_locked env (intercept_id e)
            | Some whitelist_swap \<Rightarrow>
                if swap_mismatch (swap_info whitelist_swap) e inbound_contract outbound_contract then
                  act_bind (update_taker_swap_status (env_io env) (env_now env) (hi_payment_hash e) SwapFailed) (\<lambda>_.
                    fail_intercepted env (intercept_id e))
                else
                  act_bind (update_taker_swap_status (env_io env) (env_now env) (hi_payment_hash e) SwapPending) (\<lambda>_.
                    call_unwrap (forward_intercepted_ok env (intercept_id e))
                      (Forward_intercepted (intercept_id e) (requested_next_hop_scid e)
                         (cd_counterparty outbound_channel) (expected_outbound_amount_msat e)
                         (expected_outbound_rgb_payment e))))))))"


subsection \<open>How the steps act on the calls\<close>

lemma fail_intercepted_result:
  "fail_intercepted env i s =
     (if fail_intercepted_ok env i (calls s) then Ok () else Panic, s\<lparr>calls := calls s @ [Fail_intercepted i]\<rparr>)"
  by (simp add: fail_intercepted_def call_unwrap_def Let_def)

lemma lock_taker_result:
  "on_taker lock_store s = (if poisoned (taker_store s) then Panic else Ok (), s)"
  by (simp add: zoom_def lock_store_def)

lemma calls_zoom [simp]:
  "calls (snd (on_maker m1 s)) = calls s"
  "calls (snd (on_taker m1 s)) = calls s"
  "calls (snd (on_inbound m2 s)) = calls s"
  "calls (snd (on_outbound m2 s)) = calls s"
  "calls (snd (on_channel_ids m3 s)) = calls s"
  by (simp_all add: zoom_def split: prod.splits)

lemma calls_update_taker [simp]:
  "calls (snd (update_taker_swap_status io now h st s)) = calls s"
  by (simp add: update_taker_swap_status_def)

lemma calls_update_takerD:
  "update_taker_swap_status io now h st s = (r, t) \<Longrightarrow> calls t = calls s"
  by (metis calls_update_taker snd_conv)

lemma update_taker_known:
  assumes "\<not> poisoned (taker_store s)" "map_of (entries (taker_store s)) h = Some d" "st \<noteq> SwapWaiting"
  shows "update_taker_swap_status True now h st s =
    (Ok (), s\<lparr>taker_store := saved h (the (set_swap_status now st d)) (taker_store s)\<rparr>)"
  using assms
  by (cases st)
    (auto simp: update_taker_swap_status_def zoom_def update_swap_result set_swap_status_def
      saved_def put_and_save_result)

text \<open>The part of the handler after the first answer.\<close>

definition intercepted_channels ::
  "ldk_env \<Rightarrow> htlc_intercepted \<Rightarrow> (channel_details \<times> channel_details) option" where
  "intercepted_channels env e =
     (case (List.find (\<lambda>d. cd_short_channel_id d = Some (prev_short_channel_id e)) (env_channels env),
            List.find (\<lambda>d. cd_short_channel_id d = Some (requested_next_hop_scid e)) (env_channels env)) of
        (Some i, Some out) \<Rightarrow> Some (i, out)
      | _ \<Rightarrow> None)"

definition forward_call :: "htlc_intercepted \<Rightarrow> channel_details \<Rightarrow> ext_call" where
  "forward_call e out = Forward_intercepted (intercept_id e) (requested_next_hop_scid e)
     (cd_counterparty out) (expected_outbound_amount_msat e) (expected_outbound_rgb_payment e)"

lemma handle_htlc_eq:
  "handle_htlc_intercepted env e s =
     act_bind (if \<not> is_swap e then fail_intercepted env (intercept_id e) else act_return ()) (\<lambda>_ s.
       case intercepted_channels env e of
         None \<Rightarrow> (Panic, s)
       | Some (inb, out) \<Rightarrow>
           if poisoned (taker_store s) then (Panic, s)
           else (case map_of (entries (taker_store s)) (hi_payment_hash e) of
                   None \<Rightarrow> fail_intercepted_locked env (intercept_id e) s
                 | Some d \<Rightarrow>
                     if swap_mismatch (swap_info d) e (contract_of (env_rgb env) (cd_channel_id inb))
                          (contract_of (env_rgb env) (cd_channel_id out))
                     then act_bind (update_taker_swap_status (env_io env) (env_now env) (hi_payment_hash e) SwapFailed)
                            (\<lambda>_. fail_intercepted env (intercept_id e)) s
                     else act_bind (update_taker_swap_status (env_io env) (env_now env) (hi_payment_hash e) SwapPending)
                            (\<lambda>_. call_unwrap (forward_intercepted_ok env (intercept_id e)) (forward_call e out)) s)) s"
  unfolding handle_htlc_intercepted_def
  by (rule arg_cong [where f = "\<lambda>f. act_bind _ f s"])
    (auto simp: fun_eq_iff act_bind_def act_lift_def act_get_def lock_taker_result Let_def unwrap_def
      intercepted_channels_def forward_call_def split: option.splits)

lemma htlc_calls:
  assumes "handle_htlc_intercepted env e s = (r, t)" and "c \<in> set (drop (length (calls s)) (calls t))"
  shows "c = Fail_intercepted (intercept_id e) \<or>
    (\<exists>inb out d. intercepted_channels env e = Some (inb, out)
        \<and> map_of (entries (taker_store s)) (hi_payment_hash e) = Some d
        \<and> \<not> swap_mismatch (swap_info d) e (contract_of (env_rgb env) (cd_channel_id inb))
              (contract_of (env_rgb env) (cd_channel_id out))
        \<and> c = forward_call e out)"
  using assms
  by (auto simp: handle_htlc_eq act_bind_def act_return_def fail_intercepted_result
      fail_intercepted_locked_def call_unwrap_def Let_def dest!: calls_update_takerD
      split: if_splits option.splits prod.splits outcome.splits)

section \<open>Properties of intercepted HTLCs\<close>

text \<open>
  C1: the only calls an intercepted HTLC makes the node place are failing it and, when its payment
  hash is that of a swap the taker accepted, forwarding it as requested through the channel asked
  for, with the amounts of the swap: for a swap that gives bitcoin, the outgoing amount exceeds the
  incoming one by exactly \<open>qty_from\<close> and \<open>qty_to\<close> units of the asset come in; for one that takes
  bitcoin, \<open>qty_from\<close> units of the asset go out and the incoming amount exceeds the outgoing one by
  exactly \<open>qty_to\<close>; for an asset against an asset, both asset amounts are those of the swap and the
  bitcoin amounts are equal.
\<close>

theorem forwarded_htlc_matches_swap:
  assumes "handle_htlc_intercepted env e s = (r, t)"
    and "c \<in> set (drop (length (calls s)) (calls t))"
    and "\<And>d. map_of (entries (taker_store s)) (hi_payment_hash e) = Some d \<Longrightarrow> qty_to (swap_info d) > 0"
  shows "c = Fail_intercepted (intercept_id e) \<or>
    (\<exists>d inb out. map_of (entries (taker_store s)) (hi_payment_hash e) = Some d
       \<and> intercepted_channels env e = Some (inb, out)
       \<and> c = Forward_intercepted (intercept_id e) (requested_next_hop_scid e) (cd_counterparty out)
               (expected_outbound_amount_msat e) (expected_outbound_rgb_payment e)
       \<and> (case (from_asset (swap_info d), to_asset (swap_info d)) of
            (None, to) \<Rightarrow>
              unat (expected_outbound_amount_msat e) = unat (inbound_amount_msat e) + unat (qty_from (swap_info d))
              \<and> inbound_rgb_amount e = Some (qty_to (swap_info d))
              \<and> contract_of (env_rgb env) (cd_channel_id inb) = to
          | (Some a, None) \<Rightarrow>
              unat (inbound_amount_msat e) = unat (expected_outbound_amount_msat e) + unat (qty_to (swap_info d))
              \<and> map_option snd (expected_outbound_rgb_payment e) = Some (qty_from (swap_info d))
              \<and> contract_of (env_rgb env) (cd_channel_id out) = Some a
          | (Some a, Some b) \<Rightarrow>
              unat (inbound_amount_msat e) = unat (expected_outbound_amount_msat e)
              \<and> map_option snd (expected_outbound_rgb_payment e) = Some (qty_from (swap_info d))
              \<and> contract_of (env_rgb env) (cd_channel_id out) = Some a
              \<and> inbound_rgb_amount e = Some (qty_to (swap_info d))
              \<and> contract_of (env_rgb env) (cd_channel_id inb) = Some b))"
    (is "?F \<or> (\<exists>d inb out. ?P d inb out)")
proof -
  from htlc_calls [OF assms(1,2)] show ?thesis
  proof (elim disjE exE conjE)
    fix inb out d
    assume ch: "intercepted_channels env e = Some (inb, out)"
      and d: "map_of (entries (taker_store s)) (hi_payment_hash e) = Some d"
      and m: "\<not> swap_mismatch (swap_info d) e (contract_of (env_rgb env) (cd_channel_id inb))
              (contract_of (env_rgb env) (cd_channel_id out))"
      and c: "c = forward_call e out"
    have pos: "qty_to (swap_info d) \<noteq> 0" using assms(3) [OF d] by auto
    have "?P d inb out"
      using m ch d c pos
      by (auto simp: swap_mismatch_def swap_kind_defs forward_call_def checked_sub_Some word_le_nat_alt
          saturating_sub_pos split: option.splits)
    then show ?thesis by blast
  qed simp
qed


text \<open>
  C7: an intercepted swap HTLC of a whitelisted swap with matching amounts is forwarded and the swap
  becomes pending with its start time, on disk too; one that does not match is failed and the swap
  becomes failed.  Neither the status nor the expiry of the swap is consulted, so the result is the
  same for a swap that already succeeded, failed or expired.
\<close>

theorem whitelisted_htlc_handled:
  assumes "is_swap e" and "intercepted_channels env e = Some (inb, out)"
    and "\<not> poisoned (taker_store s)" and "map_of (entries (taker_store s)) (hi_payment_hash e) = Some d"
    and "env_io env" and "forward_intercepted_ok env (intercept_id e) (calls s)"
    and "fail_intercepted_ok env (intercept_id e) (calls s)"
  shows "handle_htlc_intercepted env e s =
    (let mismatch = swap_mismatch (swap_info d) e (contract_of (env_rgb env) (cd_channel_id inb))
                      (contract_of (env_rgb env) (cd_channel_id out));
         d' = (if mismatch then d\<lparr>completed_at := Some (env_now env), status := SwapFailed\<rparr>
               else d\<lparr>initiated_at := Some (env_now env), status := SwapPending\<rparr>)
     in (Ok (), s\<lparr>taker_store := saved (hi_payment_hash e) d' (taker_store s),
                 calls := calls s @ [if mismatch then Fail_intercepted (intercept_id e) else forward_call e out]\<rparr>))"
  using assms
  by (simp add: handle_htlc_eq act_bind_def act_return_def update_taker_known set_swap_status_def
      fail_intercepted_result call_unwrap_def Let_def)

text \<open>The example node: a coloured channel \<open>1\<close> and a plain channel \<open>2\<close>, and a swap of bitcoin for
  ten units of an asset that succeeded long ago.\<close>

definition example_env :: ldk_env where
  "example_env =
     \<lparr>env_now = 1000, env_io = True,
      env_channels = [\<lparr>cd_channel_id = [1], cd_short_channel_id = Some 1, cd_counterparty = [3]\<rparr>,
                      \<lparr>cd_channel_id = [2], cd_short_channel_id = Some 2, cd_counterparty = [4]\<rparr>],
      env_rgb = \<lparr>is_channel_rgb = (\<lambda>c. c = [1]), rgb_channel_info_path = (\<lambda>c p. c),
                 parse_rgb_channel_info = (\<lambda>p. \<lparr>rgb_contract_id = ''rgb:a'', local_rgb_amount = 5, remote_rgb_amount = 50\<rparr>)\<rparr>,
      fail_intercepted_ok = (\<lambda>i cs. Fail_intercepted i \<notin> set cs),
      forward_intercepted_ok = (\<lambda>i cs. Fail_intercepted i \<notin> set cs)\<rparr>"

definition example_swap :: SwapData where
  "example_swap =
     \<lparr>swap_info = \<lparr>qty_from = 5000, qty_to = 10, from_asset = None, to_asset = Some ''rgb:a'', expiry = 500\<rparr>,
      status = SwapSucceeded, requested_at = 1, initiated_at = Some 2, completed_at = Some 3\<rparr>"

definition example_node :: node where
  "example_node =
     \<lparr>maker_store = empty_store, taker_store = open_store (Some [([9], example_swap)]),
      inbound_store = empty_store, outbound_store = empty_store, channel_ids_store = empty_store,
      calls = [], rgb_send_lock = False, files = []\<rparr>"

definition example_htlc :: "(contract_id \<times> u64) option \<Rightarrow> htlc_intercepted" where
  "example_htlc rgb =
     \<lparr>is_swap = True, hi_payment_hash = [9], intercept_id = [7], inbound_amount_msat = 3000000,
      expected_outbound_amount_msat = 3005000, inbound_rgb_amount = Some 10,
      expected_outbound_rgb_payment = rgb, requested_next_hop_scid = 2, prev_short_channel_id = 1\<rparr>"

lemma example_htlc_simps:
  "intercepted_channels example_env (example_htlc rgb) =
     Some (\<lparr>cd_channel_id = [1], cd_short_channel_id = Some 1, cd_counterparty = [3]\<rparr>,
           \<lparr>cd_channel_id = [2], cd_short_channel_id = Some 2, cd_counterparty = [4]\<rparr>)"
  "\<not> swap_mismatch (swap_info example_swap) (example_htlc rgb) (contract_of (env_rgb example_env) [1]) oc"
  by (simp_all add: intercepted_channels_def example_env_def example_htlc_def swap_mismatch_def
      swap_kind_defs example_swap_def contract_of_def get_rgb_channel_info_optional_def checked_sub_def)

theorem whitelisted_htlc_handled_witness:
  "calls (snd (handle_htlc_intercepted example_env (example_htlc None) example_node))
     = [Forward_intercepted [7] 2 [4] 3005000 None]"
  using whitelisted_htlc_handled
    [of "example_htlc None" example_env "\<lparr>cd_channel_id = [1], cd_short_channel_id = Some 1, cd_counterparty = [3]\<rparr>"
        "\<lparr>cd_channel_id = [2], cd_short_channel_id = Some 2, cd_counterparty = [4]\<rparr>" example_node example_swap]
    example_htlc_simps [of None]
  by (simp add: example_htlc_def example_node_def example_env_def forward_call_def Let_def)

theorem forwarded_htlc_matches_swap_witness:
  "\<exists>d. map_of (entries (taker_store example_node)) [9] = Some d
     \<and> unat (3005000 :: u64) = unat (3000000 :: u64) + unat (qty_from (swap_info d))"
proof -
  obtain r t where rt: "handle_htlc_intercepted example_env (example_htlc None) example_node = (r, t)" by force
  have "handle_htlc_intercepted example_env (example_htlc None) example_node
      = (Ok (), example_node\<lparr>taker_store := saved [9] (example_swap\<lparr>initiated_at := Some 1000, status := SwapPending\<rparr>) (taker_store example_node),
                calls := [forward_call (example_htlc None) \<lparr>cd_channel_id = [2], cd_short_channel_id = Some 2, cd_counterparty = [4]\<rparr>]\<rparr>)"
    using example_htlc_simps [of None]
    by (simp add: handle_htlc_eq act_bind_def act_return_def update_taker_known set_swap_status_def
        call_unwrap_def example_htlc_def example_node_def example_env_def Let_def)
  then have c: "forward_call (example_htlc None) \<lparr>cd_channel_id = [2], cd_short_channel_id = Some 2, cd_counterparty = [4]\<rparr>
      \<in> set (drop (length (calls example_node)) (calls t))"
    using rt by (auto simp: example_node_def)
  have "qty_to (swap_info d) > 0" if "map_of (entries (taker_store example_node)) (hi_payment_hash (example_htlc None)) = Some d" for d
    using that by (auto simp: example_node_def example_htlc_def example_swap_def split: if_splits)
  from forwarded_htlc_matches_swap [OF rt c this] show ?thesis
    by (auto simp: forward_call_def example_node_def example_htlc_def example_swap_def)
qed

text \<open>
  For a swap that gives bitcoin, the asset the HTLC makes the node send out is not checked: with
  the whitelisted swap of the example, an HTLC that also takes any amount of any asset out of the
  outgoing channel is forwarded like one that takes none.
\<close>

theorem btc_swap_forwards_foreign_asset:
  "calls (snd (handle_htlc_intercepted example_env (example_htlc (Some (c, n))) example_node))
     = [Forward_intercepted [7] 2 [4] 3005000 (Some (c, n))]"
  using example_htlc_simps [of "Some (c, n)"]
  by (simp add: handle_htlc_eq act_bind_def act_return_def update_taker_known set_swap_status_def
      call_unwrap_def example_htlc_def example_node_def example_env_def forward_call_def Let_def)

text \<open>
  An intercepted HTLC that is not a swap is failed, but the handler goes on: when its hash is not
  whitelisted it fails the same HTLC again, and as LDK refuses to fail an HTLC twice, that panics
  with the lock of the taker's swaps held; from then on every operation on those swaps panics.
\<close>

theorem non_swap_htlc_poisons:
  assumes "\<not> is_swap e" and "intercepted_channels env e = Some (inb, out)"
    and "\<not> poisoned (taker_store s)" and "map_of (entries (taker_store s)) (hi_payment_hash e) = None"
    and "\<And>i cs. fail_intercepted_ok env i cs \<longleftrightarrow> Fail_intercepted i \<notin> set cs"
    and "Fail_intercepted (intercept_id e) \<notin> set (calls s)"
  shows "\<exists>t. handle_htlc_intercepted env e s = (Panic, t) \<and> poisoned (taker_store t)
         \<and> fst (taker_swaps t :: (unit, (payment_hash \<times> SwapData) list) outcome \<times> node) = Panic"
  using assms
  by (simp add: handle_htlc_eq act_bind_def fail_intercepted_result fail_intercepted_locked_def
      taker_swaps_def zoom_def read_store_def lock_store_def)

theorem non_swap_htlc_poisons_witness:
  "fst (handle_htlc_intercepted example_env
      ((example_htlc None)\<lparr>is_swap := False, hi_payment_hash := [8]\<rparr>) example_node) = Panic"
  using non_swap_htlc_poisons
    [of "(example_htlc None)\<lparr>is_swap := False, hi_payment_hash := [8]\<rparr>" example_env _ _ example_node]
  by (auto simp: example_htlc_def example_env_def intercepted_channels_def example_node_def)

end
