(* ===== verification/AssetData.thy ===== *)
theory AssetData
  imports Utils
begin

text \<open>
  The data of assets, outputs and transfers as the RGB library has it (\<open>lightning::rgb_utils\<close>), which the
  wallet adapter builds and the handlers turn into the types of the interface (\<open>AssetViews\<close>).
\<close>

datatype bitcoin_network = Mainnet | Testnet | Testnet4 | Signet | Regtest

type_synonym outpoint = "txid \<times> nat"

datatype AssetSchema = Nia | Cfa | Uda | Ifa

datatype Assignment = Fungible u64 | NonFungible | InflationRight u64 | ReplaceRight | Any

record balance =
  settled_balance :: u64
  future_balance :: u64
  spendable_balance :: u64

section \<open>Assets\<close>

record media =
  me_file_path :: string
  me_digest :: string
  me_mime :: string

record embedded_media =
  em_mime :: string
  em_data :: bytes

record proof_of_reserves =
  pr_utxo :: outpoint
  pr_proof :: bytes

record token_light =
  tl_index :: u32
  tl_ticker :: "string option"
  tl_name :: "string option"
  tl_details :: "string option"
  tl_embedded_media :: bool
  tl_media :: "media option"
  tl_attachments :: "(u8 \<times> media) list"
  tl_reserves :: bool

record token =
  tk_index :: u32
  tk_ticker :: "string option"
  tk_name :: "string option"
  tk_details :: "string option"
  tk_embedded_media :: "embedded_media option"
  tk_media :: "media option"
  tk_attachments :: "(u8 \<times> media) list"
  tk_reserves :: "proof_of_reserves option"

record asset_nia =
  an_asset_id :: string
  an_added_at :: int
  an_balance :: balance
  an_details :: "string option"
  an_issued_supply :: u64
  an_ticker :: string
  an_name :: string
  an_precision :: nat
  an_timestamp :: int
  an_media :: "media option"

record asset_cfa =
  ac_asset_id :: string
  ac_added_at :: int
  ac_balance :: balance
  ac_details :: "string option"
  ac_issued_supply :: u64
  ac_ticker :: string
  ac_name :: string
  ac_precision :: nat
  ac_timestamp :: int
  ac_media :: "media option"

record asset_uda =
  au_asset_id :: string
  au_added_at :: int
  au_balance :: balance
  au_details :: "string option"
  au_ticker :: string
  au_name :: string
  au_precision :: nat
  au_timestamp :: int
  au_token :: "token_light option"

record assets =
  nia_assets :: "asset_nia list option"
  cfa_assets :: "asset_cfa list option"
  uda_assets :: "asset_uda list option"

record metadata =
  md_asset_iface :: string
  md_asset_schema :: AssetSchema
  md_issued_supply :: u64
  md_timestamp :: int
  md_name :: string
  md_precision :: nat
  md_ticker :: "string option"
  md_details :: "string option"
  md_initial_supply :: u64
  md_max_supply :: u64
  md_known_circulating_supply :: u64
  md_token :: "token option"

section \<open>Outputs, transactions and transfers\<close>

record rgb_allocation =
  al_asset_id :: "string option"
  al_amount :: u64
  al_assignment :: Assignment
  al_settled :: bool

text \<open>An output of a transaction; an unspent one.\<close>

record txout =
  to_value :: u64
  to_script :: string
  to_is_op_return :: bool

record unspent =
  un_txid :: txid
  un_vout :: nat
  un_btc_amount :: u64
  un_colorable :: bool
  un_txout :: txout
  un_allocations :: "rgb_allocation list"

datatype TransactionType = RgbSend | Drain | CreateUtxos | User

record block_time =
  bt_height :: u32
  bt_timestamp :: u64

record rgb_transaction =
  rt_transaction_type :: TransactionType
  rt_txid :: txid
  rt_received :: u64
  rt_sent :: u64
  rt_fee :: u64
  rt_confirmation_time :: "block_time option"

datatype TransferStatus = WaitingCounterparty | WaitingConfirmations | Settled | Failed

datatype TransferKind = Issuance | ReceiveBlind | ReceiveWitness | Send | Inflation

datatype TransportType = JsonRpc

record transport_endpoint =
  te_endpoint :: string
  te_transport_type :: TransportType
  te_used :: bool

record rgb_transfer =
  tf_idx :: int
  tf_created_at :: int
  tf_updated_at :: int
  tf_status :: TransferStatus
  tf_requested_assignment :: "Assignment option"
  tf_assignments :: "Assignment list"
  tf_kind :: TransferKind
  tf_txid :: "txid option"
  tf_recipient_id :: "string option"
  tf_receive_utxo :: "outpoint option"
  tf_change_utxo :: "outpoint option"
  tf_expiration :: "int option"
  tf_transport_endpoints :: "transport_endpoint list"

record receive_data =
  rd_recipient_id :: string
  rd_invoice :: string
  rd_expiration_timestamp :: "int option"
  rd_batch_transfer_idx :: int

end
