(* ===== verification/Events.thy ===== *)
theory Events
  imports Intercept AssetData
begin

text \<open>
  The other events of \<open>handle_ldk_events\<close> (\<open>src/src/ldk.rs\<close>, lines 483-1399): funding a channel,
  payments received, sent, failed and forwarded, the life of a channel, and the claim of RGB assets
  when it closes.

  \<open>event_env\<close> extends the environment of \<open>Intercept\<close> with the answers of the RGB wallet and the
  readers of files the RGB part of LDK writes.  A failed event is the error \<open>ReplayEvent\<close>, the unit
  value here.
\<close>

section \<open>Environment\<close>

record rgb_payment_info =
  swap_payment :: bool
  pi_inbound :: bool
  pi_amount :: u64

record event_env = ldk_env +
  segwit_address :: "string \<Rightarrow> string option"
  recipient_id_of :: "string \<Rightarrow> string"
  pending_info :: "channel_id \<Rightarrow> rgb_info \<times> AssetSchema"
  send_begin_ans :: "(rgb_lib_error, string) outcome"
  send_btc_begin_ans :: "(rgb_lib_error, string) outcome"
  sign_psbt_ans :: "string \<Rightarrow> (rgb_lib_error, string) outcome"
  psbt_txid :: "string \<Rightarrow> txid option"
  psbt_text :: "string \<Rightarrow> string"
  write_ok :: "string \<Rightarrow> bool"
  upsert_ok :: bool
  rgb_info_json :: "rgb_info \<Rightarrow> string"
  proxy_endpoint :: string
  endpoint_of :: "string \<Rightarrow> string option"
  post_consignment_ok :: bool
  funding_generated_ok :: bool
  send_end_ok :: bool
  send_btc_end_ok :: bool
  load_consignment_ok :: bool
  save_new_asset_error :: "string option"
  refresh_ok :: "bool \<Rightarrow> bool"
  track_ok :: bool
  payment_info_of :: "string \<Rightarrow> rgb_payment_info"
  read_channel_info :: "channel_id \<Rightarrow> rgb_info option"
  has_transaction :: "txid \<Rightarrow> bool"
  sha256_hex :: "string \<Rightarrow> string"
  get_claim_utxo_ans :: "(string, string) outcome"
  claim_ans :: "string \<Rightarrow> string \<Rightarrow> contract_id \<Rightarrow> (string, unit) outcome"
  connect_ok :: "pubkey \<Rightarrow> string \<Rightarrow> bool"

type_synonym 'z eenv = "'z event_env_scheme"

definition write_file :: "'z eenv \<Rightarrow> string \<Rightarrow> string \<Rightarrow> unit node_action" where
  "write_file env name content s =
     (if write_ok env name then (Ok (), s\<lparr>files := AList.update name content (files s)\<rparr>) else (Panic, s))"

section \<open>Funding a channel\<close>

definition assignment_of :: "AssetSchema \<Rightarrow> u64 \<Rightarrow> (unit, Assignment) outcome" where
  "assignment_of schema amount =
     (case schema of Nia \<Rightarrow> Ok (Fungible amount) | Cfa \<Rightarrow> Ok (Fungible amount) | Uda \<Rightarrow> Ok NonFungible
                   | Ifa \<Rightarrow> Panic)"

text \<open>The first half: the unsigned PSBT, with the asset for a coloured channel.\<close>

definition funding_psbt ::
  "'z eenv \<Rightarrow> string \<Rightarrow> u64 \<Rightarrow> (rgb_info \<times> AssetSchema) option \<Rightarrow> (string \<times> contract_id option) node_action" where
  "funding_psbt env addr channel_value rgb_channel_info =
     (case rgb_channel_info of
        Some (info, schema) \<Rightarrow>
          act_bind (act_lift (assignment_of schema (local_rgb_amount info))) (\<lambda>assignment.
            call (Send_begin (rgb_contract_id info) (recipient_id_of env addr) channel_value
                    (case assignment of Fungible n \<Rightarrow> Some n | _ \<Rightarrow> None))
              (act_bind (act_lift (unwrap_res (send_begin_ans env))) (\<lambda>psbt.
                 act_return (psbt, Some (rgb_contract_id info)))))
      | None \<Rightarrow>
          call (Send_btc_begin addr channel_value)
            (act_bind (act_lift (unwrap_res (send_btc_begin_ans env))) (\<lambda>psbt. act_return (psbt, None))))"

text \<open>What a coloured channel adds: the witness, the channel information for the consignment, and
  the consignment; a consignment that cannot be posted makes LDK replay the event.\<close>

definition post_channel_consignment :: "'z eenv \<Rightarrow> rgb_info \<Rightarrow> txid \<Rightarrow> unit node_action" where
  "post_channel_consignment env info funding_txid =
     call (Upsert_witness funding_txid)
       (act_bind (act_lift (if upsert_ok env then Ok () else Panic)) (\<lambda>_.
        act_bind (write_file env (''temp_rgb_info_'' @ funding_txid) (rgb_info_json env info)) (\<lambda>_.
        act_bind (act_lift (unwrap (endpoint_of env (proxy_endpoint env)))) (\<lambda>proxy_url.
          call (Post_consignment proxy_url funding_txid)
            (act_lift (if post_consignment_ok env then Ok () else Err ()))))))"

definition handle_funding_generation_ready ::
  "'z eenv \<Rightarrow> channel_id \<Rightarrow> pubkey \<Rightarrow> u64 \<Rightarrow> string \<Rightarrow> unit node_action" where
  "handle_funding_generation_ready env temporary_channel_id counterparty_node_id channel_value output_script =
     act_bind (act_lift (unwrap (segwit_address env output_script))) (\<lambda>addr.
       let rgb_channel_info = (if is_channel_rgb (env_rgb env) temporary_channel_id
                               then Some (pending_info env temporary_channel_id) else None)
       in act_bind (funding_psbt env addr channel_value rgb_channel_info) (\<lambda>(unsigned_psbt, asset_id).
          act_bind (call (Sign_psbt unsigned_psbt) (act_lift (unwrap_res (sign_psbt_ans env unsigned_psbt)))) (\<lambda>signed_psbt.
          act_bind (act_lift (unwrap (psbt_txid env signed_psbt))) (\<lambda>funding_txid.
          act_bind (write_file env (''psbt_'' @ funding_txid) (psbt_text env signed_psbt)) (\<lambda>_.
          act_bind (case rgb_channel_info of
                      Some (info, _) \<Rightarrow> post_channel_consignment env info funding_txid
                    | None \<Rightarrow> act_return ()) (\<lambda>_.
            call (Funding_generated temporary_channel_id counterparty_node_id funding_txid)
              (if funding_generated_ok env then act_return ()
               else act_modify (\<lambda>s. s\<lparr>rgb_send_lock := False\<rparr>))))))))"

section \<open>Payments\<close>

datatype PaymentPurpose =
    Bolt11InvoicePayment "bytes option" bytes
  | Bolt12OfferPayment "bytes option" bytes
  | Bolt12RefundPayment "bytes option" bytes
  | SpontaneousPayment bytes

definition purpose_preimage :: "PaymentPurpose \<Rightarrow> bytes option" where
  "purpose_preimage p =
     (case p of
        Bolt11InvoicePayment pre _ \<Rightarrow> pre
      | Bolt12OfferPayment pre _ \<Rightarrow> pre
      | Bolt12RefundPayment pre _ \<Rightarrow> pre
      | SpontaneousPayment pre \<Rightarrow> Some pre)"

definition purpose_secret :: "PaymentPurpose \<Rightarrow> bytes option" where
  "purpose_secret p =
     (case p of
        Bolt11InvoicePayment _ sec \<Rightarrow> Some sec
      | Bolt12OfferPayment _ sec \<Rightarrow> Some sec
      | Bolt12RefundPayment _ sec \<Rightarrow> Some sec
      | SpontaneousPayment _ \<Rightarrow> None)"

definition handle_payment_claimable :: "PaymentPurpose \<Rightarrow> unit node_action" where
  "handle_payment_claimable purpose =
     act_bind (act_lift (unwrap (purpose_preimage purpose))) (\<lambda>pre. call (Claim_funds pre) (act_return ()))"

subsection \<open>The RGB amounts of a channel after a payment\<close>

fun contains_str :: "string \<Rightarrow> string \<Rightarrow> bool" where
  "contains_str p [] \<longleftrightarrow> p = []"
| "contains_str p (c # cs) \<longleftrightarrow> take (length p) (c # cs) = p \<or> contains_str p cs"

text \<open>\<open>str::replace\<close> with the empty text.\<close>

function remove_str :: "string \<Rightarrow> string \<Rightarrow> string" where
  "remove_str p [] = []"
| "remove_str p (c # cs) =
     (if p \<noteq> [] \<and> take (length p) (c # cs) = p then remove_str p (drop (length p) (c # cs))
      else c # remove_str p cs)"
  by pat_completeness auto

termination
  by (relation "measure (\<lambda>(p, s). length s)") (auto simp: neq_Nil_conv)

text \<open>\<open>set_extension\<close> with the empty text: everything from the last dot on goes, unless the name
  starts with it.\<close>

definition without_extension :: "string \<Rightarrow> string" where
  "without_extension name =
     (let r = dropWhile (\<lambda>c. c \<noteq> CHR ''.'') (rev name)
      in if r = [] \<or> tl r = [] then name else rev (tl r))"

fun update_amount_loop :: "'z eenv \<Rightarrow> string \<Rightarrow> bool \<Rightarrow> string list \<Rightarrow> unit node_action" where
  "update_amount_loop env hash_str receiver [] = act_return ()"
| "update_amount_loop env hash_str receiver (name # names) =
     (let stem = without_extension name
      in if contains_str hash_str name \<and> stem \<noteq> hash_str then
           let p = payment_info_of env name; channel_id_str = remove_str hash_str stem
           in if swap_payment p \<and> receiver \<noteq> pi_inbound p
              then update_amount_loop env hash_str receiver names
              else call (if receiver then Update_rgb_amount channel_id_str 0 (pi_amount p)
                         else Update_rgb_amount channel_id_str (pi_amount p) 0)
                     (act_return ())
         else update_amount_loop env hash_str receiver names)"

definition update_rgb_channel_amount :: "'z eenv \<Rightarrow> payment_hash \<Rightarrow> bool \<Rightarrow> unit node_action" where
  "update_rgb_channel_amount env h receiver =
     act_bind (act_get (\<lambda>s. map fst (files s))) (\<lambda>names. update_amount_loop env (hex_str h) receiver names)"

definition handle_payment_claimed ::
  "'z eenv \<Rightarrow> payment_hash \<Rightarrow> PaymentPurpose \<Rightarrow> u64 \<Rightarrow> pubkey option \<Rightarrow> unit node_action" where
  "handle_payment_claimed env h purpose amount_msat receiver_node_id =
     act_bind (update_rgb_channel_amount env h True) (\<lambda>_.
     act_bind (is_maker_swap h) (\<lambda>maker.
       if maker then update_maker_swap_status (env_io env) (env_now env) h SwapSucceeded
       else act_bind (act_lift (unwrap receiver_node_id)) (\<lambda>receiver.
              upsert_inbound_payment (env_io env) (env_now env) h HTLCSucceeded
                (purpose_preimage purpose) (purpose_secret purpose) (Some amount_msat) receiver)))"

definition handle_payment_sent ::
  "'z eenv \<Rightarrow> bytes \<Rightarrow> payment_hash \<Rightarrow> bytes option \<Rightarrow> unit node_action" where
  "handle_payment_sent env pre h payment_id =
     act_bind (update_rgb_channel_amount env h False) (\<lambda>_.
     act_bind (is_maker_swap h) (\<lambda>maker.
       if maker then update_maker_swap_status (env_io env) (env_now env) h SwapSucceeded
       else act_bind (act_lift (unwrap payment_id)) (\<lambda>pid.
            act_bind (update_outbound_payment (env_io env) (env_now env) pid HTLCSucceeded (Some pre)) (\<lambda>_.
              act_return ()))))"

definition handle_payment_failed ::
  "'z eenv \<Rightarrow> payment_hash option \<Rightarrow> bytes \<Rightarrow> unit node_action" where
  "handle_payment_failed env payment_hash payment_id =
     (case payment_hash of
        Some h \<Rightarrow>
          act_bind (is_maker_swap h) (\<lambda>maker.
            if maker then update_maker_swap_status (env_io env) (env_now env) h SwapFailed
            else update_outbound_payment_status (env_io env) (env_now env) payment_id HTLCFailed)
      | None \<Rightarrow> update_outbound_payment_status (env_io env) (env_now env) payment_id HTLCFailed)"

definition handle_payment_forwarded ::
  "'z eenv \<Rightarrow> channel_id option \<Rightarrow> channel_id option \<Rightarrow> u64 option \<Rightarrow> u64 option \<Rightarrow> payment_hash \<Rightarrow>
   unit node_action" where
  "handle_payment_forwarded env prev_channel_id next_channel_id outbound_rgb inbound_rgb h =
     act_bind (act_lift (unwrap prev_channel_id)) (\<lambda>prev.
     act_bind (act_lift (unwrap next_channel_id)) (\<lambda>next_id.
     act_bind (case outbound_rgb of
                 Some n \<Rightarrow> call (Update_rgb_amount (hex_str next_id) n 0) (act_return ())
               | None \<Rightarrow> act_return ()) (\<lambda>_.
     act_bind (case inbound_rgb of
                 Some n \<Rightarrow> call (Update_rgb_amount (hex_str prev) 0 n) (act_return ())
               | None \<Rightarrow> act_return ()) (\<lambda>_.
     act_bind (is_taker_swap h) (\<lambda>taker.
       if taker then update_taker_swap_status (env_io env) (env_now env) h SwapSucceeded
       else act_return ())))))"

text \<open>The delay of \<open>PendingHTLCsForwardable\<close>: \<open>gen_range\<close> panics on an empty range, in the spawned
  task, which then never processes the HTLCs.\<close>

definition forward_delay_range :: "u64 \<Rightarrow> ('e, u64 \<times> u64) outcome" where
  "forward_delay_range m = and_then (mul_u64 m 5) (\<lambda>upper. if m < upper then Ok (m, upper) else Panic)"

definition handle_pending_htlcs :: "u64 \<Rightarrow> unit node_action" where
  "handle_pending_htlcs m =
     (case forward_delay_range m :: (unit, u64 \<times> u64) outcome of
        Ok (lo, hi) \<Rightarrow> call (Schedule_forward (unat lo) (unat hi)) (act_return ())
      | _ \<Rightarrow> act_return ())"


section \<open>The life of a channel\<close>

definition handle_open_channel_request :: "channel_id \<Rightarrow> pubkey \<Rightarrow> unit node_action" where
  "handle_open_channel_request temporary_channel_id counterparty =
     call (Accept_inbound temporary_channel_id counterparty) (act_return ())"

definition unlock_rgb_send :: "unit node_action" where
  "unlock_rgb_send = act_modify (\<lambda>s. s\<lparr>rgb_send_lock := False\<rparr>)"

text \<open>The initiator has the PSBT of the funding transaction on disk and completes its send; the
  acceptor of a coloured channel has a consignment and saves the asset.\<close>

definition handle_channel_pending ::
  "'z eenv \<Rightarrow> channel_id \<Rightarrow> txid \<Rightarrow> channel_id option \<Rightarrow> unit node_action" where
  "handle_channel_pending env cid funding_txid former_temporary_channel_id =
     act_bind (act_lift (unwrap former_temporary_channel_id)) (\<lambda>tmp.
     act_bind (add_channel_id (env_io env) tmp cid) (\<lambda>_.
     act_bind (act_get (\<lambda>s. map_of (files s) (''psbt_'' @ funding_txid))) (\<lambda>psbt.
       case psbt of
         Some psbt_str \<Rightarrow>
           act_bind
             (if is_channel_rgb (env_rgb env) cid
              then call (Send_end psbt_str) (act_lift (if send_end_ok env then Ok () else Err ()))
              else call (Send_btc_end psbt_str) (act_lift (if send_btc_end_ok env then Ok () else Err ())))
             (\<lambda>_. unlock_rgb_send)
       | None \<Rightarrow>
           act_bind (act_get (\<lambda>s. map_of (files s) (''consignment_'' @ funding_txid))) (\<lambda>consignment.
             if consignment = None then act_return ()
             else act_bind (act_lift (if load_consignment_ok env then Ok () else Panic)) (\<lambda>_.
                    call (Save_new_asset funding_txid)
                      (case save_new_asset_error env of
                         None \<Rightarrow> act_return ()
                       | Some e \<Rightarrow> if contains_str ''UNIQUE constraint failed'' e then act_return ()
                                   else act_lift Panic))))))"

definition handle_channel_ready :: "'z eenv \<Rightarrow> unit node_action" where
  "handle_channel_ready env =
     call (Refresh False) (act_bind (act_lift (if refresh_ok env False then Ok () else Panic)) (\<lambda>_.
     call (Refresh True) (act_lift (if refresh_ok env True then Ok () else Panic))))"

definition handle_spendable_outputs :: "'z eenv \<Rightarrow> nat \<Rightarrow> channel_id \<Rightarrow> unit node_action" where
  "handle_spendable_outputs env outputs cid =
     call (Track_outputs outputs cid) (act_lift (if track_ok env then Ok () else Panic))"

subsection \<open>The claim at the close of a channel\<close>

definition funding_witness_id :: "txid \<Rightarrow> nat \<Rightarrow> string" where
  "funding_witness_id funding_txid index = ''witness:'' @ funding_txid @ '':'' @ show_nat index"

definition settlement_witness_id :: "(string \<Rightarrow> string) \<Rightarrow> txid \<Rightarrow> nat \<Rightarrow> string \<Rightarrow> string" where
  "settlement_witness_id sha funding_txid index role =
     ''witness:'' @ take 32 (sha (funding_witness_id funding_txid index @ role)) @ '':0''"

definition remove_file_if_exists :: "string \<Rightarrow> node \<Rightarrow> node" where
  "remove_file_if_exists path s = s\<lparr>files := AList.delete path (files s)\<rparr>"

definition handle_rgb_channel_close ::
  "'z eenv \<Rightarrow> channel_id \<Rightarrow> txid \<Rightarrow> nat \<Rightarrow> (node, string, unit) action" where
  "handle_rgb_channel_close env cid funding_txid index s =
     (case read_channel_info env cid of
        None \<Rightarrow> (Ok (), s)
      | Some info \<Rightarrow>
          if local_rgb_amount info = 0 then (Ok (), s)
          else
            let we_are_holder = has_transaction env funding_txid;
                our_witness_id = settlement_witness_id (sha256_hex env) funding_txid index
                                   (if we_are_holder then ''holder'' else ''counterparty'')
            in case get_claim_utxo_ans env of
                 Err e \<Rightarrow> (Err (''Failed to get claim UTXO: '' @ e), s)
               | Panic \<Rightarrow> (Panic, s)
               | Ok claim_utxo \<Rightarrow>
                   let t = s\<lparr>calls := calls s @ [Rgb_claim our_witness_id claim_utxo (rgb_contract_id info)]\<rparr>
                   in case claim_ans env our_witness_id claim_utxo (rgb_contract_id info) of
                        Err e \<Rightarrow> (Err (''Claim failed: '' @ e), t)
                      | Panic \<Rightarrow> (Panic, t)
                      | Ok _ \<Rightarrow>
                          (let u = t\<lparr>calls := calls t @ [Release_locked funding_txid index]\<rparr>;
                               path = rgb_channel_info_path (env_rgb env) (hex_str cid)
                           in (Ok (), remove_file_if_exists (path True) (remove_file_if_exists (path False) u))))"

definition handle_channel_closed ::
  "'z eenv \<Rightarrow> channel_id \<Rightarrow> (txid \<times> nat) option \<Rightarrow> unit node_action" where
  "handle_channel_closed env cid channel_funding_txo =
     act_bind
       (case channel_funding_txo of
          Some (funding_txid, index) \<Rightarrow>
            (\<lambda>s. case handle_rgb_channel_close env cid funding_txid index s of
                   (Panic, t) \<Rightarrow> (Panic, t)
                 | (_, t) \<Rightarrow> (Ok (), t))
        | None \<Rightarrow> act_return ())
       (\<lambda>_. delete_channel_id (env_io env) cid)"

definition handle_discard_funding :: "'z eenv \<Rightarrow> channel_id \<Rightarrow> unit node_action" where
  "handle_discard_funding env cid = act_bind unlock_rgb_send (\<lambda>_. delete_channel_id (env_io env) cid)"

text \<open>\<open>ConnectionNeeded\<close>: the addresses resolved, tried in turn until one connects.\<close>

fun try_connect :: "'z eenv \<Rightarrow> pubkey \<Rightarrow> string list \<Rightarrow> unit node_action" where
  "try_connect env node_id [] = act_return ()"
| "try_connect env node_id (addr # addrs) =
     call (Connect node_id addr)
       (if connect_ok env node_id addr then act_return () else try_connect env node_id addrs)"

section \<open>All events\<close>

datatype ldk_event =
    FundingGenerationReady channel_id pubkey u64 string
  | FundingTxBroadcastSafe
  | PaymentClaimable payment_hash PaymentPurpose u64
  | PaymentClaimed payment_hash PaymentPurpose u64 "pubkey option"
  | PaymentSent bytes payment_hash "bytes option"
  | OpenChannelRequest channel_id pubkey
  | PaymentPathSuccessful
  | PaymentPathFailed
  | ProbeSuccessful
  | ProbeFailed
  | PaymentFailed "payment_hash option" bytes
  | InvoiceReceived
  | PaymentForwarded "channel_id option" "channel_id option" "u64 option" "u64 option" payment_hash
  | HTLCHandlingFailed
  | PendingHTLCsForwardable u64
  | SpendableOutputs nat channel_id
  | ChannelPending channel_id txid "channel_id option"
  | ChannelReady channel_id
  | ChannelClosed channel_id "(txid \<times> nat) option"
  | DiscardFunding channel_id
  | HTLCIntercepted htlc_intercepted
  | OnionMessageIntercepted
  | OnionMessagePeerConnected
  | BumpTransaction
  | ConnectionNeeded pubkey "string list"

fun handle_ldk_events :: "'z eenv \<Rightarrow> ldk_event \<Rightarrow> unit node_action" where
  "handle_ldk_events env (FundingGenerationReady tmp peer sats script) =
     handle_funding_generation_ready env tmp peer sats script"
| "handle_ldk_events env FundingTxBroadcastSafe = act_return ()"
| "handle_ldk_events env (PaymentClaimable h purpose amt) = handle_payment_claimable purpose"
| "handle_ldk_events env (PaymentClaimed h purpose amt receiver) =
     handle_payment_claimed env h purpose amt receiver"
| "handle_ldk_events env (PaymentSent pre h pid) = handle_payment_sent env pre h pid"
| "handle_ldk_events env (OpenChannelRequest tmp peer) = handle_open_channel_request tmp peer"
| "handle_ldk_events env PaymentPathSuccessful = act_return ()"
| "handle_ldk_events env PaymentPathFailed = act_return ()"
| "handle_ldk_events env ProbeSuccessful = act_return ()"
| "handle_ldk_events env ProbeFailed = act_return ()"
| "handle_ldk_events env (PaymentFailed h pid) = handle_payment_failed env h pid"
| "handle_ldk_events env InvoiceReceived = act_return ()"
| "handle_ldk_events env (PaymentForwarded prev nxt outr inr h) =
     handle_payment_forwarded env prev nxt outr inr h"
| "handle_ldk_events env HTLCHandlingFailed = act_return ()"
| "handle_ldk_events env (PendingHTLCsForwardable ms) = handle_pending_htlcs ms"
| "handle_ldk_events env (SpendableOutputs n cid) = handle_spendable_outputs env n cid"
| "handle_ldk_events env (ChannelPending cid txid former) = handle_channel_pending env cid txid former"
| "handle_ldk_events env (ChannelReady cid) = handle_channel_ready env"
| "handle_ldk_events env (ChannelClosed cid txo) = handle_channel_closed env cid txo"
| "handle_ldk_events env (DiscardFunding cid) = handle_discard_funding env cid"
| "handle_ldk_events env (HTLCIntercepted e) = handle_htlc_intercepted (ldk_env.truncate env) e"
| "handle_ldk_events env OnionMessageIntercepted = act_return ()"
| "handle_ldk_events env OnionMessagePeerConnected = act_return ()"
| "handle_ldk_events env BumpTransaction = act_return ()"
| "handle_ldk_events env (ConnectionNeeded node_id addrs) = try_connect env node_id addrs"

end
