(* ===== verification/EventProps.thy ===== *)
theory EventProps
  imports Events
begin

text \<open>
  What the handlers of \<open>Events\<close> keep and do: the invariant of the stores under every event, the
  effect of the payment events on the stores, the order of the calls that fund a coloured channel,
  and the claim at the close of a channel.
\<close>

section \<open>Every event keeps the stores well-formed\<close>

lemma keeps_Pair [intro, simp]: "keeps P (Pair r)"
  by (simp add: keeps_def)

lemma keeps_call: "keeps stores_ok m \<Longrightarrow> keeps stores_ok (call c m)"
  by (simp add: keeps_def call_def stores_ok_def)

lemma keeps_call_unwrap [intro, simp]: "keeps stores_ok (call_unwrap a c)"
  by (simp add: keeps_def call_unwrap_def stores_ok_def Let_def)

lemma keeps_write_file [intro, simp]: "keeps stores_ok (write_file env n c)"
  by (simp add: keeps_def write_file_def stores_ok_def)

lemma keeps_unlock_rgb [intro, simp]: "keeps stores_ok unlock_rgb_send"
  by (simp add: keeps_def unlock_rgb_send_def stores_ok_def)

lemma keeps_modify_lock [intro, simp]: "keeps stores_ok (act_modify (rgb_send_lock_update f))"
  by (simp add: keeps_def stores_ok_def)

lemma keeps_fail_locked [intro, simp]: "keeps stores_ok (fail_intercepted_locked env i)"
  by (auto simp: keeps_def fail_intercepted_locked_def fail_intercepted_result stores_ok_def store_ok_def
      split: prod.splits outcome.splits)

lemma keeps_fail_intercepted [intro, simp]: "keeps stores_ok (fail_intercepted env i)"
  by (simp add: fail_intercepted_def)

lemma keeps_lock_taker [intro, simp]: "keeps stores_ok (on_taker lock_store)"
  by (rule keeps_zoom_ok) simp

lemma keeps_htlc [intro, simp]: "keeps stores_ok (handle_htlc_intercepted env e)"
  unfolding handle_htlc_intercepted_def Let_def
  by (intro keeps_bind; (simp add: keeps_bind split: option.splits)?)

lemma keeps_update_loop [intro, simp]: "keeps stores_ok (update_amount_loop env h r names)"
  by (induction env h r names rule: update_amount_loop.induct) (auto simp: Let_def intro: keeps_call)

lemma keeps_update_amount [intro, simp]: "keeps stores_ok (update_rgb_channel_amount env h r)"
  unfolding update_rgb_channel_amount_def by (intro keeps_bind keeps_get keeps_update_loop)

lemma keeps_try_connect [intro, simp]: "keeps stores_ok (try_connect env n addrs)"
  by (induction env n addrs rule: try_connect.induct) (auto intro: keeps_call)

lemma keeps_close_rgb:
  "stores_ok s \<Longrightarrow> stores_ok (snd (handle_rgb_channel_close env cid txid i s))"
  by (auto simp: handle_rgb_channel_close_def stores_ok_def remove_file_if_exists_def Let_def
      split: option.splits outcome.splits)

lemma keeps_channel_closed [intro, simp]: "keeps stores_ok (handle_channel_closed env cid txo)"
proof -
  have "keeps stores_ok ((\<lambda>s. case handle_rgb_channel_close env cid txid i s of
      (Panic, t) \<Rightarrow> (Panic, t) | (_, t) \<Rightarrow> (Ok (), t)) :: unit node_action)" for txid i
  proof (rule keepsI)
    fix s :: node assume "stores_ok s"
    from keeps_close_rgb [OF this, of env cid txid i]
    show "stores_ok (snd ((case handle_rgb_channel_close env cid txid i s of
        (Panic, t) \<Rightarrow> (Panic, t) | (_, t) \<Rightarrow> (Ok (), t)) :: (unit, unit) outcome \<times> node))"
      by (auto split: prod.splits outcome.splits)
  qed
  then show ?thesis
    unfolding handle_channel_closed_def by (intro keeps_bind) (auto split: option.splits)
qed

lemma keeps_funding_psbt [intro, simp]: "keeps stores_ok (funding_psbt env addr v info)"
  unfolding funding_psbt_def
  by (auto split: option.splits intro!: keeps_bind keeps_call)

lemma keeps_post_channel [intro, simp]: "keeps stores_ok (post_channel_consignment env info txid)"
  unfolding post_channel_consignment_def by (intro keeps_call keeps_bind keeps_lift keeps_write_file)

lemma keeps_funding [intro, simp]:
  "keeps stores_ok (handle_funding_generation_ready env tmp peer v script)"
  unfolding handle_funding_generation_ready_def Let_def
  by (intro keeps_bind keeps_lift; (auto split: prod.splits option.splits intro!: keeps_bind keeps_call)?)

lemma keeps_payments [intro, simp]:
  "keeps stores_ok (handle_payment_claimable p)"
  "keeps stores_ok (handle_payment_claimed env h p amt r)"
  "keeps stores_ok (handle_payment_sent env pre h pid)"
  "keeps stores_ok (handle_payment_failed env oh ph)"
  "keeps stores_ok (handle_payment_forwarded env prev nxt outr inr h)"
  "keeps stores_ok (handle_pending_htlcs ms)"
  unfolding handle_payment_claimable_def handle_payment_claimed_def handle_payment_sent_def
    handle_payment_failed_def handle_payment_forwarded_def handle_pending_htlcs_def
  by (auto split: option.splits outcome.splits intro!: keeps_bind keeps_call)

lemma keeps_if: "keeps P m \<Longrightarrow> keeps P n \<Longrightarrow> keeps P (if b then m else n)"
  by simp

lemma keeps_option:
  "keeps P m \<Longrightarrow> (\<And>a. keeps P (f a)) \<Longrightarrow> keeps P (case x of None \<Rightarrow> m | Some a \<Rightarrow> f a)"
  by (cases x) simp_all

lemmas keeps_steps = keeps_bind keeps_call keeps_if keeps_option keeps_lift keeps_return keeps_get
  keeps_unlock_rgb store_ops_keep

lemma keeps_open_request [intro, simp]: "keeps stores_ok (handle_open_channel_request tmp peer)"
  unfolding handle_open_channel_request_def by (intro keeps_steps)

lemma keeps_channel_pending [intro, simp]:
  "keeps stores_ok (handle_channel_pending env cid txid former)"
  unfolding handle_channel_pending_def by (intro keeps_steps)

lemma keeps_channel_ready [intro, simp]: "keeps stores_ok (handle_channel_ready env)"
  unfolding handle_channel_ready_def by (intro keeps_steps)

lemma keeps_outputs [intro, simp]: "keeps stores_ok (handle_spendable_outputs env n cid)"
  unfolding handle_spendable_outputs_def by (intro keeps_steps)

lemma keeps_discard [intro, simp]: "keeps stores_ok (handle_discard_funding env cid)"
  unfolding handle_discard_funding_def by (intro keeps_steps)

lemma keeps_event: "keeps stores_ok (handle_ldk_events env ev)"
  by (cases ev) (simp_all only: handle_ldk_events.simps, auto)


section \<open>An example environment\<close>

definition example_event_env :: event_env where
  "example_event_env = ldk_env.extend example_env
     \<lparr>segwit_address = Some, recipient_id_of = (\<lambda>a. ''rcpt:'' @ a),
      pending_info = (\<lambda>c. (\<lparr>rgb_contract_id = ''rgb:a'', local_rgb_amount = 5, remote_rgb_amount = 0\<rparr>, Nia)),
      send_begin_ans = Ok ''psbt'', send_btc_begin_ans = Ok ''btcpsbt'',
      sign_psbt_ans = (\<lambda>p. Ok (''signed:'' @ p)), psbt_txid = (\<lambda>p. Some ''txid''),
      psbt_text = (\<lambda>p. p), write_ok = (\<lambda>n. True), upsert_ok = True, rgb_info_json = (\<lambda>i. ''{}''),
      proxy_endpoint = ''rpc://p'', endpoint_of = Some, post_consignment_ok = True,
      funding_generated_ok = True, send_end_ok = True, send_btc_end_ok = True,
      load_consignment_ok = True, save_new_asset_error = None, refresh_ok = (\<lambda>b. True),
      track_ok = True, payment_info_of = (\<lambda>n. \<lparr>swap_payment = False, pi_inbound = True, pi_amount = 1\<rparr>),
      read_channel_info = (\<lambda>c. Some \<lparr>rgb_contract_id = ''rgb:a'', local_rgb_amount = 5, remote_rgb_amount = 0\<rparr>),
      has_transaction = (\<lambda>t. True), sha256_hex = (\<lambda>t. replicate 64 (CHR ''a'')),
      get_claim_utxo_ans = Ok ''utxo:1'', claim_ans = (\<lambda>w u c. Ok ()),
      connect_ok = (\<lambda>p a. False)\<rparr>"

lemma example_event_env_simps [simp]:
  "env_io example_event_env" "env_now example_event_env = 1000"
  "is_channel_rgb (env_rgb example_event_env) c \<longleftrightarrow> c = [1]"
  "rgb_channel_info_path (env_rgb example_event_env) n b = n"
  "segwit_address example_event_env = Some" "recipient_id_of example_event_env a = ''rcpt:'' @ a"
  "pending_info example_event_env c =
     (\<lparr>rgb_contract_id = ''rgb:a'', local_rgb_amount = 5, remote_rgb_amount = 0\<rparr>, Nia)"
  "send_begin_ans example_event_env = Ok ''psbt''"
  "sign_psbt_ans example_event_env p = Ok (''signed:'' @ p)" "psbt_txid example_event_env p = Some ''txid''"
  "write_ok example_event_env n" "upsert_ok example_event_env" "proxy_endpoint example_event_env = ''rpc://p''"
  "endpoint_of example_event_env = Some" "post_consignment_ok example_event_env"
  "funding_generated_ok example_event_env" "send_end_ok example_event_env"
  "read_channel_info example_event_env c =
     Some \<lparr>rgb_contract_id = ''rgb:a'', local_rgb_amount = 5, remote_rgb_amount = 0\<rparr>"
  "has_transaction example_event_env t" "sha256_hex example_event_env h = replicate 64 (CHR ''a'')"
  "get_claim_utxo_ans example_event_env = Ok ''utxo:1''" "claim_ans example_event_env w u k = Ok ()"
  by (simp_all add: example_event_env_def example_env_def ldk_env.extend_def)

lemma example_node_simps [simp]:
  "maker_store example_node = empty_store" "inbound_store example_node = empty_store"
  "outbound_store example_node = empty_store" "channel_ids_store example_node = empty_store"
  "calls example_node = []" "files example_node = []"
  "entries empty_store = []" "\<not> poisoned empty_store"
  by (simp_all add: example_node_def empty_store_def)

section \<open>Properties\<close>



lemma update_loop_calls:
  "\<exists>new. update_amount_loop env hs r names s = (Ok (), s\<lparr>calls := calls s @ new\<rparr>) \<and> length new \<le> 1"
proof (induction env hs r names rule: update_amount_loop.induct)
  case (1 env hs r)
  show ?case by (intro exI [of _ "[]"]) simp
next
  case (2 env hs r name names)
  then show ?case
    by (auto simp: Let_def call_def intro: exI [of _ "[c]" for c])
qed

lemma update_amount_calls:
  "\<exists>new. update_rgb_channel_amount env h r s = (Ok (), s\<lparr>calls := calls s @ new\<rparr>) \<and> length new \<le> 1"
  using update_loop_calls [of env "hex_str h" r "map fst (files s)" s]
  by (simp add: update_rgb_channel_amount_def)

lemma is_maker_result:
  "\<not> poisoned (maker_store s) \<Longrightarrow> is_maker_swap h s = (Ok (map_of (entries (maker_store s)) h \<noteq> None), s)"
  by (simp add: is_maker_swap_def zoom_def has_swap_def read_store_def act_bind_def lock_store_def
      act_get_def act_return_def)

lemma upsert_inbound_result:
  "\<not> poisoned s \<Longrightarrow> upsert_inbound True now h st pre sec amt payee s =
     (Ok (), saved h (case map_of (entries s) h of
             Some p \<Rightarrow> p\<lparr>payment_status := st, preimage := pre, secret := sec, updated_at := now\<rparr>
           | None \<Rightarrow> \<lparr>preimage = pre, secret = sec, payment_status = st, amt_msat = amt,
                      created_at = now, updated_at = now, payee_pubkey = payee\<rparr>) s)"
  by (simp add: upsert_inbound_def saved_def put_and_save_result act_bind_def lock_store_def act_get_def
      insert_entry_def act_modify_def save_store_def)

lemma update_outbound_result:
  "\<not> poisoned s \<Longrightarrow> map_of (entries s) pid = Some p \<Longrightarrow>
   update_outbound True now pid st pre s =
     (Ok (p\<lparr>payment_status := st, preimage := pre, updated_at := now\<rparr>),
      saved pid (p\<lparr>payment_status := st, preimage := pre, updated_at := now\<rparr>) s)"
  by (simp add: update_outbound_def saved_def put_and_save_result act_bind_def lock_store_def
      entry_locked_def insert_entry_def act_modify_def save_store_def act_return_def Let_def)

lemma update_outbound_status_result:
  "\<not> poisoned s \<Longrightarrow> map_of (entries s) pid = Some p \<Longrightarrow>
   update_outbound_status True now pid st s =
     (Ok (), saved pid (p\<lparr>payment_status := st, updated_at := now\<rparr>) s)"
  by (simp add: update_outbound_status_def saved_def put_and_save_result act_bind_def lock_store_def
      entry_locked_def insert_entry_def act_modify_def save_store_def)

text \<open>
  A claimed payment that is not a swap of the maker is recorded as succeeded with its preimage and
  secret; an invoice created before keeps its amount, payee and creation time, a payment without one
  gets the claimed amount and the receiver; at most one channel's RGB amounts change; nothing else does.
\<close>

theorem claimed_payment_recorded:
  assumes "\<not> poisoned (maker_store s)" and "\<not> poisoned (inbound_store s)"
    and "map_of (entries (maker_store s)) h = None" and "env_io env"
  shows "\<exists>new. length new \<le> 1 \<and>
    handle_payment_claimed env h purpose amt (Some receiver) s =
      (Ok (), s\<lparr>calls := calls s @ new,
        inbound_store := saved h
          (case map_of (entries (inbound_store s)) h of
             Some p \<Rightarrow> p\<lparr>payment_status := HTLCSucceeded, preimage := purpose_preimage purpose,
                         secret := purpose_secret purpose, updated_at := env_now env\<rparr>
           | None \<Rightarrow> \<lparr>preimage = purpose_preimage purpose, secret = purpose_secret purpose,
                      payment_status = HTLCSucceeded, amt_msat = Some amt, created_at = env_now env,
                      updated_at = env_now env, payee_pubkey = receiver\<rparr>) (inbound_store s)\<rparr>)"
proof -
  obtain new where new: "length new \<le> 1"
    "update_rgb_channel_amount env h True s = (Ok (), s\<lparr>calls := calls s @ new\<rparr>)"
    using update_amount_calls by blast
  show ?thesis
    using assms new
    by (intro exI [of _ new])
      (simp add: handle_payment_claimed_def act_bind_step is_maker_result upsert_inbound_payment_def
        zoom_def upsert_inbound_result)
qed

theorem claimed_payment_recorded_witness:
  "\<exists>p. map_of (entries (inbound_store (snd (handle_payment_claimed example_event_env [6]
       (SpontaneousPayment [5]) 3000000 (Some [3]) example_node)))) [6] = Some p
     \<and> payment_status p = HTLCSucceeded \<and> preimage p = Some [5] \<and> amt_msat p = Some 3000000"
  using claimed_payment_recorded [of example_node "[6]" example_event_env "SpontaneousPayment [5]" 3000000 "[3]"]
  by (auto simp: purpose_preimage_def saved_def put_and_save_result)

text \<open>
  A sent payment that is not a swap of the maker becomes succeeded with its preimage, a failed one
  becomes failed, each on disk too, and nothing else of the payment changes.
\<close>

theorem outbound_payment_settled:
  assumes "\<not> poisoned (maker_store s)" and "\<not> poisoned (outbound_store s)"
    and "map_of (entries (maker_store s)) h = None"
    and "map_of (entries (outbound_store s)) pid = Some p" and "env_io env"
  shows "(\<exists>new. length new \<le> 1 \<and>
      handle_payment_sent env pre h (Some pid) s =
        (Ok (), s\<lparr>calls := calls s @ new,
          outbound_store := saved pid (p\<lparr>payment_status := HTLCSucceeded, preimage := Some pre,
                                          updated_at := env_now env\<rparr>) (outbound_store s)\<rparr>))
    \<and> handle_payment_failed env (Some h) pid s =
        (Ok (), s\<lparr>outbound_store := saved pid (p\<lparr>payment_status := HTLCFailed, updated_at := env_now env\<rparr>)
                                     (outbound_store s)\<rparr>)"
proof
  obtain new where new: "length new \<le> 1"
    "update_rgb_channel_amount env h False s = (Ok (), s\<lparr>calls := calls s @ new\<rparr>)"
    using update_amount_calls by blast
  show "\<exists>new. length new \<le> 1 \<and>
      handle_payment_sent env pre h (Some pid) s =
        (Ok (), s\<lparr>calls := calls s @ new,
          outbound_store := saved pid (p\<lparr>payment_status := HTLCSucceeded, preimage := Some pre,
                                          updated_at := env_now env\<rparr>) (outbound_store s)\<rparr>)"
    using assms new
    by (intro exI [of _ new])
      (simp add: handle_payment_sent_def act_bind_step is_maker_result update_outbound_payment_def
        zoom_def update_outbound_result)
  show "handle_payment_failed env (Some h) pid s =
        (Ok (), s\<lparr>outbound_store := saved pid (p\<lparr>payment_status := HTLCFailed, updated_at := env_now env\<rparr>)
                                     (outbound_store s)\<rparr>)"
    using assms
    by (simp add: handle_payment_failed_def act_bind_step is_maker_result
        update_outbound_payment_status_def zoom_def update_outbound_status_result)
qed


theorem outbound_payment_settled_witness:
  "fst (handle_payment_failed example_event_env (Some [6]) [6]
     (example_node\<lparr>outbound_store := open_store (Some [([6], example_payment HTLCPending)])\<rparr>)) = Ok ()"
  using outbound_payment_settled
    [where s = "example_node\<lparr>outbound_store := open_store (Some [([6], example_payment HTLCPending)])\<rparr>"
       and h = "[6]" and pid = "[6]" and p = "example_payment HTLCPending" and env = example_event_env]
  by simp



text \<open>
  The lock that keeps a second RGB send from starting while a channel opens is released when
  completing the funding send succeeds, and stays held when it fails, so that the event can be
  replayed; in both cases the final channel id is recorded first.
\<close>

theorem pending_channel_releases_lock:
  assumes "\<not> poisoned (channel_ids_store s)" and "env_io env"
    and "map_of (files s) (''psbt_'' @ txid) = Some psbt"
  shows "handle_channel_pending env cid txid (Some tmp) s =
    (let sent = (if is_channel_rgb (env_rgb env) cid then send_end_ok env else send_btc_end_ok env);
         c = (if is_channel_rgb (env_rgb env) cid then Send_end psbt else Send_btc_end psbt);
         t = s\<lparr>channel_ids_store := saved tmp cid (channel_ids_store s), calls := calls s @ [c]\<rparr>
     in if sent then (Ok (), t\<lparr>rgb_send_lock := False\<rparr>) else (Err (), t))"
  using assms
  by (simp add: handle_channel_pending_def add_channel_id_def zoom_def put_and_save_result saved_def
      call_def act_bind_def act_lift_def act_get_def act_modify_def unlock_rgb_send_def Let_def)

theorem pending_channel_releases_lock_witness:
  "rgb_send_lock (snd (handle_channel_pending example_event_env [1] ''txid'' (Some [2])
     (example_node\<lparr>rgb_send_lock := True, files := [(''psbt_txid'', ''p'')]\<rparr>))) = False"
  using pending_channel_releases_lock
    [where s = "example_node\<lparr>rgb_send_lock := True, files := [(''psbt_txid'', ''p'')]\<rparr>"
       and env = example_event_env and txid = "''txid''" and psbt = "''p''" and cid = "[1]" and tmp = "[2]"]
  by (simp add: Let_def)

text \<open>
  When a coloured channel with a local balance closes, the node claims from the witness of its own
  role, the holder's if it made the funding transaction and the counterparty's otherwise; only after
  the claim succeeded are the locked output released and the two information files removed.  Whatever
  became of the claim, the channel id is forgotten.
\<close>

theorem closed_channel_claims:
  assumes "read_channel_info env cid = Some info" and "local_rgb_amount info \<noteq> 0"
    and "get_claim_utxo_ans env = Ok utxo"
    and "claim_ans env w utxo (rgb_contract_id info) \<noteq> Panic"
    and "w = settlement_witness_id (sha256_hex env) txid index
               (if has_transaction env txid then ''holder'' else ''counterparty'')"
    and "path = rgb_channel_info_path (env_rgb env) (hex_str cid)"
  shows "handle_channel_closed env cid (Some (txid, index)) s =
    delete_channel_id (env_io env) cid
      (case claim_ans env w utxo (rgb_contract_id info) of
         Ok _ \<Rightarrow> s\<lparr>calls := calls s @ [Rgb_claim w utxo (rgb_contract_id info), Release_locked txid index],
                  files := filter (\<lambda>(n, _). n \<noteq> path True \<and> n \<noteq> path False) (files s)\<rparr>
       | _ \<Rightarrow> s\<lparr>calls := calls s @ [Rgb_claim w utxo (rgb_contract_id info)]\<rparr>)"
proof -
  have del: "AList.delete b (AList.delete a fs) = filter (\<lambda>(n, _). n \<noteq> b \<and> n \<noteq> a) fs" for a b and fs :: "(string \<times> string) list"
    by (induction fs) (auto simp: AList.delete_eq)
  show ?thesis
    using assms
    by (cases "claim_ans env w utxo (rgb_contract_id info)")
      (simp_all add: handle_channel_closed_def handle_rgb_channel_close_def act_bind_def Let_def
        remove_file_if_exists_def del)
qed

theorem closed_channel_claims_witness:
  "calls (snd (handle_channel_closed example_event_env [1] (Some (''txid'', 0)) example_node))
   = [Rgb_claim (''witness:'' @ replicate 32 (CHR ''a'') @ '':0'') ''utxo:1'' ''rgb:a'', Release_locked ''txid'' 0]"
  using closed_channel_claims
    [where env = example_event_env and cid = "[1]" and txid = "''txid''" and index = 0 and s = example_node
       and utxo = "''utxo:1''" and info = "\<lparr>rgb_contract_id = ''rgb:a'', local_rgb_amount = 5, remote_rgb_amount = 0\<rparr>"]
  by (simp add: settlement_witness_id_def delete_channel_id_def)

end
