(* ===== verification/SwapRoutes.thy ===== *)
theory SwapRoutes
  imports Intercept
begin

text \<open>
  The swap handlers of \<open>src/src/routes.rs\<close>: \<open>maker_init\<close>, \<open>taker\<close>, \<open>maker_execute\<close>, \<open>list_swaps\<close>
  and \<open>get_swap\<close>, each after its check that the node is unlocked (\<open>Lifecycle\<close>).

  \<open>swap_env\<close> holds the answers of the channel manager, of the router and of the RGB part.  The time
  is read once per handler.
\<close>

section \<open>Environment\<close>

record usable_channel =
  uc_channel_id :: channel_id
  uc_short_channel_id :: "u64 option"
  uc_counterparty :: pubkey
  uc_forwarding :: "(nat \<times> nat \<times> nat) option"

record route_hint =
  hint_src :: pubkey
  hint_scid :: u64
  hint_cltv :: nat
  hint_base_msat :: nat
  hint_proportional :: nat

type_synonym route = "route_hop list list"

record swap_env =
  se_now :: u64
  se_io :: bool
  contract_from_str :: "string \<Rightarrow> contract_id option"
  pubkey_from_str :: "string \<Rightarrow> pubkey option"
  se_rgb :: rgb_files
  se_channels :: "channel_id list"
  se_usable :: "usable_channel list"
  our_node_id :: pubkey
  create_inbound_payment :: "nat \<Rightarrow> (payment_hash \<times> bytes) option"
  get_payment_preimage :: "payment_hash \<Rightarrow> bytes \<Rightarrow> bytes option"
  max_total_cltv :: nat
  max_path_len :: nat
  find_route :: "pubkey \<Rightarrow> route_hint route_parameters \<Rightarrow> (unit, route) outcome"
  is_swap_scid :: u64
  send_spontaneous :: "route_hop list \<Rightarrow> bytes \<Rightarrow> bytes \<Rightarrow> (string, unit) outcome"

abbreviation dust_limit_msat :: u64 where
  "dust_limit_msat \<equiv> 546000"

abbreviation max_swap_fee_msat :: u64 where
  "max_swap_fee_msat \<equiv> htlc_min_msat"

section \<open>The maker's offer and the taker's acceptance\<close>

definition parse_asset ::
  "(string \<Rightarrow> contract_id option) \<Rightarrow> string option \<Rightarrow> (APIError, contract_id option) outcome" where
  "parse_asset from_str asset =
     (case asset of
        None \<Rightarrow> Ok None
      | Some a \<Rightarrow> (case from_str a of None \<Rightarrow> Err (InvalidAssetID a) | Some c \<Rightarrow> Ok (Some c)))"

record maker_init_response =
  mi_payment_hash :: string
  mi_payment_secret :: string
  mi_swapstring :: string

definition maker_init ::
  "swap_env \<Rightarrow> u64 \<Rightarrow> u64 \<Rightarrow> string option \<Rightarrow> string option \<Rightarrow> u32 \<Rightarrow> maker_init_response handler" where
  "maker_init env qf qt from_asset_text to_asset_text timeout_sec =
     act_bind (act_lift (parse_asset (contract_from_str env) from_asset_text)) (\<lambda>from.
     act_bind (act_lift (parse_asset (contract_from_str env) to_asset_text)) (\<lambda>to.
     act_bind (act_lift (guard_or (\<not> (from = None \<and> to = None)) (InvalidSwap ''cannot swap BTC for BTC''))) (\<lambda>_.
     act_bind (act_lift (guard_or (from \<noteq> to) (InvalidSwap ''cannot swap the same asset''))) (\<lambda>_.
     act_bind (act_lift (add_u64 (se_now env) (ucast timeout_sec))) (\<lambda>expiry.
       let info = \<lparr>qty_from = qf, qty_to = qt, from_asset = from, to_asset = to, expiry = expiry\<rparr>;
           swap_data = create_from_swap_info (se_now env) info
       in act_bind (act_lift (case to of
                      Some a \<Rightarrow> guard_or (qt \<le> get_max_local_rgb_amount (se_rgb env) a (se_channels env))
                                          InsufficientAssets
                    | None \<Rightarrow> Ok ())) (\<lambda>_.
          call (Create_inbound_payment (Some dust_limit_msat) (unat timeout_sec))
            (act_bind (act_lift (unwrap (create_inbound_payment env (unat timeout_sec)))) (\<lambda>(h, secret).
             act_bind (add_maker_swap (se_io env) h swap_data) (\<lambda>_.
               act_return \<lparr>mi_payment_hash = hex_str h, mi_payment_secret = hex_str secret,
                           mi_swapstring = swap_string_display \<lparr>ss_swap_info = info, ss_payment_hash = h\<rparr>\<rparr>)))))))))"

definition parse_swapstring :: "swap_env \<Rightarrow> string \<Rightarrow> (APIError, SwapString) outcome" where
  "parse_swapstring env t = map_err (\<lambda>e. InvalidSwapString t e) (swap_string_from_str (contract_from_str env) t)"

definition taker :: "swap_env \<Rightarrow> string \<Rightarrow> unit handler" where
  "taker env swapstring_text =
     act_bind (act_lift (parse_swapstring env swapstring_text)) (\<lambda>swapstring.
       let info = ss_swap_info swapstring
       in act_bind (act_lift (guard_or (se_now env \<le> expiry info) ExpiredSwapOffer)) (\<lambda>_.
          act_bind (act_lift (case from_asset info of
                      Some a \<Rightarrow> guard_or (qty_from info \<le> get_max_local_rgb_amount (se_rgb env) a (se_channels env))
                                          InsufficientAssets
                    | None \<Rightarrow> Ok ())) (\<lambda>_.
            add_taker_swap (se_io env) (ss_payment_hash swapstring) (create_from_swap_info (se_now env) info))))"

section \<open>The maker's execution\<close>

definition receive_hint :: "usable_channel \<Rightarrow> (APIError, route_hint) outcome" where
  "receive_hint c =
     and_then (unwrap (uc_forwarding c)) (\<lambda>(base, prop, cltv).
     and_then (unwrap (uc_short_channel_id c)) (\<lambda>scid.
       Ok \<lparr>hint_src = uc_counterparty c, hint_scid = scid, hint_cltv = cltv,
           hint_base_msat = base, hint_proportional = prop\<rparr>))"

definition receive_channels :: "swap_env \<Rightarrow> SwapInfo \<Rightarrow> usable_channel list" where
  "receive_channels env info =
     filter (\<lambda>c. let i = get_rgb_channel_info_optional (se_rgb env) (uc_channel_id c) False
                 in if is_from_btc info then True
                    else case i of
                           Some (rgb_info, _) \<Rightarrow> Some (rgb_contract_id rgb_info) = from_asset info
                         | None \<Rightarrow> False)
       (se_usable env)"

definition swap_route ::
  "swap_env \<Rightarrow> pubkey \<Rightarrow> pubkey \<Rightarrow> u64 \<Rightarrow> (contract_id \<times> u64) option \<Rightarrow> route_hint list \<Rightarrow> route option" where
  "swap_route env start dest msat rgb hints =
     get_route (max_total_cltv env) (max_path_len env) (\<lambda>a rp _. find_route env a rp) ()
       start dest (Some msat) rgb hints"

text \<open>The two routes: from here to the taker, and back.\<close>

definition swap_legs ::
  "swap_env \<Rightarrow> SwapInfo \<Rightarrow> pubkey \<Rightarrow> (APIError, route \<times> route) outcome" where
  "swap_legs env info taker_pk =
     and_then (map_outcome receive_hint (receive_channels env info)) (\<lambda>hints.
     and_then (if is_to_btc info then add_u64 (qty_to info) htlc_min_msat else Ok htlc_min_msat) (\<lambda>first_msat.
       let first_leg = swap_route env (our_node_id env) taker_pk first_msat
                         (map_option (\<lambda>a. (a, qty_to info)) (to_asset info)) []
       in and_then (if is_to_btc info \<or> is_asset_asset info then Ok htlc_min_msat
                    else add_u64 (qty_from info) htlc_min_msat) (\<lambda>second_msat.
            let second_leg = swap_route env taker_pk (our_node_id env) second_msat
                               (map_option (\<lambda>a. (a, qty_from info)) (from_asset info)) hints
            in case (first_leg, second_leg) of
                 (Some f, Some s) \<Rightarrow> Ok (f, s)
               | _ \<Rightarrow> Err NoRoute)))"

text \<open>Marking the first hop back as a swap and the fee of the last hop out as zero; an empty path
  panics.\<close>

definition first_path :: "route \<Rightarrow> (APIError, route_hop list) outcome" where
  "first_path r = (case r of p # _ \<Rightarrow> Ok p | [] \<Rightarrow> Panic)"

definition mark_swap :: "u64 \<Rightarrow> route_hop list \<Rightarrow> (APIError, route_hop list) outcome" where
  "mark_swap flag hops =
     (case hops of
        h # hs \<Rightarrow> Ok (h\<lparr>hop_scid := or (hop_scid h) flag\<rparr> # hs)
      | [] \<Rightarrow> Panic)"

definition clear_last_fee :: "route_hop list \<Rightarrow> (APIError, route_hop list) outcome" where
  "clear_last_fee hops =
     (if hops = [] then Panic else Ok (butlast hops @ [(last hops)\<lparr>hop_fee_msat := 0\<rparr>]))"

definition full_path :: "SwapInfo \<Rightarrow> route_hop list \<Rightarrow> route_hop list \<Rightarrow> route_hop list" where
  "full_path info out back =
     map (\<lambda>h. case to_asset info of Some a \<Rightarrow> h\<lparr>hop_rgb_payment := Some (a, qty_to info)\<rparr> | None \<Rightarrow> h) out
     @ map (\<lambda>h. case from_asset info of Some a \<Rightarrow> h\<lparr>hop_rgb_payment := Some (a, qty_from info)\<rparr> | None \<Rightarrow> h) back"

definition swap_path :: "swap_env \<Rightarrow> SwapInfo \<Rightarrow> pubkey \<Rightarrow> (APIError, route_hop list) outcome" where
  "swap_path env info taker_pk =
     and_then (swap_legs env info taker_pk) (\<lambda>(first_leg, second_leg).
     and_then (first_path second_leg) (\<lambda>back.
     and_then (mark_swap (is_swap_scid env) back) (\<lambda>back.
     and_then (first_path first_leg) (\<lambda>out.
     and_then (clear_last_fee out) (\<lambda>out.
       let fullpaths = full_path info out back
       in and_then (sum_u64 (map hop_fee_msat (tl (rev fullpaths)))) (\<lambda>total_fee.
            if total_fee \<ge> max_swap_fee_msat
            then Err (FailedPayment (''Fee too high: '' @ show_u64 total_fee))
            else Ok fullpaths))))))"

definition parse_secret :: "string \<Rightarrow> (APIError, bytes) outcome" where
  "parse_secret t =
     ok_or InvalidPaymentSecret
       (case hex_str_to_vec t of Some v \<Rightarrow> if length v = 32 then Some v else None | None \<Rightarrow> None)"

text \<open>The payment that starts the swap.\<close>

definition start_swap :: "swap_env \<Rightarrow> SwapInfo \<Rightarrow> payment_hash \<Rightarrow> route_hop list \<Rightarrow> bytes \<Rightarrow> unit handler" where
  "start_swap env info h fullpaths pre =
     act_bind (case to_asset info of
                 Some a \<Rightarrow> call (Write_payment_info h a (qty_to info) True False) (act_return ())
               | None \<Rightarrow> act_return ()) (\<lambda>_.
     act_bind (update_maker_swap_status (se_io env) (se_now env) h SwapPending) (\<lambda>_.
       call (Send_spontaneous fullpaths pre h)
         (case send_spontaneous env fullpaths pre h of
            Ok _ \<Rightarrow> act_return ()
          | Err e \<Rightarrow>
              act_bind (update_maker_swap_status (se_io env) (se_now env) h SwapFailed) (\<lambda>_.
                act_lift (Err (FailedPayment e)))
          | Panic \<Rightarrow> act_lift Panic)))"

definition maker_execute :: "swap_env \<Rightarrow> string \<Rightarrow> string \<Rightarrow> string \<Rightarrow> unit handler" where
  "maker_execute env swapstring_text secret_text taker_text =
     act_bind (act_lift (parse_swapstring env swapstring_text)) (\<lambda>swapstring.
     act_bind (act_lift (parse_secret secret_text)) (\<lambda>payment_secret.
     act_bind (act_lift (ok_or InvalidPubkey (pubkey_from_str env taker_text))) (\<lambda>taker_pk.
       let info = ss_swap_info swapstring; h = ss_payment_hash swapstring
       in if se_now env > expiry info then
            act_bind (update_maker_swap_status (se_io env) (se_now env) h SwapExpired) (\<lambda>_.
              act_lift (Err ExpiredSwapOffer))
          else
            act_bind (act_lift (ok_or MissingSwapPaymentPreimage (get_payment_preimage env h payment_secret))) (\<lambda>pre.
            act_bind (act_lift (swap_path env info taker_pk)) (\<lambda>fullpaths.
              start_swap env info h fullpaths pre)))))"

section \<open>Listing swaps\<close>

record swap_view =
  sv_payment_hash :: string
  sv_info :: SwapInfo
  sv_status :: SwapStatus
  sv_requested_at :: u64
  sv_initiated_at :: "u64 option"
  sv_completed_at :: "u64 option"

text \<open>The status as it is reported: a waiting swap past its expiry has expired, a pending one has
  failed a day after its start.\<close>

definition current_status :: "u64 \<Rightarrow> SwapData \<Rightarrow> (APIError, SwapStatus) outcome" where
  "current_status now d =
     (if status d = SwapWaiting \<and> now > expiry (swap_info d) then Ok SwapExpired
      else if status d = SwapPending then
        and_then (unwrap (initiated_at d)) (\<lambda>t.
        and_then (add_u64 t 86400) (\<lambda>deadline. Ok (if now > deadline then SwapFailed else SwapPending)))
      else Ok (status d))"

definition map_swap :: "bool \<Rightarrow> u64 \<Rightarrow> bool \<Rightarrow> payment_hash \<times> SwapData \<Rightarrow> swap_view handler" where
  "map_swap io now taker_side kv =
     (let h = fst kv; d = snd kv
      in act_bind (act_lift (current_status now d)) (\<lambda>st.
         act_bind (if st \<noteq> status d
                   then (if taker_side then update_taker_swap_status io now h st
                         else update_maker_swap_status io now h st)
                   else act_return ()) (\<lambda>_.
           act_return \<lparr>sv_payment_hash = hex_str h, sv_info = swap_info d, sv_status = st,
                       sv_requested_at = requested_at d, sv_initiated_at = initiated_at d,
                       sv_completed_at = completed_at d\<rparr>)))"

definition list_swaps :: "bool \<Rightarrow> u64 \<Rightarrow> (swap_view list \<times> swap_view list) handler" where
  "list_swaps io now =
     act_bind taker_swaps (\<lambda>ts.
     act_bind maker_swaps (\<lambda>ms.
     act_bind (act_map (map_swap io now True) ts) (\<lambda>tv.
     act_bind (act_map (map_swap io now False) ms) (\<lambda>mv. act_return (tv, mv)))))"

definition parse_hash :: "string \<Rightarrow> (APIError, payment_hash) outcome" where
  "parse_hash t =
     (case hex_str_to_vec t of
        None \<Rightarrow> Err (InvalidPaymentHash t)
      | Some v \<Rightarrow> if length v \<noteq> 32 then Err (InvalidPaymentHash t) else Ok v)"

definition get_swap :: "bool \<Rightarrow> u64 \<Rightarrow> string \<Rightarrow> bool \<Rightarrow> swap_view handler" where
  "get_swap io now payment_hash_text taker_side =
     act_bind (act_lift (parse_hash payment_hash_text)) (\<lambda>requested.
     act_bind (if taker_side then taker_swaps else maker_swaps) (\<lambda>swaps.
       case map_of swaps requested of
         Some d \<Rightarrow> map_swap io now taker_side (requested, d)
       | None \<Rightarrow> act_lift (Err (SwapNotFound payment_hash_text))))"

end
