(* ===== verification/SwapProps.thy ===== *)
theory SwapProps
  imports SwapRoutes
begin

text \<open>
  What the swap handlers guarantee: an offer can be taken by its taker, the route of an executed swap
  stays below the fee limit and carries the amounts of the swap, listing swaps is total and reports the
  current status, and an execution for an unknown swap poisons the store.
\<close>

section \<open>Offers\<close>

text \<open>The parser of contract ids, as the library documents it: the id it returns prints to a text that
  reads back as itself, has no slash, and is not the word for bitcoin.\<close>

definition contract_parser_ok :: "(string \<Rightarrow> contract_id option) \<Rightarrow> bool" where
  "contract_parser_ok p \<longleftrightarrow> (\<forall>t c. p t = Some c \<longrightarrow> valid_asset p (Some c))"

lemma parse_asset_valid:
  "contract_parser_ok p \<Longrightarrow> parse_asset p a = Ok x \<Longrightarrow> valid_asset p x"
  by (auto simp: parse_asset_def contract_parser_ok_def valid_asset_def split: option.splits)

lemma add_maker_swap_result:
  "\<not> poisoned (maker_store s) \<Longrightarrow>
   add_maker_swap True h d s = (Ok (), s\<lparr>maker_store := saved h d (maker_store s)\<rparr>)"
  by (simp add: add_maker_swap_def zoom_def add_swap_def put_and_save_result saved_def)

lemma add_taker_swap_result:
  "\<not> poisoned (taker_store s) \<Longrightarrow>
   add_taker_swap True h d s = (Ok (), s\<lparr>taker_store := saved h d (taker_store s)\<rparr>)"
  by (simp add: add_taker_swap_def zoom_def add_swap_def put_and_save_result saved_def)

lemma unat_ucast_u32 [simp]: "unat (ucast (t :: u32) :: u64) = unat t"
  using unsigned_less [of t, where ?'a = nat] by (simp add: unsigned_ucast_eq take_bit_nat_eq_self_iff)

lemma maker_init_Ok:
  assumes "maker_init env qf qt fa ta timeout s = (Ok resp, t)"
    and "\<not> poisoned (maker_store s)" and "se_io env"
  shows "\<exists>fr to x h secret.
    parse_asset (contract_from_str env) fa = Ok fr \<and> parse_asset (contract_from_str env) ta = Ok to
    \<and> fr \<noteq> to \<and> add_u64 (se_now env) (ucast timeout) = (Ok x :: (APIError, u64) outcome)
    \<and> (case to of Some a \<Rightarrow> qt \<le> get_max_local_rgb_amount (se_rgb env) a (se_channels env) | None \<Rightarrow> True)
    \<and> create_inbound_payment env (unat timeout) = Some (h, secret)
    \<and> maker_store t = saved h (create_from_swap_info (se_now env)
        \<lparr>qty_from = qf, qty_to = qt, from_asset = fr, to_asset = to, expiry = x\<rparr>) (maker_store s)
    \<and> resp = \<lparr>mi_payment_hash = hex_str h, mi_payment_secret = hex_str secret,
             mi_swapstring = swap_string_display
               \<lparr>ss_swap_info = \<lparr>qty_from = qf, qty_to = qt, from_asset = fr, to_asset = to, expiry = x\<rparr>,
                ss_payment_hash = h\<rparr>\<rparr>"
  using assms
  by (auto simp: maker_init_def act_bind_Ok act_lift_def call_def Let_def guard_or_def
      add_maker_swap_result split: if_splits option.splits)


text \<open>The example: one coloured channel with five units of an asset here and fifty there, and a router
  that answers with a single hop.\<close>

definition example_hop :: "pubkey \<Rightarrow> u64 \<Rightarrow> route_hop" where
  "example_hop pk fee = \<lparr>hop_pubkey = pk, hop_scid = 6, hop_fee_msat = fee, hop_rgb_payment = None\<rparr>"

definition example_swap_env :: "u64 \<Rightarrow> swap_env" where
  "example_swap_env now =
     \<lparr>se_now = now, se_io = True,
      contract_from_str = (\<lambda>t. if t = ''rgb:a'' then Some t else None),
      pubkey_from_str = (\<lambda>t. hex_str_to_vec t),
      se_rgb = env_rgb example_env, se_channels = [[1]], se_usable = [], our_node_id = [1],
      create_inbound_payment = (\<lambda>n. Some (replicate 32 7, replicate 32 9)),
      get_payment_preimage = (\<lambda>h sec. Some (replicate 32 5)),
      max_total_cltv = 1008, max_path_len = 20,
      find_route = (\<lambda>src rp. Ok [[example_hop [2] 1000]]),
      is_swap_scid = 1, send_spontaneous = (\<lambda>hops pre h. Ok ())\<rparr>"

definition example_offer :: "maker_init_response" where
  "example_offer =
     \<lparr>mi_payment_hash = hex_str (replicate 32 7), mi_payment_secret = hex_str (replicate 32 9),
      mi_swapstring = swap_string_display
        \<lparr>ss_swap_info = \<lparr>qty_from = 5000, qty_to = 4, from_asset = None, to_asset = Some ''rgb:a'', expiry = 1100\<rparr>,
         ss_payment_hash = replicate 32 7\<rparr>\<rparr>"

lemma example_max_local [simp]:
  "get_max_local_rgb_amount (env_rgb example_env) ''rgb:a'' [[1]] = 5"
  by (simp add: get_max_local_fold local_amounts_def example_env_def get_rgb_channel_info_optional_def)

lemma example_maker_init:
  "\<exists>mt. maker_init (example_swap_env 1000) 5000 4 None (Some ''rgb:a'') 100 example_node = (Ok example_offer, mt)"
  by (simp add: maker_init_def parse_asset_def example_swap_env_def add_u64_def act_bind_def call_def
      example_node_def empty_store_def add_maker_swap_result example_offer_def Let_def)


section \<open>The executed route\<close>

lemma mark_swap_Ok:
  "mark_swap flag hops = Ok hops' \<longleftrightarrow>
     (\<exists>h hs. hops = h # hs \<and> hops' = h\<lparr>hop_scid := or (hop_scid h) flag\<rparr> # hs)"
  by (auto simp: mark_swap_def split: list.splits)

lemma clear_last_fee_Ok:
  "clear_last_fee hops = Ok hops' \<longleftrightarrow>
     hops \<noteq> [] \<and> hops' = butlast hops @ [(last hops)\<lparr>hop_fee_msat := 0\<rparr>]"
  by (auto simp: clear_last_fee_def)

lemma first_path_Ok: "first_path r = Ok p \<longleftrightarrow> (\<exists>ps. r = p # ps)"
  by (auto simp: first_path_def split: list.splits)

lemmas path_steps_Ok = mark_swap_Ok clear_last_fee_Ok first_path_Ok

text \<open>What holds of an executed path made of a way out and a way back.\<close>

definition path_ok :: "u64 \<Rightarrow> SwapInfo \<Rightarrow> route_hop list \<Rightarrow> route_hop list \<Rightarrow> route_hop list \<Rightarrow> bool" where
  "path_ok flag info out back hops \<longleftrightarrow>
     out \<noteq> [] \<and> back \<noteq> []
     \<and> map hop_pubkey hops = map hop_pubkey (out @ back)
     \<and> map hop_scid hops = map hop_scid out @ or (hop_scid (hd back)) flag # map hop_scid (tl back)
     \<and> map hop_fee_msat hops = map hop_fee_msat (butlast out) @ 0 # map hop_fee_msat back
     \<and> map hop_rgb_payment hops =
         map (\<lambda>h. case to_asset info of Some a \<Rightarrow> Some (a, qty_to info) | None \<Rightarrow> hop_rgb_payment h) out
         @ map (\<lambda>h. case from_asset info of Some a \<Rightarrow> Some (a, qty_from info) | None \<Rightarrow> hop_rgb_payment h) back
     \<and> sum_list (map (\<lambda>h. unat (hop_fee_msat h)) (butlast hops)) < 3000000"

lemma full_path_fields:
  "map hop_pubkey (full_path info out back) = map hop_pubkey (out @ back)"
  "map hop_scid (full_path info out back) = map hop_scid (out @ back)"
  "map hop_fee_msat (full_path info out back) = map hop_fee_msat (out @ back)"
  by (auto simp: full_path_def split: option.splits)

lemma swap_path_Ok:
  assumes "swap_path env info pk = Ok hops"
  shows "\<exists>out back fs ss. swap_legs env info pk = Ok (out # fs, back # ss)
      \<and> path_ok (is_swap_scid env) info out back hops"
proof -
  from assms obtain out fs h hs ss total where
    legs: "swap_legs env info pk = Ok (out # fs, (h # hs) # ss)" and out: "out \<noteq> []"
    and hops: "hops = full_path info (butlast out @ [(last out)\<lparr>hop_fee_msat := 0\<rparr>])
                 (h\<lparr>hop_scid := or (hop_scid h) (is_swap_scid env)\<rparr> # hs)"
    and total: "sum_u64 (map hop_fee_msat (tl (rev hops))) = (Ok total :: (APIError, u64) outcome)"
      "total < 3000000"
    by (auto simp: swap_path_def and_then_eq_Ok path_steps_Ok Let_def split: if_splits)
  have rev_butlast: "tl (rev hops) = rev (butlast hops)" by (metis butlast_rev rev_rev_ident)
  have "unat total < 3000000" using total(2) by (simp add: word_less_nat_alt)
  then have fee: "sum_list (map (\<lambda>h. unat (hop_fee_msat h)) (butlast hops)) < 3000000"
    using total(1) by (simp add: sum_u64_Ok rev_butlast comp_def sum_list_rev flip: rev_map)
  obtain init final where "out = init @ [final]" using out by (metis rev_exhaust)
  then have "path_ok (is_swap_scid env) info out (h # hs) hops"
    using fee
    unfolding path_ok_def hops full_path_fields
    by (simp add: full_path_def comp_def split: option.splits)
  then show ?thesis using legs by blast
qed

lemma outcome_unit: "x = Ok () \<longleftrightarrow> x \<noteq> Panic \<and> (\<forall>e. x \<noteq> Err e)"
  by (cases x) auto

lemma update_maker_known:
  assumes "\<not> poisoned (maker_store s)" "map_of (entries (maker_store s)) h = Some d" "st \<noteq> SwapWaiting"
  shows "update_maker_swap_status True now h st s =
    (Ok (), s\<lparr>maker_store := saved h (the (set_swap_status now st d)) (maker_store s)\<rparr>)"
  using assms
  by (cases st)
    (auto simp: update_maker_swap_status_def zoom_def update_swap_result set_swap_status_def
      saved_def put_and_save_result)

lemma update_maker_unknown:
  assumes "\<not> poisoned (maker_store s)" "map_of (entries (maker_store s)) h = None"
  shows "update_maker_swap_status io now h st s = (Panic, s\<lparr>maker_store := (maker_store s)\<lparr>poisoned := True\<rparr>\<rparr>)"
  using assms by (simp add: update_maker_swap_status_def zoom_def update_swap_result)

lemma saved_look: "\<not> poisoned st \<Longrightarrow> map_of (entries (saved h d st)) = (map_of (entries st))(h \<mapsto> d)"
  by (simp add: saved_def put_and_save_result update_conv')

lemma saved_sound [simp]: "\<not> poisoned st \<Longrightarrow> \<not> poisoned (saved h d st)"
  by (simp add: saved_def put_and_save_result)

text \<open>
  C11: an execution that succeeds places one payment to itself, after writing the amount of the asset it
  gives, along a route of its two legs to the taker and back: the first hop back carries the swap flag,
  the last hop out takes no fee, every hop out carries the asset given and every hop back the asset
  taken, in the amounts of the swap, and the fees before the final hop sum to less than the limit of
  three thousand satoshi.  The swap has not expired and is pending from then on.
\<close>

theorem executed_swap_route:
  assumes "maker_execute env offer_text secret_text taker_text s = (Ok (), t)"
    and "\<not> poisoned (maker_store s)" and "se_io env"
    and "swap_string_from_str (contract_from_str env) offer_text = Ok ss"
    and "map_of (entries (maker_store s)) (ss_payment_hash ss) = Some d"
  shows "\<exists>pk hops out back fs bs pre.
      pubkey_from_str env taker_text = Some pk
      \<and> se_now env \<le> expiry (ss_swap_info ss)
      \<and> swap_legs env (ss_swap_info ss) pk = Ok (out # fs, back # bs)
      \<and> path_ok (is_swap_scid env) (ss_swap_info ss) out back hops
      \<and> calls t = calls s @ (case to_asset (ss_swap_info ss) of
                               Some a \<Rightarrow> [Write_payment_info (ss_payment_hash ss) a (qty_to (ss_swap_info ss)) True False]
                             | None \<Rightarrow> []) @ [Send_spontaneous hops pre (ss_payment_hash ss)]
      \<and> map_of (entries (maker_store t)) (ss_payment_hash ss)
          = Some (d\<lparr>initiated_at := Some (se_now env), status := SwapPending\<rparr>)"
proof -
  from assms obtain pk hops pre where
    pk: "pubkey_from_str env taker_text = Some pk"
    and now: "se_now env \<le> expiry (ss_swap_info ss)"
    and path: "swap_path env (ss_swap_info ss) pk = Ok hops"
    and calls: "calls t = calls s @ (case to_asset (ss_swap_info ss) of
          Some a \<Rightarrow> [Write_payment_info (ss_payment_hash ss) a (qty_to (ss_swap_info ss)) True False]
        | None \<Rightarrow> []) @ [Send_spontaneous hops pre (ss_payment_hash ss)]"
    and st: "map_of (entries (maker_store t)) (ss_payment_hash ss)
        = Some (d\<lparr>initiated_at := Some (se_now env), status := SwapPending\<rparr>)"
    by (auto simp: maker_execute_def start_swap_def parse_swapstring_def act_bind_Ok call_def Let_def saved_look
        update_maker_known set_swap_status_def outcome_unit split: if_splits option.splits outcome.splits)
  from swap_path_Ok [OF path] show ?thesis using pk now calls st by blast
qed


definition example_offer_node :: node where
  "example_offer_node = example_node\<lparr>maker_store := open_store (Some [(replicate 32 7,
     create_from_swap_info 1000
       \<lparr>qty_from = 5000, qty_to = 4, from_asset = None, to_asset = Some ''rgb:a'', expiry = 1100\<rparr>)])\<rparr>"

lemma example_offer_parses:
  "swap_string_from_str (contract_from_str (example_swap_env n)) (mi_swapstring example_offer)
     = Ok \<lparr>ss_swap_info = \<lparr>qty_from = 5000, qty_to = 4, from_asset = None, to_asset = Some ''rgb:a'', expiry = 1100\<rparr>,
           ss_payment_hash = replicate 32 7\<rparr>"
  unfolding example_offer_def maker_init_response.select_convs
  by (rule swap_string_parses)
    (simp_all add: swap_info_ok_def same_asset_def valid_asset_def example_swap_env_def)

lemma example_legs:
  "swap_legs (example_swap_env n) \<lparr>qty_from = 5000, qty_to = 4, from_asset = None, to_asset = Some ''rgb:a'', expiry = 1100\<rparr> pk
     = Ok ([[example_hop [2] 1000]], [[example_hop [2] 1000]])"
  by (simp add: swap_legs_def receive_channels_def example_swap_env_def swap_kind_defs swap_route_def
      get_route_def add_u64_def Let_def)

lemma example_path:
  "\<exists>hops. swap_path (example_swap_env n) \<lparr>qty_from = 5000, qty_to = 4, from_asset = None, to_asset = Some ''rgb:a'', expiry = 1100\<rparr> pk
     = Ok hops"
  by (simp add: swap_path_def example_legs first_path_def mark_swap_def clear_last_fee_def full_path_def
      example_hop_def sum_u64_def add_u64_def Let_def)

lemma example_answers [simp]:
  "pubkey_from_str (example_swap_env n) t = hex_str_to_vec t"
  "se_io (example_swap_env n)" "se_now (example_swap_env n) = n"
  "get_payment_preimage (example_swap_env n) h sec = Some (replicate 32 5)"
  "send_spontaneous (example_swap_env n) hops pre h = Ok ()"
  by (simp_all add: example_swap_env_def)

lemma example_offer_node_store [simp]:
  "\<not> poisoned (maker_store example_offer_node)"
  "map_of (entries (maker_store example_offer_node)) (replicate 32 7)
     = Some (create_from_swap_info 1000
         \<lparr>qty_from = 5000, qty_to = 4, from_asset = None, to_asset = Some ''rgb:a'', expiry = 1100\<rparr>)"
  by (simp_all add: example_offer_node_def)

lemma example_execute:
  "\<exists>t. maker_execute (example_swap_env 1050) (mi_swapstring example_offer) (hex_str (replicate 32 9))
        (hex_str [2]) example_offer_node = (Ok (), t)"
proof -
  obtain hops where hops: "swap_path (example_swap_env 1050)
      \<lparr>qty_from = 5000, qty_to = 4, from_asset = None, to_asset = Some ''rgb:a'', expiry = 1100\<rparr> [2] = Ok hops"
    using example_path by blast
  show ?thesis
    by (simp add: maker_execute_def start_swap_def parse_swapstring_def example_offer_parses parse_secret_def act_bind_def
        hops call_def update_maker_known Let_def)
qed

theorem executed_swap_route_witness:
  "\<exists>out back fs bs. swap_legs (example_swap_env 1050)
       \<lparr>qty_from = 5000, qty_to = 4, from_asset = None, to_asset = Some ''rgb:a'', expiry = 1100\<rparr> [2]
     = Ok (out # fs, back # bs)"
proof -
  obtain t where "maker_execute (example_swap_env 1050) (mi_swapstring example_offer)
      (hex_str (replicate 32 9)) (hex_str [2]) example_offer_node = (Ok (), t)"
    using example_execute by blast
  from executed_swap_route [OF this _ _ example_offer_parses] show ?thesis by auto
qed

lemma execute_expired:
  assumes "swap_string_from_str (contract_from_str env) offer_text = Ok ss"
    and "parse_secret secret_text = Ok sec" and "pubkey_from_str env taker_text = Some pk"
    and "expiry (ss_swap_info ss) < se_now env"
  shows "maker_execute env offer_text secret_text taker_text s =
    act_bind (update_maker_swap_status (se_io env) (se_now env) (ss_payment_hash ss) SwapExpired)
      (\<lambda>_. act_lift (Err ExpiredSwapOffer)) s"
  using assms by (simp add: maker_execute_def start_swap_def parse_swapstring_def Let_def)

lemma update_maker_poisoned:
  "poisoned (maker_store s) \<Longrightarrow> update_maker_swap_status io now h st s = (Panic, s)"
  by (simp add: update_maker_swap_status_def zoom_def update_swap_status_def locked_out)

lemma list_swaps_poisoned: "poisoned (maker_store s) \<Longrightarrow> list_swaps io now s = (Panic, s)"
  by (simp add: list_swaps_def maker_swaps_def taker_swaps_def zoom_def read_store_def locked_out
      act_bind_def lock_store_def)

text \<open>
  Executing an offer that has expired, whose payment hash is not that of a swap this node offered,
  panics while the maker's swaps are locked: from then on listing swaps panics, and so does every
  execution of an expired offer.  The text of the offer comes from the client.
\<close>

theorem unknown_expired_offer_poisons:
  assumes "swap_string_from_str (contract_from_str env) offer_text = Ok ss"
    and "parse_secret secret_text = Ok sec" and "pubkey_from_str env taker_text = Some pk"
    and "expiry (ss_swap_info ss) < se_now env"
    and "\<not> poisoned (maker_store s)" and "map_of (entries (maker_store s)) (ss_payment_hash ss) = None"
  shows "\<exists>t. maker_execute env offer_text secret_text taker_text s = (Panic, t)
      \<and> fst (list_swaps io now t) = Panic
      \<and> fst (maker_execute env offer_text secret_text taker_text t) = Panic"
  using assms
  by (simp add: execute_expired update_maker_unknown act_bind_Panic_step list_swaps_poisoned
      update_maker_poisoned)

theorem unknown_expired_offer_poisons_witness:
  "fst (maker_execute (example_swap_env 2000) (mi_swapstring example_offer) (hex_str (replicate 32 9))
     (hex_str [2]) example_node) = Panic"
  using unknown_expired_offer_poisons
    [where env = "example_swap_env 2000" and offer_text = "mi_swapstring example_offer" and s = example_node
       and secret_text = "hex_str (replicate 32 9)" and taker_text = "hex_str [2]" and io = True and now = 0,
     OF example_offer_parses]
  by (fastforce simp: parse_secret_def example_node_def empty_store_def)

section \<open>Listing\<close>

text \<open>The status a listing reports at a time, and the swap it leaves behind.\<close>

definition reported :: "u64 \<Rightarrow> SwapData \<Rightarrow> SwapStatus" where
  "reported now d =
     (if status d = SwapWaiting \<and> now > expiry (swap_info d) then SwapExpired
      else if status d = SwapPending \<and> unat (the (initiated_at d)) + 86400 < unat now then SwapFailed
      else status d)"

definition refreshed :: "u64 \<Rightarrow> SwapData \<Rightarrow> SwapData" where
  "refreshed now d =
     (if reported now d = status d then d
      else d\<lparr>completed_at := Some now, status := reported now d\<rparr>)"

text \<open>The deadline of a pending swap is a time: its start plus a day does not overflow.\<close>

definition deadline_ok :: "SwapData \<Rightarrow> bool" where
  "deadline_ok d \<longleftrightarrow> (case initiated_at d of Some t \<Rightarrow> unat t + 86400 < 2 ^ 64 | None \<Rightarrow> True)"

lemma current_status_reported:
  assumes "swap_wf d" and "deadline_ok d"
  shows "current_status now d = Ok (reported now d)"
proof (cases "status d = SwapPending")
  case True
  with assms(1) obtain t where t: "initiated_at d = Some t" by (auto simp: swap_wf_def)
  with assms(2) have "unat t + 86400 < 2 ^ 64" by (simp add: deadline_ok_def)
  moreover from this have "unat (t + 86400) = unat t + 86400" by (simp add: unat_word_ariths)
  ultimately show ?thesis
    using True t by (simp add: current_status_def reported_def add_u64_def word_less_nat_alt)
qed (simp add: current_status_def reported_def)

lemma reported_changed:
  "reported now d \<noteq> status d \<Longrightarrow>
   the (set_swap_status now (reported now d) d) = refreshed now d \<and> reported now d \<noteq> SwapWaiting"
  by (auto simp: reported_def refreshed_def set_swap_status_def split: if_splits)

definition view :: "u64 \<Rightarrow> payment_hash \<times> SwapData \<Rightarrow> swap_view" where
  "view now kv = \<lparr>sv_payment_hash = hex_str (fst kv), sv_info = swap_info (snd kv), sv_status = reported now (snd kv),
     sv_requested_at = requested_at (snd kv), sv_initiated_at = initiated_at (snd kv),
     sv_completed_at = completed_at (snd kv)\<rparr>"

text \<open>The store after some of its swaps were listed.\<close>

definition refresh_one :: "u64 \<Rightarrow> payment_hash \<times> SwapData \<Rightarrow> swap_store \<Rightarrow> swap_store" where
  "refresh_one now kv st =
     (if reported now (snd kv) = status (snd kv) then st else saved (fst kv) (refreshed now (snd kv)) st)"

definition refresh_all :: "u64 \<Rightarrow> (payment_hash \<times> SwapData) list \<Rightarrow> swap_store \<Rightarrow> swap_store" where
  "refresh_all now kvs st = fold (refresh_one now) kvs st"

definition listable :: "(payment_hash \<times> SwapData) list \<Rightarrow> swap_store \<Rightarrow> bool" where
  "listable kvs st \<longleftrightarrow>
     \<not> poisoned st \<and> distinct (map fst kvs)
     \<and> (\<forall>(h, d) \<in> set kvs. map_of (entries st) h = Some d \<and> swap_wf d \<and> deadline_ok d)"

lemma refresh_one_sound [simp]: "poisoned (refresh_one now kv st) \<longleftrightarrow> poisoned st"
  by (cases "poisoned st")
    (auto simp: refresh_one_def saved_def put_and_save_def act_bind_def lock_store_def
      insert_entry_def save_store_def)

lemma refresh_one_look:
  "\<not> poisoned st \<Longrightarrow> map_of (entries st) (fst kv) = Some (snd kv) \<Longrightarrow>
   map_of (entries (refresh_one now kv st)) = (map_of (entries st))(fst kv \<mapsto> refreshed now (snd kv))"
  by (auto simp: refresh_one_def saved_look refreshed_def fun_eq_iff)

lemma listable_step: "listable (kv # kvs) st \<Longrightarrow> listable kvs (refresh_one now kv st)"
  by (auto simp: listable_def refresh_one_look split: prod.splits) (force simp: refresh_one_look)

lemma list_taker_step:
  "listable (kv # kvs) (taker_store s) \<Longrightarrow>
   map_swap True now True kv s = (Ok (view now kv), s\<lparr>taker_store := refresh_one now kv (taker_store s)\<rparr>)"
  by (auto simp: map_swap_def listable_def current_status_reported Let_def act_bind_def refresh_one_def
      update_taker_known reported_changed view_def split: prod.splits)

lemma list_maker_step:
  "listable (kv # kvs) (maker_store s) \<Longrightarrow>
   map_swap True now False kv s = (Ok (view now kv), s\<lparr>maker_store := refresh_one now kv (maker_store s)\<rparr>)"
  by (auto simp: map_swap_def listable_def current_status_reported Let_def act_bind_def refresh_one_def
      update_maker_known reported_changed view_def split: prod.splits)

lemma list_taker:
  "listable kvs (taker_store s) \<Longrightarrow>
   act_map (map_swap True now True) kvs s
     = (Ok (map (view now) kvs), s\<lparr>taker_store := refresh_all now kvs (taker_store s)\<rparr>)"
proof (induction kvs arbitrary: s)
  case (Cons kv kvs)
  show ?case
    using Cons.IH [of "s\<lparr>taker_store := refresh_one now kv (taker_store s)\<rparr>"] listable_step [OF Cons.prems]
    by (simp add: act_bind_def list_taker_step [OF Cons.prems] refresh_all_def)
qed (simp add: refresh_all_def)

lemma list_maker:
  "listable kvs (maker_store s) \<Longrightarrow>
   act_map (map_swap True now False) kvs s
     = (Ok (map (view now) kvs), s\<lparr>maker_store := refresh_all now kvs (maker_store s)\<rparr>)"
proof (induction kvs arbitrary: s)
  case (Cons kv kvs)
  show ?case
    using Cons.IH [of "s\<lparr>maker_store := refresh_one now kv (maker_store s)\<rparr>"] listable_step [OF Cons.prems]
    by (simp add: act_bind_def list_maker_step [OF Cons.prems] refresh_all_def)
qed (simp add: refresh_all_def)

lemma refresh_all_look:
  "listable kvs st \<Longrightarrow>
   map_of (entries (refresh_all now kvs st)) h =
     (case map_of kvs h of Some d \<Rightarrow> Some (refreshed now d) | None \<Rightarrow> map_of (entries st) h)"
proof (induction kvs arbitrary: st)
  case (Cons kv kvs)
  have "map_of kvs (fst kv) = None"
    using Cons.prems by (auto simp: listable_def map_of_eq_None_iff)
  then show ?case
    using Cons.IH [OF listable_step [OF Cons.prems]] Cons.prems
    by (cases kv) (auto simp: refresh_all_def refresh_one_look listable_def split: option.splits)
qed (simp add: refresh_all_def)

lemma listable_entries:
  assumes "store_sound st" and "swaps_wf st" and "\<forall>d \<in> snd ` set (entries st). deadline_ok d"
  shows "listable (entries st) st"
  using assms by (force simp: listable_def store_sound_def store_ok_def swaps_wf_def)

text \<open>
  Listing the swaps of sound stores answers with every swap, in the order of the stores, each with
  its status at that time: a waiting swap past its expiry has expired and a pending one has failed a
  day after its start.  The stores then hold these statuses with the time of the listing as their end,
  and nothing else changes; the times that are reported are those from before the listing.
\<close>

theorem swaps_listed:
  assumes "store_sound (taker_store s)" and "store_sound (maker_store s)"
    and "swaps_wf (taker_store s)" and "swaps_wf (maker_store s)"
    and "\<forall>d \<in> snd ` set (entries (taker_store s)). deadline_ok d"
    and "\<forall>d \<in> snd ` set (entries (maker_store s)). deadline_ok d"
  shows "\<exists>tst mst. list_swaps True now s
       = (Ok (map (view now) (entries (taker_store s)), map (view now) (entries (maker_store s))),
          s\<lparr>taker_store := tst, maker_store := mst\<rparr>)
     \<and> map_of (entries tst) = map_option (refreshed now) \<circ> map_of (entries (taker_store s))
     \<and> map_of (entries mst) = map_option (refreshed now) \<circ> map_of (entries (maker_store s))"
proof -
  note t = listable_entries [OF assms(1,3,5)] and m = listable_entries [OF assms(2,4,6)]
  have look: "map_of (entries (refresh_all now (entries st) st)) = map_option (refreshed now) \<circ> map_of (entries st)"
    if "listable (entries st) st" for st
    by (rule ext) (simp add: refresh_all_look [OF that] split: option.splits)
  have "list_swaps True now s
       = (Ok (map (view now) (entries (taker_store s)), map (view now) (entries (maker_store s))),
          s\<lparr>taker_store := refresh_all now (entries (taker_store s)) (taker_store s),
            maker_store := refresh_all now (entries (maker_store s)) (maker_store s)\<rparr>)"
    using assms(1,2) list_taker [OF t, of now] m
    by (simp add: list_swaps_def taker_swaps_def maker_swaps_def zoom_def read_store_def act_bind_def
        lock_store_def store_sound_def list_maker)
  then show ?thesis using look [OF t] look [OF m] by blast
qed

theorem swaps_listed_witness:
  "fst (list_swaps True 2000 example_offer_node) = Ok
     ([view 2000 ([9], example_swap)],
      [view 2000 (replicate 32 7, create_from_swap_info 1000
         \<lparr>qty_from = 5000, qty_to = 4, from_asset = None, to_asset = Some ''rgb:a'', expiry = 1100\<rparr>)])"
proof -
  have "store_sound (taker_store example_offer_node)" "store_sound (maker_store example_offer_node)"
    "swaps_wf (taker_store example_offer_node)" "swaps_wf (maker_store example_offer_node)"
    by (simp_all add: example_offer_node_def example_node_def store_sound_def store_ok_def swaps_wf_def
        swap_wf_def example_swap_def create_from_swap_info_def)
  from swaps_listed [OF this, of 2000] show ?thesis
    by (auto simp: example_offer_node_def example_node_def deadline_ok_def example_swap_def
        create_from_swap_info_def)
qed

end
