(* ===== verification/Lifecycle.thy ===== *)
theory Lifecycle
  imports Backup
begin

text \<open>
  The life of the node: \<open>AppState\<close> of \<open>src/src/utils.rs\<close> with the checks and the handlers of
  \<open>src/src/routes.rs\<close> that change it (\<open>init\<close>, \<open>unlock\<close>, \<open>lock\<close>, \<open>backup\<close>, \<open>restore\<close>,
  \<open>change_password\<close>, \<open>shutdown\<close>), \<open>stop_ldk\<close> of \<open>ldk.rs\<close> and the shutdown signal of \<open>main.rs\<close>.

  Handlers run at the same time.  A task is a handler with the point it has reached; what it does
  between two points where another task can run is one step, and a step that waits for the mutex of the
  unlocked state is not enabled while a task holds it.  An LDK instance is a number; \<open>live\<close> are the
  instances that were started and not stopped.  \<open>start_ldk\<close> (\<open>Startup\<close>) is an answer of the environment,
  with whether a start that failed left its tasks running.
\<close>

section \<open>State\<close>

record lifecycle =
  unlocked_state :: "nat option"
  services :: "nat option"
  changing :: bool
  guard :: "nat option"
  storage :: tree
  backups :: "(string \<times> string) list"
  live :: "nat list"
  next_ldk :: nat
  cancelled :: bool

record 'k lifecycle_env =
  le_ops :: "'k backup_ops"
  le_encrypt :: "string \<Rightarrow> string \<Rightarrow> string"
  le_decrypt :: "string \<Rightarrow> string \<Rightarrow> string option"
  le_parse :: "string \<Rightarrow> string option"
  le_path :: string
  le_write_error :: "nat \<Rightarrow> shown option"
  le_generated :: "nat \<Rightarrow> string"
  le_salt :: "nat \<Rightarrow> string"
  le_nonce :: "nat \<Rightarrow> string"
  le_start :: "nat \<Rightarrow> string \<Rightarrow> (APIError, unit) outcome"
  le_left :: "nat \<Rightarrow> string \<Rightarrow> bool"
  le_stops :: "nat \<Rightarrow> bool"

datatype request =
    Init string
  | Unlock string
  | Lock
  | Take_backup string string
  | Restore string string
  | Change_password string string
  | Use
  | Shutdown
  | Terminate

datatype reply = Empty | Mnemonic string

type_synonym 'a lc_action = "(lifecycle, APIError, 'a) action"

section \<open>Checks\<close>

definition check_changing_state :: "lifecycle \<Rightarrow> (APIError, unit) outcome" where
  "check_changing_state s = (if changing s then Err ChangingState else Ok ())"

text \<open>Taking the mutex and looking at the state under it; \<open>None\<close> while another task holds it.  The guard is
  dropped with the error.\<close>

definition check_locked :: "nat \<Rightarrow> lifecycle \<Rightarrow> ((APIError, unit) outcome \<times> lifecycle) option" where
  "check_locked tid s =
     (if guard s \<noteq> None then None
      else Some (if unlocked_state s \<noteq> None then (Err UnlockedNode, s) else (Ok (), s\<lparr>guard := Some tid\<rparr>)))"

definition check_unlocked :: "nat \<Rightarrow> lifecycle \<Rightarrow> ((APIError, unit) outcome \<times> lifecycle) option" where
  "check_unlocked tid s =
     (if guard s \<noteq> None then None
      else Some (if unlocked_state s = None then (Err LockedNode, s) else (Ok (), s\<lparr>guard := Some tid\<rparr>)))"

definition update_changing_state :: "bool \<Rightarrow> lifecycle \<Rightarrow> lifecycle" where
  "update_changing_state b s = s\<lparr>changing := b\<rparr>"

definition update_ldk_background_services :: "nat option \<Rightarrow> lifecycle \<Rightarrow> lifecycle" where
  "update_ldk_background_services g s = s\<lparr>services := g\<rparr>"

definition update_unlocked_app_state :: "nat option \<Rightarrow> lifecycle \<Rightarrow> lifecycle option" where
  "update_unlocked_app_state g s = (if guard s \<noteq> None then None else Some (s\<lparr>unlocked_state := g\<rparr>))"

definition release :: "lifecycle \<Rightarrow> lifecycle" where
  "release s = s\<lparr>guard := None\<rparr>"

section \<open>The handlers of a locked node\<close>

definition mnemonic_file :: "lifecycle \<Rightarrow> string option" where
  "mnemonic_file s = map_of (storage s) ''mnemonic''"

definition save_mnemonic :: "'k lifecycle_env \<Rightarrow> nat \<Rightarrow> string \<Rightarrow> string \<Rightarrow> unit lc_action" where
  "save_mnemonic env tid pw words s =
     (case encrypt_and_save_mnemonic (le_encrypt env) (le_write_error env tid) pw words (le_path env) (mnemonic_file s) of
        (r, Some f) \<Rightarrow> (r, s\<lparr>storage := AList.update ''mnemonic'' f (storage s)\<rparr>)
      | (r, None) \<Rightarrow> (r, s))"

definition read_mnemonic :: "'k lifecycle_env \<Rightarrow> string \<Rightarrow> lifecycle \<Rightarrow> (APIError, string) outcome" where
  "read_mnemonic env pw s = check_password_validity (le_decrypt env) (le_parse env) pw (mnemonic_file s)"

definition init :: "'k lifecycle_env \<Rightarrow> nat \<Rightarrow> string \<Rightarrow> reply lc_action" where
  "init env tid pw =
     act_bind (act_lift (check_password_strength pw)) (\<lambda>_.
     act_bind (\<lambda>s. (check_already_initialized (mnemonic_file s), s)) (\<lambda>_.
     act_bind (save_mnemonic env tid pw (le_generated env tid)) (\<lambda>_.
       act_return (Mnemonic (le_generated env tid)))))"

text \<open>The walk of the storage directory: its files.\<close>

definition storage_walk :: "tree \<Rightarrow> walk" where
  "storage_walk t = ([], None) # map (\<lambda>(n, c). (n, Some c)) t"

definition backup :: "'k lifecycle_env \<Rightarrow> nat \<Rightarrow> string \<Rightarrow> string \<Rightarrow> reply lc_action" where
  "backup env tid pw path =
     act_bind (\<lambda>s. (read_mnemonic env pw s, s)) (\<lambda>_.
     act_bind (\<lambda>s. (do_backup (le_ops env) (le_salt env tid) (le_nonce env tid) (storage_walk (storage s)) pw
                      (map_of (backups s) path), s)) (\<lambda>b.
     act_bind (act_modify (\<lambda>s. s\<lparr>backups := AList.update path b (backups s)\<rparr>)) (\<lambda>_. act_return Empty)))"

definition restore :: "'k lifecycle_env \<Rightarrow> string \<Rightarrow> string \<Rightarrow> reply lc_action" where
  "restore env pw path =
     act_bind (\<lambda>s. (check_already_initialized (mnemonic_file s), s)) (\<lambda>_.
     act_bind (\<lambda>s. (case map_of (backups s) path of
                      None \<Rightarrow> Err (Unexpected ''Failed to unzip: No such file or directory (os error 2)'')
                    | Some b \<Rightarrow> restore_backup (le_ops env) b pw (storage s), s)) (\<lambda>t.
     act_bind (act_modify (\<lambda>s. s\<lparr>storage := t\<rparr>)) (\<lambda>_.
     act_bind (\<lambda>s. (read_mnemonic env pw s, s)) (\<lambda>_. act_return Empty))))"

definition change_password :: "'k lifecycle_env \<Rightarrow> nat \<Rightarrow> string \<Rightarrow> string \<Rightarrow> reply lc_action" where
  "change_password env tid old_pw new_pw =
     act_bind (act_lift (check_password_strength new_pw)) (\<lambda>_.
     act_bind (\<lambda>s. (read_mnemonic env old_pw s, s)) (\<lambda>words.
     act_bind (save_mnemonic env tid new_pw words) (\<lambda>_. act_return Empty)))"

text \<open>What a handler does while it holds the guard.  \<open>Use\<close> stands for the handlers of an unlocked node.\<close>

fun guarded_body :: "'k lifecycle_env \<Rightarrow> nat \<Rightarrow> request \<Rightarrow> reply lc_action" where
  "guarded_body env tid (Init pw) = init env tid pw"
| "guarded_body env tid (Take_backup pw path) = backup env tid pw path"
| "guarded_body env tid (Restore pw path) = restore env pw path"
| "guarded_body env tid (Change_password old_pw new_pw) = change_password env tid old_pw new_pw"
| "guarded_body env tid _ = act_return Empty"

section \<open>Stopping LDK\<close>

text \<open>\<open>AppState::stop_ldk\<close> and the wait for its task and its port: it panics when the task failed or the
  port is not released in time.  \<open>services\<close> keeps the stopped instance.\<close>

definition stop_ldk :: "'k lifecycle_env \<Rightarrow> nat \<Rightarrow> unit lc_action" where
  "stop_ldk env tid s =
     (if \<not> le_stops env tid then (Panic, s)
      else case services s of
             None \<Rightarrow> (Ok (), s)
           | Some g \<Rightarrow> (Ok (), s\<lparr>live := removeAll g (live s)\<rparr>))"

definition wait_state_change :: "lifecycle \<Rightarrow> bool \<times> lifecycle" where
  "wait_state_change s = (if \<not> changing s then (True, s\<lparr>changing := True\<rparr>) else (False, s))"

definition shutdown :: "unit lc_action" where
  "shutdown = act_bind (\<lambda>s. (check_changing_state s, s)) (\<lambda>_. act_modify (\<lambda>s. s\<lparr>cancelled := True\<rparr>))"

section \<open>Steps of a task\<close>

datatype pc =
    Arrived
  | Awaiting
  | Body
  | Refused APIError
  | Pw_check
  | Starting string
  | Publishing "nat option"
  | Setting_services "nat option"
  | Unmarking
  | Stopping
  | Done "(APIError, reply) outcome"

fun wants_unlocked :: "request \<Rightarrow> bool" where
  "wants_unlocked Lock = True"
| "wants_unlocked Use = True"
| "wants_unlocked _ = False"

text \<open>The way out of a failed check: \<open>lock\<close> goes on to reset the mark, \<open>unlock\<close> renames one error.\<close>

fun refuse :: "request \<Rightarrow> APIError \<Rightarrow> pc" where
  "refuse Lock e = Refused e"
| "refuse (Unlock pw) e = Done (Err (if e = UnlockedNode then AlreadyUnlocked else e))"
| "refuse _ e = Done (Err e)"

definition arrive :: "request \<Rightarrow> lifecycle \<Rightarrow> (pc \<times> lifecycle) option" where
  "arrive r s =
     (case r of
        Shutdown \<Rightarrow> (case shutdown s of (Ok _, t) \<Rightarrow> Some (Done (Ok Empty), t)
                                       | (Err e, t) \<Rightarrow> Some (Done (Err e), t)
                                       | (Panic, t) \<Rightarrow> Some (Done Panic, t))
      | Terminate \<Rightarrow> (case wait_state_change s of (True, t) \<Rightarrow> Some (Stopping, t) | (False, _) \<Rightarrow> None)
      | _ \<Rightarrow> (case check_changing_state s of Err e \<Rightarrow> Some (refuse r e, s) | _ \<Rightarrow> Some (Awaiting, s)))"

text \<open>With the guard: \<open>lock\<close> and \<open>unlock\<close> set the mark and drop the guard.\<close>

definition enter :: "nat \<Rightarrow> request \<Rightarrow> lifecycle \<Rightarrow> (pc \<times> lifecycle) option" where
  "enter tid r s =
     (case if wants_unlocked r then check_unlocked tid s else check_locked tid s of
        None \<Rightarrow> None
      | Some (Err e, t) \<Rightarrow> Some (refuse r e, t)
      | Some (_, t) \<Rightarrow>
          Some (case r of
                  Lock \<Rightarrow> (Stopping, release (update_changing_state True t))
                | Unlock pw \<Rightarrow> (Pw_check, release (update_changing_state True t))
                | _ \<Rightarrow> (Body, t)))"

definition unlock_password :: "'k lifecycle_env \<Rightarrow> string \<Rightarrow> lifecycle \<Rightarrow> pc \<times> lifecycle" where
  "unlock_password env pw s =
     (case read_mnemonic env pw s of
        Ok m \<Rightarrow> (Starting m, s)
      | Err e \<Rightarrow> (Done (Err e), update_changing_state False s)
      | Panic \<Rightarrow> (Done Panic, s))"

text \<open>A start that fails can leave the instance it started, which nothing names.\<close>

definition leave_started :: "'k lifecycle_env \<Rightarrow> string \<Rightarrow> lifecycle \<Rightarrow> lifecycle" where
  "leave_started env mnemonic s =
     (if le_left env (next_ldk s) mnemonic then s\<lparr>live := next_ldk s # live s, next_ldk := Suc (next_ldk s)\<rparr> else s)"

definition unlock_start :: "'k lifecycle_env \<Rightarrow> string \<Rightarrow> lifecycle \<Rightarrow> pc \<times> lifecycle" where
  "unlock_start env mnemonic s =
     (case le_start env (next_ldk s) mnemonic of
        Ok _ \<Rightarrow> (Publishing (Some (next_ldk s)), s\<lparr>live := next_ldk s # live s, next_ldk := Suc (next_ldk s)\<rparr>)
      | Err e \<Rightarrow> (Done (Err e), update_changing_state False (leave_started env mnemonic s))
      | Panic \<Rightarrow> (Done Panic, leave_started env mnemonic s))"

definition task_step ::
  "'k lifecycle_env \<Rightarrow> nat \<Rightarrow> request \<Rightarrow> pc \<Rightarrow> lifecycle \<Rightarrow> (pc \<times> lifecycle) option" where
  "task_step env tid r pc s =
     (case pc of
        Arrived \<Rightarrow> arrive r s
      | Awaiting \<Rightarrow> enter tid r s
      | Body \<Rightarrow> (case guarded_body env tid r s of (res, t) \<Rightarrow> Some (Done res, release t))
      | Refused e \<Rightarrow> Some (Done (Err e), update_changing_state False s)
      | Pw_check \<Rightarrow> (case r of Unlock pw \<Rightarrow> Some (unlock_password env pw s) | _ \<Rightarrow> None)
      | Starting m \<Rightarrow> Some (unlock_start env m s)
      | Publishing g \<Rightarrow> map_option (\<lambda>t. (Setting_services g, t)) (update_unlocked_app_state g s)
      | Setting_services g \<Rightarrow> Some (Unmarking, update_ldk_background_services g s)
      | Unmarking \<Rightarrow> Some (Done (Ok Empty), update_changing_state False s)
      | Stopping \<Rightarrow>
          (case stop_ldk env tid s of
             (Ok _, t) \<Rightarrow> Some (if r = Terminate then Done (Ok Empty) else Publishing None, t)
           | (Err e, t) \<Rightarrow> Some (Done (Err e), t)
           | (Panic, t) \<Rightarrow> Some (Done Panic, t))
      | Done _ \<Rightarrow> None)"

section \<open>Runs of tasks\<close>

text \<open>The tasks of a list of requests, each at its point; any that can take a step may take the next
  one.\<close>

inductive node_step ::
  "'k lifecycle_env \<Rightarrow> request list \<Rightarrow> lifecycle \<times> pc list \<Rightarrow> lifecycle \<times> pc list \<Rightarrow> bool"
  for env rs where
    step: "i < length rs \<Longrightarrow> i < length ps \<Longrightarrow> task_step env i (rs ! i) (ps ! i) s = Some (p, t) \<Longrightarrow>
           node_step env rs (s, ps) (t, ps[i := p])"

inductive_cases node_stepE: "node_step env rs (s, ps) c"

definition reachable ::
  "'k lifecycle_env \<Rightarrow> request list \<Rightarrow> lifecycle \<Rightarrow> lifecycle \<times> pc list \<Rightarrow> bool" where
  "reachable env rs s c \<longleftrightarrow> (node_step env rs)\<^sup>*\<^sup>* (s, map (\<lambda>_. Arrived) rs) c"

text \<open>Running the tasks in the order of a schedule.\<close>

fun run_schedule ::
  "'k lifecycle_env \<Rightarrow> request list \<Rightarrow> nat list \<Rightarrow> lifecycle \<times> pc list \<Rightarrow> (lifecycle \<times> pc list) option" where
  "run_schedule env rs [] c = Some c"
| "run_schedule env rs (i # is) (s, ps) =
     (if i < length rs \<and> i < length ps
      then case task_step env i (rs ! i) (ps ! i) s of
             Some (p, t) \<Rightarrow> run_schedule env rs is (t, ps[i := p])
           | None \<Rightarrow> None
      else None)"

lemma run_schedule_reaches:
  "run_schedule env rs is c = Some c' \<Longrightarrow> (node_step env rs)\<^sup>*\<^sup>* c c'"
proof (induction env rs "is" c rule: run_schedule.induct)
  case (2 env rs i "is" s ps)
  then obtain p t where st: "task_step env i (rs ! i) (ps ! i) s = Some (p, t)" "i < length rs" "i < length ps"
    and rest: "run_schedule env rs is (t, ps[i := p]) = Some c'"
    by (auto split: if_splits option.splits prod.splits)
  have "node_step env rs (s, ps) (t, ps[i := p])" using st by (simp add: node_step.step)
  moreover have "(node_step env rs)\<^sup>*\<^sup>* (t, ps[i := p]) c'"
    using 2(1) st rest by simp
  ultimately show ?case by (rule converse_rtranclp_into_rtranclp)
qed simp

lemma schedule_reachable:
  "run_schedule env rs is (s, map (\<lambda>_. Arrived) rs) = Some c \<Longrightarrow> reachable env rs s c"
  by (simp add: reachable_def run_schedule_reaches)

end
