(* ===== verification/LifecycleProps.thy ===== *)
theory LifecycleProps
  imports Lifecycle
begin

text \<open>
  What holds of the node while its handlers run at the same time: the bodies exclude each other and see
  the state they checked, one request after the other keeps the node settled, one change of state at a
  time leaves at most one LDK instance, a mnemonic is generated at most once, a backup can be restored
  and unlocked elsewhere; and the two schedules that start LDK twice.
\<close>

section \<open>What a step changes\<close>

definition same_control :: "lifecycle \<Rightarrow> lifecycle \<Rightarrow> bool" where
  "same_control s t \<longleftrightarrow>
     unlocked_state t = unlocked_state s \<and> services t = services s \<and> changing t = changing s
     \<and> guard t = guard s \<and> live t = live s \<and> next_ldk t = next_ldk s"

lemma same_control_refl [simp]: "same_control s s"
  by (simp add: same_control_def)

lemma save_mnemonic_control: "save_mnemonic env tid pw words s = (r, t) \<Longrightarrow> same_control s t"
  by (auto simp: save_mnemonic_def same_control_def split: prod.splits option.splits)

lemma body_control: "guarded_body env tid r s = (res, t) \<Longrightarrow> same_control s t"
  by (cases r)
    (auto simp: init_def backup_def restore_def change_password_def act_bind_def same_control_def
      dest!: save_mnemonic_control split: outcome.splits prod.splits)

text \<open>Steps outside the body leave the files alone.\<close>

lemma step_files:
  "task_step env i r pc s = Some (p, t) \<Longrightarrow> pc \<noteq> Body \<Longrightarrow> storage t = storage s \<and> backups t = backups s"
  by (auto simp: task_step_def arrive_def enter_def unlock_password_def unlock_start_def leave_started_def stop_ldk_def
      shutdown_def wait_state_change_def check_locked_def check_unlocked_def release_def act_bind_def
      update_changing_state_def update_ldk_background_services_def update_unlocked_app_state_def
      check_changing_state_def
      split: pc.splits request.splits outcome.splits option.splits if_splits prod.splits)

lemmas step_defs = task_step_def arrive_def enter_def unlock_password_def unlock_start_def leave_started_def stop_ldk_def
  shutdown_def wait_state_change_def check_locked_def check_unlocked_def release_def
  update_changing_state_def update_ldk_background_services_def update_unlocked_app_state_def
  check_changing_state_def

lemmas step_splits = pc.splits request.splits outcome.splits option.splits if_splits prod.splits

text \<open>A step that is not the end of a body keeps the guard, or takes it for a body whose check passed.\<close>

lemma step_guard:
  assumes "task_step env i r pc s = Some (p, t)" and "pc \<noteq> Body"
  shows "if p = Body
         then guard s = None \<and> guard t = Some i \<and> unlocked_state t = unlocked_state s
              \<and> (unlocked_state s \<noteq> None \<longleftrightarrow> wants_unlocked r)
         else guard t = guard s \<and> (guard s = None \<or> unlocked_state t = unlocked_state s)"
  using assms
  by (auto simp: step_defs act_bind_def split: step_splits)

lemma body_step:
  "task_step env i r Body s = Some (p, t) \<Longrightarrow>
   \<exists>res u. p = Done res \<and> t = u\<lparr>guard := None\<rparr> \<and> guarded_body env i r s = (res, u)"
  by (auto simp: task_step_def release_def split: prod.splits)

definition guard_inv :: "request list \<Rightarrow> lifecycle \<Rightarrow> pc list \<Rightarrow> bool" where
  "guard_inv rs s ps \<longleftrightarrow>
     length ps = length rs
     \<and> (\<forall>i < length rs. ps ! i = Body \<longleftrightarrow> guard s = Some i)
     \<and> (\<forall>i < length rs. ps ! i = Body \<longrightarrow> (unlocked_state s \<noteq> None \<longleftrightarrow> wants_unlocked (rs ! i)))"

lemma guard_inv_step:
  assumes inv: "guard_inv rs s ps" and i: "i < length rs"
    and st: "task_step env i (rs ! i) (ps ! i) s = Some (p, t)"
  shows "guard_inv rs t (ps[i := p])"
proof (cases "ps ! i = Body")
  case True
  from body_step [OF st [unfolded True]] obtain res u where
    "p = Done res" "t = u\<lparr>guard := None\<rparr>" "guarded_body env i (rs ! i) s = (res, u)" by blast
  then show ?thesis
    using inv i True body_control [of env i "rs ! i" s res u]
    by (auto simp: guard_inv_def same_control_def nth_list_update)
next
  case False
  then show ?thesis
    using step_guard [OF st False] inv i
    by (auto simp: guard_inv_def nth_list_update split: if_splits)
qed

lemma reachable_induct [consumes 1, case_names start step]:
  assumes "reachable env rs s0 (s, ps)"
    and "P s0 (map (\<lambda>_. Arrived) rs)"
    and "\<And>s ps i p t. P s ps \<Longrightarrow> i < length rs \<Longrightarrow> i < length ps \<Longrightarrow>
           task_step env i (rs ! i) (ps ! i) s = Some (p, t) \<Longrightarrow> P t (ps[i := p])"
  shows "P s ps"
proof -
  have "case c of (s, ps) \<Rightarrow> P s ps" if "(node_step env rs)\<^sup>*\<^sup>* (s0, map (\<lambda>_. Arrived) rs) c" for c
    using that
    by (induction rule: rtranclp_induct) (auto elim!: node_step.cases simp: assms(2) intro: assms(3))
  then show ?thesis using assms(1) by (auto simp: reachable_def)
qed


section \<open>One request at a time\<close>

text \<open>The node at rest: no mark, no guard, and one LDK instance exactly when it is unlocked.\<close>

definition quiet :: "lifecycle \<Rightarrow> bool" where
  "quiet s \<longleftrightarrow> services s = unlocked_state s
     \<and> live s = (case unlocked_state s of None \<Rightarrow> [] | Some g \<Rightarrow> [g])"

definition settled :: "lifecycle \<Rightarrow> bool" where
  "settled s \<longleftrightarrow> \<not> changing s \<and> guard s = None \<and> quiet s"

text \<open>A task that runs alone, for a number of steps.\<close>

fun run_alone :: "'k lifecycle_env \<Rightarrow> nat \<Rightarrow> request \<Rightarrow> pc \<times> lifecycle \<Rightarrow> pc \<times> lifecycle" where
  "run_alone env 0 r c = c"
| "run_alone env (Suc n) r (pc, s) =
     (case task_step env 0 r pc s of None \<Rightarrow> (pc, s) | Some c \<Rightarrow> run_alone env n r c)"

text \<open>What each request does to a node at rest.\<close>

definition answer :: "'k lifecycle_env \<Rightarrow> request \<Rightarrow> lifecycle \<Rightarrow> (APIError, reply) outcome \<times> lifecycle" where
  "answer env r s =
     (case r of
        Lock \<Rightarrow>
          if unlocked_state s = None then (Err LockedNode, s)
          else if le_stops env 0 then (Ok Empty, s\<lparr>unlocked_state := None, services := None, live := []\<rparr>)
          else (Panic, s\<lparr>changing := True\<rparr>)
      | Unlock pw \<Rightarrow>
          if unlocked_state s \<noteq> None then (Err AlreadyUnlocked, s)
          else (case read_mnemonic env pw s of
                  Err e \<Rightarrow> (Err e, s)
                | Panic \<Rightarrow> (Panic, s\<lparr>changing := True\<rparr>)
                | Ok m \<Rightarrow>
                    (case le_start env (next_ldk s) m of
                       Ok _ \<Rightarrow> (Ok Empty, s\<lparr>unlocked_state := Some (next_ldk s), services := Some (next_ldk s),
                                          live := [next_ldk s], next_ldk := Suc (next_ldk s)\<rparr>)
                     | Err e \<Rightarrow> (Err e, leave_started env m s)
                     | Panic \<Rightarrow> (Panic, (leave_started env m s)\<lparr>changing := True\<rparr>)))
      | Use \<Rightarrow> (if unlocked_state s = None then Err LockedNode else Ok Empty, s)
      | Shutdown \<Rightarrow> (Ok Empty, s\<lparr>cancelled := True\<rparr>)
      | Terminate \<Rightarrow> (if le_stops env 0 then Ok Empty else Panic,
                      s\<lparr>changing := True, live := if le_stops env 0 then [] else live s\<rparr>)
      | _ \<Rightarrow> if unlocked_state s \<noteq> None then (Err UnlockedNode, s) else guarded_body env 0 r s)"

lemma mnemonic_file_control [simp]:
  "mnemonic_file (s\<lparr>guard := g\<rparr>) = mnemonic_file s"
  "mnemonic_file (s\<lparr>changing := c\<rparr>) = mnemonic_file s"
  "mnemonic_file (s\<lparr>storage := t\<rparr>) = map_of t ''mnemonic''"
  "mnemonic_file (s\<lparr>backups := b\<rparr>) = mnemonic_file s"
  by (simp_all add: mnemonic_file_def)

lemma read_mnemonic_control [simp]:
  "read_mnemonic env pw (s\<lparr>guard := g\<rparr>) = read_mnemonic env pw s"
  "read_mnemonic env pw (s\<lparr>changing := c\<rparr>) = read_mnemonic env pw s"
  by (simp_all add: read_mnemonic_def)

lemma save_mnemonic_guard:
  "save_mnemonic env i pw words (s\<lparr>guard := g\<rparr>) = (case save_mnemonic env i pw words s of (res, t) \<Rightarrow> (res, t\<lparr>guard := g\<rparr>))"
  by (simp add: save_mnemonic_def split: prod.splits option.splits)

lemma restore_guard:
  "restore env pw path (s\<lparr>guard := g\<rparr>) = (case restore env pw path s of (res, t) \<Rightarrow> (res, t\<lparr>guard := g\<rparr>))"
proof (cases "case map_of (backups s) path of
                None \<Rightarrow> Err (Unexpected ''Failed to unzip: No such file or directory (os error 2)'')
              | Some b \<Rightarrow> restore_backup (le_ops env) b pw (storage s)")
  case (Ok t)
  then show ?thesis
    by (cases "check_already_initialized (mnemonic_file s)"; cases "read_mnemonic env pw (s\<lparr>storage := t\<rparr>)")
      (auto simp: restore_def act_bind_def read_mnemonic_def cong: option.case_cong)
qed (auto simp: restore_def act_bind_def cong: option.case_cong split: outcome.splits)

lemma body_guard:
  "guarded_body env i r (s\<lparr>guard := g\<rparr>) = (case guarded_body env i r s of (res, t) \<Rightarrow> (res, t\<lparr>guard := g\<rparr>))"
  by (cases r)
    (auto simp: init_def backup_def restore_guard change_password_def act_bind_def save_mnemonic_guard
      split: outcome.splits prod.splits)

lemma guard_none: "guard t = None \<Longrightarrow> t\<lparr>guard := None\<rparr> = t"
  by (cases t) simp

lemma run_alone_done [simp]: "run_alone env n r (Done res, s) = (Done res, s)"
  by (cases n) (simp_all add: task_step_def)

lemma body_alone:
  assumes "guard s = None" and "0 < k"
  shows "run_alone env k r (Body, s\<lparr>guard := Some 0\<rparr>)
    = (case guarded_body env 0 r s of (res, t) \<Rightarrow> (Done res, t))"
proof -
  obtain res t where b: "guarded_body env 0 r s = (res, t)" by force
  then have "guard t = None" using body_control [OF b] assms by (simp add: same_control_def)
  then show ?thesis
    using assms(2) by (cases k) (simp_all add: task_step_def body_guard b release_def guard_none)
qed

lemma unmark: "\<not> changing s \<Longrightarrow> guard s = None \<Longrightarrow> s\<lparr>changing := False, guard := None\<rparr> = s"
  by (cases s) simp

lemma run_alone_at:
  "run_alone env (Suc n) r (Arrived, s) =
     (case arrive r s of None \<Rightarrow> (Arrived, s) | Some c \<Rightarrow> run_alone env n r c)"
  "run_alone env (Suc n) r (Awaiting, s) =
     (case enter 0 r s of None \<Rightarrow> (Awaiting, s) | Some c \<Rightarrow> run_alone env n r c)"
  by (simp_all add: task_step_def)

text \<open>The requests that leave the control state alone.\<close>

fun plain :: "request \<Rightarrow> bool" where
  "plain Lock = False"
| "plain (Unlock _) = False"
| "plain Shutdown = False"
| "plain Terminate = False"
| "plain _ = True"

lemma arrive_plain:
  "plain r \<Longrightarrow> arrive r s = Some (if changing s then Done (Err ChangingState) else Awaiting, s)"
  by (cases r) (simp_all add: arrive_def check_changing_state_def)

lemma enter_plain:
  "plain r \<Longrightarrow> enter i r s =
     (if guard s \<noteq> None then None
      else Some (if (unlocked_state s \<noteq> None) = wants_unlocked r then (Body, s\<lparr>guard := Some i\<rparr>)
                 else (Done (Err (if wants_unlocked r then LockedNode else UnlockedNode)), s)))"
  by (cases r) (auto simp: enter_def check_locked_def check_unlocked_def)

lemma answer_plain:
  "plain r \<Longrightarrow> answer env r s =
     (if (unlocked_state s \<noteq> None) = wants_unlocked r then guarded_body env 0 r s
      else (Err (if wants_unlocked r then LockedNode else UnlockedNode), s))"
  by (cases r) (auto simp: answer_def)

lemma plain_alone:
  assumes "plain r" and "\<not> changing s" and "guard s = None" and "0 < k"
  shows "run_alone env (Suc (Suc k)) r (Arrived, s) = (case answer env r s of (res, t) \<Rightarrow> (Done res, t))"
  using assms
  by (simp add: run_alone_at arrive_plain enter_plain answer_plain body_alone del: run_alone.simps)

lemma eight_steps: "8 = Suc (Suc (Suc (Suc (Suc (Suc (Suc (Suc 0)))))))"
  by simp

lemma runs_alone:
  assumes "settled s"
  shows "run_alone env 8 r (Arrived, s) = (case answer env r s of (res, t) \<Rightarrow> (Done res, t))"
proof -
  have s: "\<not> changing s" "guard s = None" "services s = unlocked_state s"
    "live s = (case unlocked_state s of None \<Rightarrow> [] | Some g \<Rightarrow> [g])"
    using assms by (simp_all add: settled_def quiet_def)
  show ?thesis
  proof (cases r)
    case (Unlock pw)
    show ?thesis
      using s unmark [OF s(1,2)]
      by (cases "unlocked_state s"; cases "read_mnemonic env pw s")
        (auto simp: answer_def step_defs eight_steps Unlock split: outcome.splits)
  next
    case Lock
    then show ?thesis
      using s by (cases "unlocked_state s") (simp_all add: answer_def step_defs eight_steps)
  next
    case Terminate
    then show ?thesis
      using s by (cases "unlocked_state s") (simp_all add: answer_def step_defs eight_steps)
  next
    case Shutdown
    then show ?thesis
      using s by (simp add: answer_def step_defs eight_steps act_bind_def)
  qed (use s plain_alone [of r s 6 env] in simp_all)
qed

lemma settled_same: "settled s \<Longrightarrow> same_control s t \<Longrightarrow> settled t"
  by (simp add: settled_def quiet_def same_control_def)

lemma settled_answer:
  "settled s \<Longrightarrow> r \<noteq> Terminate \<Longrightarrow> fst (answer env r s) \<noteq> Panic \<Longrightarrow> (\<And>m. \<not> le_left env (next_ldk s) m) \<Longrightarrow>
   settled (snd (answer env r s))"
proof (cases "plain r")
  case True
  assume "settled s"
  then show ?thesis
    using settled_same [OF _ body_control [of env 0 r s "fst (guarded_body env 0 r s)" "snd (guarded_body env 0 r s)"]] True
    by (simp add: answer_plain)
next
  case False
  assume "settled s" "r \<noteq> Terminate" "fst (answer env r s) \<noteq> Panic" "\<And>m. \<not> le_left env (next_ldk s) m"
  then show ?thesis
    using False
    by (cases r) (auto simp: answer_def leave_started_def settled_def quiet_def split: outcome.splits if_splits option.splits)
qed


section \<open>One change of state at a time\<close>

lemma arrive_shutdown:
  "arrive Shutdown s = Some (if changing s then (Done (Err ChangingState), s)
     else (Done (Ok Empty), s\<lparr>cancelled := True\<rparr>))"
  by (simp add: arrive_def shutdown_def check_changing_state_def act_bind_def)

fun plain_pc :: "pc \<Rightarrow> bool" where
  "plain_pc Arrived = True"
| "plain_pc Awaiting = True"
| "plain_pc Body = True"
| "plain_pc (Done _) = True"
| "plain_pc _ = False"

lemma plain_step:
  assumes st: "task_step env i r pc s = Some (p, t)" and r: "plain r" and pc: "plain_pc pc"
  shows "unlocked_state t = unlocked_state s \<and> services t = services s \<and> changing t = changing s
         \<and> live t = live s \<and> plain_pc p"
proof (cases pc)
  case Body
  then obtain res u where "p = Done res" "t = u\<lparr>guard := None\<rparr>" "guarded_body env i r s = (res, u)"
    using body_step st by blast
  then show ?thesis using body_control [of env i r s res u] by (simp add: same_control_def)
qed (use st pc in \<open>auto simp: task_step_def arrive_plain [OF r] enter_plain [OF r] split: if_splits\<close>)

lemma shutdown_step:
  assumes "task_step env i Shutdown pc s = Some (p, t)" and "pc = Arrived \<or> (\<exists>res. pc = Done res)"
  shows "unlocked_state t = unlocked_state s \<and> services t = services s \<and> changing t = changing s
         \<and> live t = live s \<and> (\<exists>res. p = Done res)"
  using assms by (auto simp: task_step_def arrive_shutdown split: if_splits)

text \<open>What holds of the node at each point of a task that locks or unlocks.\<close>

fun changer_inv :: "pc \<Rightarrow> lifecycle \<Rightarrow> bool" where
  "changer_inv Body s = False"
| "changer_inv Pw_check s = (changing s \<and> quiet s \<and> unlocked_state s = None)"
| "changer_inv (Starting m) s = (changing s \<and> quiet s \<and> unlocked_state s = None)"
| "changer_inv (Publishing g) s =
     (changing s \<and> live s = (case g of None \<Rightarrow> [] | Some l \<Rightarrow> [l]))"
| "changer_inv (Setting_services g) s =
     (changing s \<and> unlocked_state s = g \<and> live s = (case g of None \<Rightarrow> [] | Some l \<Rightarrow> [l]))"
| "changer_inv Unmarking s = (changing s \<and> quiet s)"
| "changer_inv Stopping s = (changing s \<and> quiet s)"
| "changer_inv (Done res) s = (quiet s \<and> (changing s \<longleftrightarrow> res = Panic))"
| "changer_inv _ s = (\<not> changing s \<and> quiet s)"

lemma changer_step:
  assumes "task_step env i r pc s = Some (p, t)" and "changer_inv pc s" and "r = Lock \<or> (\<exists>pw. r = Unlock pw)"
    and "\<And>n m. \<not> le_left env n m"
  shows "changer_inv p t"
  using assms
  by (cases pc) (auto simp: step_defs quiet_def split: if_splits option.splits outcome.splits)

lemma changer_control:
  "unlocked_state t = unlocked_state s \<Longrightarrow> services t = services s \<Longrightarrow> changing t = changing s \<Longrightarrow>
   live t = live s \<Longrightarrow> changer_inv pc t = changer_inv pc s"
  by (cases pc) (simp_all add: quiet_def)

lemma changer_live: "changer_inv pc s \<Longrightarrow> length (live s) \<le> 1"
  by (cases pc) (auto simp: quiet_def split: option.splits)

lemma one_changer:
  assumes "reachable env rs s0 (s, ps)" and "settled s0"
    and "c < length rs" and "rs ! c = Lock \<or> (\<exists>pw. rs ! c = Unlock pw)"
    and "\<forall>i < length rs. i \<noteq> c \<longrightarrow> plain (rs ! i) \<or> rs ! i = Shutdown" and "\<And>n m. \<not> le_left env n m"
  shows "length (live s) \<le> 1
         \<and> (\<forall>res. ps ! c = Done res \<longrightarrow> quiet s \<and> (changing s \<longleftrightarrow> res = Panic))"
proof -
  have "length ps = length rs \<and> changer_inv (ps ! c) s
      \<and> (\<forall>i < length rs. i \<noteq> c \<longrightarrow> (if plain (rs ! i) then plain_pc (ps ! i)
                                   else ps ! i = Arrived \<or> (\<exists>res. ps ! i = Done res)))"
    using assms(1)
  proof (induction rule: reachable_induct)
    case start
    then show ?case using assms(2,3) by (simp add: settled_def)
  next
    case (step s ps i p t)
    show ?case
    proof (cases "i = c")
      case True
      then show ?thesis
        using step changer_step [of env c "rs ! c" "ps ! c" s p t] assms(4,6) by (auto simp: nth_list_update)
    next
      case False
      have "unlocked_state t = unlocked_state s \<and> services t = services s \<and> changing t = changing s
         \<and> live t = live s \<and> (if plain (rs ! i) then plain_pc p else \<exists>res. p = Done res)"
        using step False assms(5) plain_step [OF step(4)] shutdown_step [of env i "ps ! i" s p t]
        by (cases "plain (rs ! i)") auto
      then show ?thesis using step False changer_control [of t s "ps ! c"] by (auto simp: nth_list_update)
    qed
  qed
  then show ?thesis using changer_live by fastforce
qed

text \<open>
  As long as only one of the concurrent requests locks or unlocks, and no failed start leaves its tasks, at most one LDK instance runs at
  any time, whatever else runs at the same time and however they interleave; when that request has
  returned, the node is at rest: the mark is cleared and the instance that runs is the one the unlocked
  state and the background services name.  The mark stays only if it panicked.
\<close>

theorem one_change_at_a_time:
  assumes "reachable env rs s0 (s, ps)" and "settled s0"
    and "c < length rs" and "rs ! c = Lock \<or> (\<exists>pw. rs ! c = Unlock pw)"
    and "\<forall>i < length rs. i \<noteq> c \<longrightarrow> plain (rs ! i) \<or> rs ! i = Shutdown" and "\<And>n m. \<not> le_left env n m"
  shows "length (live s) \<le> 1
         \<and> (\<forall>res. ps ! c = Done res \<longrightarrow> quiet s \<and> (changing s \<longleftrightarrow> res = Panic))"
  using assms by (rule one_changer)

section \<open>Every request is answered\<close>

text \<open>How many steps a task can still take.\<close>

fun steps_left :: "pc \<Rightarrow> nat" where
  "steps_left (Done _) = 0"
| "steps_left (Refused _) = 1"
| "steps_left Body = 1"
| "steps_left Unmarking = 1"
| "steps_left (Setting_services _) = 2"
| "steps_left (Publishing _) = 3"
| "steps_left Stopping = 4"
| "steps_left (Starting _) = 4"
| "steps_left Pw_check = 5"
| "steps_left Awaiting = 6"
| "steps_left Arrived = 7"

lemma step_counts: "task_step env i r pc s = Some (p, t) \<Longrightarrow> steps_left p < steps_left pc"
  by (cases pc; cases r) (auto simp: step_defs act_bind_def split: outcome.splits option.splits if_splits prod.splits)

text \<open>A task that cannot take a step has answered, waits for the mutex, or ends the process during a change
  of state.\<close>

lemma stuck_task:
  assumes "task_step env i r pc s = None" and "pc = Pw_check \<longrightarrow> (\<exists>pw. r = Unlock pw)"
  shows "(\<exists>res. pc = Done res) \<or> guard s \<noteq> None \<or> r = Terminate \<and> pc = Arrived \<and> changing s"
  using assms
  by (cases pc; cases r) (auto simp: step_defs act_bind_def split: outcome.splits option.splits if_splits prod.splits)

lemma body_can_step: "\<exists>p t. task_step env i r Body s = Some (p, t)"
  by (simp add: task_step_def split: prod.splits)

definition task_inv :: "request list \<Rightarrow> lifecycle \<Rightarrow> pc list \<Rightarrow> bool" where
  "task_inv rs s ps \<longleftrightarrow> guard_inv rs s ps \<and> (\<forall>j. guard s = Some j \<longrightarrow> j < length rs)
     \<and> (\<forall>i < length rs. ps ! i = Pw_check \<longrightarrow> (\<exists>pw. rs ! i = Unlock pw))"

lemma enters_check: "task_step env i r pc s = Some (Pw_check, t) \<Longrightarrow> \<exists>pw. r = Unlock pw"
  by (cases pc; cases r) (auto simp: step_defs act_bind_def split: outcome.splits option.splits if_splits prod.splits)

lemma task_inv_step:
  assumes "task_inv rs s ps" and i: "i < length rs" and st: "task_step env i (rs ! i) (ps ! i) s = Some (p, t)"
  shows "task_inv rs t (ps[i := p])"
proof -
  have "guard_inv rs t (ps[i := p])" using guard_inv_step assms by (auto simp: task_inv_def)
  moreover have "j < length rs" if "guard t = Some j" for j
  proof (cases "ps ! i = Body")
    case True
    then show ?thesis using body_step [OF st [unfolded True]] that by auto
  next
    case False
    then show ?thesis using step_guard [OF st False] assms(1) i that by (auto simp: task_inv_def split: if_splits)
  qed
  moreover have "\<exists>pw. rs ! j = Unlock pw" if "j < length rs" "ps[i := p] ! j = Pw_check" for j
    using that assms(1) enters_check [of env i "rs ! i" "ps ! i" s t] st
    by (cases "j = i") (auto simp: task_inv_def guard_inv_def nth_list_update)
  ultimately show ?thesis by (simp add: task_inv_def)
qed

definition answered :: "request list \<Rightarrow> lifecycle \<Rightarrow> pc list \<Rightarrow> bool" where
  "answered rs s ps \<longleftrightarrow>
     (\<forall>i < length rs. (\<exists>res. ps ! i = Done res) \<or> rs ! i = Terminate \<and> ps ! i = Arrived \<and> changing s)"

lemma next_step:
  assumes "task_inv rs s ps" and "\<not> answered rs s ps"
  shows "\<exists>i p t. i < length rs \<and> task_step env i (rs ! i) (ps ! i) s = Some (p, t)"
proof (cases "guard s")
  case (Some j)
  then have "j < length rs" "ps ! j = Body" using assms(1) by (auto simp: task_inv_def guard_inv_def)
  then show ?thesis using body_can_step by metis
next
  case None
  obtain i where i: "i < length rs" "\<not> (\<exists>res. ps ! i = Done res)" "\<not> (rs ! i = Terminate \<and> ps ! i = Arrived \<and> changing s)"
    using assms(2) unfolding answered_def by blast
  moreover have "ps ! i = Pw_check \<longrightarrow> (\<exists>pw. rs ! i = Unlock pw)" using assms(1) i(1) by (simp add: task_inv_def)
  ultimately have "task_step env i (rs ! i) (ps ! i) s \<noteq> None"
    using stuck_task [of env i "rs ! i" "ps ! i" s] None by blast
  then show ?thesis using i(1) by (intro exI [of _ i]) auto
qed

lemma run_schedule_append:
  "run_schedule env rs (is @ js) c = (case run_schedule env rs is c of None \<Rightarrow> None | Some d \<Rightarrow> run_schedule env rs js d)"
  by (induction env rs "is" c rule: run_schedule.induct) (auto split: option.splits prod.splits)

lemma schedule_inv:
  assumes "run_schedule env rs is (s, ps) = Some (t, qs)" and "task_inv rs s ps"
  shows "task_inv rs t qs \<and> length is + sum_list (map steps_left qs) \<le> sum_list (map steps_left ps)"
  using assms
proof (induction "is" arbitrary: s ps)
  case (Cons i "is")
  then obtain p u where st: "task_step env i (rs ! i) (ps ! i) s = Some (p, u)" "i < length rs" "i < length ps"
    and run: "run_schedule env rs is (u, ps[i := p]) = Some (t, qs)"
    by (auto split: if_splits option.splits prod.splits)
  have "sum_list (map steps_left (ps[i := p])) < sum_list (map steps_left ps)"
    using step_counts [OF st(1)] st(3) elem_le_sum_list [of i "map steps_left ps"]
    by (simp add: map_update sum_list_update)
  then show ?case using Cons.IH [OF run] task_inv_step [OF Cons.prems(2) st(2,1)] by simp
qed simp

lemma can_finish:
  assumes "task_inv rs s ps"
  shows "\<exists>js t qs. run_schedule env rs js (s, ps) = Some (t, qs) \<and> answered rs t qs"
  using assms
proof (induction "sum_list (map steps_left ps)" arbitrary: s ps rule: less_induct)
  case less
  show ?case
  proof (cases "answered rs s ps")
    case True
    then show ?thesis by (intro exI [of _ "[]"]) simp
  next
    case False
    then obtain i p t where st: "i < length rs" "task_step env i (rs ! i) (ps ! i) s = Some (p, t)"
      using next_step less.prems by blast
    have i: "i < length ps" using less.prems st(1) by (simp add: task_inv_def guard_inv_def)
    have one: "run_schedule env rs [i] (s, ps) = Some (t, ps[i := p])" using st i by simp
    have "sum_list (map steps_left (ps[i := p])) < sum_list (map steps_left ps)"
      using schedule_inv [OF one less.prems] by simp
    then obtain js u qs where "run_schedule env rs js (t, ps[i := p]) = Some (u, qs)" "answered rs u qs"
      using less.hyps task_inv_step [OF less.prems st] by blast
    then show ?thesis using st i by (intro exI [of _ "i # js"]) auto
  qed
qed


section \<open>Two changes of state at a time\<close>

lemma start_twice:
  assumes "settled s" and "unlocked_state s = None" and "read_mnemonic env pw s = Ok m"
    and "\<And>n. le_start env n m = Ok ()"
  shows "run_schedule env [Unlock pw, Unlock pw] [0, 1, 0, 1, 0, 1, 0, 1, 0, 1, 0, 1, 0, 1]
           (s, map (\<lambda>_. Arrived) [Unlock pw, Unlock pw])
    = Some (s\<lparr>unlocked_state := Some (Suc (next_ldk s)), services := Some (Suc (next_ldk s)),
              live := [Suc (next_ldk s), next_ldk s], next_ldk := Suc (Suc (next_ldk s))\<rparr>,
            [Done (Ok Empty), Done (Ok Empty)])"
  using assms by (simp add: settled_def quiet_def step_defs)

lemma start_after_refused_lock:
  assumes "settled s" and "unlocked_state s = None" and "read_mnemonic env pw s = Ok m"
    and "\<And>n. le_start env n m = Ok ()"
  shows "run_schedule env [Unlock pw, Lock, Unlock pw] [0, 0, 1, 1, 2, 2, 0, 2, 0, 2, 0, 2, 0, 2, 0, 2]
           (s, map (\<lambda>_. Arrived) [Unlock pw, Lock, Unlock pw])
    = Some (s\<lparr>unlocked_state := Some (Suc (next_ldk s)), services := Some (Suc (next_ldk s)),
              live := [Suc (next_ldk s), next_ldk s], next_ldk := Suc (Suc (next_ldk s))\<rparr>,
            [Done (Ok Empty), Done (Err ChangingState), Done (Ok Empty)])"
  using assms by (simp add: settled_def quiet_def step_defs)

lemma lock_leaves_other:
  assumes "\<not> changing s" "guard s = None" "unlocked_state s = Some g" "services s = Some g" "live s = [g, h]"
    and "h \<noteq> g" and "le_stops env 0"
  shows "\<exists>u. run_alone env 8 Lock (Arrived, s) = (Done (Ok Empty), u) \<and> live u = [h] \<and> services u = None"
  using assms by (simp add: step_defs eight_steps)

text \<open>
  C15: two concurrent unlocks of a locked node can both succeed: the mark is looked at before the mutex is
  awaited and not again under it, so both pass and both start LDK.  One of the two instances is not
  named by the state, and a later \<open>lock\<close>, which succeeds, leaves it running.
\<close>

theorem two_unlocks_start_ldk_twice:
  assumes "settled s" and "unlocked_state s = None" and "read_mnemonic env pw s = Ok m"
    and "\<And>n. le_start env n m = Ok ()" and "le_stops env 0"
  shows "\<exists>t u. reachable env [Unlock pw, Unlock pw] s (t, [Done (Ok Empty), Done (Ok Empty)])
           \<and> live t = [Suc (next_ldk s), next_ldk s] \<and> services t = Some (Suc (next_ldk s))
           \<and> run_alone env 8 Lock (Arrived, t) = (Done (Ok Empty), u)
           \<and> live u = [next_ldk s] \<and> services u = None"
proof -
  let ?t = "s\<lparr>unlocked_state := Some (Suc (next_ldk s)), services := Some (Suc (next_ldk s)),
              live := [Suc (next_ldk s), next_ldk s], next_ldk := Suc (Suc (next_ldk s))\<rparr>"
  have "\<exists>u. run_alone env 8 Lock (Arrived, ?t) = (Done (Ok Empty), u) \<and> live u = [next_ldk s] \<and> services u = None"
    using assms(1,5) by (intro lock_leaves_other [where g = "Suc (next_ldk s)"]) (simp_all add: settled_def)
  then show ?thesis
    using schedule_reachable [OF start_twice [OF assms(1-4)]] by - (rule exI [of _ ?t], simp)
qed

text \<open>
  A \<open>lock\<close> that is refused because an \<open>unlock\<close> is in progress clears the mark of that unlock: an
  unlock that comes after the refusal passes the checks and starts a second LDK instance.
\<close>

theorem refused_lock_clears_mark:
  assumes "settled s" and "unlocked_state s = None" and "read_mnemonic env pw s = Ok m"
    and "\<And>n. le_start env n m = Ok ()"
  shows "\<exists>t. reachable env [Unlock pw, Lock, Unlock pw] s
               (t, [Done (Ok Empty), Done (Err ChangingState), Done (Ok Empty)])
           \<and> live t = [Suc (next_ldk s), next_ldk s]"
  using schedule_reachable [OF start_after_refused_lock [OF assms]] by fastforce

section \<open>The mnemonic\<close>

lemma save_mnemonic_result:
  "save_mnemonic env i pw words s = (r, t) \<Longrightarrow>
   mnemonic_file t = (if r = Ok () then Some (le_encrypt env pw words) else mnemonic_file s)
   \<and> r \<noteq> Panic"
  by (auto simp: save_mnemonic_def encrypt_and_save_mnemonic_def mnemonic_file_def update_conv'
      split: option.splits prod.splits)

lemma body_mnemonic:
  assumes "guarded_body env i r s = (res, t)" and "\<And>old_pw new_pw. r \<noteq> Change_password old_pw new_pw"
  shows "(mnemonic_file s \<noteq> None \<longrightarrow> mnemonic_file t = mnemonic_file s)
    \<and> (\<forall>words. res = Ok (Mnemonic words) \<longrightarrow>
         (\<exists>pw. r = Init pw \<and> 8 \<le> length pw \<and> words = le_generated env i \<and> mnemonic_file s = None
               \<and> mnemonic_file t = Some (le_encrypt env pw words)))"
  using assms
  by (cases r)
    (auto simp: init_def backup_def restore_def act_bind_def check_already_initialized_def
      check_password_strength_def dest!: save_mnemonic_result split: outcome.splits prod.splits if_splits)

lemma step_mnemonic:
  assumes "task_step env i r pc s = Some (p, t)" and "\<And>old_pw new_pw. r \<noteq> Change_password old_pw new_pw"
  shows "(mnemonic_file s \<noteq> None \<longrightarrow> mnemonic_file t = mnemonic_file s)
    \<and> (\<forall>words. p = Done (Ok (Mnemonic words)) \<longrightarrow>
         (\<exists>pw. r = Init pw \<and> 8 \<le> length pw \<and> words = le_generated env i \<and> mnemonic_file s = None
               \<and> mnemonic_file t = Some (le_encrypt env pw words)))"
proof (cases "pc = Body")
  case True
  from body_step [OF assms(1) [unfolded True]] obtain res u where
    "p = Done res" "t = u\<lparr>guard := None\<rparr>" "guarded_body env i r s = (res, u)" by blast
  then show ?thesis using body_mnemonic [OF _ assms(2)] by fastforce
next
  case False
  then have "storage t = storage s" using step_files assms(1) by blast
  moreover have "p \<noteq> Done (Ok (Mnemonic words))" for words
    using assms(1) False
    by (auto simp: step_defs act_bind_def split: step_splits)
  ultimately show ?thesis by (simp add: mnemonic_file_def)
qed


definition init_inv :: "'k lifecycle_env \<Rightarrow> request list \<Rightarrow> lifecycle \<Rightarrow> pc list \<Rightarrow> bool" where
  "init_inv env rs s ps \<longleftrightarrow>
     length ps = length rs
     \<and> (\<forall>i < length rs. \<forall>words. ps ! i = Done (Ok (Mnemonic words)) \<longrightarrow>
          (\<exists>pw. rs ! i = Init pw \<and> 8 \<le> length pw \<and> words = le_generated env i
                \<and> mnemonic_file s = Some (le_encrypt env pw words))
          \<and> (\<forall>j < length rs. \<forall>w. ps ! j = Done (Ok (Mnemonic w)) \<longrightarrow> j = i))"

lemma init_inv_step:
  assumes inv: "init_inv env rs s ps" and i: "i < length rs"
    and st: "task_step env i (rs ! i) (ps ! i) s = Some (p, t)"
    and r: "\<And>old_pw new_pw. rs ! i \<noteq> Change_password old_pw new_pw"
  shows "init_inv env rs t (ps[i := p])"
proof -
  note m = step_mnemonic [OF st r]
  show ?thesis
  proof (cases "mnemonic_file s")
    case None
    then have "ps ! j \<noteq> Done (Ok (Mnemonic w))" if "j < length rs" for j w
      using inv that by (auto simp: init_inv_def)
    then show ?thesis using inv m i by (auto simp: init_inv_def nth_list_update)
  next
    case (Some f)
    then have "mnemonic_file t = Some f" "\<And>w. p \<noteq> Done (Ok (Mnemonic w))" using m by auto
    then show ?thesis using inv i Some unfolding init_inv_def by (simp add: nth_list_update) metis
  qed
qed


section \<open>Moving a node\<close>

lemma archived_storage:
  "archived_files (storage_walk t) = filter (\<lambda>(n, c). \<not> path_ends_with n ''log'') t"
  by (induction t) (auto simp: archived_files_def storage_walk_def)

lemma map_of_filter_kept: "P k \<Longrightarrow> map_of (filter (\<lambda>(n, c). P n) xs) k = map_of xs k"
  by (induction xs) auto

lemma map_of_rev_distinct: "distinct (map fst xs) \<Longrightarrow> map_of (rev xs) k = map_of xs k"
proof (induction xs)
  case (Cons x xs)
  have "map_of xs (fst x) = None" using Cons.prems by (simp add: map_of_eq_None_iff)
  with Cons show ?case by (cases "k = fst x") (simp_all add: map_add_def split: option.splits)
qed simp

lemma distinct_keys_filter: "distinct (map fst xs) \<Longrightarrow> distinct (map fst (filter P xs))"
  by (induction xs) auto

lemma mnemonic_archived:
  "distinct (map fst t) \<Longrightarrow> map_of (rev (archived_files (storage_walk t))) ''mnemonic'' = map_of t ''mnemonic''"
  using map_of_filter_kept [of "\<lambda>n. \<not> path_ends_with n ''log''" "''mnemonic''" t]
  by (simp add: archived_storage map_of_rev_distinct distinct_keys_filter path_ends_with_def)

lemma init_Ok:
  assumes "init env i pw s = (Ok r, t)"
  shows "r = Mnemonic (le_generated env i) \<and> mnemonic_file s = None
    \<and> t = s\<lparr>storage := AList.update ''mnemonic'' (le_encrypt env pw (le_generated env i)) (storage s)\<rparr>"
  using assms
  by (auto simp: init_def act_bind_Ok check_already_initialized_def save_mnemonic_def
      encrypt_and_save_mnemonic_def split: if_splits option.splits)

lemma backup_Ok:
  "backup env i pw path s = (Ok r, t) \<Longrightarrow>
   r = Empty \<and> map_of (backups s) path = None
   \<and> (\<exists>m b. read_mnemonic env pw s = Ok m
        \<and> do_backup (le_ops env) (le_salt env i) (le_nonce env i) (storage_walk (storage s)) pw None = Ok b
        \<and> t = s\<lparr>backups := AList.update path b (backups s)\<rparr>)"
  by (auto simp: backup_def act_bind_Ok do_backup_def split: if_splits)

text \<open>
  C17: a node that was initialised and backed up can be moved: restoring the backup with the password on
  another node that was not initialised gives it every file of the storage but those named exactly
  \<open>log\<close>, and unlocking that node with the password starts LDK with the mnemonic the first node
  was initialised with.
\<close>

theorem backup_moves_node:
  assumes "settled a" and "run_alone env 8 (Init pw) (Arrived, a) = (Done (Ok (Mnemonic words)), a1)"
    and "run_alone env 8 (Take_backup pw path) (Arrived, a1) = (Done (Ok Empty), a2)"
    and "settled b" and "unlocked_state b = None" and "mnemonic_file b = None"
    and "map_of (backups b) path = map_of (backups a2) path"
    and "distinct (map fst (storage a))"
    and "cipher_ok (le_ops env)" and "zip_ok (le_ops env)"
    and "\<forall>n \<in> set working_names. enclosed_name (le_ops env) n = Some n"
    and "plain_names (le_ops env) (storage_walk (storage a1))"
    and "\<And>p m. le_decrypt env p (le_encrypt env p m) = Some m" and "le_parse env words = Some m"
    and "le_start env (next_ldk b) m = Ok ()"
  shows "\<exists>b1 b2. run_alone env 8 (Restore pw path) (Arrived, b) = (Done (Ok Empty), b1)
      \<and> map_of (storage b1) = map_of (storage b)
           ++ map_of (rev (filter (\<lambda>(n, c). \<not> path_ends_with n ''log'') (storage a1)))
      \<and> run_alone env 8 (Unlock pw) (Arrived, b1) = (Done (Ok Empty), b2)
      \<and> live b2 = [next_ldk b] \<and> unlocked_state b2 = Some (next_ldk b)"
proof -
  have init: "unlocked_state a = None" "init env 0 pw a = (Ok (Mnemonic words), a1)"
    using assms(2) runs_alone [OF assms(1), of env "Init pw"]
    by (auto simp: answer_plain split: if_splits prod.splits)
  note a1_is = init_Ok [OF init(2)]
  have a1: "settled a1" "mnemonic_file a1 = Some (le_encrypt env pw words)" "distinct (map fst (storage a1))"
    "unlocked_state a1 = None"
    using assms(1,8) a1_is init(1)
    by (simp_all add: settled_def quiet_def mnemonic_file_def update_conv' distinct_update)
  have "backup env 0 pw path a1 = (Ok Empty, a2)"
    using assms(3) runs_alone [OF a1(1), of env "Take_backup pw path"]
    by (auto simp: answer_plain split: if_splits prod.splits)
  from backup_Ok [OF this] obtain bk where
    bk: "do_backup (le_ops env) (le_salt env 0) (le_nonce env 0) (storage_walk (storage a1)) pw None = Ok bk"
    and at: "map_of (backups b) path = Some bk"
    using assms(7) by (auto simp: update_conv')
  from restore_of_backup [OF assms(9-12) bk, of "storage b"] obtain t where
    t: "restore_backup (le_ops env) bk pw (storage b) = Ok t"
    "map_of t = map_of (storage b) ++ map_of (rev (archived_files (storage_walk (storage a1))))" by blast
  let ?b1 = "b\<lparr>storage := t\<rparr>"
  have m: "mnemonic_file ?b1 = Some (le_encrypt env pw words)"
    using t(2) mnemonic_archived [OF a1(3)] a1(2) by (simp add: mnemonic_file_def map_add_Some_iff)
  then have read: "read_mnemonic env pw ?b1 = Ok m"
    using assms(13,14) by (simp add: read_mnemonic_def check_password_validity_def)
  have "run_alone env 8 (Restore pw path) (Arrived, b) = (Done (Ok Empty), ?b1)"
    using assms(5,6) t(1) at read
    by (simp add: runs_alone [OF assms(4)] answer_plain restore_def act_bind_def check_already_initialized_def)
  moreover have "settled ?b1" using assms(4) by (simp add: settled_def quiet_def)
  ultimately show ?thesis
    using t(2) assms(5,15) read
    by (intro exI [of _ ?b1] exI) (auto simp: runs_alone answer_def archived_storage)
qed

section \<open>Example\<close>

definition example_lc_env :: "string lifecycle_env" where
  "example_lc_env =
     \<lparr>le_ops = example_ops, le_encrypt = (\<lambda>p m. p @ m),
      le_decrypt = (\<lambda>p c. if take (length p) c = p then Some (drop (length p) c) else None),
      le_parse = Some, le_path = ''mnemonic'', le_write_error = (\<lambda>_. None),
      le_generated = (\<lambda>_. ''skill lamp''), le_salt = (\<lambda>_. ''salt''),
      le_nonce = (\<lambda>_. replicate 19 (CHR ''n'')), le_start = (\<lambda>_ _. Ok ()), le_left = (\<lambda>_ _. False), le_stops = (\<lambda>_. True)\<rparr>"

definition example_lc :: "tree \<Rightarrow> lifecycle" where
  "example_lc t = \<lparr>unlocked_state = None, services = None, changing = False, guard = None, storage = t,
     backups = [], live = [], next_ldk = 0, cancelled = False\<rparr>"

definition example_tree :: tree where
  "example_tree = [(''mnemonic'', ''passwordskill lamp'')]"

lemma example_settled [simp]: "settled (example_lc t)"
  by (simp add: settled_def quiet_def example_lc_def)

lemma example_lc_simps [simp]:
  "unlocked_state (example_lc t) = None" "\<not> changing (example_lc t)" "guard (example_lc t) = None" "next_ldk (example_lc t) = 0"
  "storage (example_lc t) = t" "mnemonic_file (example_lc t) = map_of t ''mnemonic''"
  by (simp_all add: example_lc_def mnemonic_file_def)

lemma example_env_simps [simp]:
  "le_start example_lc_env n m = Ok ()" "\<not> le_left example_lc_env n m" "le_stops example_lc_env i" "le_ops example_lc_env = example_ops"
  "le_parse example_lc_env w = Some w" "le_decrypt example_lc_env p (le_encrypt example_lc_env p m) = Some m"
  by (simp_all add: example_lc_env_def)

lemma example_read [simp]: "read_mnemonic example_lc_env ''password'' (example_lc example_tree) = Ok ''skill lamp''"
  by (simp add: read_mnemonic_def check_password_validity_def example_tree_def example_lc_env_def)

lemma example_init:
  "init example_lc_env i ''password'' (example_lc []) = (Ok (Mnemonic ''skill lamp''), example_lc example_tree)"
  by (simp add: init_def act_bind_def check_password_strength_def check_already_initialized_def
      save_mnemonic_def encrypt_and_save_mnemonic_def example_lc_env_def example_tree_def)
    (simp add: example_lc_def)



theorem one_change_at_a_time_witness:
  "\<exists>s ps. reachable example_lc_env [Use, Unlock ''password''] (example_lc example_tree) (s, ps)
     \<and> ps = [Done (Err LockedNode), Starting ''skill lamp''] \<and> length (live s) \<le> 1"
proof -
  have "run_schedule example_lc_env [Use, Unlock ''password''] [0, 1, 0, 1, 1]
      (example_lc example_tree, map (\<lambda>_. Arrived) [Use, Unlock ''password''])
    = Some ((example_lc example_tree)\<lparr>changing := True\<rparr>, [Done (Err LockedNode), Starting ''skill lamp''])"
    by (simp add: step_defs)
  then have r: "reachable example_lc_env [Use, Unlock ''password''] (example_lc example_tree)
      ((example_lc example_tree)\<lparr>changing := True\<rparr>, [Done (Err LockedNode), Starting ''skill lamp''])"
    by (rule schedule_reachable)
  have "length (live ((example_lc example_tree)\<lparr>changing := True\<rparr>)) \<le> 1"
    using one_change_at_a_time [OF r, of 1] by (simp add: less_Suc_eq)
  with r show ?thesis by (intro exI conjI) (assumption, simp_all)
qed


theorem two_unlocks_start_ldk_twice_witness:
  "\<exists>t. reachable example_lc_env [Unlock ''password'', Unlock ''password''] (example_lc example_tree)
         (t, [Done (Ok Empty), Done (Ok Empty)]) \<and> live t = [1, 0]"
  using two_unlocks_start_ldk_twice [OF example_settled _ example_read] by fastforce

theorem refused_lock_clears_mark_witness:
  "\<exists>t. reachable example_lc_env [Unlock ''password'', Lock, Unlock ''password''] (example_lc example_tree)
         (t, [Done (Ok Empty), Done (Err ChangingState), Done (Ok Empty)]) \<and> live t = [1, 0]"
  using refused_lock_clears_mark [OF example_settled _ example_read] by fastforce


theorem backup_moves_node_witness:
  "\<exists>bs. let b0 = (example_lc [])\<lparr>backups := bs\<rparr>;
            b1 = snd (run_alone example_lc_env 8 (Restore ''password'' ''file'') (Arrived, b0))
        in map_of (storage b1) ''mnemonic'' = Some ''passwordskill lamp''
           \<and> live (snd (run_alone example_lc_env 8 (Unlock ''password'') (Arrived, b1))) = [0]"
proof -
  let ?t = "example_lc example_tree"
  have init: "run_alone example_lc_env 8 (Init ''password'') (Arrived, example_lc []) = (Done (Ok (Mnemonic ''skill lamp'')), ?t)"
    by (simp add: runs_alone answer_plain example_init)
  obtain bk where bk: "do_backup example_ops ''salt'' (replicate 19 (CHR ''n'')) (storage_walk example_tree) ''password'' None = Ok bk"
    using example_backup [of "replicate 19 (CHR ''n'')" "''salt''" "storage_walk example_tree" "''password''"] by auto
  let ?b = "[(''file'', bk)]"
  have take: "run_alone example_lc_env 8 (Take_backup ''password'' ''file'') (Arrived, ?t) = (Done (Ok Empty), ?t\<lparr>backups := ?b\<rparr>)"
    using bk by (simp add: runs_alone answer_plain backup_def act_bind_def) (simp add: example_lc_env_def example_lc_def)
  have rest: "settled ((example_lc [])\<lparr>backups := ?b\<rparr>)" by (simp add: settled_def quiet_def example_lc_def)
  have plain: "plain_names (le_ops example_lc_env) (storage_walk (storage ?t))"
    by (simp add: plain_names_def storage_walk_def example_tree_def example_ops_ok str_ends_with_def)
  from backup_moves_node [OF example_settled init take rest _ _ _ _ _ _ _ plain, of "''skill lamp''"]
  obtain b1 b2 where
    "run_alone example_lc_env 8 (Restore ''password'' ''file'') (Arrived, (example_lc [])\<lparr>backups := ?b\<rparr>) = (Done (Ok Empty), b1)"
    "map_of (storage b1) ''mnemonic'' = Some ''passwordskill lamp''"
    "run_alone example_lc_env 8 (Unlock ''password'') (Arrived, b1) = (Done (Ok Empty), b2)" "live b2 = [0]"
    by (auto simp: example_ops_ok example_tree_def path_ends_with_def)
  then show ?thesis by (intro exI [of _ ?b]) (simp add: Let_def)
qed

end
