(* ===== verification/Wallet.thy ===== *)
theory Wallet
  imports AssetData "HOL-Library.AList"
begin

text \<open>
  The wallet adapter of \<open>src/src/f1r3fly_rgb_adapter.rs\<close>, first part: its state, assets and
  balances, the creation and the choice of UTXOs, and the file of UTXOs locked in channels.

  The wallet manager (Bitcoin wallet and contracts) and the Esplora server are foreign: \<open>wallet_env\<close> is
  the record of their answers, which may depend on the effects so far; each effect is appended to
  \<open>wcalls\<close>, in order.  A panic while the manager is locked poisons its mutex.  An outpoint is a
  transaction id with an output number.
\<close>

section \<open>Data\<close>

record satchel_utxo =
  u_outpoint :: string
  u_txid :: txid
  u_vout :: nat
  u_amount_sats :: u64
  u_rgb_assets :: "(string \<times> u64 option) list"

record utxo_filter =
  available_only :: bool
  rgb_only :: bool
  confirmed_only :: bool
  min_amount_sats :: "u64 option"

record asset_request =
  rq_ticker :: string
  rq_name :: string
  rq_supply :: u64
  rq_precision :: nat
  rq_genesis_utxo :: string

record asset_info =
  ai_contract_id :: string
  ai_ticker :: string
  ai_name :: string
  ai_precision :: nat
  ai_supply :: u64

text \<open>A transaction under construction and a final one.\<close>

record psbt =
  ps_inputs :: "outpoint list"
  ps_outputs :: "txout list"
  ps_rest :: string

record transaction =
  tx_id :: txid
  tx_inputs :: "outpoint list"
  tx_outputs :: "txout list"

record build_request =
  br_recipients :: "(string \<times> u64) list"
  br_fee_rate :: nat
  br_unspendable :: "outpoint list"

text \<open>What is posted to the proxy.\<close>

record contract_metadata =
  cm_registry_uri :: string
  cm_rholang_source :: string
  cm_methods :: "string list"

datatype payload =
    Transfer_payload string bytes u64
  | Consignment_payload string bytes u64 string asset_info contract_metadata string

datatype wcall =
    Load_wallet
  | Import_wallet
  | Write_pubkey string
  | Fund_from_faucet string
  | Sync_wallet
  | Issue_asset asset_request
  | New_address
  | Reveal_addresses nat
  | Broadcast transaction
  | Esplora_broadcast string transaction
  | Persist_wallet
  | Send_bitcoin string u64 nat
  | Transfer string string string u64
  | Settle_channel string string "string \<times> u64 \<times> string" "string \<times> u64 \<times> string"
  | Claim_call string string string
  | Insert_claim string string txid nat
  | Complete_claim nat
  | Save_state
  | Post_payload string string "txid option" payload
  | Proxy_get string string
  | Reload_contracts

text \<open>The file of locked UTXOs: its JSON value, \<open>Some None\<close> when it does not parse.\<close>

record locked_utxo =
  lu_contract_id :: "string option"
  lu_amount :: "u64 option"

datatype locked_json = Locked_object "(string \<times> locked_utxo) list" | Locked_null | Locked_other

record wallet =
  wcalls :: "wcall list"
  wm_poisoned :: bool
  locked_file :: "locked_json option option"

record wallet_env =
  we_network :: bitcoin_network
  wallet_loaded :: bool
  do_call :: "wcall \<Rightarrow> wcall list \<Rightarrow> (string, unit) outcome"
  list_utxos :: "wcall list \<Rightarrow> utxo_filter \<Rightarrow> (string, satchel_utxo list) outcome"
  occupied_utxos :: "wcall list \<Rightarrow> (string, string list) outcome"
  contract_balance :: "wcall list \<Rightarrow> string \<Rightarrow> (string, u64) outcome"
  contract_info :: "wcall list \<Rightarrow> string \<Rightarrow> (string, asset_info) outcome"
  tx_known :: "wcall list \<Rightarrow> txid \<Rightarrow> bool"
  known_assets :: "wcall list \<Rightarrow> (string, string list) outcome"
  btc_balance :: "wcall list \<Rightarrow> (string, u64 \<times> u64) outcome"
  issued_asset :: "asset_request \<Rightarrow> wcall list \<Rightarrow> asset_info"
  new_address :: "wcall list \<Rightarrow> string"
  revealed_scripts :: "wcall list \<Rightarrow> nat \<Rightarrow> string list"
  parse_txid :: "string \<Rightarrow> (string, txid) outcome"
  build_tx :: "wcall list \<Rightarrow> build_request \<Rightarrow> (string, psbt) outcome"
  sign_tx :: "psbt \<Rightarrow> (string, bool \<times> psbt) outcome"
  extract_tx :: "psbt \<Rightarrow> (string, transaction) outcome"
  esplora_client :: "string \<Rightarrow> (string, unit) outcome"
  io_error :: "string \<Rightarrow> wcall list \<Rightarrow> string option"
  sent_txid :: "string \<Rightarrow> u64 \<Rightarrow> nat \<Rightarrow> wcall list \<Rightarrow> txid"
  we_now :: "wcall list \<Rightarrow> string \<Rightarrow> nat \<Rightarrow> int"

text \<open>\<open>we_now\<close> is the clock, read twice for every asset that is listed or issued.\<close>

type_synonym ('x, 'a) w_action = "('x wallet_scheme, rgb_lib_error, 'a) action"

section \<open>Calls\<close>

text \<open>\<open>RgbLibError::Other\<close> with its message.\<close>

definition other :: "string \<Rightarrow> rgb_lib_error" where
  "other msg = RL_other (''Other('' @ debug_str msg @ '')'')"

definition failed :: "string \<Rightarrow> (string, 'a) outcome \<Rightarrow> (rgb_lib_error, 'a) outcome" where
  "failed msg r = map_err (\<lambda>e. other (msg @ '': '' @ e)) r"

definition effect :: "'e wallet_env_scheme \<Rightarrow> string \<Rightarrow> wcall \<Rightarrow> ('x, unit) w_action" where
  "effect env msg c s = (failed msg (do_call env c (wcalls s)), s\<lparr>wcalls := wcalls s @ [c]\<rparr>)"

definition query :: "string \<Rightarrow> (wcall list \<Rightarrow> (string, 'a) outcome) \<Rightarrow> ('x, 'a) w_action" where
  "query msg q s = (failed msg (q (wcalls s)), s)"

text \<open>Work under the lock of the manager.\<close>

definition with_manager :: "('x, 'a) w_action \<Rightarrow> ('x, 'a) w_action" where
  "with_manager m s =
     (if wm_poisoned s then (Panic, s)
      else case m s of (Panic, t) \<Rightarrow> (Panic, t\<lparr>wm_poisoned := True\<rparr>) | r \<Rightarrow> r)"

interpretation manager: poisoning_lock with_manager wm_poisoned "\<lambda>s. s\<lparr>wm_poisoned := True\<rparr>"
  by unfold_locales (simp_all add: with_manager_def)

section \<open>UTXOs locked in channels\<close>

definition io_check :: "'e wallet_env_scheme \<Rightarrow> string \<Rightarrow> string \<Rightarrow> ('x wallet_scheme, string, unit) action" where
  "io_check env op msg s =
     (case io_error env op (wcalls s) of None \<Rightarrow> Ok () | Some e \<Rightarrow> Err (msg @ '': '' @ e), s)"

text \<open>What the file holds after reading: an empty object when it does not parse.\<close>

definition parsed_locked :: "'x wallet_scheme \<Rightarrow> locked_json" where
  "parsed_locked s = (case locked_file s of Some (Some j) \<Rightarrow> j | _ \<Rightarrow> Locked_object [])"

definition utxo_key :: "txid \<Rightarrow> nat \<Rightarrow> string" where
  "utxo_key txid vout = txid @ '':'' @ show_nat vout"

text \<open>Assigning to a key: \<open>null\<close> becomes an object, any other value that is not one panics.\<close>

definition set_locked :: "string \<Rightarrow> locked_utxo \<Rightarrow> locked_json \<Rightarrow> (string, locked_json) outcome" where
  "set_locked key u j =
     (case j of
        Locked_object es \<Rightarrow> Ok (Locked_object (AList.update key u es))
      | Locked_null \<Rightarrow> Ok (Locked_object [(key, u)])
      | Locked_other \<Rightarrow> Panic)"

definition track_locked_utxo ::
  "'e wallet_env_scheme \<Rightarrow> string \<Rightarrow> txid \<Rightarrow> nat \<Rightarrow> u64 \<Rightarrow> ('x wallet_scheme, string, unit) action" where
  "track_locked_utxo env contract_id txid vout amount =
     act_bind (act_get locked_file) (\<lambda>file.
     act_bind (if file \<noteq> None then io_check env ''read locked'' ''Failed to read locked UTXOs file''
               else io_check env ''create locked'' ''Failed to create directory'') (\<lambda>_.
     act_bind (\<lambda>s. (set_locked (utxo_key txid vout)
                      \<lparr>lu_contract_id = Some contract_id, lu_amount = Some amount\<rparr> (parsed_locked s), s)) (\<lambda>j.
     act_bind (io_check env ''write locked'' ''Failed to write locked UTXOs file'') (\<lambda>_.
       act_modify (\<lambda>s. s\<lparr>locked_file := Some (Some j)\<rparr>)))))"

definition release_locked_utxo ::
  "'e wallet_env_scheme \<Rightarrow> txid \<Rightarrow> nat \<Rightarrow> ('x wallet_scheme, string, unit) action" where
  "release_locked_utxo env txid vout =
     act_bind (act_get locked_file) (\<lambda>file.
       if file = None then act_return ()
       else
         act_bind (io_check env ''read locked'' ''Failed to read locked UTXOs file'') (\<lambda>_.
         act_bind (act_get parsed_locked) (\<lambda>j.
         act_bind (io_check env ''write locked'' ''Failed to write locked UTXOs file'') (\<lambda>_.
           act_modify (\<lambda>s. s\<lparr>locked_file := Some (Some
             (case j of Locked_object es \<Rightarrow> Locked_object (AList.delete (utxo_key txid vout) es) | _ \<Rightarrow> j))\<rparr>)))))"

definition locked_amounts :: "string \<Rightarrow> locked_json \<Rightarrow> u64 list" where
  "locked_amounts contract_id j =
     (case j of
        Locked_object es \<Rightarrow>
          List.map_filter (\<lambda>(k, u). if lu_contract_id u = Some contract_id then lu_amount u else None) es
      | _ \<Rightarrow> [])"

definition get_locked_amount :: "'e wallet_env_scheme \<Rightarrow> string \<Rightarrow> ('x wallet_scheme, string, u64) action" where
  "get_locked_amount env contract_id =
     act_bind (act_get locked_file) (\<lambda>file.
       if file = None then act_return 0
       else
         act_bind (io_check env ''read locked'' ''Failed to read locked UTXOs file'') (\<lambda>_.
           (\<lambda>s. (sum_u64 (locked_amounts contract_id (parsed_locked s)), s))))"

section \<open>Assets\<close>

definition flat_balance :: "u64 \<Rightarrow> u64 \<Rightarrow> balance" where
  "flat_balance held spendable =
     \<lparr>settled_balance = held, future_balance = held, spendable_balance = spendable\<rparr>"

definition genesis_filter :: utxo_filter where
  "genesis_filter = \<lparr>available_only = True, rgb_only = False, confirmed_only = True, min_amount_sats = Some 1000\<rparr>"

text \<open>The sum of the amounts is taken under the lock.\<close>

definition issue_asset_nia ::
  "'e wallet_env_scheme \<Rightarrow> string \<Rightarrow> string \<Rightarrow> nat \<Rightarrow> u64 list \<Rightarrow> ('x, asset_nia) w_action" where
  "issue_asset_nia env ticker name precision amounts =
     with_manager (
     act_bind (act_lift (sum_u64 amounts)) (\<lambda>total_supply.
     act_bind (effect env ''Sync before issuance failed'' Sync_wallet) (\<lambda>_.
     act_bind (query ''Failed to list UTXOs'' (\<lambda>cs. list_utxos env cs genesis_filter)) (\<lambda>utxos.
     act_bind (act_lift (case utxos of [] \<Rightarrow> Err (RL_InsufficientBitcoins 1000 0) | u # _ \<Rightarrow> Ok u)) (\<lambda>genesis_utxo.
       let request = \<lparr>rq_ticker = ticker, rq_name = name, rq_supply = total_supply, rq_precision = precision,
                      rq_genesis_utxo = u_outpoint genesis_utxo\<rparr>
       in act_bind (\<lambda>s. (map_err (\<lambda>e. RL_FailedIssuance (''F1r3fly issuance failed: '' @ e))
                           (and_then (do_call env (Issue_asset request) (wcalls s)) (\<lambda>_. Ok (issued_asset env request (wcalls s)))),
                         s\<lparr>wcalls := wcalls s @ [Issue_asset request]\<rparr>)) (\<lambda>info.
          act_bind (query ''Failed to get balance'' (\<lambda>cs. contract_balance env cs (ai_contract_id info))) (\<lambda>held.
          act_bind (act_get (\<lambda>s. we_now env (wcalls s) (ai_contract_id info))) (\<lambda>now.
            act_return \<lparr>an_asset_id = ai_contract_id info, an_added_at = now 0, an_balance = flat_balance held held,
                        an_details = None, an_issued_supply = ai_supply info, an_ticker = ticker, an_name = name,
                        an_precision = precision, an_timestamp = now 1, an_media = None\<rparr>))))))))"

definition issue_asset_cfa ::
  "'e wallet_env_scheme \<Rightarrow> string \<Rightarrow> nat \<Rightarrow> u64 list \<Rightarrow> ('x, asset_cfa) w_action" where
  "issue_asset_cfa env name precision amounts =
     act_bind (issue_asset_nia env name name precision amounts) (\<lambda>a.
       act_return \<lparr>ac_asset_id = an_asset_id a, ac_added_at = an_added_at a, ac_balance = an_balance a,
                   ac_details = None, ac_issued_supply = an_issued_supply a, ac_ticker = an_ticker a,
                   ac_name = an_name a, ac_precision = an_precision a, ac_timestamp = an_timestamp a,
                   ac_media = None\<rparr>)"

definition issue_asset_uda :: "('x, asset_uda) w_action" where
  "issue_asset_uda = act_lift (Err (RL_other ''UnsupportedSchema { asset_schema: Uda }''))"

definition get_asset_balance :: "'e wallet_env_scheme \<Rightarrow> string \<Rightarrow> ('x, balance) w_action" where
  "get_asset_balance env asset_id =
     with_manager (act_bind (query ''Failed to get balance'' (\<lambda>cs. contract_balance env cs asset_id)) (\<lambda>held.
       act_return (flat_balance held held)))"

definition get_asset_metadata :: "'e wallet_env_scheme \<Rightarrow> string \<Rightarrow> ('x, metadata) w_action" where
  "get_asset_metadata env asset_id =
     with_manager (act_bind (query ''Failed to get metadata'' (\<lambda>cs. contract_info env cs asset_id)) (\<lambda>info.
       act_return \<lparr>md_asset_iface = ''RGB20'', md_asset_schema = Nia, md_issued_supply = ai_supply info,
                   md_timestamp = 0, md_name = ai_name info, md_precision = ai_precision info,
                   md_ticker = Some (ai_ticker info), md_details = None, md_initial_supply = ai_supply info,
                   md_max_supply = ai_supply info, md_known_circulating_supply = ai_supply info,
                   md_token = None\<rparr>))"

text \<open>An error of \<open>get_locked_amount\<close> counts as nothing locked.\<close>

definition locked_or_zero :: "'e wallet_env_scheme \<Rightarrow> string \<Rightarrow> ('x, u64) w_action" where
  "locked_or_zero env contract_id s =
     (case get_locked_amount env contract_id s of
        (Ok n, t) \<Rightarrow> (Ok n, t) | (Err _, t) \<Rightarrow> (Ok 0, t) | (Panic, t) \<Rightarrow> (Panic, t))"

definition list_asset :: "'e wallet_env_scheme \<Rightarrow> string \<Rightarrow> ('x, asset_nia) w_action" where
  "list_asset env contract_id =
     act_bind (query ''Failed to get asset info'' (\<lambda>cs. contract_info env cs contract_id)) (\<lambda>info.
     act_bind (query ''Failed to get balance'' (\<lambda>cs. contract_balance env cs contract_id)) (\<lambda>held.
     act_bind (locked_or_zero env contract_id) (\<lambda>locked_amount.
     act_bind (act_get (\<lambda>s. we_now env (wcalls s) contract_id)) (\<lambda>now.
       act_return \<lparr>an_asset_id = ai_contract_id info, an_added_at = now 0,
                   an_balance = flat_balance held (saturating_sub held locked_amount), an_details = None,
                   an_issued_supply = ai_supply info, an_ticker = ai_ticker info, an_name = ai_name info,
                   an_precision = ai_precision info, an_timestamp = now 1, an_media = None\<rparr>))))"

definition list_assets :: "'e wallet_env_scheme \<Rightarrow> ('x, assets) w_action" where
  "list_assets env =
     with_manager (act_bind (query ''Failed to list assets'' (known_assets env)) (\<lambda>items.
       act_bind (act_map (list_asset env) items) (\<lambda>nia.
         act_return \<lparr>nia_assets = Some nia, cfa_assets = Some [], uda_assets = Some []\<rparr>)))"

end
