(* ===== verification/AssetViews.thy ===== *)
theory AssetViews
  imports Wallet
begin

text \<open>
  The types of the interface for assets, outputs and transfers (\<open>src/src/routes.rs\<close>) and the conversions to
  them.  Types whose conversion copies every field are shared with \<open>AssetData\<close>; the conversions are still
  written out.
\<close>

section \<open>Assignments and schemas\<close>

text \<open>The conversion of a schema is not written for inflatable assets.\<close>

definition into_schema :: "AssetSchema \<Rightarrow> (APIError, AssetSchema) outcome" where
  "into_schema sc = (case sc of Nia \<Rightarrow> Ok Nia | Uda \<Rightarrow> Ok Uda | Cfa \<Rightarrow> Ok Cfa | Ifa \<Rightarrow> Panic)"

definition of_lib_assignment :: "Assignment \<Rightarrow> Assignment" where
  "of_lib_assignment x =
     (case x of
        Fungible amt \<Rightarrow> Fungible amt
      | NonFungible \<Rightarrow> NonFungible
      | InflationRight amt \<Rightarrow> InflationRight amt
      | ReplaceRight \<Rightarrow> ReplaceRight
      | Any \<Rightarrow> Any)"

definition into_assignment :: "Assignment \<Rightarrow> Assignment" where
  "into_assignment x =
     (case x of
        Fungible amt \<Rightarrow> Fungible amt
      | NonFungible \<Rightarrow> NonFungible
      | InflationRight amt \<Rightarrow> InflationRight amt
      | ReplaceRight \<Rightarrow> ReplaceRight
      | Any \<Rightarrow> Any)"

section \<open>Balances, media and tokens\<close>

record balance_view =
  bv_settled :: u64
  bv_future :: u64
  bv_spendable :: u64
  bv_offchain_outbound :: u64
  bv_offchain_inbound :: u64

definition view_balance :: "balance \<Rightarrow> balance_view" where
  "view_balance b =
     \<lparr>bv_settled = settled_balance b, bv_future = future_balance b, bv_spendable = spendable_balance b,
      bv_offchain_outbound = 0, bv_offchain_inbound = 0\<rparr>"

definition view_media :: "media \<Rightarrow> media" where
  "view_media m = \<lparr>me_file_path = me_file_path m, me_digest = me_digest m, me_mime = me_mime m\<rparr>"

definition view_embedded_media :: "embedded_media \<Rightarrow> embedded_media" where
  "view_embedded_media m = \<lparr>em_mime = em_mime m, em_data = em_data m\<rparr>"

record proof_view =
  pv_utxo :: string
  pv_proof :: bytes

definition view_outpoint :: "outpoint \<Rightarrow> string" where
  "view_outpoint p = utxo_key (fst p) (snd p)"

definition view_proof :: "proof_of_reserves \<Rightarrow> proof_view" where
  "view_proof p = \<lparr>pv_utxo = view_outpoint (pr_utxo p), pv_proof = pr_proof p\<rparr>"

definition view_attachments :: "(u8 \<times> media) list \<Rightarrow> (u8 \<times> media) list" where
  "view_attachments ms = map (\<lambda>(k, m). (k, view_media m)) ms"

definition view_token_light :: "token_light \<Rightarrow> token_light" where
  "view_token_light t =
     \<lparr>tl_index = tl_index t, tl_ticker = tl_ticker t, tl_name = tl_name t, tl_details = tl_details t,
      tl_embedded_media = tl_embedded_media t, tl_media = map_option view_media (tl_media t),
      tl_attachments = view_attachments (tl_attachments t), tl_reserves = tl_reserves t\<rparr>"

record token_view =
  tv_index :: u32
  tv_ticker :: "string option"
  tv_name :: "string option"
  tv_details :: "string option"
  tv_embedded_media :: "embedded_media option"
  tv_media :: "media option"
  tv_attachments :: "(u8 \<times> media) list"
  tv_reserves :: "proof_view option"

definition view_token :: "token \<Rightarrow> token_view" where
  "view_token t =
     \<lparr>tv_index = tk_index t, tv_ticker = tk_ticker t, tv_name = tk_name t, tv_details = tk_details t,
      tv_embedded_media = map_option view_embedded_media (tk_embedded_media t),
      tv_media = map_option view_media (tk_media t), tv_attachments = view_attachments (tk_attachments t),
      tv_reserves = map_option view_proof (tk_reserves t)\<rparr>"

section \<open>Assets\<close>

record nia_view =
  nia_asset_id :: string
  nia_ticker :: string
  nia_name :: string
  nia_details :: "string option"
  nia_precision :: nat
  nia_issued_supply :: u64
  nia_timestamp :: int
  nia_added_at :: int
  nia_balance :: balance_view
  nia_media :: "media option"

definition view_nia :: "asset_nia \<Rightarrow> nia_view" where
  "view_nia a =
     \<lparr>nia_asset_id = an_asset_id a, nia_ticker = an_ticker a, nia_name = an_name a, nia_details = an_details a,
      nia_precision = an_precision a, nia_issued_supply = an_issued_supply a, nia_timestamp = an_timestamp a,
      nia_added_at = an_added_at a, nia_balance = view_balance (an_balance a),
      nia_media = map_option view_media (an_media a)\<rparr>"

text \<open>The interface shows no ticker for the second kind of asset.\<close>

record cfa_view =
  cfa_asset_id :: string
  cfa_name :: string
  cfa_details :: "string option"
  cfa_precision :: nat
  cfa_issued_supply :: u64
  cfa_timestamp :: int
  cfa_added_at :: int
  cfa_balance :: balance_view
  cfa_media :: "media option"

definition view_cfa :: "asset_cfa \<Rightarrow> cfa_view" where
  "view_cfa a =
     \<lparr>cfa_asset_id = ac_asset_id a, cfa_name = ac_name a, cfa_details = ac_details a,
      cfa_precision = ac_precision a, cfa_issued_supply = ac_issued_supply a, cfa_timestamp = ac_timestamp a,
      cfa_added_at = ac_added_at a, cfa_balance = view_balance (ac_balance a),
      cfa_media = map_option view_media (ac_media a)\<rparr>"

record uda_view =
  uda_asset_id :: string
  uda_ticker :: string
  uda_name :: string
  uda_details :: "string option"
  uda_precision :: nat
  uda_timestamp :: int
  uda_added_at :: int
  uda_balance :: balance_view
  uda_token :: "token_light option"

definition view_uda :: "asset_uda \<Rightarrow> uda_view" where
  "view_uda a =
     \<lparr>uda_asset_id = au_asset_id a, uda_ticker = au_ticker a, uda_name = au_name a, uda_details = au_details a,
      uda_precision = au_precision a, uda_timestamp = au_timestamp a, uda_added_at = au_added_at a,
      uda_balance = view_balance (au_balance a), uda_token = map_option view_token_light (au_token a)\<rparr>"

record metadata_view =
  mv_asset_schema :: AssetSchema
  mv_initial_supply :: u64
  mv_max_supply :: u64
  mv_known_circulating_supply :: u64
  mv_timestamp :: int
  mv_name :: string
  mv_precision :: nat
  mv_ticker :: "string option"
  mv_details :: "string option"
  mv_token :: "token_view option"

definition view_metadata :: "metadata \<Rightarrow> (APIError, metadata_view) outcome" where
  "view_metadata m =
     and_then (into_schema (md_asset_schema m)) (\<lambda>schema.
       Ok \<lparr>mv_asset_schema = schema, mv_initial_supply = md_initial_supply m, mv_max_supply = md_max_supply m,
           mv_known_circulating_supply = md_known_circulating_supply m, mv_timestamp = md_timestamp m,
           mv_name = md_name m, mv_precision = md_precision m, mv_ticker = md_ticker m, mv_details = md_details m,
           mv_token = map_option view_token (md_token m)\<rparr>)"

section \<open>Outputs, transactions and transfers\<close>

record allocation_view =
  lv_asset_id :: "string option"
  lv_assignment :: Assignment
  lv_settled :: bool

record unspent_view =
  uv_outpoint :: string
  uv_btc_amount :: u64
  uv_colorable :: bool
  uv_allocations :: "allocation_view list"

definition view_unspent :: "unspent \<Rightarrow> unspent_view" where
  "view_unspent u =
     \<lparr>uv_outpoint = view_outpoint (un_txid u, un_vout u), uv_btc_amount = un_btc_amount u,
      uv_colorable = un_colorable u,
      uv_allocations = map (\<lambda>a. \<lparr>lv_asset_id = al_asset_id a, lv_assignment = of_lib_assignment (al_assignment a),
                                lv_settled = al_settled a\<rparr>) (un_allocations u)\<rparr>"

definition view_transaction :: "rgb_transaction \<Rightarrow> rgb_transaction" where
  "view_transaction tx =
     \<lparr>rt_transaction_type = (case rt_transaction_type tx of
          RgbSend \<Rightarrow> RgbSend | Drain \<Rightarrow> Drain | CreateUtxos \<Rightarrow> CreateUtxos | User \<Rightarrow> User),
      rt_txid = rt_txid tx, rt_received = rt_received tx, rt_sent = rt_sent tx, rt_fee = rt_fee tx,
      rt_confirmation_time = map_option (\<lambda>ct. \<lparr>bt_height = bt_height ct, bt_timestamp = bt_timestamp ct\<rparr>)
        (rt_confirmation_time tx)\<rparr>"

record transfer_view =
  vt_idx :: int
  vt_created_at :: int
  vt_updated_at :: int
  vt_status :: TransferStatus
  vt_requested_assignment :: "Assignment option"
  vt_assignments :: "Assignment list"
  vt_kind :: TransferKind
  vt_txid :: "txid option"
  vt_recipient_id :: "string option"
  vt_receive_utxo :: "string option"
  vt_change_utxo :: "string option"
  vt_expiration :: "int option"
  vt_transport_endpoints :: "transport_endpoint list"

definition view_endpoint :: "transport_endpoint \<Rightarrow> transport_endpoint" where
  "view_endpoint e =
     \<lparr>te_endpoint = te_endpoint e, te_transport_type = (case te_transport_type e of JsonRpc \<Rightarrow> JsonRpc),
      te_used = te_used e\<rparr>"

definition view_transfer :: "rgb_transfer \<Rightarrow> transfer_view" where
  "view_transfer t =
     \<lparr>vt_idx = tf_idx t, vt_created_at = tf_created_at t, vt_updated_at = tf_updated_at t,
      vt_status = (case tf_status t of
          WaitingCounterparty \<Rightarrow> WaitingCounterparty | WaitingConfirmations \<Rightarrow> WaitingConfirmations
        | Settled \<Rightarrow> Settled | Failed \<Rightarrow> Failed),
      vt_requested_assignment = map_option of_lib_assignment (tf_requested_assignment t),
      vt_assignments = map of_lib_assignment (tf_assignments t),
      vt_kind = (case tf_kind t of
          Issuance \<Rightarrow> Issuance | ReceiveBlind \<Rightarrow> ReceiveBlind | ReceiveWitness \<Rightarrow> ReceiveWitness
        | Send \<Rightarrow> Send | Inflation \<Rightarrow> Inflation),
      vt_txid = tf_txid t, vt_recipient_id = tf_recipient_id t,
      vt_receive_utxo = map_option view_outpoint (tf_receive_utxo t),
      vt_change_utxo = map_option view_outpoint (tf_change_utxo t), vt_expiration = tf_expiration t,
      vt_transport_endpoints = map view_endpoint (tf_transport_endpoints t)\<rparr>"

record receive_view =
  vr_recipient_id :: string
  vr_invoice :: string
  vr_expiration_timestamp :: "int option"
  vr_batch_transfer_idx :: int

definition view_receive :: "receive_data \<Rightarrow> receive_view" where
  "view_receive d =
     \<lparr>vr_recipient_id = rd_recipient_id d, vr_invoice = rd_invoice d,
      vr_expiration_timestamp = rd_expiration_timestamp d, vr_batch_transfer_idx = rd_batch_transfer_idx d\<rparr>"

text \<open>What is written out above copies.\<close>

lemma copies [simp]:
  "view_media m = m" "view_embedded_media e = e" "view_token_light t = t" "view_transaction tx = tx"
  "view_endpoint te = te" "of_lib_assignment x = x" "into_assignment x = x"
proof -
  have media: "view_media m = m" for m by (simp add: view_media_def)
  then have attached: "view_attachments ms = ms" for ms
    by (induction ms) (auto simp: view_attachments_def)
  show "view_media m = m" by (rule media)
  show "view_embedded_media e = e" by (simp add: view_embedded_media_def)
  show "view_token_light t = t"
    using media by (cases t; cases "tl_media t") (auto simp: view_token_light_def attached)
  show "view_transaction tx = tx"
    by (cases tx; cases "rt_confirmation_time tx"; cases "rt_transaction_type tx") (auto simp: view_transaction_def)
  show "view_endpoint te = te" by (cases te; cases "te_transport_type te") (auto simp: view_endpoint_def)
  show "of_lib_assignment x = x" "into_assignment x = x"
    by (cases x; simp add: of_lib_assignment_def into_assignment_def)+
qed

end
