(* ===== verification/Utxos.thy ===== *)
theory Utxos
  imports Wallet
begin

text \<open>
  The wallet adapter of \<open>src/src/f1r3fly_rgb_adapter.rs\<close>, second part: addresses and the bitcoin
  balance, the list of unspent outputs, the creation of UTXOs and the choice of one to claim assets to,
  the opening of the wallet, and the operations that are stubs.
\<close>

section \<open>Addresses and balance\<close>

definition get_address :: "'e wallet_env_scheme \<Rightarrow> ('x, string) w_action" where
  "get_address env =
     with_manager (\<lambda>s. (failed ''Failed to get address''
         (and_then (do_call env New_address (wcalls s)) (\<lambda>_. Ok (new_address env (wcalls s)))),
       s\<lparr>wcalls := wcalls s @ [New_address]\<rparr>))"

definition get_btc_balance :: "'e wallet_env_scheme \<Rightarrow> ('x, balance \<times> balance) w_action" where
  "get_btc_balance env =
     with_manager (act_bind (query ''Failed to get BTC balance'' (btc_balance env)) (\<lambda>(confirmed, unconfirmed).
       act_bind (act_lift (add_u64 confirmed unconfirmed)) (\<lambda>future.
         act_return (\<lparr>settled_balance = confirmed, future_balance = future, spendable_balance = confirmed\<rparr>,
                     flat_balance 0 0))))"

definition has_transaction :: "'e wallet_env_scheme \<Rightarrow> txid \<Rightarrow> ('x, bool) w_action" where
  "has_transaction env txid = with_manager (act_get (\<lambda>s. wallet_loaded env \<and> tx_known env (wcalls s) txid))"

definition sync :: "'e wallet_env_scheme \<Rightarrow> ('x, unit) w_action" where
  "sync env = with_manager (effect env ''Sync failed'' Sync_wallet)"

definition go_online :: "'e wallet_env_scheme \<Rightarrow> ('x, unit) w_action" where
  "go_online env = with_manager (effect env ''Sync failed'' Sync_wallet)"

definition refresh :: "'e wallet_env_scheme \<Rightarrow> ('x, unit) w_action" where
  "refresh env = act_bind (sync env) (\<lambda>_. act_return ())"

section \<open>Unspent outputs\<close>

definition to_unspent :: "satchel_utxo \<Rightarrow> unspent" where
  "to_unspent u =
     \<lparr>un_txid = u_txid u, un_vout = u_vout u, un_btc_amount = u_amount_sats u,
      un_colorable = (u_rgb_assets u = []),
      un_txout = \<lparr>to_value = u_amount_sats u, to_script = [], to_is_op_return = False\<rparr>,
      un_allocations = map (\<lambda>(c, a). (let n = (case a of Some n \<Rightarrow> n | None \<Rightarrow> 0)
          in \<lparr>al_asset_id = Some c, al_amount = n, al_assignment = Fungible n, al_settled = True\<rparr>)) (u_rgb_assets u)\<rparr>"

definition list_unspents :: "'e wallet_env_scheme \<Rightarrow> bool \<Rightarrow> ('x, unspent list) w_action" where
  "list_unspents env settled_only =
     with_manager (act_bind (query ''Failed to list UTXOs''
         (\<lambda>cs. list_utxos env cs \<lparr>available_only = False, rgb_only = False, confirmed_only = settled_only,
                                  min_amount_sats = None\<rparr>)) (\<lambda>utxos.
       act_return (map to_unspent utxos)))"

definition list_unspents_vanilla :: "'e wallet_env_scheme \<Rightarrow> ('x, unspent list) w_action" where
  "list_unspents_vanilla env = list_unspents env False"

section \<open>Creating UTXOs\<close>

text \<open>\<open>str::parse::<u32>\<close> with the text of its error.\<close>

fun parse_digits :: "nat \<Rightarrow> nat \<Rightarrow> string \<Rightarrow> (string, nat) outcome" where
  "parse_digits bound acc [] = Ok acc"
| "parse_digits bound acc (c # cs) =
     (case digit_value c of
        None \<Rightarrow> Err ''invalid digit found in string''
      | Some d \<Rightarrow> if acc * 10 + d < bound then parse_digits bound (acc * 10 + d) cs
                  else Err ''number too large to fit in target type'')"

definition parse_u32 :: "string \<Rightarrow> (string, nat) outcome" where
  "parse_u32 t =
     (if t = [] then Err ''cannot parse integer from empty string''
      else if t = ''+'' then Err ''invalid digit found in string''
      else parse_digits (2 ^ 32) 0 (if hd t = CHR ''+'' then tl t else t))"

text \<open>The outpoint of a text \<open>txid:vout\<close>; another number of parts is skipped.\<close>

definition occupied_outpoint ::
  "'e wallet_env_scheme \<Rightarrow> string \<Rightarrow> (rgb_lib_error, outpoint option) outcome" where
  "occupied_outpoint env t =
     (case split_on (CHR '':'') t of
        [a, b] \<Rightarrow>
          and_then (failed (''Invalid txid in '' @ t) (parse_txid env a)) (\<lambda>txid.
          and_then (failed (''Invalid vout in '' @ t) (parse_u32 b)) (\<lambda>vout. Ok (Some (txid, vout))))
      | _ \<Rightarrow> Ok None)"

definition split_request ::
  "'e wallet_env_scheme \<Rightarrow> string list \<Rightarrow> string list \<Rightarrow> u64 \<Rightarrow> nat \<Rightarrow> (rgb_lib_error, build_request) outcome" where
  "split_request env occupied scripts amount_per_utxo fee_rate =
     and_then (map_outcome (occupied_outpoint env) occupied) (\<lambda>os.
       Ok \<lparr>br_recipients = map (\<lambda>sc. (sc, amount_per_utxo)) scripts, br_fee_rate = fee_rate,
           br_unspendable = List.map_filter id os\<rparr>)"

definition wallet_or :: "'e wallet_env_scheme \<Rightarrow> string \<Rightarrow> ('x, unit) w_action" where
  "wallet_or env msg = act_lift (guard_or (wallet_loaded env) (other msg))"

definition esplora_url :: string where
  "esplora_url = ''http://localhost:3002''"

definition create_utxos ::
  "'e wallet_env_scheme \<Rightarrow> nat option \<Rightarrow> nat option \<Rightarrow> nat \<Rightarrow> bool \<Rightarrow> ('x, nat) w_action" where
  "create_utxos env num utxo_size fee_rate skip_sync =
     (let count = (case num of Some n \<Rightarrow> n | None \<Rightarrow> 1);
          amount_per_utxo = (case utxo_size of Some n \<Rightarrow> of_nat n | None \<Rightarrow> 1000)
      in act_bind (if \<not> skip_sync then sync env else act_return ()) (\<lambda>_.
         act_bind (with_manager (
           act_bind (query ''Failed to get occupied UTXOs'' (occupied_utxos env)) (\<lambda>occupied.
           act_bind (wallet_or env ''Bitcoin wallet not loaded'') (\<lambda>_.
           act_bind (act_get (\<lambda>s. revealed_scripts env (wcalls s) count)) (\<lambda>scripts.
           act_bind (act_modify (\<lambda>s. s\<lparr>wcalls := wcalls s @ [Reveal_addresses count]\<rparr>)) (\<lambda>_.
           act_bind (act_lift (split_request env occupied scripts amount_per_utxo fee_rate)) (\<lambda>request.
           act_bind (query ''Failed to build split transaction'' (\<lambda>cs. build_tx env cs request)) (\<lambda>psbt.
           act_bind (act_lift (failed ''Failed to sign transaction'' (sign_tx env psbt))) (\<lambda>(_, signed).
           act_bind (act_lift (failed ''Failed to extract transaction'' (extract_tx env signed))) (\<lambda>tx.
           act_bind (act_lift (failed ''Failed to create Esplora client'' (esplora_client env esplora_url))) (\<lambda>_.
           act_bind (effect env ''Failed to broadcast transaction'' (Esplora_broadcast esplora_url tx)) (\<lambda>_.
             effect env ''Failed to persist wallet'' Persist_wallet)))))))))))) (\<lambda>_.
         act_bind (with_manager (effect env ''Sync after createutxos failed'' Sync_wallet)) (\<lambda>_.
           act_return (count mod 256)))))"

section \<open>UTXOs to claim to\<close>

definition claim_sized :: "unspent \<Rightarrow> bool" where
  "claim_sized u \<longleftrightarrow> un_allocations u = [] \<and> un_btc_amount u \<le> 2000"

abbreviation min_claim_utxos :: nat where
  "min_claim_utxos \<equiv> 2"

definition ensure_claim_utxos_available :: "'e wallet_env_scheme \<Rightarrow> ('x, unit) w_action" where
  "ensure_claim_utxos_available env =
     act_bind (list_unspents env False) (\<lambda>unspents.
       let available_count = length (filter claim_sized unspents)
       in if available_count < min_claim_utxos
          then act_bind (create_utxos env (Some (min_claim_utxos - available_count)) (Some 1000) 1 False) (\<lambda>_. act_return ())
          else act_return ())"

text \<open>\<open>Iterator::min_by_key\<close>: the first of the least elements.\<close>

fun min_by_key :: "('a \<Rightarrow> u64) \<Rightarrow> 'a list \<Rightarrow> 'a option" where
  "min_by_key f [] = None"
| "min_by_key f (x # xs) =
     (case min_by_key f xs of None \<Rightarrow> Some x | Some y \<Rightarrow> if f x \<le> f y then Some x else Some y)"

definition get_claim_utxo :: "'e wallet_env_scheme \<Rightarrow> ('x, string) w_action" where
  "get_claim_utxo env =
     act_bind (list_unspents env False) (\<lambda>unspents.
       case min_by_key un_btc_amount (filter claim_sized unspents) of
         Some u \<Rightarrow> act_return (utxo_key (un_txid u) (un_vout u))
       | None \<Rightarrow>
           act_bind (create_utxos env (Some 1) (Some 1000) 1 False) (\<lambda>_.
           act_bind (list_unspents env False) (\<lambda>unspents.
             if unspents = [] then act_lift (Err (other ''Failed to create claim UTXO''))
             else act_return (utxo_key (un_txid (last unspents)) (un_vout (last unspents))))))"

section \<open>Opening the wallet\<close>

text \<open>\<open>new\<close>: the wallet is loaded, or imported and loaded; the public key, when the contracts have one,
  is written for LDK (a failing write is logged), and on regtest funded from the faucet.\<close>

definition log_effect :: "'e wallet_env_scheme \<Rightarrow> wcall \<Rightarrow> ('x, unit) w_action" where
  "log_effect env c = act_modify (\<lambda>s. s\<lparr>wcalls := wcalls s @ [c]\<rparr>)"

definition open_wallet ::
  "'e wallet_env_scheme \<Rightarrow> (string, unit) outcome \<Rightarrow> string option \<Rightarrow> bool \<Rightarrow> bool \<Rightarrow> ('x, unit) w_action" where
  "open_wallet env manager_new pubkey dir_ok faucet_ok =
     act_bind (act_lift (failed ''Failed to create WalletManager'' manager_new)) (\<lambda>_.
     act_bind (\<lambda>s. (Ok (do_call env Load_wallet (wcalls s)), s\<lparr>wcalls := wcalls s @ [Load_wallet]\<rparr>)) (\<lambda>load_result.
     act_bind (case load_result of
                 Err _ \<Rightarrow> act_bind (effect env ''Failed to import wallet'' Import_wallet) (\<lambda>_.
                            effect env ''Failed to load wallet'' Load_wallet)
               | Ok _ \<Rightarrow> act_return ()
               | Panic \<Rightarrow> act_lift Panic) (\<lambda>_.
       case pubkey of
         None \<Rightarrow> act_return ()
       | Some pk \<Rightarrow>
           act_bind (if dir_ok then log_effect env (Write_pubkey pk) else act_return ()) (\<lambda>_.
             if we_network env = Regtest \<and> faucet_ok then log_effect env (Fund_from_faucet pk)
             else act_return ()))))"

definition network_str :: "bitcoin_network \<Rightarrow> string" where
  "network_str n =
     (case n of Mainnet \<Rightarrow> ''mainnet'' | Testnet \<Rightarrow> ''testnet'' | Testnet4 \<Rightarrow> ''testnet''
      | Signet \<Rightarrow> ''signet'' | Regtest \<Rightarrow> ''regtest'')"

definition get_state_file_path :: "string \<Rightarrow> bitcoin_network \<Rightarrow> string \<Rightarrow> string" where
  "get_state_file_path data_dir n wallet_name =
     join_with ''/'' [data_dir, network_str n, wallet_name, ''f1r3fly_state.json'']"

section \<open>Stubs\<close>

definition blind_receive :: "('x, receive_data) w_action" where
  "blind_receive = with_manager (act_lift (Err (other ''blind_receive: Not fully implemented'')))"

definition witness_receive :: "('x, receive_data) w_action" where
  "witness_receive = blind_receive"

definition color_psbt_and_consume :: "('x, unit) w_action" where
  "color_psbt_and_consume = act_lift (Err (other ''color_psbt_and_consume: Not fully implemented''))"

definition get_tx_height :: "txid \<Rightarrow> ('x, nat option) w_action" where
  "get_tx_height txid = act_return None"

definition get_fee_estimation :: "nat \<Rightarrow> ('x, nat) w_action" where
  "get_fee_estimation blocks = act_return 1"

definition list_transactions :: "('x, rgb_transaction list) w_action" where
  "list_transactions = act_return []"

definition list_transfers :: "string option \<Rightarrow> ('x, rgb_transfer list) w_action" where
  "list_transfers asset_id = act_return []"

definition fail_transfers :: "int option \<Rightarrow> ('x, bool) w_action" where
  "fail_transfers batch_transfer_idx = act_return False"

definition update_witnesses :: "nat \<Rightarrow> txid list \<Rightarrow> ('x, txid list) w_action" where
  "update_witnesses after_height force_witnesses = act_return []"

definition upsert_witness :: "txid \<Rightarrow> ('x, unit) w_action" where
  "upsert_witness witness_id = act_return ()"

definition save_new_asset :: "('x, unit) w_action" where
  "save_new_asset = act_return ()"

definition reload_contracts :: "'e wallet_env_scheme \<Rightarrow> ('x, unit) w_action" where
  "reload_contracts env = with_manager (effect env ''Failed to reload contracts'' Reload_contracts)"

end
