(* ===== verification/Transfers.thy ===== *)
theory Transfers
  imports Utxos
begin

text \<open>
  The wallet adapter of \<open>src/src/f1r3fly_rgb_adapter.rs\<close>, third part: sending assets on chain, the
  funding of channels in its two halves, plain bitcoin sends and signing.

  \<open>f1r3fly_state.json\<close> is what the code reads of it, \<open>pending_rgb_transfer.json\<close> likewise; the inner
  \<open>None\<close> is a file that does not parse.  Signatures and nonces are foreign.
\<close>

section \<open>State and environment\<close>

record state_json =
  genesis_utxos :: "(string \<times> string option \<times> u64 option) list"
  channel_counterparties :: "(string \<times> string option) list"

record pending_json =
  pj_contract_id :: "string option"
  pj_rgb_amount :: "u64 option"

record transfer_wallet = wallet +
  state_file :: "state_json option option"
  pending_transfer :: "pending_json option option"
  temp_infos :: "(txid \<times> (u64 \<times> string) option) list"

record recipient =
  rc_recipient_id :: string
  rc_witness_amount :: "u64 option"
  rc_assignment :: Assignment
  rc_transport_endpoints :: "string list"

record rpc_answer =
  rpc_success :: bool
  rpc_status :: string
  rpc_json :: "(string, bool option \<times> (int \<times> string) option) outcome"

record get_answer =
  ga_success :: bool
  ga_status :: string
  ga_json :: "(string, string option \<times> string option) outcome"

record transfer_env = wallet_env +
  parse_address :: "string \<Rightarrow> (string, string) outcome"
  on_network :: "bitcoin_network \<Rightarrow> string \<Rightarrow> (string, unit) outcome"
  genesis_state_hash :: "wcall list \<Rightarrow> string \<Rightarrow> (string, bytes) outcome"
  op_return_script :: "bytes \<Rightarrow> string"
  parse_outpoint :: "string \<Rightarrow> (string, outpoint) outcome"
  psbt_from_str :: "string \<Rightarrow> (string, psbt) outcome"
  psbt_to_string :: "psbt \<Rightarrow> string"
  contracts_loaded :: bool
  parse_contract_id :: "string \<Rightarrow> (string, string) outcome"
  derivation_index :: "wcall list \<Rightarrow> string \<Rightarrow> (string, nat) outcome"
  child_key :: "nat \<Rightarrow> (string, string) outcome"
  master_key :: "(string, string) outcome"
  master_pubkey :: "(string, string) outcome"
  sign_message_key :: "string \<Rightarrow> string list \<Rightarrow> (string, string) outcome"
  has_contract :: "wcall list \<Rightarrow> string \<Rightarrow> bool"
  contract_metadata_of :: "wcall list \<Rightarrow> string \<Rightarrow> (string, contract_metadata) outcome"
  http_post :: "string \<Rightarrow> payload \<Rightarrow> wcall list \<Rightarrow> (string, rpc_answer) outcome"
  http_get :: "string \<Rightarrow> string \<Rightarrow> wcall list \<Rightarrow> (string, get_answer) outcome"
  rgb_proxy_url :: "string option"
  b64_decode :: "string \<Rightarrow> (string, string) outcome"
  from_utf8 :: "string \<Rightarrow> (string, string) outcome"
  parse_pubkey_payload :: "string \<Rightarrow> (string, string) outcome"
  sha_hex :: "string \<Rightarrow> string"
  settle_state_hash :: "wcall list \<Rightarrow> bytes"
  all_claims :: "wcall list \<Rightarrow> string \<Rightarrow> string list"
  inserted_claim :: "wcall list \<Rightarrow> nat"

type_synonym 'a t_action = "(transfer_wallet, rgb_lib_error, 'a) action"

section \<open>Transactions of the wallet\<close>

text \<open>The outpoints that must not be spent.\<close>

definition unspendable_outpoints :: "transfer_env \<Rightarrow> string list \<Rightarrow> (rgb_lib_error, outpoint list) outcome" where
  "unspendable_outpoints env occupied =
     map_outcome (\<lambda>t. failed (''Invalid outpoint '' @ t) (parse_outpoint env t)) occupied"

definition checked_address :: "transfer_env \<Rightarrow> string \<Rightarrow> (rgb_lib_error, string) outcome" where
  "checked_address env address =
     and_then (failed ''Invalid address'' (parse_address env address)) (\<lambda>script.
     and_then (failed ''Address network mismatch'' (on_network env (we_network env) address)) (\<lambda>_. Ok script))"

definition build_psbt :: "transfer_env \<Rightarrow> string \<Rightarrow> u64 \<Rightarrow> nat \<Rightarrow> string list \<Rightarrow> psbt t_action" where
  "build_psbt env script amount fee_rate occupied =
     act_bind (wallet_or env ''Wallet not loaded'') (\<lambda>_.
     act_bind (act_lift (unspendable_outpoints env occupied)) (\<lambda>unspendable.
       query ''Failed to build PSBT'' (\<lambda>cs. build_tx env cs
         \<lparr>br_recipients = [(script, amount)], br_fee_rate = fee_rate, br_unspendable = unspendable\<rparr>)))"

definition add_op_return :: "transfer_env \<Rightarrow> bytes \<Rightarrow> psbt \<Rightarrow> psbt" where
  "add_op_return env state_hash p =
     p\<lparr>ps_outputs := ps_outputs p @
        [\<lparr>to_value = 0, to_script = op_return_script env state_hash, to_is_op_return = True\<rparr>]\<rparr>"

text \<open>A transaction for one recipient that commits to the state of a contract.\<close>

definition committed_psbt :: "transfer_env \<Rightarrow> string \<Rightarrow> string \<Rightarrow> u64 \<Rightarrow> nat \<Rightarrow> (psbt \<times> bytes) t_action" where
  "committed_psbt env asset_id address amount fee_rate =
     act_bind (wallet_or env ''Wallet not loaded'') (\<lambda>_.
     act_bind (act_lift (checked_address env address)) (\<lambda>script.
     act_bind (query ''Failed to get occupied UTXOs'' (occupied_utxos env)) (\<lambda>occupied.
     act_bind (query ''Failed to get state hash'' (\<lambda>cs. genesis_state_hash env cs asset_id)) (\<lambda>state_hash.
     act_bind (build_psbt env script amount fee_rate occupied) (\<lambda>p.
       act_return (add_op_return env state_hash p, state_hash))))))"

section \<open>The transfer on the F1r3node\<close>

definition state_io :: "transfer_env \<Rightarrow> string \<Rightarrow> string \<Rightarrow> unit t_action" where
  "state_io env op msg s =
     (case io_error env op (wcalls s) of None \<Rightarrow> Ok () | Some e \<Rightarrow> Err (other (msg @ '': '' @ e)), s)"

text \<open>Reading a JSON file; a text that does not parse is an error of the parser.\<close>

definition read_json :: "transfer_env \<Rightarrow> string \<Rightarrow> string \<Rightarrow> (transfer_wallet \<Rightarrow> 'a option option) \<Rightarrow> 'a t_action" where
  "read_json env name what sel =
     act_bind (state_io env (''read '' @ name) (''Failed to read '' @ what)) (\<lambda>_.
     act_bind (act_get sel) (\<lambda>file. act_lift (case file of
         None \<Rightarrow> Err (other (''Failed to read '' @ what @ '': No such file or directory (os error 2)''))
       | Some None \<Rightarrow> Err (other (''Failed to parse '' @ what))
       | Some (Some j) \<Rightarrow> Ok j)))"

definition genesis_of :: "string \<Rightarrow> state_json \<Rightarrow> (rgb_lib_error, string) outcome" where
  "genesis_of contract_id j =
     (case map_of (genesis_utxos j) contract_id of
        None \<Rightarrow> Err (other (''Contract '' @ contract_id @ '' not found in genesis_utxos''))
      | Some (txid, vout) \<Rightarrow>
          and_then (ok_or (other ''Missing txid in genesis UTXO'') txid) (\<lambda>txid.
          and_then (ok_or (other ''Missing vout in genesis UTXO'') vout) (\<lambda>vout.
            Ok (utxo_key txid (unat vout)))))"

definition contracts_or :: "transfer_env \<Rightarrow> string \<Rightarrow> unit t_action" where
  "contracts_or env msg = act_lift (guard_or (contracts_loaded env) (other msg))"

definition contract_key :: "transfer_env \<Rightarrow> string \<Rightarrow> string t_action" where
  "contract_key env contract_id =
     act_bind (query ''Failed to get derivation index'' (\<lambda>cs. derivation_index env cs contract_id)) (\<lambda>i.
       act_lift (failed ''Failed to get signing key'' (child_key env i)))"

definition contract_or :: "transfer_env \<Rightarrow> string \<Rightarrow> string \<Rightarrow> unit t_action" where
  "contract_or env typed_id contract_id s =
     (guard_or (has_contract env (wcalls s) typed_id) (other (''Contract '' @ contract_id @ '' not found'')), s)"

definition execute_transfer :: "transfer_env \<Rightarrow> string \<Rightarrow> string \<Rightarrow> string \<Rightarrow> string \<Rightarrow> u64 \<Rightarrow> unit t_action" where
  "execute_transfer env save_msg contract_id from_utxo to_witness amount =
     act_bind (contracts_or env ''Contracts manager not initialized'') (\<lambda>_.
     act_bind (act_lift (failed ''Invalid contract ID'' (parse_contract_id env contract_id))) (\<lambda>typed_id.
     act_bind (contract_key env contract_id) (\<lambda>key.
     act_bind (act_lift (failed ''Failed to generate transfer signature''
                 (sign_message_key env key [from_utxo, to_witness, show_u64 amount]))) (\<lambda>_.
     act_bind (contract_or env typed_id contract_id) (\<lambda>_.
     act_bind (effect env ''F1r3node transfer failed'' (Transfer contract_id from_utxo to_witness amount)) (\<lambda>_.
       effect env save_msg Save_state))))))"

section \<open>Sending an asset on chain\<close>

definition starts_with :: "string \<Rightarrow> string \<Rightarrow> bool" where
  "starts_with t p \<longleftrightarrow> take (length p) t = p"

definition to_http :: "string \<Rightarrow> string" where
  "to_http url =
     (if starts_with url ''rpc://'' then ''http://'' @ drop 6 url
      else if starts_with url ''rpcs://'' then ''https://'' @ drop 7 url
      else url)"

text \<open>Posting to each endpoint: a status that is not a success is only logged.\<close>

definition post_transfer :: "transfer_env \<Rightarrow> txid \<Rightarrow> payload \<Rightarrow> string \<Rightarrow> unit t_action" where
  "post_transfer env txid p endpoint s =
     (let url = to_http endpoint; t = s\<lparr>wcalls := wcalls s @ [Post_payload url txid None p]\<rparr>
      in (map_err (\<lambda>e. other (''HTTP POST failed: '' @ e)) (and_then (http_post env url p (wcalls s)) (\<lambda>_. Ok ())), t))"

definition first_plain_output :: "txout list \<Rightarrow> nat option" where
  "first_plain_output outs =
     map_option fst (List.find (\<lambda>(i, out). \<not> to_is_op_return out) (enumerate 0 outs))"

definition witness_id_of :: "txid \<Rightarrow> nat \<Rightarrow> string" where
  "witness_id_of txid vout = ''witness:'' @ utxo_key txid vout"

definition pick_recipient :: "(string \<times> recipient list) list \<Rightarrow> (rgb_lib_error, string \<times> recipient) outcome" where
  "pick_recipient recipient_map =
     (case recipient_map of
        [] \<Rightarrow> Err (other ''No recipient in map'')
      | (asset_id, []) # _ \<Rightarrow> Err (other ''No recipient for asset'')
      | (asset_id, r # _) # _ \<Rightarrow> Ok (asset_id, r))"

definition send_locked :: "transfer_env \<Rightarrow> string \<Rightarrow> recipient \<Rightarrow> u64 \<Rightarrow> nat \<Rightarrow> (transaction \<times> bytes) t_action" where
  "send_locked env asset_id recipient rgb_amount fee_rate =
     act_bind (committed_psbt env asset_id (rc_recipient_id recipient) 546 fee_rate) (\<lambda>(p, state_hash).
     act_bind (act_lift (failed ''Failed to sign PSBT'' (sign_tx env p))) (\<lambda>(finalized, signed).
     act_bind (act_lift (guard_or finalized (other ''PSBT signing did not finalize''))) (\<lambda>_.
     act_bind (act_lift (failed ''Failed to extract TX'' (extract_tx env signed))) (\<lambda>tx.
     act_bind (act_lift (ok_or (other ''No recipient output found'') (first_plain_output (tx_outputs tx)))) (\<lambda>vout.
     act_bind (read_json env ''state'' ''f1r3fly_state.json'' state_file) (\<lambda>j.
     act_bind (act_lift (genesis_of asset_id j)) (\<lambda>source_utxo.
     act_bind (execute_transfer env ''Failed to save state'' asset_id source_utxo (witness_id_of (tx_id tx) vout) rgb_amount) (\<lambda>_.
     act_bind (effect env ''Failed to broadcast'' (Broadcast tx)) (\<lambda>_.
       act_return (tx, state_hash))))))))))"

definition send :: "transfer_env \<Rightarrow> (string \<times> recipient list) list \<Rightarrow> nat \<Rightarrow> txid t_action" where
  "send env recipient_map fee_rate =
     act_bind (act_lift (pick_recipient recipient_map)) (\<lambda>(asset_id, recipient).
     act_bind (act_lift (case rc_assignment recipient of
                 Fungible n \<Rightarrow> Ok n | _ \<Rightarrow> Err (other ''Non-fungible assignments not supported''))) (\<lambda>rgb_amount.
     act_bind (with_manager (send_locked env asset_id recipient rgb_amount fee_rate)) (\<lambda>(tx, state_hash).
     act_bind (act_map (post_transfer env (tx_id tx) (Transfer_payload asset_id state_hash rgb_amount))
                 (rc_transport_endpoints recipient)) (\<lambda>_.
       act_return (tx_id tx)))))"

section \<open>Funding a channel\<close>

definition funding_amount :: "Assignment \<Rightarrow> u64" where
  "funding_amount a = (case a of Fungible n \<Rightarrow> n | NonFungible \<Rightarrow> 1 | _ \<Rightarrow> 0)"

definition send_begin :: "transfer_env \<Rightarrow> (string \<times> recipient list) list \<Rightarrow> nat \<Rightarrow> string t_action" where
  "send_begin env recipient_map fee_rate =
     act_bind (act_lift (pick_recipient recipient_map)) (\<lambda>(asset_id, recipient).
     act_bind (act_lift (ok_or (other ''No witness data in recipient'') (rc_witness_amount recipient))) (\<lambda>amount_sat.
       with_manager (
         act_bind (committed_psbt env asset_id (rc_recipient_id recipient) amount_sat fee_rate) (\<lambda>(p, _).
         act_bind (state_io env ''write pending'' ''Failed to store transfer details'') (\<lambda>_.
         act_bind (act_modify (\<lambda>s. s\<lparr>pending_transfer := Some (Some
             \<lparr>pj_contract_id = Some asset_id, pj_rgb_amount = Some (funding_amount (rc_assignment recipient))\<rparr>)\<rparr>)) (\<lambda>_.
           act_return (psbt_to_string env p)))))))"

text \<open>\<open>Iterator::max_by_key\<close>: the last of the greatest elements.\<close>

fun max_by_key :: "('a \<Rightarrow> u64) \<Rightarrow> 'a list \<Rightarrow> 'a option" where
  "max_by_key f [] = None"
| "max_by_key f (x # xs) =
     (case max_by_key f xs of None \<Rightarrow> Some x | Some y \<Rightarrow> if f x \<le> f y then Some y else Some x)"

definition funding_output :: "txout list \<Rightarrow> nat option" where
  "funding_output outs =
     map_option fst (max_by_key (\<lambda>(i, out). to_value out)
       (filter (\<lambda>(i, out). \<not> to_is_op_return out) (enumerate 0 outs)))"

definition contains :: "string \<Rightarrow> string \<Rightarrow> bool" where
  "contains t p \<longleftrightarrow> list_ex (\<lambda>n. starts_with (drop n t) p) [0..<Suc (length t)]"

definition already_known :: "string \<Rightarrow> bool" where
  "already_known err_msg \<longleftrightarrow> contains err_msg ''already in utxo set'' \<or> contains err_msg ''txn-already-in-mempool''"

text \<open>Whether the transaction was broadcast before: \<open>True\<close> when the node knows it.\<close>

definition broadcast_first :: "transfer_env \<Rightarrow> transaction \<Rightarrow> bool t_action" where
  "broadcast_first env tx s =
     (case do_call env (Broadcast tx) (wcalls s) of
        Ok _ \<Rightarrow> Ok False
      | Err e \<Rightarrow> if already_known e then Ok True else Err (other (''Failed to broadcast TX: '' @ e))
      | Panic \<Rightarrow> Panic,
      s\<lparr>wcalls := wcalls s @ [Broadcast tx]\<rparr>)"

definition track_funding :: "transfer_env \<Rightarrow> string \<Rightarrow> txid \<Rightarrow> nat \<Rightarrow> u64 \<Rightarrow> unit t_action" where
  "track_funding env contract_id txid vout amount =
     act_bind (act_lift (guard_or (vout < 2 ^ 32) (other ''Funding vout overflow''))) (\<lambda>_.
       (\<lambda>s. case track_locked_utxo env contract_id txid vout amount s of
              (r, t) \<Rightarrow> (failed ''Failed to track locked UTXO'' r, t)))"

definition send_end_locked ::
  "transfer_env \<Rightarrow> string \<Rightarrow> u64 \<Rightarrow> transaction \<Rightarrow> nat \<Rightarrow> txid t_action" where
  "send_end_locked env contract_id rgb_amount tx funding_vout =
     act_bind (broadcast_first env tx) (\<lambda>already_broadcast.
     act_bind (if already_broadcast then act_return ()
               else
                 act_bind (read_json env ''state'' ''f1r3fly_state.json'' state_file) (\<lambda>j.
                 act_bind (act_lift (genesis_of contract_id j)) (\<lambda>genesis_utxo.
                 act_bind (execute_transfer env ''Failed to save state after transfer'' contract_id genesis_utxo (witness_id_of (tx_id tx) funding_vout) rgb_amount) (\<lambda>_.
                   track_funding env contract_id (tx_id tx) funding_vout rgb_amount)))) (\<lambda>_.
     act_bind (act_modify (\<lambda>s. s\<lparr>pending_transfer :=
                 if io_error env ''remove pending'' (wcalls s) = None then None else pending_transfer s\<rparr>)) (\<lambda>_.
       act_return (tx_id tx))))"

definition send_end :: "transfer_env \<Rightarrow> string \<Rightarrow> txid t_action" where
  "send_end env signed_psbt =
     act_bind (read_json env ''pending'' ''transfer details'' pending_transfer) (\<lambda>j.
     act_bind (act_lift (ok_or (other ''Missing contract_id in transfer details'') (pj_contract_id j))) (\<lambda>contract_id.
     act_bind (act_lift (ok_or (other ''Missing rgb_amount in transfer details'') (pj_rgb_amount j))) (\<lambda>rgb_amount.
     act_bind (act_lift (failed ''Invalid PSBT'' (psbt_from_str env signed_psbt))) (\<lambda>p.
     act_bind (act_lift (failed ''Failed to extract TX from PSBT'' (extract_tx env p))) (\<lambda>tx.
     act_bind (act_lift (ok_or (other ''No funding output found in TX'') (funding_output (tx_outputs tx)))) (\<lambda>funding_vout.
       with_manager (send_end_locked env contract_id rgb_amount tx funding_vout)))))))"

section \<open>Plain bitcoin\<close>

definition send_btc :: "transfer_env \<Rightarrow> string \<Rightarrow> u64 \<Rightarrow> nat \<Rightarrow> txid t_action" where
  "send_btc env address amount fee_rate =
     with_manager (
       act_bind (act_get (\<lambda>s. sent_txid env address amount fee_rate (wcalls s))) (\<lambda>txid.
       act_bind (effect env ''Failed to send BTC'' (Send_bitcoin address amount fee_rate)) (\<lambda>_. act_return txid)))"

definition send_btc_begin :: "transfer_env \<Rightarrow> string \<Rightarrow> u64 \<Rightarrow> nat \<Rightarrow> string t_action" where
  "send_btc_begin env address amount fee_rate =
     with_manager (
       act_bind (wallet_or env ''Wallet not loaded'') (\<lambda>_.
       act_bind (act_lift (checked_address env address)) (\<lambda>script.
       act_bind (query ''Failed to get occupied UTXOs'' (occupied_utxos env)) (\<lambda>occupied.
       act_bind (build_psbt env script amount fee_rate occupied) (\<lambda>p. act_return (psbt_to_string env p))))))"

definition send_btc_end :: "transfer_env \<Rightarrow> string \<Rightarrow> txid t_action" where
  "send_btc_end env signed_psbt =
     with_manager (
       act_bind (act_lift (failed ''Invalid PSBT'' (psbt_from_str env signed_psbt))) (\<lambda>p.
       act_bind (act_lift (failed ''Failed to extract TX from PSBT'' (extract_tx env p))) (\<lambda>tx.
       act_bind (effect env ''Failed to broadcast TX'' (Broadcast tx)) (\<lambda>_. act_return (tx_id tx)))))"

definition sign_psbt :: "transfer_env \<Rightarrow> string \<Rightarrow> string t_action" where
  "sign_psbt env unsigned_psbt =
     act_bind (act_lift (failed ''Failed to parse PSBT'' (psbt_from_str env unsigned_psbt))) (\<lambda>p.
       with_manager (
         act_bind (wallet_or env ''Bitcoin wallet not loaded'') (\<lambda>_.
         act_bind (act_lift (failed ''Failed to sign PSBT'' (sign_tx env p))) (\<lambda>(_, signed).
           act_return (psbt_to_string env signed)))))"

end
