(* ===== verification/Settlement.thy ===== *)
theory Settlement
  imports Transfers
begin

text \<open>
  The wallet adapter of \<open>src/src/f1r3fly_rgb_adapter.rs\<close>, fourth part: posting a consignment, settling a
  closed channel, claiming from a witness, the exchange of wallet keys, and the traits LDK uses.
\<close>

section \<open>Posting a consignment\<close>

definition get_media_dir :: "string \<Rightarrow> string" where
  "get_media_dir data_dir = data_dir @ ''/media''"

definition get_send_consignment_path :: "string \<Rightarrow> string \<Rightarrow> txid \<Rightarrow> string" where
  "get_send_consignment_path data_dir asset_id txid =
     data_dir @ ''/consignments/'' @ asset_id @ ''_'' @ txid @ ''.consignment''"

text \<open>\<open>Path::file_name\<close>, \<open>str::strip_suffix\<close> with its default, and the text before the last
  occurrence of a character.\<close>

definition path_file_name :: "string \<Rightarrow> string option" where
  "path_file_name path =
     (let parts = filter (\<lambda>p. p \<noteq> [] \<and> p \<noteq> ''.'') (split_on (CHR ''/'') path)
      in if parts = [] \<or> last parts = ''..'' then None else Some (last parts))"

definition strip_end :: "string \<Rightarrow> string \<Rightarrow> string" where
  "strip_end t p =
     (if length p \<le> length t \<and> drop (length t - length p) t = p then take (length t - length p) t else t)"

definition before_last :: "char \<Rightarrow> string \<Rightarrow> string option" where
  "before_last c t = (if c \<in> set t then Some (rev (tl (dropWhile (\<lambda>x. x \<noteq> c) (rev t)))) else None)"

definition consignment_asset :: "string \<Rightarrow> (rgb_lib_error, string) outcome" where
  "consignment_asset path =
     and_then (ok_or (other ''Cannot extract filename'') (path_file_name path)) (\<lambda>filename.
       ok_or (other ''Cannot parse asset_id from path - no underscore found'')
         (before_last (CHR ''_'') (strip_end filename ''.consignment'')))"

definition consignment_data ::
  "transfer_env \<Rightarrow> string \<Rightarrow> (bytes \<times> asset_info \<times> contract_metadata \<times> string) t_action" where
  "consignment_data env asset_id =
     with_manager (
       act_bind (query ''Failed to get state hash'' (\<lambda>cs. genesis_state_hash env cs asset_id)) (\<lambda>state_hash.
       act_bind (query ''Failed to get asset info'' (\<lambda>cs. contract_info env cs asset_id)) (\<lambda>info.
       act_bind (query ''Failed to get contract metadata'' (\<lambda>cs. contract_metadata_of env cs asset_id)) (\<lambda>meta.
       act_bind (contracts_or env ''F1r3fly contracts not initialized'') (\<lambda>_.
       act_bind (act_lift (failed ''Failed to get wallet public key'' (master_pubkey env))) (\<lambda>pubkey.
         act_return (state_hash, info, meta, pubkey)))))))"

text \<open>The file with the amount of the channel: it is removed once it is read.\<close>

definition take_temp_info :: "transfer_env \<Rightarrow> txid \<Rightarrow> (u64 \<times> string) t_action" where
  "take_temp_info env txid =
     act_bind (act_get (\<lambda>s. map_of (temp_infos s) txid)) (\<lambda>file.
       case file of
         None \<Rightarrow> act_lift (Err (other (''Cannot find temporary RGB info file for txid: '' @ txid)))
       | Some content \<Rightarrow>
           act_bind (state_io env ''read temp info'' ''Cannot read temp RGB info'') (\<lambda>_.
           act_bind (act_lift (ok_or (other ''Cannot parse RGB info'') content)) (\<lambda>info.
           act_bind (act_modify (\<lambda>s. s\<lparr>temp_infos :=
               if io_error env ''remove temp info'' (wcalls s) = None then AList.delete txid (temp_infos s)
               else temp_infos s\<rparr>)) (\<lambda>_.
             act_return info))))"

definition rpc_verdict :: "rpc_answer \<Rightarrow> (rgb_lib_error, unit) outcome" where
  "rpc_verdict answer =
     (if \<not> rpc_success answer then Err (other (''Proxy returned error status: '' @ rpc_status answer))
      else and_then (failed ''Failed to parse proxy response'' (rpc_json answer)) (\<lambda>(result, error).
        case error of
          Some (code, message) \<Rightarrow>
            if code = -101 then Err RL_RecipientIDAlreadyUsed else Err (other (''Proxy error: '' @ message))
        | None \<Rightarrow> guard_or (result \<noteq> None) (other ''Invalid proxy response'')))"

definition post_payload :: "transfer_env \<Rightarrow> string \<Rightarrow> string \<Rightarrow> txid \<Rightarrow> payload \<Rightarrow> rpc_answer t_action" where
  "post_payload env url recipient_id txid p s =
     (failed ''Failed to post to proxy'' (http_post env url p (wcalls s)),
      s\<lparr>wcalls := wcalls s @ [Post_payload url recipient_id (Some txid) p]\<rparr>)"

definition post_consignment :: "transfer_env \<Rightarrow> string \<Rightarrow> string \<Rightarrow> string \<Rightarrow> txid \<Rightarrow> unit t_action" where
  "post_consignment env proxy_url recipient_id consignment_path txid =
     act_bind (act_lift (consignment_asset consignment_path)) (\<lambda>asset_id.
     act_bind (consignment_data env asset_id) (\<lambda>(state_hash, info, meta, pubkey).
     act_bind (take_temp_info env txid) (\<lambda>(amount, schema).
     act_bind (state_io env ''write temp consignment'' ''Failed to write temp file'') (\<lambda>_.
     act_bind (state_io env ''attach temp consignment'' ''Failed to attach file'') (\<lambda>_.
     act_bind (post_payload env (to_http proxy_url) recipient_id txid
                 (Consignment_payload asset_id state_hash amount schema info meta pubkey)) (\<lambda>answer.
       act_lift (rpc_verdict answer)))))))"

section \<open>The key of the counterparty\<close>

text \<open>Asking the proxy for it; the two callers word their errors differently.\<close>

record fetch_texts =
  ft_request :: string
  ft_status :: "string \<Rightarrow> string"
  ft_parse :: string
  ft_no_result :: string

definition key_of_answer :: "transfer_env \<Rightarrow> fetch_texts \<Rightarrow> get_answer \<Rightarrow> (rgb_lib_error, string) outcome" where
  "key_of_answer env ft answer =
     (if \<not> ga_success answer then Err (other (ft_status ft (ga_status answer)))
      else and_then (failed (ft_parse ft) (ga_json answer)) (\<lambda>(result, error).
        case error of
          Some e \<Rightarrow> Err (other (''Proxy error: '' @ e))
        | None \<Rightarrow>
            and_then (ok_or (other (ft_no_result ft)) result) (\<lambda>consignment.
            and_then (failed ''Failed to decode base64'' (b64_decode env consignment)) (\<lambda>json_bytes.
            and_then (failed ''Failed to convert to UTF-8'' (from_utf8 env json_bytes)) (\<lambda>json_text.
              failed ''Failed to parse pubkey payload'' (parse_pubkey_payload env json_text))))))"

definition fetch_pubkey :: "transfer_env \<Rightarrow> fetch_texts \<Rightarrow> string \<Rightarrow> string \<Rightarrow> string t_action" where
  "fetch_pubkey env ft proxy_url contract_id s =
     (let url = to_http proxy_url; recipient_id = contract_id @ ''_acceptor_pubkey''
      in (and_then (failed (ft_request ft) (http_get env url recipient_id (wcalls s))) (key_of_answer env ft),
          s\<lparr>wcalls := wcalls s @ [Proxy_get url recipient_id]\<rparr>))"

definition cached_pubkey :: "transfer_env \<Rightarrow> string \<Rightarrow> string option t_action" where
  "cached_pubkey env contract_id =
     act_bind (act_get state_file) (\<lambda>file.
       case file of
         None \<Rightarrow> act_return None
       | Some content \<Rightarrow>
           act_bind (state_io env ''read state'' ''Failed to read state file'') (\<lambda>_.
           act_bind (act_lift (ok_or (other ''Failed to parse state JSON'') content)) (\<lambda>j.
             act_return (case map_of (channel_counterparties j) contract_id of
                           Some (Some k) \<Rightarrow> Some k | _ \<Rightarrow> None))))"

definition add_counterparty :: "string \<Rightarrow> string \<Rightarrow> state_json \<Rightarrow> state_json" where
  "add_counterparty contract_id pubkey j =
     j\<lparr>channel_counterparties := AList.update contract_id (Some pubkey) (channel_counterparties j)\<rparr>"

definition empty_state :: state_json where
  "empty_state = \<lparr>genesis_utxos = [], channel_counterparties = []\<rparr>"

text \<open>Caching during a settlement: the file is read again, an empty object stands in for what cannot be
  read, and a failing write is ignored.\<close>

definition cache_pubkey_quietly :: "transfer_env \<Rightarrow> string \<Rightarrow> string \<Rightarrow> unit t_action" where
  "cache_pubkey_quietly env contract_id pubkey s =
     (case state_file s of
        None \<Rightarrow> (Ok (), s)
      | Some content \<Rightarrow>
          let j = (if io_error env ''reread state'' (wcalls s) = None
                   then (case content of Some j \<Rightarrow> j | None \<Rightarrow> empty_state) else empty_state)
          in if io_error env ''write state'' (wcalls s) = None
             then (Ok (), s\<lparr>state_file := Some (Some (add_counterparty contract_id pubkey j))\<rparr>)
             else (Ok (), s))"

definition settlement_texts :: "string \<Rightarrow> fetch_texts" where
  "settlement_texts contract_id =
     \<lparr>ft_request = ''Failed to fetch counterparty pubkey from proxy'',
      ft_status = (\<lambda>st. ''Proxy returned error status '' @ st @ '': Counterparty pubkey not found for contract '' @ contract_id),
      ft_parse = ''Failed to parse proxy response'', ft_no_result = ''No result in proxy response''\<rparr>"

definition default_proxy_url :: string where
  "default_proxy_url = ''rpc://localhost:3000/json-rpc''"

definition settlement_pubkey :: "transfer_env \<Rightarrow> string \<Rightarrow> string t_action" where
  "settlement_pubkey env contract_id =
     act_bind (cached_pubkey env contract_id) (\<lambda>cached.
       case cached of
         Some pubkey \<Rightarrow> act_return pubkey
       | None \<Rightarrow>
           act_bind (fetch_pubkey env (settlement_texts contract_id)
             (case rgb_proxy_url env of Some url \<Rightarrow> url | None \<Rightarrow> default_proxy_url) contract_id) (\<lambda>pubkey.
           act_bind (cache_pubkey_quietly env contract_id pubkey) (\<lambda>_. act_return pubkey)))"

definition lookup_texts :: fetch_texts where
  "lookup_texts =
     \<lparr>ft_request = ''Failed to get counterparty pubkey'',
      ft_status = (\<lambda>st. ''Proxy GET failed for acceptor pubkey: '' @ st),
      ft_parse = ''Failed to parse response'', ft_no_result = ''No result in response''\<rparr>"

definition get_counterparty_wallet_pubkey :: "transfer_env \<Rightarrow> string \<Rightarrow> string \<Rightarrow> string t_action" where
  "get_counterparty_wallet_pubkey env contract_id proxy_url =
     act_bind (cached_pubkey env contract_id) (\<lambda>cached.
       case cached of
         Some pubkey \<Rightarrow> act_return pubkey
       | None \<Rightarrow>
           act_bind (fetch_pubkey env lookup_texts proxy_url contract_id) (\<lambda>pubkey.
           act_bind (act_get state_file) (\<lambda>file.
             case file of
               None \<Rightarrow> act_return pubkey
             | Some content \<Rightarrow>
                 act_bind (state_io env ''reread state'' ''Failed to read state'') (\<lambda>_.
                 act_bind (state_io env ''write state'' ''Failed to write state'') (\<lambda>_.
                 act_bind (act_modify (\<lambda>s. s\<lparr>state_file := Some (Some (add_counterparty contract_id pubkey
                     (case content of Some j \<Rightarrow> j | None \<Rightarrow> empty_state)))\<rparr>)) (\<lambda>_.
                   act_return pubkey))))))"

section \<open>Settling a closed channel\<close>

text \<open>Work in a spawned thread: its panic is an error of the join.\<close>

definition threaded :: "'a t_action \<Rightarrow> 'a t_action" where
  "threaded m s =
     (case m s of
        (Panic, t) \<Rightarrow> (Err (other ''Thread join failed: Any { .. }''), t)
      | (Ok a, t) \<Rightarrow> (Ok a, t) | (Err e, t) \<Rightarrow> (Err e, t))"

definition settled_witness :: "transfer_env \<Rightarrow> string \<Rightarrow> string \<Rightarrow> string" where
  "settled_witness env funding_witness_id role =
     ''witness:'' @ take 32 (sha_hex env (funding_witness_id @ role)) @ '':0''"

text \<open>The signed call of the contract.\<close>

definition settle_call ::
  "transfer_env \<Rightarrow> string \<Rightarrow> contract_id \<Rightarrow> string \<Rightarrow> string \<Rightarrow> string \<times> u64 \<times> string \<Rightarrow> string \<times> u64 \<times> string \<Rightarrow> bytes t_action" where
  "settle_call env key typed_id contract_id funding_witness_id holder counterparty =
     act_bind (act_lift (failed ''Signature generation failed'' (sign_message_key env key
                 [funding_witness_id, show_u64 (fst (snd holder)), show_u64 (fst (snd counterparty))]))) (\<lambda>_.
     act_bind (contract_or env typed_id contract_id) (\<lambda>_.
     act_bind (state_io env ''runtime'' ''Failed to create tokio runtime'') (\<lambda>_.
     act_bind (effect env ''F1r3node settle_channel call failed'' (Settle_channel contract_id funding_witness_id holder counterparty)) (\<lambda>_.
       act_get (\<lambda>s. settle_state_hash env (wcalls s))))))"

definition settle_locked :: "transfer_env \<Rightarrow> string \<Rightarrow> u64 \<Rightarrow> u64 \<Rightarrow> string \<Rightarrow> bytes t_action" where
  "settle_locked env funding_utxo holder_amount counterparty_amount contract_id =
     (let funding_witness_id = ''witness:'' @ funding_utxo
      in act_bind (contracts_or env ''F1r3fly contracts not initialized'') (\<lambda>_.
         act_bind (act_lift (failed ''Invalid contract ID'' (parse_contract_id env contract_id))) (\<lambda>typed_id.
         act_bind (contract_key env contract_id) (\<lambda>key.
         act_bind (act_lift (failed ''Failed to get holder public key'' (master_pubkey env))) (\<lambda>holder_pubkey.
         act_bind (settlement_pubkey env contract_id) (\<lambda>counterparty_pubkey.
           settle_call env key typed_id contract_id funding_witness_id
             (settled_witness env funding_witness_id ''holder'', holder_amount, holder_pubkey)
             (settled_witness env funding_witness_id ''counterparty'', counterparty_amount, counterparty_pubkey)))))))"

definition settle_channel_close :: "transfer_env \<Rightarrow> string \<Rightarrow> u64 \<Rightarrow> u64 \<Rightarrow> string \<Rightarrow> bytes t_action" where
  "settle_channel_close env funding_utxo holder_amount counterparty_amount contract_id =
     threaded (with_manager (settle_locked env funding_utxo holder_amount counterparty_amount contract_id))"

section \<open>Claiming from a witness\<close>

definition claim_destination :: "string \<Rightarrow> (rgb_lib_error, txid \<times> nat) outcome" where
  "claim_destination claim_utxo =
     (case split_on (CHR '':'') claim_utxo of
        [txid, vout] \<Rightarrow> and_then (failed ''Invalid vout'' (parse_u32 vout)) (\<lambda>n. Ok (txid, n))
      | _ \<Rightarrow> Err (other (''Invalid claim UTXO format: '' @ claim_utxo @ ''. Expected '' @ [CHR 0x27] @ ''txid:vout'' @ [CHR 0x27])))"

definition record_claim :: "transfer_env \<Rightarrow> string \<Rightarrow> string \<Rightarrow> txid \<Rightarrow> nat \<Rightarrow> unit t_action" where
  "record_claim env contract_id witness_id txid vout =
     act_bind (effect env ''Failed to insert claim'' (Insert_claim contract_id witness_id txid vout)) (\<lambda>_.
     act_bind (act_get (\<lambda>s. inserted_claim env (wcalls s))) (\<lambda>claim_id.
       effect env ''Failed to mark claim completed'' (Complete_claim claim_id)))"

definition claim_locked :: "transfer_env \<Rightarrow> string \<Rightarrow> string \<Rightarrow> string \<Rightarrow> unit t_action" where
  "claim_locked env witness_id claim_utxo contract_id =
     act_bind (contracts_or env ''F1r3fly contracts not initialized'') (\<lambda>_.
     act_bind (act_lift (failed ''Invalid contract ID'' (parse_contract_id env contract_id))) (\<lambda>typed_id.
     act_bind (act_lift (failed ''Failed to get wallet master key'' (master_key env))) (\<lambda>key.
     act_bind (act_lift (failed ''Signature generation failed'' (sign_message_key env key [witness_id, claim_utxo]))) (\<lambda>_.
     act_bind (contract_or env typed_id contract_id) (\<lambda>_.
     act_bind (state_io env ''runtime'' ''Failed to create tokio runtime'') (\<lambda>_.
     act_bind (effect env ''F1r3node claim call failed'' (Claim_call contract_id witness_id claim_utxo)) (\<lambda>_.
     act_bind (act_lift (claim_destination claim_utxo)) (\<lambda>(txid, vout).
     act_bind (act_get (\<lambda>s. witness_id \<in> set (all_claims env (wcalls s) contract_id))) (\<lambda>already_claimed.
     act_bind (if already_claimed then act_return () else record_claim env contract_id witness_id txid vout) (\<lambda>_.
       effect env ''Failed to save state after claim'' Save_state))))))))))"

definition claim :: "transfer_env \<Rightarrow> string \<Rightarrow> string \<Rightarrow> string \<Rightarrow> unit t_action" where
  "claim env witness_id claim_utxo contract_id = threaded (with_manager (claim_locked env witness_id claim_utxo contract_id))"

definition claim_from_witness :: "transfer_env \<Rightarrow> string \<Rightarrow> string \<Rightarrow> string \<Rightarrow> unit t_action" where
  "claim_from_witness env witness_id destination_utxo contract_id = claim env witness_id destination_utxo contract_id"

definition is_witness_claimed :: "transfer_env \<Rightarrow> string \<Rightarrow> string \<Rightarrow> bool t_action" where
  "is_witness_claimed env witness_id contract_id =
     with_manager (act_bind (contracts_or env ''F1r3fly not initialized'') (\<lambda>_.
       act_get (\<lambda>s. witness_id \<in> set (all_claims env (wcalls s) contract_id))))"

section \<open>The traits of LDK\<close>

text \<open>Every error becomes the unit error.\<close>

definition forget_error :: "(transfer_wallet, rgb_lib_error, 'a) action \<Rightarrow> (transfer_wallet, unit, 'a) action" where
  "forget_error m s = (case m s of (r, t) \<Rightarrow> (map_err (\<lambda>_. ()) r, t))"

definition get_change_destination_script :: "transfer_env \<Rightarrow> (transfer_wallet, unit, string) action" where
  "get_change_destination_script env =
     act_bind (forget_error (get_address env)) (\<lambda>address. act_lift (map_err (\<lambda>_. ()) (parse_address env address)))"

definition list_confirmed_utxos :: "(transfer_wallet, unit, satchel_utxo list) action" where
  "list_confirmed_utxos = act_return []"

definition wallet_source_sign_psbt :: "transfer_env \<Rightarrow> psbt \<Rightarrow> (transfer_wallet, unit, transaction) action" where
  "wallet_source_sign_psbt env p =
     act_bind (forget_error (sign_psbt env (psbt_to_string env p))) (\<lambda>signed.
     act_bind (act_lift (map_err (\<lambda>_. ()) (psbt_from_str env signed))) (\<lambda>signed_psbt.
       act_lift (map_err (\<lambda>_. ()) (extract_tx env signed_psbt))))"

end
