(* ===== verification/WalletExample.thy ===== *)
theory WalletExample
  imports Settlement
begin

text \<open>
  A concrete environment and state of the wallet adapter, on which its properties are witnessed.
\<close>

text \<open>A wallet with one coloured output and one that is free; its builder spends the outputs that are
  not excluded and adds the change first.\<close>

definition example_outpoint :: "string \<Rightarrow> (string, outpoint) outcome" where
  "example_outpoint t =
     (case split_on (CHR '':'') t of [a, b] \<Rightarrow> and_then (parse_u32 b) (\<lambda>n. Ok (a, n)) | _ \<Rightarrow> Err ''malformed'')"

definition example_utxos :: "satchel_utxo list" where
  "example_utxos =
     [\<lparr>u_outpoint = ''aa:0'', u_txid = ''aa'', u_vout = 0, u_amount_sats = 900, u_rgb_assets = [(''rgb:usdt'', Some 5)]\<rparr>,
      \<lparr>u_outpoint = ''bb:1'', u_txid = ''bb'', u_vout = 1, u_amount_sats = 1500, u_rgb_assets = []\<rparr>]"

definition example_tenv :: transfer_env where
  "example_tenv =
     \<lparr>we_network = Regtest, wallet_loaded = True, do_call = (\<lambda>c cs. Ok ()),
      list_utxos = (\<lambda>cs f. Ok example_utxos), occupied_utxos = (\<lambda>cs. Ok [''aa:0'']),
      contract_balance = (\<lambda>cs c. Ok 100),
      contract_info = (\<lambda>cs c. Ok \<lparr>ai_contract_id = c, ai_ticker = ''USDT'', ai_name = ''Tether'', ai_precision = 0, ai_supply = 1000\<rparr>),
      tx_known = (\<lambda>cs t. True), known_assets = (\<lambda>cs. Ok [''rgb:usdt'']), btc_balance = (\<lambda>cs. Ok (1, 2)),
      issued_asset = (\<lambda>r cs. \<lparr>ai_contract_id = ''rgb:new'', ai_ticker = rq_ticker r, ai_name = rq_name r,
                             ai_precision = rq_precision r, ai_supply = rq_supply r\<rparr>),
      new_address = (\<lambda>cs. ''bcrt1new''), revealed_scripts = (\<lambda>cs n. replicate n ''script''), parse_txid = Ok,
      build_tx = (\<lambda>cs rq. Ok \<lparr>ps_inputs = filter (\<lambda>p. p \<notin> set (br_unspendable rq)) [(''aa'', 0), (''bb'', 1)],
                             ps_outputs = \<lparr>to_value = 100, to_script = ''change'', to_is_op_return = False\<rparr>
                               # map (\<lambda>(sc, v). \<lparr>to_value = v, to_script = sc, to_is_op_return = False\<rparr>) (br_recipients rq),
                             ps_rest = []\<rparr>),
      sign_tx = (\<lambda>p. Ok (True, p)), extract_tx = (\<lambda>p. Ok \<lparr>tx_id = ''f00d'', tx_inputs = ps_inputs p, tx_outputs = ps_outputs p\<rparr>),
      esplora_client = (\<lambda>u. Ok ()), io_error = (\<lambda>op cs. None), sent_txid = (\<lambda>a n r cs. ''beef''), we_now = (\<lambda>cs c i. 1700000000),
      parse_address = Ok, on_network = (\<lambda>n a. Ok ()), genesis_state_hash = (\<lambda>cs c. Ok [1]), op_return_script = (\<lambda>h. ''commitment''),
      parse_outpoint = example_outpoint, psbt_from_str = (\<lambda>t. Ok \<lparr>ps_inputs = [(''bb'', 1)],
         ps_outputs = [\<lparr>to_value = 20000, to_script = ''funding'', to_is_op_return = False\<rparr>,
                       \<lparr>to_value = 0, to_script = ''commitment'', to_is_op_return = True\<rparr>], ps_rest = t\<rparr>),
      psbt_to_string = ps_rest, contracts_loaded = True, parse_contract_id = Ok, derivation_index = (\<lambda>cs c. Ok 7),
      child_key = (\<lambda>n. Ok ''key''), master_key = Ok ''master'', master_pubkey = Ok ''02aa'', sign_message_key = (\<lambda>k ms. Ok ''sig''),
      has_contract = (\<lambda>cs c. True),
      contract_metadata_of = (\<lambda>cs c. Ok \<lparr>cm_registry_uri = ''rho:id'', cm_rholang_source = ''new'', cm_methods = [''transfer'']\<rparr>),
      http_post = (\<lambda>u p cs. Ok \<lparr>rpc_success = True, rpc_status = ''200 OK'', rpc_json = Ok (Some True, None)\<rparr>),
      http_get = (\<lambda>u r cs. Ok \<lparr>ga_success = True, ga_status = ''200 OK'', ga_json = Ok (Some ''cGs='', None)\<rparr>),
      rgb_proxy_url = None, b64_decode = Ok, from_utf8 = Ok, parse_pubkey_payload = (\<lambda>t. Ok ''02bb''),
      sha_hex = (\<lambda>t. replicate 64 (CHR ''a'')), settle_state_hash = (\<lambda>cs. [9]),
      all_claims = (\<lambda>cs c. List.map_filter (\<lambda>d. case d of Insert_claim e w _ _ \<Rightarrow> if e = c then Some w else None | _ \<Rightarrow> None) cs),
      inserted_claim = length\<rparr>"

definition example_wallet :: transfer_wallet where
  "example_wallet =
     \<lparr>wcalls = [], wm_poisoned = False, locked_file = None,
      state_file = Some (Some \<lparr>genesis_utxos = [(''rgb:usdt'', Some ''aa'', Some 0)], channel_counterparties = []\<rparr>),
      pending_transfer = Some (Some \<lparr>pj_contract_id = Some ''rgb:usdt'', pj_rgb_amount = Some 40\<rparr>),
      temp_infos = [(''f00d'', Some (40, ''Nia''))]\<rparr>"

lemma example_tenv_simps [simp]:
  "we_network example_tenv = Regtest"
  "wallet_loaded example_tenv = True"
  "do_call example_tenv x cs = Ok ()"
  "list_utxos example_tenv cs f = Ok example_utxos"
  "occupied_utxos example_tenv cs = Ok [''aa:0'']"
  "contract_balance example_tenv cs c = Ok 100"
  "contract_info example_tenv cs c = Ok \<lparr>ai_contract_id = c, ai_ticker = ''USDT'', ai_name = ''Tether'', ai_precision = 0, ai_supply = 1000\<rparr>"
  "tx_known example_tenv cs i = True"
  "known_assets example_tenv cs = Ok [''rgb:usdt'']"
  "btc_balance example_tenv cs = Ok (1, 2)"
  "issued_asset example_tenv q cs = \<lparr>ai_contract_id = ''rgb:new'', ai_ticker = rq_ticker q, ai_name = rq_name q, ai_precision = rq_precision q, ai_supply = rq_supply q\<rparr>"
  "new_address example_tenv cs = ''bcrt1new''"
  "revealed_scripts example_tenv cs n = replicate n ''script''"
  "parse_txid example_tenv = Ok"
  "build_tx example_tenv cs rq = Ok \<lparr>ps_inputs = filter (\<lambda>p. p \<notin> set (br_unspendable rq)) [(''aa'', 0), (''bb'', 1)], ps_outputs = \<lparr>to_value = 100, to_script = ''change'', to_is_op_return = False\<rparr> # map (\<lambda>(sc, v). \<lparr>to_value = v, to_script = sc, to_is_op_return = False\<rparr>) (br_recipients rq), ps_rest = []\<rparr>"
  "sign_tx example_tenv p = Ok (True, p)"
  "extract_tx example_tenv p = Ok \<lparr>tx_id = ''f00d'', tx_inputs = ps_inputs p, tx_outputs = ps_outputs p\<rparr>"
  "esplora_client example_tenv u = Ok ()"
  "io_error example_tenv op cs = None"
  "parse_address example_tenv = Ok"
  "on_network example_tenv net a = Ok ()"
  "genesis_state_hash example_tenv cs c = Ok [1]"
  "op_return_script example_tenv h = ''commitment''"
  "parse_outpoint example_tenv = example_outpoint"
  "psbt_from_str example_tenv t = Ok \<lparr>ps_inputs = [(''bb'', 1)], ps_outputs = [\<lparr>to_value = 20000, to_script = ''funding'', to_is_op_return = False\<rparr>, \<lparr>to_value = 0, to_script = ''commitment'', to_is_op_return = True\<rparr>], ps_rest = t\<rparr>"
  "psbt_to_string example_tenv = ps_rest"
  "contracts_loaded example_tenv = True"
  "parse_contract_id example_tenv = Ok"
  "derivation_index example_tenv cs c = Ok 7"
  "child_key example_tenv n = Ok ''key''"
  "master_key example_tenv = Ok ''master''"
  "master_pubkey example_tenv = Ok ''02aa''"
  "sign_message_key example_tenv k ms = Ok ''sig''"
  "has_contract example_tenv cs c = True"
  "contract_metadata_of example_tenv cs c = Ok \<lparr>cm_registry_uri = ''rho:id'', cm_rholang_source = ''new'', cm_methods = [''transfer'']\<rparr>"
  "http_post example_tenv u y cs = Ok \<lparr>rpc_success = True, rpc_status = ''200 OK'', rpc_json = Ok (Some True, None)\<rparr>"
  "http_get example_tenv u r cs = Ok \<lparr>ga_success = True, ga_status = ''200 OK'', ga_json = Ok (Some ''cGs='', None)\<rparr>"
  "rgb_proxy_url example_tenv = None"
  "b64_decode example_tenv = Ok"
  "from_utf8 example_tenv = Ok"
  "parse_pubkey_payload example_tenv t = Ok ''02bb''"
  "sha_hex example_tenv t = replicate 64 (CHR ''a'')"
  "settle_state_hash example_tenv cs = [9]"
  "all_claims example_tenv cs c = List.map_filter (\<lambda>d. case d of Insert_claim e w _ _ \<Rightarrow> if e = c then Some w else None | _ \<Rightarrow> None) cs"
  "inserted_claim example_tenv = length"
  "sent_txid example_tenv a sats rate cs = ''beef''"
  "we_now example_tenv cs c reading = 1700000000"
  by (simp_all add: example_tenv_def)

lemma example_wallet_simps [simp]:
  "wcalls example_wallet = []" "\<not> wm_poisoned example_wallet" "locked_file example_wallet = None"
  "state_file example_wallet = Some (Some \<lparr>genesis_utxos = [(''rgb:usdt'', Some ''aa'', Some 0)], channel_counterparties = []\<rparr>)"
  "pending_transfer example_wallet = Some (Some \<lparr>pj_contract_id = Some ''rgb:usdt'', pj_rgb_amount = Some 40\<rparr>)"
  by (simp_all add: example_wallet_def)

end
