(* ===== verification/WalletProps.thy ===== *)
theory WalletProps
  imports WalletExample
begin

text \<open>
  Properties of the wallet adapter: the file of locked UTXOs refines a map, balances, poisoning,
  the UTXOs that are spared, the order of effects of sends and of channel funding.
\<close>

section \<open>Steps that succeed\<close>

lemma failed_Ok [simp]: "failed msg r = Ok a \<longleftrightarrow> r = Ok a"
  by (cases r) (auto simp: failed_def)

lemma failed_simps [simp]:
  "failed msg (Ok a) = Ok a" "failed msg (Err e) = Err (other (msg @ '': '' @ e))" "failed msg Panic = Panic"
  by (simp_all add: failed_def)

lemma effect_Ok [simp]:
  "effect env msg c s = (Ok u, t) \<longleftrightarrow> do_call env c (wcalls s) = Ok u \<and> t = s\<lparr>wcalls := wcalls s @ [c]\<rparr>"
  by (auto simp: effect_def)

lemma query_Ok [simp]: "query msg q s = (Ok a, t) \<longleftrightarrow> q (wcalls s) = Ok a \<and> t = s"
  by (auto simp: query_def)

lemmas with_manager_simps [simp] = manager.locked_Ok manager.locked_Err manager.locked_dead

lemma wallet_or_Ok [simp]: "wallet_or env msg s = (Ok u, t) \<longleftrightarrow> wallet_loaded env \<and> t = s"
  by (auto simp: wallet_or_def)

lemma lift_Ok [simp]: "act_lift r s = (Ok a, t) \<longleftrightarrow> r = Ok a \<and> t = s"
  by (auto simp: act_lift_def)

lemma io_check_Ok: "io_check env op msg s = (Ok u, t) \<longleftrightarrow> io_error env op (wcalls s) = None \<and> t = s"
  by (auto simp: io_check_def split: option.splits)

lemma io_check_same: "snd (io_check env op msg s) = s"
  by (simp add: io_check_def)

lemma io_check_none [simp]: "io_error env op (wcalls s) = None \<Longrightarrow> io_check env op msg s = (Ok (), s)"
  by (simp add: io_check_def)

section \<open>Locked UTXOs\<close>

text \<open>The abstract table: which outputs are locked, for which contract and amount.\<close>

type_synonym lock_table = "outpoint \<Rightarrow> (string \<times> u64) option"

datatype lock_op = Track string txid nat u64 | Release txid nat

fun lock_spec :: "lock_op \<Rightarrow> lock_table \<Rightarrow> lock_table" where
  "lock_spec (Track c txid vout a) m = m((txid, vout) \<mapsto> (c, a))"
| "lock_spec (Release txid vout) m = m((txid, vout) := None)"

fun lock_exec :: "'e wallet_env_scheme \<Rightarrow> lock_op \<Rightarrow> ('x wallet_scheme, string, unit) action" where
  "lock_exec env (Track c txid vout a) = track_locked_utxo env c txid vout a"
| "lock_exec env (Release txid vout) = release_locked_utxo env txid vout"

text \<open>A sequence of operations on both sides; one that fails has no effect on the table.\<close>

fun run_locks ::
  "'e wallet_env_scheme \<Rightarrow> lock_op list \<Rightarrow> 'x wallet_scheme \<Rightarrow> lock_table \<Rightarrow> 'x wallet_scheme \<times> lock_table" where
  "run_locks env [] s m = (s, m)"
| "run_locks env (op # ops) s m =
     (case lock_exec env op s of
        (Ok _, t) \<Rightarrow> run_locks env ops t (lock_spec op m)
      | (_, t) \<Rightarrow> run_locks env ops t m)"

definition table_json :: "(outpoint \<times> string \<times> u64) list \<Rightarrow> (string \<times> locked_utxo) list" where
  "table_json ls =
     map (\<lambda>(k, x). (case k of (txid, vout) \<Rightarrow> utxo_key txid vout,
                    case x of (c, a) \<Rightarrow> \<lparr>lu_contract_id = Some c, lu_amount = Some a\<rparr>)) ls"

definition represents_locks :: "'x wallet_scheme \<Rightarrow> lock_table \<Rightarrow> bool" where
  "represents_locks s m \<longleftrightarrow>
     (\<exists>ls. distinct (map fst ls) \<and> m = map_of ls \<and> parsed_locked s = Locked_object (table_json ls))"

definition total_locked :: "string \<Rightarrow> lock_table \<Rightarrow> nat" where
  "total_locked c m = (\<Sum>k\<in>dom m. case m k of Some (d, a) \<Rightarrow> if d = c then unat a else 0 | None \<Rightarrow> 0)"

lemma first_sep_eq:
  "x \<notin> set a \<Longrightarrow> x \<notin> set b \<Longrightarrow> a @ x # c = b @ x # d \<longleftrightarrow> a = b \<and> c = d"
proof (induction a arbitrary: b)
  case Nil
  then show ?case by (cases b) auto
next
  case (Cons y a)
  then show ?case by (cases b) auto
qed

lemma show_nat_inj [simp]: "show_nat i = show_nat j \<longleftrightarrow> i = j"
  by (metis digits_value_show option.inject)

lemma utxo_key_inj [simp]: "utxo_key a i = utxo_key b j \<longleftrightarrow> a = b \<and> i = j"
proof -
  have colon: "CHR '':'' \<notin> set (rev (show_nat n))" for n
    using show_nat_chars [of "CHR '':''" n] by auto
  have r: "rev (utxo_key t n) = rev (show_nat n) @ CHR '':'' # rev t" for t n by (simp add: utxo_key_def)
  have "utxo_key a i = utxo_key b j \<longleftrightarrow> rev (utxo_key a i) = rev (utxo_key b j)" by (simp only: rev_is_rev_conv)
  also have "\<dots> \<longleftrightarrow> rev (show_nat i) = rev (show_nat j) \<and> rev a = rev b"
    unfolding r by (rule first_sep_eq [OF colon colon])
  also have "\<dots> \<longleftrightarrow> a = b \<and> i = j" by auto
  finally show ?thesis .
qed

lemma update_table:
  "AList.update (utxo_key txid vout) \<lparr>lu_contract_id = Some c, lu_amount = Some a\<rparr> (table_json ls) =
     table_json (AList.update (txid, vout) (c, a) ls)"
  by (induction ls) (auto simp: table_json_def)

lemma delete_table:
  "AList.delete (utxo_key txid vout) (table_json ls) = table_json (AList.delete (txid, vout) ls)"
  by (induction ls) (auto simp: table_json_def AList.delete_eq)

lemma table_amounts:
  "map unat (locked_amounts c (Locked_object (table_json ls))) =
     map (unat \<circ> snd \<circ> snd) (filter (\<lambda>(k, d, a). d = c) ls)"
  by (induction ls) (auto simp: table_json_def locked_amounts_def)

lemma total_locked_list:
  assumes "distinct (map fst ls)"
  shows "total_locked c (map_of ls) = sum_list (map (unat \<circ> snd \<circ> snd) (filter (\<lambda>(k, d, a). d = c) ls))"
proof -
  have "total_locked c (map_of ls) =
      sum_list (map (\<lambda>k. case map_of ls k of Some (d, a) \<Rightarrow> if d = c then unat a else 0 | None \<Rightarrow> 0) (map fst ls))"
    unfolding total_locked_def dom_map_of_conv_image_fst set_map [symmetric]
    by (rule sum.distinct_set_conv_list [OF assms])
  also have "\<dots> = sum_list (map (\<lambda>(k, d, a). if d = c then unat a else 0) ls)"
    using assms by (intro arg_cong [where f = sum_list]) auto
  also have "\<dots> = sum_list (map (unat \<circ> snd \<circ> snd) (filter (\<lambda>(k, d, a). d = c) ls))"
    by (induction ls) auto
  finally show ?thesis .
qed

lemma track_cases:
  assumes "parsed_locked s = Locked_object es"
  obtains e where "track_locked_utxo env c txid vout a s = (Err e, s)"
  | "track_locked_utxo env c txid vout a s =
       (Ok (), s\<lparr>locked_file := Some (Some (Locked_object
          (AList.update (utxo_key txid vout) \<lparr>lu_contract_id = Some c, lu_amount = Some a\<rparr> es)))\<rparr>)"
proof (cases "io_error env (if locked_file s = None then ''create locked'' else ''read locked'') (wcalls s) = None \<and>
              io_error env ''write locked'' (wcalls s) = None")
  case True
  then show thesis
    using assms by (intro that(2), cases "locked_file s")
      (simp_all add: track_locked_utxo_def act_bind_def io_check_def set_locked_def)
next
  case False
  then have "\<exists>e. track_locked_utxo env c txid vout a s = (Err e, s)"
    using assms by (cases "locked_file s")
      (auto simp: track_locked_utxo_def act_bind_def io_check_def set_locked_def split: option.splits)
  then show thesis using that(1) by blast
qed

lemma release_cases:
  assumes "parsed_locked s = Locked_object es"
  obtains e where "release_locked_utxo env txid vout s = (Err e, s)"
  | "release_locked_utxo env txid vout s = (Ok (), s)" "es = []"
  | "release_locked_utxo env txid vout s =
       (Ok (), s\<lparr>locked_file := Some (Some (Locked_object (AList.delete (utxo_key txid vout) es)))\<rparr>)"
proof (cases "locked_file s")
  case None
  then show thesis using assms by (intro that(2)) (simp_all add: release_locked_utxo_def parsed_locked_def)
next
  case (Some f)
  show thesis
  proof (cases "io_error env ''read locked'' (wcalls s) = None \<and> io_error env ''write locked'' (wcalls s) = None")
    case True
    then show thesis
      using assms Some by (intro that(3)) (simp add: release_locked_utxo_def act_bind_def io_check_def)
  next
    case False
    then have "\<exists>e. release_locked_utxo env txid vout s = (Err e, s)"
      using assms Some by (auto simp: release_locked_utxo_def act_bind_def io_check_def split: option.splits)
    then show thesis using that(1) by blast
  qed
qed

lemma represents_lock_op:
  assumes "represents_locks s m" and "lock_exec env op s = (r, t)"
  shows "represents_locks t (case r of Ok _ \<Rightarrow> lock_spec op m | _ \<Rightarrow> m)"
proof -
  obtain ls where ls: "distinct (map fst ls)" "m = map_of ls" "parsed_locked s = Locked_object (table_json ls)"
    using assms(1) by (auto simp: represents_locks_def)
  show ?thesis
  proof (cases op)
    case (Track c txid vout a)
    show ?thesis
    proof (rule track_cases [OF ls(3), of env c txid vout a])
      fix e assume "track_locked_utxo env c txid vout a s = (Err e, s)"
      then show ?thesis using assms Track by auto
    next
      assume "track_locked_utxo env c txid vout a s =
        (Ok (), s\<lparr>locked_file := Some (Some (Locked_object (AList.update (utxo_key txid vout)
           \<lparr>lu_contract_id = Some c, lu_amount = Some a\<rparr> (table_json ls))))\<rparr>)"
      then have r: "r = Ok ()" and t: "parsed_locked t = Locked_object (table_json (AList.update (txid, vout) (c, a) ls))"
        using assms(2) Track by (auto simp: update_table parsed_locked_def)
      show ?thesis
        unfolding represents_locks_def
        by (rule exI [of _ "AList.update (txid, vout) (c, a) ls"])
           (simp add: r t Track ls(1,2) distinct_update update_conv')
    qed
  next
    case (Release txid vout)
    show ?thesis
    proof (rule release_cases [OF ls(3), of env txid vout])
      fix e assume "release_locked_utxo env txid vout s = (Err e, s)"
      then show ?thesis using assms Release by auto
    next
      assume "release_locked_utxo env txid vout s = (Ok (), s)" "table_json ls = []"
      then show ?thesis using assms Release ls(2) by (auto simp: table_json_def)
    next
      assume "release_locked_utxo env txid vout s =
        (Ok (), s\<lparr>locked_file := Some (Some (Locked_object (AList.delete (utxo_key txid vout) (table_json ls))))\<rparr>)"
      then have r: "r = Ok ()" and t: "parsed_locked t = Locked_object (table_json (AList.delete (txid, vout) ls))"
        using assms(2) Release by (auto simp: delete_table parsed_locked_def)
      show ?thesis
        unfolding represents_locks_def
        by (rule exI [of _ "AList.delete (txid, vout) ls"])
           (simp add: r t Release ls(1,2) distinct_delete delete_conv')
    qed
  qed
qed

lemma represents_run: "represents_locks s m \<Longrightarrow> run_locks env ops s m = (t, m') \<Longrightarrow> represents_locks t m'"
proof (induction ops arbitrary: s m)
  case (Cons op ops)
  obtain r u where step: "lock_exec env op s = (r, u)" by (cases "lock_exec env op s")
  have "represents_locks u (case r of Ok _ \<Rightarrow> lock_spec op m | _ \<Rightarrow> m)"
    using Cons.prems(1) step by (rule represents_lock_op)
  then show ?case using Cons step by (cases r) auto
qed simp

lemma locked_amount_result:
  assumes "represents_locks s m" and "io_error env ''read locked'' (wcalls s) = None"
  shows "get_locked_amount env c s =
           (if total_locked c m < 2 ^ 64 then Ok (of_nat (total_locked c m)) else Panic, s)"
proof -
  obtain ls where ls: "distinct (map fst ls)" "m = map_of ls" "parsed_locked s = Locked_object (table_json ls)"
    using assms(1) by (auto simp: represents_locks_def)
  have sum: "sum_list (map unat (locked_amounts c (parsed_locked s))) = total_locked c m"
    by (simp add: ls table_amounts total_locked_list)
  have "sum_u64 (locked_amounts c (parsed_locked s)) =
      (if total_locked c m < 2 ^ 64 then Ok (of_nat (total_locked c m)) else Panic :: (string, u64) outcome)"
  proof (cases "total_locked c m < 2 ^ 64")
    case True
    then have "unat (of_nat (total_locked c m) :: u64) = total_locked c m"
      by (simp add: unat_of_nat take_bit_nat_eq_self)
    then show ?thesis using True sum by (simp add: sum_u64_Ok)
  next
    case False
    then have "sum_u64 (locked_amounts c (parsed_locked s)) \<noteq> (Ok n :: (string, u64) outcome)" for n
      using sum by (simp add: sum_u64_Ok)
    moreover have "sum_u64 (locked_amounts c (parsed_locked s)) \<noteq> (Err e :: (string, u64) outcome)" for e
      by (simp add: sum_u64_def sum_u64_from_not_Err)
    ultimately show ?thesis using False by (cases "sum_u64 (locked_amounts c (parsed_locked s)) :: (string, u64) outcome") auto
  qed
  moreover have "locked_file s = None \<Longrightarrow> total_locked c m = 0"
    using sum by (simp add: parsed_locked_def locked_amounts_def)
  ultimately show ?thesis
    using assms(2) by (auto simp: get_locked_amount_def act_bind_def)
qed


section \<open>Balances\<close>

lemma act_map_read_only:
  assumes "act_map f xs s = (Ok ys, t)" and "\<And>x y u v. f x u = (Ok y, v) \<Longrightarrow> v = u"
  shows "t = s \<and> list_all2 (\<lambda>x y. f x s = (Ok y, s)) xs ys"
  using assms(1)
proof (induction xs arbitrary: ys t)
  case (Cons x xs)
  then obtain y u zs where f: "f x s = (Ok y, u)" and m: "act_map f xs u = (Ok zs, t)" "ys = y # zs"
    by (auto simp: act_bind_Ok)
  have "u = s" using f by (rule assms(2))
  then show ?case using Cons.IH [of zs t] m f by simp
qed simp

lemma get_locked_same: "get_locked_amount env c s = (r, t) \<Longrightarrow> t = s"
  by (auto simp: get_locked_amount_def act_bind_def io_check_def split: if_splits option.splits)

lemma locked_or_zero_same: "locked_or_zero env c s = (Ok n, t) \<Longrightarrow> t = s"
  by (auto simp: locked_or_zero_def dest: get_locked_same split: prod.splits outcome.splits)

lemma listed_assets:
  assumes "list_assets env s = (Ok l, t)" and "represents_locks s m"
    and "io_error env ''read locked'' (wcalls s) = None"
  shows "t = s \<and>
         (\<exists>ids as. known_assets env (wcalls s) = Ok ids \<and>
           l = \<lparr>nia_assets = Some as, cfa_assets = Some [], uda_assets = Some []\<rparr> \<and>
           list_all2 (\<lambda>cid a. \<exists>held. total_locked cid m < 2 ^ 64 \<and>
             get_asset_balance env cid s = (Ok (flat_balance held held), s) \<and>
             an_balance a = flat_balance held (saturating_sub held (of_nat (total_locked cid m))) \<and>
             (\<exists>info. contract_info env (wcalls s) cid = Ok info \<and> an_asset_id a = ai_contract_id info)) ids as)"
proof -
  obtain ids as where ids: "\<not> wm_poisoned s" "known_assets env (wcalls s) = Ok ids"
      "l = \<lparr>nia_assets = Some as, cfa_assets = Some [], uda_assets = Some []\<rparr>"
    and map: "act_map (list_asset env) ids s = (Ok as, t)"
    using assms(1) by (auto simp: list_assets_def act_bind_Ok)
  have same: "v = u" if "list_asset env x u = (Ok y, v)" for x y u v
    using that by (auto simp: list_asset_def act_bind_Ok dest: locked_or_zero_same)
  have one: "\<exists>held. total_locked cid m < 2 ^ 64 \<and>
             get_asset_balance env cid s = (Ok (flat_balance held held), s) \<and>
             an_balance a = flat_balance held (saturating_sub held (of_nat (total_locked cid m))) \<and>
             (\<exists>info. contract_info env (wcalls s) cid = Ok info \<and> an_asset_id a = ai_contract_id info)"
    if "list_asset env cid s = (Ok a, s)" for cid a
    using that ids(1) locked_amount_result [OF assms(2,3), of cid]
    by (auto simp: list_asset_def get_asset_balance_def locked_or_zero_def act_bind_Ok split: if_splits)
  have "t = s \<and> list_all2 (\<lambda>x y. list_asset env x s = (Ok y, s)) ids as"
    using act_map_read_only [OF map] same by blast
  then show ?thesis using ids(2,3) one by (auto elim!: list_all2_mono)
qed

text \<open>
  The balances of the list of assets and those of one asset agree on what is held and differ in
  what is spendable: the list takes the amount locked in channels off, the other does not.\<close>
theorem listed_spendable_excludes_locked:
  assumes "list_assets env s = (Ok l, t)" and "represents_locks s m"
    and "io_error env ''read locked'' (wcalls s) = None"
  shows "t = s \<and>
         (\<exists>ids as. known_assets env (wcalls s) = Ok ids \<and>
           l = \<lparr>nia_assets = Some as, cfa_assets = Some [], uda_assets = Some []\<rparr> \<and>
           list_all2 (\<lambda>cid a. \<exists>held. total_locked cid m < 2 ^ 64 \<and>
             get_asset_balance env cid s = (Ok (flat_balance held held), s) \<and>
             an_balance a = flat_balance held (saturating_sub held (of_nat (total_locked cid m)))) ids as)"
  using listed_assets [OF assms] by (auto elim!: list_all2_mono)

section \<open>A panic under the lock\<close>

text \<open>
  Issuing an asset whose amounts sum to more than 64 bits panics with the manager locked, and after
  that every operation of the wallet panics.\<close>
theorem issue_overflow_poisons:
  assumes "\<not> wm_poisoned s" and "2 ^ 64 \<le> sum_list (map unat amounts)"
  shows "issue_asset_nia env ticker name precision amounts s = (Panic, s\<lparr>wm_poisoned := True\<rparr>) \<and>
         get_address env (s\<lparr>wm_poisoned := True\<rparr>) = (Panic, s\<lparr>wm_poisoned := True\<rparr>) \<and>
         list_assets env (s\<lparr>wm_poisoned := True\<rparr>) = (Panic, s\<lparr>wm_poisoned := True\<rparr>) \<and>
         list_unspents env settled (s\<lparr>wm_poisoned := True\<rparr>) = (Panic, s\<lparr>wm_poisoned := True\<rparr>) \<and>
         sync env (s\<lparr>wm_poisoned := True\<rparr>) = (Panic, s\<lparr>wm_poisoned := True\<rparr>)"
proof -
  have "sum_u64 amounts \<noteq> (Ok n :: (rgb_lib_error, u64) outcome)" for n using assms(2) by (simp add: sum_u64_Ok)
  moreover have "sum_u64 amounts \<noteq> (Err e :: (rgb_lib_error, u64) outcome)" for e
    by (simp add: sum_u64_def sum_u64_from_not_Err)
  ultimately have "sum_u64 amounts = (Panic :: (rgb_lib_error, u64) outcome)"
    by (cases "sum_u64 amounts :: (rgb_lib_error, u64) outcome") auto
  then have "issue_asset_nia env ticker name precision amounts s = (Panic, s\<lparr>wm_poisoned := True\<rparr>)"
    using assms(1) by (simp add: issue_asset_nia_def with_manager_def)
  then show ?thesis
    by (simp add: get_address_def list_assets_def list_unspents_def sync_def)
qed

section \<open>Witnesses\<close>

lemma example_no_locks: "represents_locks example_wallet Map.empty"
  unfolding represents_locks_def by (rule exI [of _ "[]"]) (simp add: parsed_locked_def table_json_def)

definition example_locks :: "lock_op list" where
  "example_locks = [Track ''rgb:usdt'' ''f00d'' 0 40, Track ''rgb:usdt'' ''beef'' 1 2, Release ''f00d'' 0]"

lemma example_locks_table: "snd (run_locks example_tenv example_locks example_wallet Map.empty) =
    [(''beef'', 1) \<mapsto> (''rgb:usdt'', 2)]"
  by (auto simp: example_locks_def track_locked_utxo_def release_locked_utxo_def act_bind_def set_locked_def parsed_locked_def
      fun_eq_iff)


definition example_locked_wallet :: transfer_wallet where
  "example_locked_wallet = example_wallet\<lparr>locked_file := Some (Some (Locked_object (table_json [((''f00d'', 0), ''rgb:usdt'', 40)])))\<rparr>"

lemma example_locked: "represents_locks example_locked_wallet [(''f00d'', 0) \<mapsto> (''rgb:usdt'', 40)]"
  unfolding represents_locks_def
  by (rule exI [of _ "[((''f00d'', 0), ''rgb:usdt'', 40)]"]) (simp add: parsed_locked_def example_locked_wallet_def)

lemma example_listed: "\<exists>as. list_assets example_tenv example_locked_wallet = (Ok as, example_locked_wallet)"
  using locked_amount_result [OF example_locked, of example_tenv "''rgb:usdt''"]
  by (simp add: list_assets_def list_asset_def with_manager_def act_bind_def query_def locked_or_zero_def total_locked_def
      example_locked_wallet_def)

theorem listed_spendable_excludes_locked_witness:
  "\<exists>l a. list_assets example_tenv example_locked_wallet = (Ok l, example_locked_wallet) \<and> nia_assets l = Some [a] \<and>
       an_balance a = flat_balance 100 60 \<and>
       get_asset_balance example_tenv ''rgb:usdt'' example_locked_wallet = (Ok (flat_balance 100 100), example_locked_wallet)"
proof -
  obtain as where run: "list_assets example_tenv example_locked_wallet = (Ok as, example_locked_wallet)"
    using example_listed by blast
  have "total_locked ''rgb:usdt'' [(''f00d'', 0) \<mapsto> (''rgb:usdt'', 40)] = 40" by (simp add: total_locked_def)
  moreover have "get_asset_balance example_tenv ''rgb:usdt'' example_locked_wallet = (Ok (flat_balance 100 100), example_locked_wallet)"
    by (simp add: get_asset_balance_def with_manager_def act_bind_def query_def example_locked_wallet_def)
  ultimately show ?thesis
    using listed_spendable_excludes_locked [OF run example_locked] run
    by (auto simp: list_all2_Cons1 saturating_sub_def flat_balance_def)
qed

theorem issue_overflow_poisons_witness:
  "issue_asset_nia example_tenv ''USDT'' ''Tether'' 0 [2 ^ 63, 2 ^ 63] example_wallet =
     (Panic, example_wallet\<lparr>wm_poisoned := True\<rparr>)"
  using issue_overflow_poisons [of example_wallet "[2 ^ 63, 2 ^ 63]" example_tenv "''USDT''" "''Tether''" 0] by simp

end
