(* ===== verification/TransferProps.thy ===== *)
theory TransferProps
  imports WalletProps
begin

text \<open>
  Properties of sends and of channel funding: the order of their effects, the UTXOs they spare, and what
  happens when a funding is tried again; the choice of UTXOs to claim to.
\<close>

section \<open>Transactions that spare coloured UTXOs\<close>

text \<open>What the wallet library documents: the builder never selects an unspendable outpoint, and signing
  and extracting keep the inputs.\<close>

definition honest_builder :: "'e wallet_env_scheme \<Rightarrow> bool" where
  "honest_builder env \<longleftrightarrow>
     (\<forall>cs rq p. build_tx env cs rq = Ok p \<longrightarrow> set (ps_inputs p) \<inter> set (br_unspendable rq) = {}) \<and>
     (\<forall>p f q. sign_tx env p = Ok (f, q) \<longrightarrow> ps_inputs q = ps_inputs p) \<and>
     (\<forall>p tx. extract_tx env p = Ok tx \<longrightarrow> tx_inputs tx = ps_inputs p)"

lemma honest_inputs:
  assumes "honest_builder env" and "build_tx env cs rq = Ok p"
    and "sign_tx env q = Ok (f, r)" and "ps_inputs q = ps_inputs p" and "extract_tx env r = Ok tx"
  shows "set (tx_inputs tx) \<inter> set (br_unspendable rq) = {}"
  using assms unfolding honest_builder_def by metis

lemma list_all2_image: "list_all2 P xs ys \<Longrightarrow> a \<in> set xs \<Longrightarrow> \<exists>b \<in> set ys. P a b"
  by (induction rule: list_all2_induct) auto

lemma list_all2_map_filter:
  "list_all2 (\<lambda>x y. f x = Ok y) xs ys \<Longrightarrow> a \<in> set xs \<Longrightarrow> f a = Ok (Some b) \<Longrightarrow> b \<in> set (List.map_filter id ys)"
  by (drule (1) list_all2_image) (force simp: map_filter_def)

lemma unspendable_parsed:
  assumes "unspendable_outpoints env occ = Ok un" and "a \<in> set occ" and "parse_outpoint env a = Ok op"
  shows "op \<in> set un"
  using assms list_all2_image [of "\<lambda>x y. parse_outpoint env x = Ok y" occ un a]
  by (auto simp: unspendable_outpoints_def map_outcome_Ok)

lemma committed_psbt_Ok:
  assumes "committed_psbt env asset addr amount fee s = (Ok (p, h), t)"
  shows "t = s \<and> (\<exists>occ un p0 script. occupied_utxos env (wcalls s) = Ok occ \<and>
           unspendable_outpoints env occ = Ok un \<and> genesis_state_hash env (wcalls s) asset = Ok h \<and>
           build_tx env (wcalls s) \<lparr>br_recipients = [(script, amount)], br_fee_rate = fee, br_unspendable = un\<rparr> = Ok p0 \<and>
           p = add_op_return env h p0)"
  using assms by (auto simp: committed_psbt_def build_psbt_def act_bind_Ok)

lemma state_io_Ok [simp]: "state_io env op msg s = (Ok u, t) \<longleftrightarrow> io_error env op (wcalls s) = None \<and> t = s"
  by (auto simp: state_io_def split: option.splits)

lemma read_json_Ok [simp]:
  "read_json env name what sel s = (Ok j, t) \<longleftrightarrow>
     t = s \<and> sel s = Some (Some j) \<and> io_error env (''read '' @ name) (wcalls s) = None"
  by (auto simp: read_json_def act_bind_Ok split: option.splits)

lemma contract_key_Ok: "contract_key env c s = (Ok k, t) \<Longrightarrow> t = s"
  by (auto simp: contract_key_def act_bind_Ok)

lemma contracts_or_Ok [simp]: "contracts_or env msg s = (Ok u, t) \<longleftrightarrow> contracts_loaded env \<and> t = s"
  by (auto simp: contracts_or_def)

lemma contract_or_Ok: "contract_or env typed c s = (Ok u, t) \<Longrightarrow> t = s"
  by (auto simp: contract_or_def)

lemma execute_transfer_Ok:
  assumes "execute_transfer env msg c a w n s = (Ok (), t)"
  shows "t = s\<lparr>wcalls := wcalls s @ [Transfer c a w n, Save_state]\<rparr>"
  using assms by (auto simp: execute_transfer_def act_bind_Ok dest!: contract_key_Ok contract_or_Ok)

lemma post_transfer_Ok:
  "post_transfer env txid p e s = (Ok u, t) \<Longrightarrow>
     t = s\<lparr>wcalls := wcalls s @ [Post_payload (to_http e) txid None p]\<rparr>"
  by (auto simp: post_transfer_def Let_def)

lemma posts_Ok:
  "act_map (post_transfer env txid p) es s = (Ok us, t) \<Longrightarrow>
     t = s\<lparr>wcalls := wcalls s @ map (\<lambda>e. Post_payload (to_http e) txid None p) es\<rparr>"
proof (induction es arbitrary: s us)
  case (Cons e es)
  then obtain y u vs where "post_transfer env txid p e s = (Ok y, u)"
    and rest: "act_map (post_transfer env txid p) es u = (Ok vs, t)"
    by (auto simp: act_bind_Ok)
  then show ?case using Cons.IH [OF rest] post_transfer_Ok by fastforce
qed simp

lemma send_Ok:
  assumes "send env recipients fee s = (Ok txid, t)"
  obtains asset r n tx h u us where "pick_recipient recipients = Ok (asset, r)" "rc_assignment r = Fungible n"
    "send_locked env asset r n fee s = (Ok (tx, h), u)" "txid = tx_id tx"
    "act_map (post_transfer env (tx_id tx) (Transfer_payload asset h n)) (rc_transport_endpoints r) u = (Ok us, t)"
proof -
  obtain asset r where r: "pick_recipient recipients = Ok (asset, r)"
    using assms by (auto simp: send_def act_bind_Ok)
  then show thesis
    using assms by (cases "rc_assignment r") (auto simp: send_def act_bind_Ok intro: that)
qed

text \<open>
  C19: An asset send that succeeds moves the asset to the witness of the transaction first, then saves the
  state, broadcasts and posts, in this order; the transaction spends no UTXO that carries assets.\<close>
theorem send_order_and_inputs:
  assumes "send env recipients fee s = (Ok txid, t)" and "honest_builder env"
  shows "\<exists>asset r n tx vout source h.
           pick_recipient recipients = Ok (asset, r) \<and> rc_assignment r = Fungible n \<and> txid = tx_id tx \<and>
           first_plain_output (tx_outputs tx) = Some vout \<and>
           wcalls t = wcalls s @
             [Transfer asset source (witness_id_of txid vout) n, Save_state, Broadcast tx] @
             map (\<lambda>e. Post_payload (to_http e) txid None (Transfer_payload asset h n)) (rc_transport_endpoints r) \<and>
           (\<forall>occ a op. occupied_utxos env (wcalls s) = Ok occ \<longrightarrow> a \<in> set occ \<longrightarrow>
              parse_outpoint env a = Ok op \<longrightarrow> op \<notin> set (tx_inputs tx))"
proof -
  obtain asset r n tx h u us where top: "pick_recipient recipients = Ok (asset, r)" "rc_assignment r = Fungible n"
    and locked: "send_locked env asset r n fee s = (Ok (tx, h), u)" and txid: "txid = tx_id tx"
    and posts: "act_map (post_transfer env (tx_id tx) (Transfer_payload asset h n)) (rc_transport_endpoints r) u = (Ok us, t)"
    by (rule send_Ok [OF assms(1)])
  obtain p q f vout j source where psbt: "committed_psbt env asset (rc_recipient_id r) 546 fee s = (Ok (p, h), s)"
    and signed: "sign_tx env p = Ok (f, q)" "extract_tx env q = Ok tx"
    and vout: "first_plain_output (tx_outputs tx) = Some vout"
    and u: "u = s\<lparr>wcalls := wcalls s @ [Transfer asset source (witness_id_of (tx_id tx) vout) n, Save_state, Broadcast tx]\<rparr>"
    using locked
    by (auto simp: send_locked_def act_bind_Ok dest!: execute_transfer_Ok)
       (metis committed_psbt_Ok)
  obtain occ un p0 script where built: "occupied_utxos env (wcalls s) = Ok occ" "unspendable_outpoints env occ = Ok un"
    "build_tx env (wcalls s) \<lparr>br_recipients = [(script, 546)], br_fee_rate = fee, br_unspendable = un\<rparr> = Ok p0"
    "p = add_op_return env h p0"
    using committed_psbt_Ok [OF psbt] by auto
  have "set (tx_inputs tx) \<inter> set un = {}"
    using honest_inputs [OF assms(2) built(3) signed(1) _ signed(2)] built(4) by (simp add: add_op_return_def)
  then have "op \<notin> set (tx_inputs tx)" if "a \<in> set occ" "parse_outpoint env a = Ok op" for a op
    using unspendable_parsed [OF built(2)] that by blast
  then show ?thesis using top txid vout u posts_Ok [OF posts] built(1) by auto
qed

text \<open>
  Creating UTXOs broadcasts one transaction, to the fixed address of the Esplora server, that spends no
  UTXO that carries assets, then saves the wallet and synchronises.\<close>
theorem created_utxos_spare_assets:
  assumes "create_utxos env num utxo_size fee skip_sync s = (Ok n, t)" and "honest_builder env"
  shows "\<exists>tx count. count = (case num of Some k \<Rightarrow> k | None \<Rightarrow> 1) \<and> n = count mod 256 \<and>
           (let before = wcalls s @ (if skip_sync then [] else [Sync_wallet]) in
            wcalls t = before @ [Reveal_addresses count, Esplora_broadcast esplora_url tx, Persist_wallet, Sync_wallet] \<and>
            (\<forall>occ a op. occupied_utxos env before = Ok occ \<longrightarrow> a \<in> set occ \<longrightarrow>
               occupied_outpoint env a = Ok (Some op) \<longrightarrow> op \<notin> set (tx_inputs tx)))"
proof -
  define count where "count = (case num of Some k \<Rightarrow> k | None \<Rightarrow> 1)"
  define before where "before = wcalls s @ (if skip_sync then [] else [Sync_wallet])"
  obtain occ rq p f q tx where o: "occupied_utxos env before = Ok occ"
    and rq: "split_request env occ (revealed_scripts env before count)
               (case utxo_size of Some k \<Rightarrow> of_nat k | None \<Rightarrow> 1000) fee = Ok rq"
    and p: "build_tx env (before @ [Reveal_addresses count]) rq = Ok p"
    and signed: "sign_tx env p = Ok (f, q)" "extract_tx env q = Ok tx"
    and t: "wcalls t = before @ [Reveal_addresses count, Esplora_broadcast esplora_url tx, Persist_wallet, Sync_wallet]"
      "n = count mod 256"
    using assms(1) unfolding count_def before_def create_utxos_def Let_def
    by (auto simp: act_bind_Ok sync_def split: if_splits)
  obtain os where os: "list_all2 (\<lambda>x y. occupied_outpoint env x = Ok y) occ os" "br_unspendable rq = List.map_filter id os"
    using rq by (auto simp: split_request_def and_then_eq_Ok map_outcome_Ok)
  have "op \<in> set (br_unspendable rq)" if "a \<in> set occ" "occupied_outpoint env a = Ok (Some op)" for a op
    using list_all2_map_filter [OF os(1) that] os(2) by simp
  moreover have "set (tx_inputs tx) \<inter> set (br_unspendable rq) = {}"
    using honest_inputs [OF assms(2) p signed(1) refl signed(2)] .
  ultimately show ?thesis
    using o t by (intro exI [of _ tx] exI [of _ count]) (auto simp: count_def before_def Let_def)
qed

section \<open>Funding a channel\<close>

text \<open>The output that a funding is credited to is one of the largest.\<close>

lemma max_by_key_None: "max_by_key f xs = None \<longleftrightarrow> xs = []"
  by (cases xs) (auto split: option.splits)

lemma max_by_key_Some:
  "max_by_key f xs = Some y \<Longrightarrow> \<exists>as bs. xs = as @ y # bs \<and> (\<forall>a \<in> set as. f a \<le> f y) \<and> (\<forall>b \<in> set bs. f b < f y)"
proof (induction xs arbitrary: y)
  case (Cons x xs)
  show ?case
  proof (cases "max_by_key f xs")
    case None
    then have "xs = []" "y = x" using Cons.prems by (auto simp: max_by_key_None)
    then show ?thesis by (intro exI [of _ "[]"]) simp
  next
    case (Some z)
    obtain as bs where z: "xs = as @ z # bs" "\<forall>a \<in> set as. f a \<le> f z" "\<forall>b \<in> set bs. f b < f z"
      using Cons.IH [OF Some] by blast
    show ?thesis
    proof (cases "f x \<le> f z")
      case True
      then have "y = z" using Cons.prems Some by simp
      then show ?thesis using z True by (intro exI [of _ "x # as"] exI [of _ bs]) auto
    next
      case False
      then have "y = x" using Cons.prems Some by simp
      moreover have "\<forall>b \<in> set xs. f b < f x" using z False by fastforce
      ultimately show ?thesis by (intro exI [of _ "[]"] exI [of _ xs]) simp
    qed
  qed
qed simp

lemma funding_output_Some:
  assumes "funding_output outs = Some i"
  shows "i < length outs \<and> \<not> to_is_op_return (outs ! i) \<and>
         (\<forall>j < length outs. \<not> to_is_op_return (outs ! j) \<longrightarrow> to_value (outs ! j) \<le> to_value (outs ! i))"
proof -
  let ?plain = "filter (\<lambda>(i, out). \<not> to_is_op_return out) (enumerate 0 outs)"
  obtain y where y: "max_by_key (\<lambda>(i, out). to_value out) ?plain = Some y" "i = fst y"
    using assms by (auto simp: funding_output_def)
  obtain as bs where split: "?plain = as @ y # bs"
    and le: "\<forall>a \<in> set as. to_value (snd a) \<le> to_value (snd y)" "\<forall>b \<in> set bs. to_value (snd b) < to_value (snd y)"
    using max_by_key_Some [OF y(1)] by (auto simp: case_prod_beta)
  have mem: "(j, outs ! j) \<in> set ?plain \<longleftrightarrow> j < length outs \<and> \<not> to_is_op_return (outs ! j)" for j
    by (auto simp: in_set_enumerate_eq)
  have "y \<in> set ?plain" using split by simp
  then have "i < length outs" "outs ! i = snd y" "\<not> to_is_op_return (outs ! i)"
    using y(2) by (auto simp: in_set_enumerate_eq)
  moreover have "to_value (outs ! j) \<le> to_value (snd y)" if "(j, outs ! j) \<in> set ?plain" for j
    using that le unfolding split by (auto simp: less_imp_le)
  ultimately show ?thesis using mem by auto
qed

lemma broadcast_first_cases:
  "broadcast_first env tx s = (Ok b, t) \<longleftrightarrow>
     t = s\<lparr>wcalls := wcalls s @ [Broadcast tx]\<rparr> \<and>
     (if b then \<exists>e. do_call env (Broadcast tx) (wcalls s) = Err e \<and> already_known e
      else do_call env (Broadcast tx) (wcalls s) = Ok ())"
  by (auto simp: broadcast_first_def split: outcome.splits if_splits)

lemma track_funding_Ok:
  assumes "track_funding env c txid vout a s = (Ok (), t)" and "parsed_locked s = Locked_object es"
  shows "vout < 2 ^ 32 \<and> t = s\<lparr>locked_file := Some (Some (Locked_object
           (AList.update (utxo_key txid vout) \<lparr>lu_contract_id = Some c, lu_amount = Some a\<rparr> es)))\<rparr>"
  using assms(1) track_cases [OF assms(2), of env c txid vout a]
  by (auto simp: track_funding_def act_bind_Ok split: prod.splits)

text \<open>Actions that only append to the log.\<close>

definition only_logs :: "('x wallet_scheme, 'e, 'a) action \<Rightarrow> bool" where
  "only_logs m \<longleftrightarrow> (\<forall>s. \<exists>ds. snd (m s) = s\<lparr>wcalls := wcalls s @ ds\<rparr>)"

lemma only_logsD: "only_logs m \<Longrightarrow> m s = (r, t) \<Longrightarrow> \<exists>ds. t = s\<lparr>wcalls := wcalls s @ ds\<rparr>"
  unfolding only_logs_def by (metis snd_conv)

lemma only_logsI: "(\<And>s r t. m s = (r, t) \<Longrightarrow> \<exists>ds. t = s\<lparr>wcalls := wcalls s @ ds\<rparr>) \<Longrightarrow> only_logs m"
  unfolding only_logs_def by (metis prod.collapse)

lemma only_logs_same: "(\<And>s. snd (m s) = s) \<Longrightarrow> only_logs m"
  unfolding only_logs_def by (intro allI exI [of _ "[]"]) simp

lemma only_logs_bind:
  assumes "only_logs m" and "\<And>a. only_logs (f a)"
  shows "only_logs (act_bind m f)"
proof (rule only_logsI)
  fix s r t assume run: "act_bind m f s = (r, t)"
  obtain q u where m: "m s = (q, u)" by (cases "m s")
  then obtain ds where u: "u = s\<lparr>wcalls := wcalls s @ ds\<rparr>" using only_logsD [OF assms(1)] by blast
  show "\<exists>ds. t = s\<lparr>wcalls := wcalls s @ ds\<rparr>"
  proof (cases q)
    case (Ok a)
    then have "f a u = (r, t)" using run m by (simp add: act_bind_def)
    then obtain es where "t = u\<lparr>wcalls := wcalls u @ es\<rparr>" using only_logsD [OF assms(2)] by blast
    then show ?thesis using u by (intro exI [of _ "ds @ es"]) simp
  qed (use run m u in \<open>auto simp: act_bind_def\<close>)
qed

lemma only_logs_effect [simp]: "only_logs (effect env msg c)"
  unfolding only_logs_def by (intro allI exI [of _ "[c]"]) (simp add: effect_def)

lemma only_logs_basic [simp]:
  "only_logs (act_lift r)" "only_logs (act_return a)" "only_logs (act_get g)"
  "only_logs (query msg q)" "only_logs (state_io tenv op msg)"
  "only_logs (contract_or tenv typed cid)" "only_logs (contracts_or tenv msg)" "only_logs (wallet_or env msg)"
  by (simp_all add: only_logs_same query_def state_io_def contract_or_def contracts_or_def wallet_or_def)

lemma only_logs_transfer [simp]: "only_logs (execute_transfer env msg c a w n)"
  unfolding execute_transfer_def contract_key_def by (intro only_logs_bind) (simp_all add: case_prod_beta)

lemma only_logs_read [simp]: "only_logs (read_json env name what sel)"
  unfolding read_json_def by (intro only_logs_bind) simp_all

lemma track_Err: "track_locked_utxo env c txid vout a s = (Err e, t) \<Longrightarrow> t = s"
  by (auto simp: track_locked_utxo_def act_bind_Err io_check_def split: if_splits option.splits)

lemma track_funding_Err: "track_funding env c txid vout a s = (Err e, t) \<Longrightarrow> t = s"
proof -
  assume run: "track_funding env c txid vout a s = (Err e, t)"
  obtain r u where r: "track_locked_utxo env c txid vout a s = (r, u)" by (cases "track_locked_utxo env c txid vout a s")
  show "t = s"
    using run r by (cases r) (auto simp: track_funding_def act_bind_Err guard_or_def split: if_splits dest: track_Err)
qed

text \<open>The two ends of the second half of a funding.\<close>

lemma send_end_parts:
  assumes "pending_transfer s = Some (Some \<lparr>pj_contract_id = Some c, pj_rgb_amount = Some n\<rparr>)"
    and "io_error env ''read pending'' (wcalls s) = None"
    and "psbt_from_str env sp = Ok p" and "extract_tx env p = Ok tx" and "funding_output (tx_outputs tx) = Some vout"
  shows "send_end env sp s = with_manager (send_end_locked env c n tx vout) s"
proof -
  have "read_json env ''pending'' ''transfer details'' pending_transfer s =
          (Ok \<lparr>pj_contract_id = Some c, pj_rgb_amount = Some n\<rparr>, s)"
    using assms(1,2) by simp
  then have "act_bind (read_json env ''pending'' ''transfer details'' pending_transfer) f s =
      f \<lparr>pj_contract_id = Some c, pj_rgb_amount = Some n\<rparr> s" for f :: "pending_json \<Rightarrow> txid t_action"
    by (rule act_bind_step)
  then show ?thesis by (simp add: send_end_def assms(3-5))
qed

lemma send_end_OkD:
  assumes "send_end env sp s = (Ok txid, t)"
  obtains c n tx vout where "pending_transfer s = Some (Some \<lparr>pj_contract_id = Some c, pj_rgb_amount = Some n\<rparr>)"
    "funding_output (tx_outputs tx) = Some vout" "\<not> wm_poisoned s" "send_end_locked env c n tx vout s = (Ok txid, t)"
proof -
  obtain j c n p tx vout where "pending_transfer s = Some (Some j)" "pj_contract_id j = Some c" "pj_rgb_amount j = Some n"
    "funding_output (tx_outputs tx) = Some vout" "\<not> wm_poisoned s" "send_end_locked env c n tx vout s = (Ok txid, t)"
    using assms by (auto simp: send_end_def act_bind_Ok)
  then show thesis using that by (cases j) auto
qed

text \<open>
  C20: The second half of a funding, the first time: the transaction is broadcast, then the asset moves to
  the witness of its funding output, the state is saved, the output is recorded as locked with the amount,
  and the pending transfer is removed.\<close>
theorem funding_moves_asset:
  assumes "send_end env sp s = (Ok txid, t)" and "parsed_locked s = Locked_object es"
    and "\<And>tx e. do_call env (Broadcast tx) (wcalls s) = Err e \<Longrightarrow> \<not> already_known e"
  shows "\<exists>c n tx vout source.
           pending_transfer s = Some (Some \<lparr>pj_contract_id = Some c, pj_rgb_amount = Some n\<rparr>) \<and>
           txid = tx_id tx \<and> funding_output (tx_outputs tx) = Some vout \<and>
           wcalls t = wcalls s @ [Broadcast tx, Transfer c source (witness_id_of txid vout) n, Save_state] \<and>
           parsed_locked t = Locked_object
             (AList.update (utxo_key txid vout) \<lparr>lu_contract_id = Some c, lu_amount = Some n\<rparr> es) \<and>
           (io_error env ''remove pending'' (wcalls t) = None \<longrightarrow> pending_transfer t = None)"
proof -
  obtain c n tx vout where pend: "pending_transfer s = Some (Some \<lparr>pj_contract_id = Some c, pj_rgb_amount = Some n\<rparr>)"
    and vout: "funding_output (tx_outputs tx) = Some vout" and run: "send_end_locked env c n tx vout s = (Ok txid, t)"
    by (rule send_end_OkD [OF assms(1)])
  let ?u = "s\<lparr>wcalls := wcalls s @ [Broadcast tx]\<rparr>"
  obtain b where b: "broadcast_first env tx s = (Ok b, ?u)"
    using run by (auto simp: send_end_locked_def act_bind_Ok broadcast_first_cases)
  then have "\<not> b" using assms(3) by (auto simp: broadcast_first_cases)
  then obtain source v w where moved: "execute_transfer env ''Failed to save state after transfer'' c source
        (witness_id_of (tx_id tx) vout) n ?u = (Ok (), v)"
    and tracked: "track_funding env c (tx_id tx) vout n v = (Ok (), w)"
    and t: "t = w\<lparr>pending_transfer := if io_error env ''remove pending'' (wcalls w) = None then None else pending_transfer w\<rparr>"
      "txid = tx_id tx"
    using run b by (auto simp: send_end_locked_def act_bind_Ok broadcast_first_cases)
  have v: "v = ?u\<lparr>wcalls := wcalls ?u @ [Transfer c source (witness_id_of (tx_id tx) vout) n, Save_state]\<rparr>"
    using moved by (rule execute_transfer_Ok)
  then have "parsed_locked v = Locked_object es" using assms(2) by (simp add: parsed_locked_def)
  note w = track_funding_Ok [OF tracked this]
  show ?thesis
    by (intro exI [of _ c] exI [of _ n] exI [of _ tx] exI [of _ vout] exI [of _ source])
       (use pend vout t v w in \<open>auto simp: parsed_locked_def\<close>)
qed


section \<open>UTXOs to claim to\<close>

lemma min_by_key_None: "min_by_key f xs = None \<longleftrightarrow> xs = []"
  by (cases xs) (auto split: option.splits)

lemma min_by_key_Some:
  "min_by_key f xs = Some y \<Longrightarrow> \<exists>as bs. xs = as @ y # bs \<and> (\<forall>a \<in> set as. f y < f a) \<and> (\<forall>b \<in> set bs. f y \<le> f b)"
proof (induction xs arbitrary: y)
  case (Cons x xs)
  show ?case
  proof (cases "min_by_key f xs")
    case None
    then have "xs = []" "y = x" using Cons.prems by (auto simp: min_by_key_None)
    then show ?thesis by (intro exI [of _ "[]"]) simp
  next
    case (Some z)
    obtain as bs where z: "xs = as @ z # bs" "\<forall>a \<in> set as. f z < f a" "\<forall>b \<in> set bs. f z \<le> f b"
      using Cons.IH [OF Some] by blast
    show ?thesis
    proof (cases "f x \<le> f z")
      case True
      then have "y = x" using Cons.prems Some by simp
      moreover have "\<forall>b \<in> set xs. f x \<le> f b" using z True by fastforce
      ultimately show ?thesis by (intro exI [of _ "[]"] exI [of _ xs]) simp
    next
      case False
      then have "y = z" using Cons.prems Some by simp
      then show ?thesis using z False by (intro exI [of _ "x # as"] exI [of _ bs]) auto
    qed
  qed
qed simp

lemma filter_split:
  "filter P xs = as @ y # bs \<Longrightarrow> \<exists>cs ds. xs = cs @ y # ds \<and> filter P cs = as \<and> filter P ds = bs \<and> P y"
proof (induction xs arbitrary: as)
  case (Cons x xs)
  show ?case
  proof (cases "P x")
    case False
    then obtain cs ds where "xs = cs @ y # ds \<and> filter P cs = as \<and> filter P ds = bs \<and> P y"
      using Cons.IH [of as] Cons.prems by auto
    then show ?thesis using False by (intro exI [of _ "x # cs"] exI [of _ ds]) simp
  next
    case True
    show ?thesis
    proof (cases as)
      case Nil
      then show ?thesis using Cons.prems True by (intro exI [of _ "[]"] exI [of _ xs]) simp
    next
      case (Cons a as')
      then obtain cs ds where "xs = cs @ y # ds \<and> filter P cs = as' \<and> filter P ds = bs \<and> P y"
        using Cons.IH [of as'] Cons.prems True by auto
      then show ?thesis using True Cons Cons.prems by (intro exI [of _ "x # cs"] exI [of _ ds]) simp
    qed
  qed
qed simp

definition any_utxo :: utxo_filter where
  "any_utxo = \<lparr>available_only = False, rgb_only = False, confirmed_only = False, min_amount_sats = None\<rparr>"

lemma to_unspent_simps [simp]:
  "un_btc_amount (to_unspent u) = u_amount_sats u" "un_txid (to_unspent u) = u_txid u"
  "un_vout (to_unspent u) = u_vout u"
  by (simp_all add: to_unspent_def)

lemma list_unspents_any:
  "\<not> wm_poisoned s \<Longrightarrow> list_utxos env (wcalls s) any_utxo = Ok us \<Longrightarrow>
     list_unspents env False s = (Ok (map to_unspent us), s)"
  by (simp add: list_unspents_def with_manager_def act_bind_def query_def any_utxo_def)

text \<open>
  The UTXO to claim to is the first of the smallest that carry no asset and hold at most 2000
  satoshi; when there is none, one is created and the last of the new list is taken, whatever it is.\<close>
theorem claim_utxo_chosen:
  fixes s :: "'x wallet_scheme"
  assumes "\<not> wm_poisoned s" and "list_utxos env (wcalls s) any_utxo = Ok us"
  shows "(\<exists>as u bs. us = as @ u # bs \<and> claim_sized (to_unspent u) \<and>
             (\<forall>a \<in> set as. claim_sized (to_unspent a) \<longrightarrow> u_amount_sats u < u_amount_sats a) \<and>
             (\<forall>b \<in> set bs. claim_sized (to_unspent b) \<longrightarrow> u_amount_sats u \<le> u_amount_sats b) \<and>
             get_claim_utxo env s = (Ok (utxo_key (u_txid u) (u_vout u)), s)) \<or>
         (\<forall>u \<in> set us. \<not> claim_sized (to_unspent u)) \<and>
         (\<forall>n t vs. create_utxos env (Some 1) (Some 1000) 1 False s = (Ok n, t) \<longrightarrow> \<not> wm_poisoned t \<longrightarrow>
            list_utxos env (wcalls t) any_utxo = Ok vs \<longrightarrow> vs \<noteq> [] \<longrightarrow>
            get_claim_utxo env s = (Ok (utxo_key (u_txid (last vs)) (u_vout (last vs))), t))"
proof -
  let ?free = "filter claim_sized (map to_unspent us)"
  have listed: "act_bind (list_unspents env False) f s = f (map to_unspent us) s" for f :: "unspent list \<Rightarrow> ('x, string) w_action"
    using list_unspents_any [OF assms] by (rule act_bind_step)
  show ?thesis
  proof (cases "min_by_key un_btc_amount ?free")
    case None
    then have "\<forall>u \<in> set us. \<not> claim_sized (to_unspent u)" by (auto simp: min_by_key_None filter_empty_conv)
    moreover have "get_claim_utxo env s = (Ok (utxo_key (u_txid (last vs)) (u_vout (last vs))), t)"
      if made: "create_utxos env (Some 1) (Some 1000) 1 False s = (Ok n, t)" "\<not> wm_poisoned t"
        "list_utxos env (wcalls t) any_utxo = Ok vs" "vs \<noteq> []" for n t vs
    proof -
      have again: "act_bind (list_unspents env False) f t = f (map to_unspent vs) t" for f :: "unspent list \<Rightarrow> ('x, string) w_action"
        using list_unspents_any [OF made(2,3)] by (rule act_bind_step)
      have "act_bind (create_utxos env (Some 1) (Some 1000) 1 False) f s = f n t" for f :: "nat \<Rightarrow> ('x, string) w_action"
        using made(1) by (rule act_bind_step)
      then show ?thesis
        unfolding get_claim_utxo_def listed None using made(4) by (simp add: again last_map to_unspent_def)
    qed
    ultimately show ?thesis by blast
  next
    case (Some w)
    obtain fs gs where free: "?free = fs @ w # gs" and w: "\<forall>a \<in> set fs. un_btc_amount w < un_btc_amount a"
      "\<forall>b \<in> set gs. un_btc_amount w \<le> un_btc_amount b"
      using min_by_key_Some [OF Some] by blast
    obtain cs ds where split: "map to_unspent us = cs @ w # ds" "filter claim_sized cs = fs"
      "filter claim_sized ds = gs" "claim_sized w"
      using filter_split [OF free] by (elim exE conjE) (rule that)
    then obtain as u bs where us: "us = as @ u # bs" "map to_unspent as = cs" "w = to_unspent u" "map to_unspent bs = ds"
      by (auto simp: map_eq_append_conv map_eq_Cons_conv)
    have "get_claim_utxo env s = (Ok (utxo_key (u_txid u) (u_vout u)), s)"
      unfolding get_claim_utxo_def listed Some by (simp add: us(3) to_unspent_def)
    moreover have "u_amount_sats u < u_amount_sats a" if "a \<in> set as" "claim_sized (to_unspent a)" for a
      using bspec [OF w(1), of "to_unspent a"] that split(2) us by auto
    moreover have "u_amount_sats u \<le> u_amount_sats b" if "b \<in> set bs" "claim_sized (to_unspent b)" for b
      using bspec [OF w(2), of "to_unspent b"] that split(3) us by auto
    ultimately show ?thesis using us(1,3) split(4) by blast
  qed
qed

section \<open>Witnesses\<close>

lemmas evaluate = send_def send_locked_def send_begin_def send_end_def send_end_locked_def committed_psbt_def build_psbt_def checked_address_def unspendable_outpoints_def execute_transfer_def contract_key_def contracts_or_def contract_or_def wallet_or_def read_json_def state_io_def effect_def query_def post_transfer_def pick_recipient_def genesis_of_def create_utxos_def sync_def split_request_def broadcast_first_def track_funding_def track_locked_utxo_def with_manager_def act_bind_def

lemma example_honest: "honest_builder example_tenv"
  by (auto simp: honest_builder_def example_tenv_def)

definition example_recipients :: "(string \<times> recipient list) list" where
  "example_recipients =
     [(''rgb:usdt'', [\<lparr>rc_recipient_id = ''bcrt1to'', rc_witness_amount = Some 1000, rc_assignment = Fungible 40,
                       rc_transport_endpoints = [''rpc://proxy:3000'']\<rparr>])]"

definition example_psbt :: psbt where
  "example_psbt = \<lparr>ps_inputs = [(''bb'', 1)],
     ps_outputs = [\<lparr>to_value = 20000, to_script = ''funding'', to_is_op_return = False\<rparr>,
                   \<lparr>to_value = 0, to_script = ''commitment'', to_is_op_return = True\<rparr>], ps_rest = ''psbt''\<rparr>"

lemma example_occupied: "example_outpoint ''aa:0'' = Ok (''aa'', 0)"
  by (simp add: example_outpoint_def parse_u32_def digit_value_def)

lemma example_occupied_outpoint: "occupied_outpoint example_tenv ''aa:0'' = Ok (Some (''aa'', 0))"
  by (simp add: occupied_outpoint_def parse_u32_def digit_value_def)

lemma example_send: "fst (send example_tenv example_recipients 1 example_wallet) = Ok ''f00d''"
  by (simp add: evaluate example_recipients_def example_occupied add_op_return_def first_plain_output_def)

theorem send_order_and_inputs_witness:
  "\<exists>tx vout source h t. send example_tenv example_recipients 1 example_wallet = (Ok ''f00d'', t) \<and>
     wcalls t = [Transfer ''rgb:usdt'' source (witness_id_of ''f00d'' vout) 40, Save_state, Broadcast tx,
                 Post_payload (to_http ''rpc://proxy:3000'') ''f00d'' None (Transfer_payload ''rgb:usdt'' h 40)] \<and>
     (''aa'', 0) \<notin> set (tx_inputs tx)"
proof -
  obtain t where run: "send example_tenv example_recipients 1 example_wallet = (Ok ''f00d'', t)"
    using example_send by (cases "send example_tenv example_recipients 1 example_wallet") auto
  obtain asset r n tx vout source h where res: "pick_recipient example_recipients = Ok (asset, r)" "rc_assignment r = Fungible n"
      "wcalls t = wcalls example_wallet @ [Transfer asset source (witness_id_of ''f00d'' vout) n, Save_state, Broadcast tx] @
         map (\<lambda>e. Post_payload (to_http e) ''f00d'' None (Transfer_payload asset h n)) (rc_transport_endpoints r)"
      "\<forall>occ a op. occupied_utxos example_tenv (wcalls example_wallet) = Ok occ \<longrightarrow> a \<in> set occ \<longrightarrow>
         parse_outpoint example_tenv a = Ok op \<longrightarrow> op \<notin> set (tx_inputs tx)"
    using send_order_and_inputs [OF run example_honest] by blast
  have "asset = ''rgb:usdt''" "n = 40" "rc_transport_endpoints r = [''rpc://proxy:3000'']"
    using res(1,2) by (auto simp: example_recipients_def pick_recipient_def)
  then show ?thesis
    using res(3,4) run example_occupied
    by (intro exI [of _ tx] exI [of _ vout] exI [of _ source] exI [of _ h]) (rule exI [of _ t], simp)
qed

lemma example_create: "fst (create_utxos example_tenv (Some 2) None 1 False example_wallet) = Ok 2"
  by (simp add: evaluate Let_def example_occupied_outpoint)

theorem created_utxos_spare_assets_witness:
  "\<exists>tx t. create_utxos example_tenv (Some 2) None 1 False example_wallet = (Ok 2, t) \<and>
     wcalls t = [Sync_wallet, Reveal_addresses 2, Esplora_broadcast esplora_url tx, Persist_wallet, Sync_wallet] \<and>
     (''aa'', 0) \<notin> set (tx_inputs tx)"
proof -
  obtain t where run: "create_utxos example_tenv (Some 2) None 1 False example_wallet = (Ok 2, t)"
    using example_create by (cases "create_utxos example_tenv (Some 2) None 1 False example_wallet") auto
  show ?thesis
    using created_utxos_spare_assets [OF run example_honest] run example_occupied_outpoint by (fastforce simp: Let_def)
qed

lemma example_funding: "funding_output (ps_outputs example_psbt) = Some 0"
  by (simp add: funding_output_def example_psbt_def)

lemma example_psbt: "psbt_from_str example_tenv ''psbt'' = Ok example_psbt"
  by (simp add: example_psbt_def)

lemma example_send_end: "fst (send_end example_tenv ''psbt'' example_wallet) = Ok ''f00d''"
  by (simp add: evaluate example_psbt example_funding io_check_def set_locked_def parsed_locked_def del: example_tenv_simps(25))

theorem funding_moves_asset_witness:
  "\<exists>t tx vout source. send_end example_tenv ''psbt'' example_wallet = (Ok ''f00d'', t) \<and>
     wcalls t = [Broadcast tx, Transfer ''rgb:usdt'' source (witness_id_of ''f00d'' vout) 40, Save_state] \<and>
     pending_transfer t = None"
proof -
  obtain t where run: "send_end example_tenv ''psbt'' example_wallet = (Ok ''f00d'', t)"
    using example_send_end by (cases "send_end example_tenv ''psbt'' example_wallet") auto
  have parsed: "parsed_locked example_wallet = Locked_object []" by (simp add: parsed_locked_def)
  show ?thesis using funding_moves_asset [OF run parsed] run by fastforce
qed

text \<open>The node where the transfer fails after the broadcast.\<close>

definition failing_tenv :: transfer_env where
  "failing_tenv = example_tenv\<lparr>do_call := (\<lambda>c cs. case c of
     Broadcast tx \<Rightarrow> if c \<in> set cs then Err ''txn-already-in-mempool'' else Ok ()
   | Transfer a b d e \<Rightarrow> Err ''timeout'' | _ \<Rightarrow> Ok ())\<rparr>"

lemma failing_run:
  "fst (send_end failing_tenv ''psbt'' example_wallet) = Err (other ''F1r3node transfer failed: timeout'')"
  by (simp add: failing_tenv_def evaluate example_psbt example_funding del: example_tenv_simps(25))

lemma mempool_known: "already_known ''txn-already-in-mempool''"
  by code_simp


lemma example_claimable: "claim_sized (to_unspent (example_utxos ! 1))" "\<not> claim_sized (to_unspent (example_utxos ! 0))"
  by (simp_all add: example_utxos_def claim_sized_def to_unspent_def)

theorem claim_utxo_chosen_witness: "get_claim_utxo example_tenv example_wallet = (Ok ''bb:1'', example_wallet)"
proof -
  have "utxo_key ''bb'' 1 = ''bb:1''" by code_simp
  then show ?thesis
    using claim_utxo_chosen [of example_wallet example_tenv example_utxos] example_claimable
    by (auto simp: example_utxos_def Cons_eq_append_conv)
qed

end
