(* ===== verification/SettlementProps.thy ===== *)
theory SettlementProps
  imports TransferProps
begin

text \<open>
  Properties of the settlement of closed channels: which keys and witnesses are settled to, claims are
  recorded once, and consignments: their path is read back, and what a failed post leaves behind.
\<close>

section \<open>Settlement\<close>

lemma threaded_Ok [simp]: "threaded m s = (Ok a, t) \<longleftrightarrow> m s = (Ok a, t)"
  by (auto simp: threaded_def split: prod.splits outcome.splits)

lemma wcalls_inject [simp]: "s\<lparr>wcalls := a\<rparr> = s\<lparr>wcalls := b\<rparr> \<longleftrightarrow> a = b"
  by (cases s) simp

lemma contract_or_same: "contract_or env typed c s = (Ok u, t) \<longleftrightarrow> has_contract env (wcalls s) typed \<and> t = s"
  by (auto simp: contract_or_def)

lemma settle_Ok:
  assumes "settle_channel_close env funding h c cid s = (Ok x, t)"
  obtains u hk ck where "settlement_pubkey env cid s = (Ok ck, u)" "master_pubkey env = Ok hk"
    "t = u\<lparr>wcalls := wcalls u @ [Settle_channel cid (''witness:'' @ funding)
        (settled_witness env (''witness:'' @ funding) ''holder'', h, hk)
        (settled_witness env (''witness:'' @ funding) ''counterparty'', c, ck)]\<rparr>"
    "x = settle_state_hash env (wcalls t)"
  using assms
  by (auto simp: settle_channel_close_def settle_locked_def settle_call_def Let_def act_bind_Ok contract_or_same
      dest!: contract_key_Ok intro: that)

lemma cached_pubkey_Ok:
  assumes "state_file s = Some (Some j)" and "\<And>op cs. io_error env op cs = None"
  shows "cached_pubkey env cid s =
           (Ok (case map_of (channel_counterparties j) cid of Some (Some k) \<Rightarrow> Some k | _ \<Rightarrow> None), s)"
  using assms by (simp add: cached_pubkey_def act_bind_def state_io_def)

lemma settlement_pubkey_hit:
  assumes "state_file s = Some (Some j)" and "\<And>op cs. io_error env op cs = None"
    and "map_of (channel_counterparties j) cid = Some (Some k)"
  shows "settlement_pubkey env cid s = (Ok k, s)"
  using cached_pubkey_Ok [OF assms(1,2), of cid] assms(3) by (simp add: settlement_pubkey_def act_bind_def)

lemma settlement_pubkey_caches:
  assumes "settlement_pubkey env cid s = (Ok k, u)" and "state_file s = Some (Some j)"
    and io: "\<And>op cs. io_error env op cs = None"
  shows "\<exists>j'. state_file u = Some (Some j') \<and> map_of (channel_counterparties j') cid = Some (Some k)"
proof (cases "map_of (channel_counterparties j) cid")
  case (Some v)
  then show ?thesis
  proof (cases v)
    case (Some w)
    then show ?thesis
      using settlement_pubkey_hit [OF assms(2) io] \<open>map_of _ _ = Some v\<close> assms(1,2) by auto
  qed (use assms cached_pubkey_Ok [OF assms(2) io, of cid] \<open>map_of _ _ = Some v\<close> in
      \<open>auto simp: settlement_pubkey_def act_bind_Ok fetch_pubkey_def cache_pubkey_quietly_def add_counterparty_def
        update_conv' Let_def split: option.splits\<close>)
qed (use assms cached_pubkey_Ok [OF assms(2) io, of cid] in
    \<open>auto simp: settlement_pubkey_def act_bind_Ok fetch_pubkey_def cache_pubkey_quietly_def add_counterparty_def
      update_conv' Let_def split: option.splits\<close>)

text \<open>
  C23: The key of the counterparty is kept per contract: two channels of one contract are settled to the
  same key of the counterparty, whoever the peers of the channels are.\<close>
theorem one_key_per_contract:
  assumes "settle_channel_close env funding1 h1 c1 cid s = (Ok x, t)"
    and "settle_channel_close env funding2 h2 c2 cid t = (Ok y, u)"
    and "state_file s = Some (Some j)" and io: "\<And>op cs. io_error env op cs = None"
  shows "\<exists>key f1 a1 w1 f2 a2 w2.
           last (wcalls t) = Settle_channel cid f1 a1 (w1, c1, key) \<and>
           last (wcalls u) = Settle_channel cid f2 a2 (w2, c2, key)"
proof -
  obtain v hk k where first: "settlement_pubkey env cid s = (Ok k, v)"
    and t: "t = v\<lparr>wcalls := wcalls v @ [Settle_channel cid (''witness:'' @ funding1)
        (settled_witness env (''witness:'' @ funding1) ''holder'', h1, hk)
        (settled_witness env (''witness:'' @ funding1) ''counterparty'', c1, k)]\<rparr>"
    using assms(1) by (rule settle_Ok)
  obtain w hk2 k2 where second: "settlement_pubkey env cid t = (Ok k2, w)"
    and u: "u = w\<lparr>wcalls := wcalls w @ [Settle_channel cid (''witness:'' @ funding2)
        (settled_witness env (''witness:'' @ funding2) ''holder'', h2, hk2)
        (settled_witness env (''witness:'' @ funding2) ''counterparty'', c2, k2)]\<rparr>"
    using assms(2) by (rule settle_Ok)
  obtain j' where "state_file v = Some (Some j')" "map_of (channel_counterparties j') cid = Some (Some k)"
    using settlement_pubkey_caches [OF first assms(3) io] by blast
  then have "settlement_pubkey env cid t = (Ok k, t)" using t by (intro settlement_pubkey_hit io) simp_all
  then have "k2 = k" using second by simp
  then show ?thesis using t u by simp
qed

section \<open>Claims\<close>

text \<open>What the claim storage documents: a claim that was inserted is listed from then on.\<close>

definition keeps_claims :: "transfer_env \<Rightarrow> bool" where
  "keeps_claims env \<longleftrightarrow>
     (\<forall>cid w txid vout cs ds. do_call env (Insert_claim cid w txid vout) cs = Ok () \<longrightarrow>
        w \<in> set (all_claims env (cs @ Insert_claim cid w txid vout # ds) cid)) \<and>
     (\<forall>cid w cs ds. w \<in> set (all_claims env cs cid) \<longrightarrow> w \<in> set (all_claims env (cs @ ds) cid))"

lemma claim_Ok:
  assumes "claim env w d cid s = (Ok (), t)"
  obtains txid vout before where "\<not> wm_poisoned t" "contracts_loaded env" "claim_destination d = Ok (txid, vout)"
    "before = wcalls s @ [Claim_call cid w d]"
    "w \<in> set (all_claims env before cid) \<and> wcalls t = before @ [Save_state] \<or>
     w \<notin> set (all_claims env before cid) \<and> do_call env (Insert_claim cid w txid vout) before = Ok () \<and>
       (\<exists>n. wcalls t = before @ [Insert_claim cid w txid vout, Complete_claim n, Save_state])"
  using assms
  by (auto simp: claim_def claim_locked_def act_bind_Ok contract_or_same record_claim_def split: if_splits intro: that)

text \<open>
  C24: A witness that was claimed is recorded as claimed, and claiming it again, to whatever output, calls
  the contract but records nothing more.\<close>
theorem claim_recorded_once:
  assumes "keeps_claims env" and "claim env w d cid s = (Ok (), t)" and "claim env w d' cid t = (Ok (), u)"
  shows "is_witness_claimed env w cid t = (Ok True, t) \<and> wcalls u = wcalls t @ [Claim_call cid w d', Save_state]"
proof -
  obtain txid vout before where one: "\<not> wm_poisoned t" "contracts_loaded env" "before = wcalls s @ [Claim_call cid w d]"
    "w \<in> set (all_claims env before cid) \<and> wcalls t = before @ [Save_state] \<or>
     w \<notin> set (all_claims env before cid) \<and> do_call env (Insert_claim cid w txid vout) before = Ok () \<and>
       (\<exists>n. wcalls t = before @ [Insert_claim cid w txid vout, Complete_claim n, Save_state])"
    using assms(2) by (rule claim_Ok)
  have claimed: "w \<in> set (all_claims env (wcalls t @ ds) cid)" for ds
    using one(4) assms(1) unfolding keeps_claims_def by (elim disjE conjE exE) simp_all
  obtain txid' vout' before' where two: "before' = wcalls t @ [Claim_call cid w d']"
    "w \<in> set (all_claims env before' cid) \<and> wcalls u = before' @ [Save_state] \<or>
     w \<notin> set (all_claims env before' cid) \<and> do_call env (Insert_claim cid w txid' vout') before' = Ok () \<and>
       (\<exists>n. wcalls u = before' @ [Insert_claim cid w txid' vout', Complete_claim n, Save_state])"
    using assms(3) by (rule claim_Ok)
  have "is_witness_claimed env w cid t = (Ok True, t)"
    using claimed [of "[]"] one by (auto simp: is_witness_claimed_def with_manager_def contracts_or_def)
  then show ?thesis using two claimed by auto
qed

section \<open>Consignments\<close>

lemma split_on_cons: "split_on c (a @ c # b) = split_on c a @ split_on c b"
  by (induction a) (auto split: list.splits)

lemma file_name_of_path:
  assumes "CHR ''/'' \<notin> set f" and "f \<noteq> []" and "f \<noteq> ''.''" and "f \<noteq> ''..''"
  shows "path_file_name (a @ CHR ''/'' # f) = Some f"
  using assms by (simp add: path_file_name_def split_on_cons)

lemma strip_end_append: "strip_end (f @ p) p = f"
  by (simp add: strip_end_def)

lemma before_last_append: "c \<notin> set b \<Longrightarrow> before_last c (a @ c # b) = Some a"
proof -
  assume "c \<notin> set b"
  then have "dropWhile (\<lambda>x. x \<noteq> c) (rev b @ c # rev a) = c # rev a"
    by (subst dropWhile_append2) auto
  then show ?thesis by (simp add: before_last_def)
qed

text \<open>
  The contract is read back from the path of its consignment, whatever underscores it contains.\<close>
theorem consignment_path_roundtrip:
  assumes "CHR ''/'' \<notin> set asset" and "CHR ''/'' \<notin> set txid" and "CHR ''_'' \<notin> set txid"
  shows "consignment_asset (get_send_consignment_path data_dir asset txid) = Ok asset"
proof -
  have path: "get_send_consignment_path data_dir asset txid =
      (data_dir @ ''/consignments'') @ CHR ''/'' # ((asset @ CHR ''_'' # txid) @ ''.consignment'')"
    by (simp add: get_send_consignment_path_def)
  have "path_file_name (get_send_consignment_path data_dir asset txid) = Some ((asset @ CHR ''_'' # txid) @ ''.consignment'')"
    unfolding path using assms by (intro file_name_of_path) (auto simp: Cons_eq_append_conv append_eq_Cons_conv)
  then show ?thesis
    using assms(3) by (simp add: consignment_asset_def strip_end_append [of "asset @ CHR ''_'' # txid", simplified] before_last_append)
qed

text \<open>
  A post of a consignment that does not reach the proxy cannot be repeated: the amount of the
  channel was removed when it was read.\<close>
theorem failed_post_cannot_be_repeated:
  assumes "consignment_asset path = Ok asset"
    and "\<And>u. \<not> wm_poisoned u \<Longrightarrow> consignment_data env asset u = (Ok (h, info, meta, key), u)"
    and "\<not> wm_poisoned s" and io: "\<And>op cs. io_error env op cs = None"
    and "map_of (temp_infos s) txid = Some (Some amount)"
    and "\<And>u p cs. http_post env u p cs = Err msg"
  shows "\<exists>t. post_consignment env url rid path txid s = (Err (other (''Failed to post to proxy: '' @ msg)), t) \<and>
             post_consignment env url rid path txid t =
               (Err (other (''Cannot find temporary RGB info file for txid: '' @ txid)), t)"
proof -
  obtain n schema where amount: "amount = (n, schema)" by (cases amount)
  let ?u = "s\<lparr>temp_infos := AList.delete txid (temp_infos s)\<rparr>"
  let ?t = "?u\<lparr>wcalls := wcalls s @ [Post_payload (to_http url) rid (Some txid)
              (Consignment_payload asset h n schema info meta key)]\<rparr>"
  have taken: "take_temp_info env txid s = (Ok (n, schema), ?u)"
    using assms(5) io by (simp add: take_temp_info_def act_bind_def state_io_def amount)
  have first: "post_consignment env url rid path txid s = (Err (other (''Failed to post to proxy: '' @ msg)), ?t)"
    using assms(1,3,6) assms(2) [of s] io taken
    by (simp add: post_consignment_def act_bind_def state_io_def post_payload_def)
  have "take_temp_info env txid ?t = (Err (other (''Cannot find temporary RGB info file for txid: '' @ txid)), ?t)"
    by (simp add: take_temp_info_def delete_conv')
  then have "post_consignment env url rid path txid ?t =
      (Err (other (''Cannot find temporary RGB info file for txid: '' @ txid)), ?t)"
    using assms(1,3) assms(2) [of ?t] by (simp add: post_consignment_def act_bind_def)
  then show ?thesis using first by blast
qed

section \<open>Witnesses\<close>

lemma example_settle: "fst (settle_channel_close example_tenv u h c ''rgb:usdt'' example_wallet) = Ok [9]"
  by (simp add: settle_channel_close_def threaded_def settle_locked_def settle_call_def settlement_pubkey_def cached_pubkey_def fetch_pubkey_def
      key_of_answer_def cache_pubkey_quietly_def evaluate Let_def)

definition example_cached :: transfer_wallet where
  "example_cached = example_wallet\<lparr>state_file := Some (Some
     \<lparr>genesis_utxos = [(''rgb:usdt'', Some ''aa'', Some 0)], channel_counterparties = [(''rgb:usdt'', Some ''02peer'')]\<rparr>)\<rparr>"

lemma example_cached_settle:
  "\<exists>t. settle_channel_close example_tenv u h c ''rgb:usdt'' (example_cached\<lparr>wcalls := cs\<rparr>) = (Ok [9], example_cached\<lparr>wcalls := t\<rparr>)"
  by (simp add: settle_channel_close_def threaded_def settle_locked_def settle_call_def settlement_pubkey_def cached_pubkey_def evaluate Let_def
      example_cached_def example_wallet_def)

theorem one_key_per_contract_witness:
  "\<exists>t u key f1 a1 w1 f2 a2 w2.
     settle_channel_close example_tenv ''f00d:0'' 30 10 ''rgb:usdt'' example_cached = (Ok [9], t) \<and>
     settle_channel_close example_tenv ''beef:1'' 5 7 ''rgb:usdt'' t = (Ok [9], u) \<and>
     last (wcalls t) = Settle_channel ''rgb:usdt'' f1 a1 (w1, 10, key) \<and>
     last (wcalls u) = Settle_channel ''rgb:usdt'' f2 a2 (w2, 7, key)"
proof -
  have same: "example_cached\<lparr>wcalls := []\<rparr> = example_cached" by (simp add: example_cached_def example_wallet_def)
  obtain cs where one: "settle_channel_close example_tenv ''f00d:0'' 30 10 ''rgb:usdt'' example_cached = (Ok [9], example_cached\<lparr>wcalls := cs\<rparr>)"
    using example_cached_settle [of "''f00d:0''" 30 10 "[]"] same by auto
  obtain ds where two: "settle_channel_close example_tenv ''beef:1'' 5 7 ''rgb:usdt'' (example_cached\<lparr>wcalls := cs\<rparr>) =
      (Ok [9], example_cached\<lparr>wcalls := ds\<rparr>)"
    using example_cached_settle by blast
  have st: "state_file example_cached = Some (Some
     \<lparr>genesis_utxos = [(''rgb:usdt'', Some ''aa'', Some 0)], channel_counterparties = [(''rgb:usdt'', Some ''02peer'')]\<rparr>)"
    by (simp add: example_cached_def)
  show ?thesis using one_key_per_contract [OF one two st example_tenv_simps(19)] one two by blast
qed

lemma example_keeps_claims: "keeps_claims example_tenv"
  by (auto simp: keeps_claims_def map_filter_def)

lemma example_destination: "claim_destination ''bb:1'' = Ok (''bb'', 1)"
  by (simp add: claim_destination_def parse_u32_def digit_value_def)

lemma example_claim: "fst (claim example_tenv w ''bb:1'' ''rgb:usdt'' s) = Ok ()" if "\<not> wm_poisoned s"
  using that by (simp add: claim_def threaded_def claim_locked_def record_claim_def evaluate example_destination)

theorem claim_recorded_once_witness:
  "\<exists>t u. claim example_tenv ''witness:ab:0'' ''bb:1'' ''rgb:usdt'' example_wallet = (Ok (), t) \<and>
     claim example_tenv ''witness:ab:0'' ''bb:1'' ''rgb:usdt'' t = (Ok (), u) \<and>
     is_witness_claimed example_tenv ''witness:ab:0'' ''rgb:usdt'' t = (Ok True, t)"
proof -
  obtain t where one: "claim example_tenv ''witness:ab:0'' ''bb:1'' ''rgb:usdt'' example_wallet = (Ok (), t)"
    using example_claim [of example_wallet "''witness:ab:0''"]
    by (cases "claim example_tenv ''witness:ab:0'' ''bb:1'' ''rgb:usdt'' example_wallet") auto
  then have "\<not> wm_poisoned t" by (rule claim_Ok)
  then obtain u where two: "claim example_tenv ''witness:ab:0'' ''bb:1'' ''rgb:usdt'' t = (Ok (), u)"
    using example_claim [of t "''witness:ab:0''"]
    by (cases "claim example_tenv ''witness:ab:0'' ''bb:1'' ''rgb:usdt'' t") auto
  show ?thesis using claim_recorded_once [OF example_keeps_claims one two] one two by blast
qed

theorem consignment_path_roundtrip_witness:
  "consignment_asset (get_send_consignment_path ''/data'' ''rgb:my_coin'' ''f00d'') = Ok ''rgb:my_coin''"
  by (rule consignment_path_roundtrip) simp_all

definition offline_tenv :: transfer_env where
  "offline_tenv = example_tenv\<lparr>http_post := (\<lambda>u p cs. Err ''connection refused'')\<rparr>"

lemma offline_data: "\<not> wm_poisoned u \<Longrightarrow> consignment_data offline_tenv asset u =
    (Ok ([1], \<lparr>ai_contract_id = asset, ai_ticker = ''USDT'', ai_name = ''Tether'', ai_precision = 0, ai_supply = 1000\<rparr>,
         \<lparr>cm_registry_uri = ''rho:id'', cm_rholang_source = ''new'', cm_methods = [''transfer'']\<rparr>, ''02aa''), u)"
  by (simp add: consignment_data_def offline_tenv_def evaluate)

theorem failed_post_cannot_be_repeated_witness:
  "\<exists>t. post_consignment offline_tenv ''rpc://proxy'' ''bcrt1to'' ''/c/rgb:usdt_f00d.consignment'' ''f00d'' example_wallet =
        (Err (other (''Failed to post to proxy: '' @ ''connection refused'')), t) \<and>
      post_consignment offline_tenv ''rpc://proxy'' ''bcrt1to'' ''/c/rgb:usdt_f00d.consignment'' ''f00d'' t =
        (Err (other (''Cannot find temporary RGB info file for txid: '' @ ''f00d'')), t)"
proof -
  have path: "consignment_asset ''/c/rgb:usdt_f00d.consignment'' = Ok ''rgb:usdt''" by code_simp
  show ?thesis
    by (rule failed_post_cannot_be_repeated [OF path offline_data]) (simp_all add: offline_tenv_def example_wallet_def)
qed

end
