(* ===== verification/ChannelClose.thy ===== *)
theory ChannelClose
  imports EventProps SettlementProps
begin

text \<open>
  The close of a coloured channel across components: the settlement of the wallet adapter and the claim
  that the event handler of \<open>src/src/ldk.rs\<close> makes afterwards.
\<close>

lemma claim_not_Panic: "fst (claim env w d cid s) \<noteq> Panic"
  by (auto simp: claim_def threaded_def split: prod.splits outcome.splits)

lemma map_err_Panic [simp]: "map_err f r = Panic \<longleftrightarrow> r = Panic"
  by (cases r) auto

lemma settled_witness_same:
  "settled_witness env (''witness:'' @ utxo_key txid index) role = settlement_witness_id (sha_hex env) txid index role"
  by (simp add: settled_witness_def settlement_witness_id_def funding_witness_id_def utxo_key_def)

text \<open>
  C22: Both halves of a close name the same witnesses: what the adapter settles a funding output to, for
  the holder and for the counterparty, is what the event handler claims from, each in its role.\<close>
theorem closing_claims_settled_witness:
  assumes "settle_channel_close tenv (utxo_key txid index) h c cid s = (Ok x, t)"
    and "sha256_hex eenv = sha_hex tenv"
    and "read_channel_info eenv chan = Some info" and "local_rgb_amount info \<noteq> 0" and "rgb_contract_id info = cid"
    and "get_claim_utxo_ans eenv = Ok utxo"
    and "\<And>w. claim_ans eenv w utxo cid = map_err describe (fst (claim tenv w utxo cid t))"
  shows "\<exists>holder counterparty hk ck.
           last (wcalls t) = Settle_channel cid (funding_witness_id txid index) (holder, h, hk) (counterparty, c, ck) \<and>
           Rgb_claim (if event_env.has_transaction eenv txid then holder else counterparty) utxo cid
             \<in> set (calls (snd (handle_rgb_channel_close eenv chan txid index n)))"
proof -
  obtain u hk ck where t: "t = u\<lparr>wcalls := wcalls u @ [Settle_channel cid (''witness:'' @ utxo_key txid index)
        (settled_witness tenv (''witness:'' @ utxo_key txid index) ''holder'', h, hk)
        (settled_witness tenv (''witness:'' @ utxo_key txid index) ''counterparty'', c, ck)]\<rparr>"
    using assms(1) by (rule settle_Ok)
  have no_panic: "claim_ans eenv w utxo cid \<noteq> Panic" for w
    using assms(7) claim_not_Panic by simp
  let ?w = "settlement_witness_id (sha_hex tenv) txid index
              (if event_env.has_transaction eenv txid then ''holder'' else ''counterparty'')"
  have "Rgb_claim ?w utxo cid \<in> set (calls (snd (handle_rgb_channel_close eenv chan txid index n)))"
    using assms(2-6) no_panic [of ?w]
    by (cases "claim_ans eenv ?w utxo cid") (simp_all add: handle_rgb_channel_close_def remove_file_if_exists_def Let_def)
  moreover have "funding_witness_id txid index = ''witness:'' @ utxo_key txid index"
    by (simp add: funding_witness_id_def utxo_key_def)
  ultimately show ?thesis
    unfolding t settled_witness_same
    by (intro exI [of _ "settlement_witness_id (sha_hex tenv) txid index ''holder''"]
          exI [of _ "settlement_witness_id (sha_hex tenv) txid index ''counterparty''"] exI [of _ hk] exI [of _ ck])
       (auto split: if_splits)
qed

definition closing_env :: event_env where
  "closing_env = example_event_env\<lparr>
     read_channel_info := (\<lambda>c. Some \<lparr>rgb_contract_id = ''rgb:usdt'', local_rgb_amount = 30, remote_rgb_amount = 10\<rparr>),
     get_claim_utxo_ans := Ok ''bb:1''\<rparr>"

theorem closing_claims_settled_witness_witness:
  "\<exists>t holder counterparty hk ck.
     settle_channel_close example_tenv (utxo_key ''f00d'' 0) 30 10 ''rgb:usdt'' example_cached = (Ok [9], t) \<and>
     last (wcalls t) = Settle_channel ''rgb:usdt'' (funding_witness_id ''f00d'' 0) (holder, 30, hk) (counterparty, 10, ck) \<and>
     Rgb_claim holder ''bb:1'' ''rgb:usdt'' \<in> set (calls (snd (handle_rgb_channel_close closing_env [1] ''f00d'' 0 example_node)))"
proof -
  have same: "example_cached\<lparr>wcalls := []\<rparr> = example_cached" by (simp add: example_cached_def example_wallet_def)
  obtain cs where run: "settle_channel_close example_tenv (utxo_key ''f00d'' 0) 30 10 ''rgb:usdt'' example_cached =
      (Ok [9], example_cached\<lparr>wcalls := cs\<rparr>)"
    using example_cached_settle [of "utxo_key ''f00d'' 0" 30 10 "[]"] same by auto
  let ?t = "example_cached\<lparr>wcalls := cs\<rparr>"
  have ans: "claim_ans closing_env w ''bb:1'' ''rgb:usdt'' = map_err (\<lambda>_. []) (fst (claim example_tenv w ''bb:1'' ''rgb:usdt'' ?t))" for w
    using example_claim [of ?t w] by (simp add: closing_env_def example_cached_def)
  have sha: "sha256_hex closing_env = sha_hex example_tenv"
    by (rule ext) (simp add: closing_env_def)
  show ?thesis
    using closing_claims_settled_witness [where eenv = closing_env and chan = "[1]" and n = example_node
        and info = "\<lparr>rgb_contract_id = ''rgb:usdt'', local_rgb_amount = 30, remote_rgb_amount = 10\<rparr>", OF run sha _ _ _ _ ans] run
    by (fastforce simp: closing_env_def)
qed

end
