(* ===== verification/PayRoutes.thy ===== *)
theory PayRoutes
  imports SwapRoutes AssetData
begin

text \<open>
  The payment handlers of \<open>src/src/routes.rs\<close>: \<open>ln_invoice\<close>, \<open>send_payment\<close> with BOLT11 invoices and
  BOLT12 offers, \<open>keysend\<close>, \<open>invoice_status\<close>, \<open>list_payments\<close> and \<open>get_payment\<close>, each after its check that
  the node is unlocked (\<open>Lifecycle\<close>).

  Invoices and offers are parsed by foreign code; a parsed one is a record of what the handlers read of
  it.  The time is read once per handler.
\<close>

section \<open>Invoices, offers and the environment\<close>

record bolt11 =
  bi_payment_hash :: payment_hash
  bi_payment_secret :: bytes
  bi_amount_msat :: "u64 option"
  bi_rgb_contract :: "contract_id option"
  bi_rgb_amount :: "u64 option"
  bi_payee :: pubkey
  bi_expired :: bool

datatype offer_amount = Bitcoin_amount u64 | Other_currency string

record bolt12 =
  of_amount :: "offer_amount option"
  of_signing_pubkey :: "pubkey option"
  of_id :: bytes

datatype currency = Bitcoin_currency | Testnet_currency | Regtest_currency | Signet_currency

record pay_env =
  pe_network :: bitcoin_network
  pe_now :: u64
  pe_io :: bool
  pe_contract :: "string \<Rightarrow> contract_id option"
  pe_pubkey :: "bytes \<Rightarrow> pubkey option"
  pe_node_id :: pubkey
  parse_offer :: "string \<Rightarrow> bolt12 option"
  parse_bolt11 :: "string \<Rightarrow> (string, bolt11) outcome"
  show_offer_amount :: "offer_amount option \<Rightarrow> string"
  random_bytes :: bytes
  sha256 :: "bytes \<Rightarrow> bytes"
  parameters_ok :: "bolt11 \<Rightarrow> u64 option \<Rightarrow> bool"
  pay_offer_ok :: "bytes \<Rightarrow> bool"
  send_payment_ok :: "payment_hash \<Rightarrow> bool"
  keysend_ok :: "bytes \<Rightarrow> bool"
  create_invoice :: "currency \<Rightarrow> u64 option \<Rightarrow> nat \<Rightarrow> contract_id option \<Rightarrow> u64 option \<Rightarrow> (string, bolt11) outcome"
  print_invoice :: "bolt11 \<Rightarrow> string"
  payment_file :: "payment_hash \<Rightarrow> bool \<Rightarrow> (contract_id \<times> u64) option"

abbreviation invoice_min_msat :: u64 where
  "invoice_min_msat \<equiv> htlc_min_msat"

fun show_htlc_status :: "HTLCStatus \<Rightarrow> string" where
  "show_htlc_status HTLCPending = ''Pending''"
| "show_htlc_status HTLCSucceeded = ''Succeeded''"
| "show_htlc_status HTLCFailed = ''Failed''"

definition new_payment :: "pay_env \<Rightarrow> bytes option \<Rightarrow> u64 option \<Rightarrow> pubkey \<Rightarrow> PaymentInfo" where
  "new_payment env sec amount payee =
     \<lparr>preimage = None, secret = sec, payment_status = HTLCPending, amt_msat = amount,
      created_at = pe_now env, updated_at = pe_now env, payee_pubkey = payee\<rparr>"

definition record_outbound :: "pay_env \<Rightarrow> bytes \<Rightarrow> PaymentInfo \<Rightarrow> unit handler" where
  "record_outbound env payment_id info = add_outbound_payment show_htlc_status (pe_io env) payment_id info"

definition mark_failed :: "pay_env \<Rightarrow> bytes \<Rightarrow> unit handler" where
  "mark_failed env payment_id = update_outbound_payment_status (pe_io env) (pe_now env) payment_id HTLCFailed"

definition write_payment_info :: "payment_hash \<Rightarrow> (contract_id \<times> u64) option \<Rightarrow> unit handler" where
  "write_payment_info h rgb_payment =
     (case rgb_payment of
        Some (c, n) \<Rightarrow> call (Write_payment_info h c n False False) (act_return ())
      | None \<Rightarrow> act_return ())"

section \<open>Creating an invoice\<close>

definition parse_contract :: "pay_env \<Rightarrow> string \<Rightarrow> (APIError, contract_id) outcome" where
  "parse_contract env asset_id = ok_or (InvalidAssetID asset_id) (pe_contract env asset_id)"

definition currency_of :: "bitcoin_network \<Rightarrow> currency" where
  "currency_of n =
     (case n of Mainnet \<Rightarrow> Bitcoin_currency | Testnet \<Rightarrow> Testnet_currency | Testnet4 \<Rightarrow> Testnet_currency
      | Regtest \<Rightarrow> Regtest_currency | Signet \<Rightarrow> Signet_currency)"

definition ln_invoice ::
  "pay_env \<Rightarrow> u64 option \<Rightarrow> nat \<Rightarrow> string option \<Rightarrow> u64 option \<Rightarrow> string handler" where
  "ln_invoice env amount expiry_sec asset_id asset_amount =
     act_bind (act_lift (case asset_id of
                 Some a \<Rightarrow> and_then (parse_contract env a) (\<lambda>c. Ok (Some c)) | None \<Rightarrow> Ok None)) (\<lambda>contract.
     act_bind (act_lift (guard_or (\<not> (contract \<noteq> None \<and> (case amount of Some n \<Rightarrow> n | None \<Rightarrow> 0) < invoice_min_msat))
                 (InvalidAmount ''amt_msat cannot be less than 3000000 when transferring an RGB asset''))) (\<lambda>_.
     act_bind (act_lift (map_err FailedInvoiceCreation
       (create_invoice env (currency_of (pe_network env)) amount expiry_sec contract asset_amount))) (\<lambda>invoice.
     act_bind (add_inbound_payment (pe_io env) (bi_payment_hash invoice)
                 (new_payment env (Some (bi_payment_secret invoice)) amount (pe_node_id env))) (\<lambda>_.
       act_return (print_invoice env invoice)))))"

section \<open>Sending a payment\<close>

record send_response =
  sr_payment_id :: string
  sr_payment_hash :: "string option"
  sr_payment_secret :: "string option"
  sr_status :: HTLCStatus

definition send_answer :: "bytes \<Rightarrow> bytes option \<Rightarrow> bytes option \<Rightarrow> HTLCStatus \<Rightarrow> send_response" where
  "send_answer payment_id h sec st =
     \<lparr>sr_payment_id = hex_str payment_id, sr_payment_hash = map_option hex_str h,
      sr_payment_secret = map_option hex_str sec, sr_status = st\<rparr>"

definition offer_msat :: "pay_env \<Rightarrow> bolt12 \<Rightarrow> u64 option \<Rightarrow> (APIError, u64) outcome" where
  "offer_msat env offer amount =
     and_then (case (of_amount offer, amount) of
         (Some (Bitcoin_amount n), _) \<Rightarrow> Ok n
       | (_, Some n) \<Rightarrow> Ok n
       | (a, None) \<Rightarrow> Err (InvalidAmount
           (''cannot process non-Bitcoin-denominated offer value '' @ show_offer_amount env a))) (\<lambda>n.
       if amount \<noteq> None \<and> amount \<noteq> Some n
       then Err (InvalidAmount (''amount didn'' @ [CHR 0x27] @ ''t match offer of '' @ show_u64 n @ ''msat''))
       else Ok n)"

definition send_offer :: "pay_env \<Rightarrow> bolt12 \<Rightarrow> u64 option \<Rightarrow> send_response handler" where
  "send_offer env offer amount =
     (let payment_id = random_bytes env
      in act_bind (act_lift (offer_msat env offer amount)) (\<lambda>n.
         act_bind (act_lift (ok_or (InvalidInvoice ''missing signing pubkey'') (of_signing_pubkey offer))) (\<lambda>payee.
         act_bind (record_outbound env payment_id (new_payment env None (Some n) payee)) (\<lambda>_.
         act_bind (call (Pay_offer (of_id offer) n) (act_return ())) (\<lambda>_.
           if pay_offer_ok env (of_id offer) then act_return (send_answer payment_id None None HTLCPending)
           else act_bind (mark_failed env payment_id) (\<lambda>_.
                act_bind (mark_failed env payment_id) (\<lambda>_.
                  act_return (send_answer payment_id None None HTLCFailed))))))))"

text \<open>The amount to pay, and whether LDK is asked with it.\<close>

definition zero_amount :: "bolt11 \<Rightarrow> bool" where
  "zero_amount invoice \<longleftrightarrow> bi_amount_msat invoice = None \<or> bi_amount_msat invoice = Some 0"

definition invoice_msat :: "bolt11 \<Rightarrow> u64 option \<Rightarrow> (APIError, u64 option \<times> u64) outcome" where
  "invoice_msat invoice amount =
     (if zero_amount invoice then
        (case amount of
           Some n \<Rightarrow> Ok (Some n, n)
         | None \<Rightarrow> Err (InvalidAmount ''need an amount for the given 0-value invoice''))
      else if amount \<noteq> None \<and> bi_amount_msat invoice \<noteq> amount
      then Err (InvalidAmount (''amount didn'' @ [CHR 0x27] @ ''t match invoice value of '' @
                               show_u64 (the (bi_amount_msat invoice)) @ ''msat''))
      else Ok (None, the (bi_amount_msat invoice)))"

definition invoice_rgb_payment :: "bolt11 \<Rightarrow> u64 \<Rightarrow> (APIError, (contract_id \<times> u64) option) outcome" where
  "invoice_rgb_payment invoice n =
     (case (bi_rgb_contract invoice, bi_rgb_amount invoice) of
        (Some c, Some a) \<Rightarrow>
          if n < invoice_min_msat
          then Err (InvalidAmount ''msat amount in invoice sending an RGB asset cannot be less than 3000000'')
          else Ok (Some (c, a))
      | (None, None) \<Rightarrow> Ok None
      | (Some _, None) \<Rightarrow> Err (InvalidInvoice ''invoice has an RGB contract ID but not an RGB amount'')
      | (None, Some _) \<Rightarrow> Err (InvalidInvoice ''invoice has an RGB amount but not an RGB contract ID''))"

definition send_invoice :: "pay_env \<Rightarrow> bolt11 \<Rightarrow> u64 option \<Rightarrow> send_response handler" where
  "send_invoice env invoice amount =
     (let payment_id = bi_payment_hash invoice; sec = Some (bi_payment_secret invoice)
      in act_bind (act_lift (invoice_msat invoice amount)) (\<lambda>(asked, n).
         act_bind (act_lift (guard_or (parameters_ok env invoice asked) (InvalidInvoice ''failed to parse invoice: ()''))) (\<lambda>_.
         act_bind (act_lift (invoice_rgb_payment invoice n)) (\<lambda>rgb_payment.
         act_bind (record_outbound env payment_id (new_payment env sec (bi_amount_msat invoice) (bi_payee invoice))) (\<lambda>_.
         act_bind (write_payment_info (bi_payment_hash invoice) rgb_payment) (\<lambda>_.
         act_bind (call (Pay_invoice (bi_payment_hash invoice) n) (act_return ())) (\<lambda>_.
         act_bind (if send_payment_ok env (bi_payment_hash invoice)
                   then act_bind (act_lift (unwrap (bi_amount_msat invoice))) (\<lambda>_. act_return HTLCPending)
                   else act_bind (mark_failed env payment_id) (\<lambda>_. act_return HTLCFailed)) (\<lambda>st.
           act_return (send_answer payment_id (Some (bi_payment_hash invoice)) sec st)))))))))"

definition send_payment :: "pay_env \<Rightarrow> string \<Rightarrow> u64 option \<Rightarrow> send_response handler" where
  "send_payment env invoice_text amount =
     (case parse_offer env invoice_text of
        Some offer \<Rightarrow> send_offer env offer amount
      | None \<Rightarrow>
          act_bind (act_lift (map_err InvalidInvoice (parse_bolt11 env invoice_text))) (\<lambda>invoice.
            send_invoice env invoice amount))"

section \<open>Spontaneous payments\<close>

record keysend_response =
  ks_payment_hash :: string
  ks_payment_preimage :: string
  ks_status :: HTLCStatus

definition rgb_pair ::
  "pay_env \<Rightarrow> string option \<Rightarrow> u64 option \<Rightarrow> (APIError, (contract_id \<times> u64) option) outcome" where
  "rgb_pair env asset_id asset_amount =
     (case (asset_id, asset_amount) of
        (Some a, Some n) \<Rightarrow> and_then (parse_contract env a) (\<lambda>c. Ok (Some (c, n)))
      | (None, None) \<Rightarrow> Ok None
      | _ \<Rightarrow> Err IncompleteRGBInfo)"

definition keysend ::
  "pay_env \<Rightarrow> string \<Rightarrow> u64 \<Rightarrow> string option \<Rightarrow> u64 option \<Rightarrow> keysend_response handler" where
  "keysend env dest n asset_id asset_amount =
     act_bind (act_lift (ok_or InvalidPubkey (hex_str_to_compressed_pubkey (pe_pubkey env) dest))) (\<lambda>dest_pubkey.
     act_bind (act_lift (guard_or (\<not> n < htlc_min_msat) (InvalidAmount ''amt_msat cannot be less than 3000000''))) (\<lambda>_.
       let pre = random_bytes env; h = sha256 env pre
       in act_bind (act_lift (rgb_pair env asset_id asset_amount)) (\<lambda>rgb_payment.
          act_bind (record_outbound env h (new_payment env None (Some n) dest_pubkey)) (\<lambda>_.
          act_bind (write_payment_info h rgb_payment) (\<lambda>_.
          act_bind (call (Send_keysend dest_pubkey pre n rgb_payment) (act_return ())) (\<lambda>_.
          act_bind (if keysend_ok env pre then act_return HTLCPending
                    else act_bind (mark_failed env h) (\<lambda>_. act_return HTLCFailed)) (\<lambda>st.
            act_return \<lparr>ks_payment_hash = hex_str h, ks_payment_preimage = hex_str pre, ks_status = st\<rparr>)))))))"

section \<open>Looking at payments\<close>

datatype InvoiceStatus = InvoicePending | InvoiceSucceeded | InvoiceFailed | InvoiceExpired

definition status_of_invoice :: "bolt11 \<Rightarrow> PaymentInfo \<Rightarrow> InvoiceStatus" where
  "status_of_invoice invoice p =
     (case payment_status p of
        HTLCPending \<Rightarrow> if bi_expired invoice then InvoiceExpired else InvoicePending
      | HTLCSucceeded \<Rightarrow> InvoiceSucceeded
      | HTLCFailed \<Rightarrow> InvoiceFailed)"

definition invoice_status :: "pay_env \<Rightarrow> string \<Rightarrow> InvoiceStatus handler" where
  "invoice_status env invoice_text =
     act_bind (act_lift (map_err InvalidInvoice (parse_bolt11 env invoice_text))) (\<lambda>invoice.
     act_bind inbound_payments (\<lambda>ps.
       act_lift (case map_of ps (bi_payment_hash invoice) of
                   Some p \<Rightarrow> Ok (status_of_invoice invoice p) | None \<Rightarrow> Err UnknownLNInvoice)))"

record payment_view =
  pv_amt_msat :: "u64 option"
  pv_asset_amount :: "u64 option"
  pv_asset_id :: "contract_id option"
  pv_payment_hash :: string
  pv_inbound :: bool
  pv_status :: HTLCStatus
  pv_created_at :: u64
  pv_updated_at :: u64
  pv_payee_pubkey :: pubkey

definition view_payment :: "pay_env \<Rightarrow> bool \<Rightarrow> bytes \<times> PaymentInfo \<Rightarrow> payment_view" where
  "view_payment env inbound kv =
     (case kv of (h, p) \<Rightarrow>
        \<lparr>pv_amt_msat = amt_msat p, pv_asset_amount = map_option snd (payment_file env h inbound),
         pv_asset_id = map_option fst (payment_file env h inbound), pv_payment_hash = hex_str h,
         pv_inbound = inbound, pv_status = payment_status p, pv_created_at = created_at p,
         pv_updated_at = updated_at p, pv_payee_pubkey = payee_pubkey p\<rparr>)"

definition list_payments :: "pay_env \<Rightarrow> payment_view list handler" where
  "list_payments env =
     act_bind inbound_payments (\<lambda>ins.
     act_bind outbound_payments (\<lambda>outs.
       act_return (map (view_payment env True) ins @ map (view_payment env False) outs)))"

definition get_payment :: "pay_env \<Rightarrow> string \<Rightarrow> payment_view handler" where
  "get_payment env hash_text =
     act_bind (act_lift (case hex_str_to_vec hash_text of
                 Some h \<Rightarrow> if length h = 32 then Ok h else Err (InvalidPaymentHash hash_text)
               | None \<Rightarrow> Err (InvalidPaymentHash hash_text))) (\<lambda>h.
     act_bind inbound_payments (\<lambda>ins.
     act_bind outbound_payments (\<lambda>outs.
       act_lift (case List.find (\<lambda>(k, p). k = h) ins of
                   Some kv \<Rightarrow> Ok (view_payment env True kv)
                 | None \<Rightarrow> (case List.find (\<lambda>(k, p). k = h) outs of
                              Some kv \<Rightarrow> Ok (view_payment env False kv)
                            | None \<Rightarrow> Err (PaymentNotFound hash_text))))))"

end
