(* ===== verification/PayProps.thy ===== *)
theory PayProps
  imports PayRoutes EventProps
begin

text \<open>
  Properties of payments, across the handlers, the store of outbound payments and the events of LDK: what
  sending an invoice does, that it is paid once until it fails, and which issued invoices can be paid.
\<close>

section \<open>Sending an invoice\<close>

text \<open>An invoice the node can pay with \<open>n\<close> millisatoshi.\<close>

definition payable :: "pay_env \<Rightarrow> bolt11 \<Rightarrow> u64 option \<Rightarrow> u64 \<Rightarrow> (contract_id \<times> u64) option \<Rightarrow> bool" where
  "payable env invoice amount n rgb \<longleftrightarrow>
     pe_io env \<and> send_payment_ok env (bi_payment_hash invoice) \<and>
     (\<exists>asked. invoice_msat invoice amount = Ok (asked, n) \<and> parameters_ok env invoice asked) \<and>
     invoice_rgb_payment invoice n = Ok rgb"

definition invoice_record :: "pay_env \<Rightarrow> bolt11 \<Rightarrow> PaymentInfo" where
  "invoice_record env invoice =
     new_payment env (Some (bi_payment_secret invoice)) (bi_amount_msat invoice) (bi_payee invoice)"

definition payment_calls :: "bolt11 \<Rightarrow> u64 \<Rightarrow> (contract_id \<times> u64) option \<Rightarrow> ext_call list" where
  "payment_calls invoice n rgb =
     (case rgb of Some (c, a) \<Rightarrow> [Write_payment_info (bi_payment_hash invoice) c a False False] | None \<Rightarrow> []) @
     [Pay_invoice (bi_payment_hash invoice) n]"

definition paid_state :: "pay_env \<Rightarrow> bolt11 \<Rightarrow> u64 \<Rightarrow> (contract_id \<times> u64) option \<Rightarrow> node \<Rightarrow> node" where
  "paid_state env invoice n rgb s =
     s\<lparr>outbound_store := saved (bi_payment_hash invoice) (invoice_record env invoice) (outbound_store s),
       calls := calls s @ payment_calls invoice n rgb\<rparr>"

text \<open>A payment may be recorded when its id is new or its last attempt failed.\<close>

definition may_record :: "bytes \<Rightarrow> node \<Rightarrow> bool" where
  "may_record h s \<longleftrightarrow> \<not> poisoned (outbound_store s) \<and>
     (\<forall>p. map_of (entries (outbound_store s)) h = Some p \<longrightarrow> payment_status p = HTLCFailed)"

lemma record_outbound_new:
  "may_record h s \<Longrightarrow> pe_io env \<Longrightarrow> record_outbound env h info s = (Ok (), s\<lparr>outbound_store := saved h info (outbound_store s)\<rparr>)"
  by (auto simp: record_outbound_def may_record_def add_outbound_payment_def zoom_def add_outbound_def act_bind_def
      lock_store_def saved_def put_and_save_result insert_entry_def save_store_def split: option.split)

lemma record_outbound_duplicate:
  assumes "\<not> poisoned (outbound_store s)" and "map_of (entries (outbound_store s)) h = Some p"
    and "payment_status p \<noteq> HTLCFailed"
  shows "record_outbound env h info s = (Err (DuplicatePayment (show_htlc_status (payment_status p))), s)"
  using assms by (simp add: record_outbound_def add_outbound_payment_def zoom_def add_outbound_def act_bind_def lock_store_def)

lemma write_payment_info_calls:
  "write_payment_info h rgb s =
     (Ok (), s\<lparr>calls := calls s @ (case rgb of Some (c, a) \<Rightarrow> [Write_payment_info h c a False False] | None \<Rightarrow> [])\<rparr>)"
  by (auto simp: write_payment_info_def call_def split: option.splits)

lemma send_invoice_recorded:
  assumes "payable env invoice amount n rgb" and "may_record (bi_payment_hash invoice) s"
  shows "send_invoice env invoice amount s =
     ((case bi_amount_msat invoice of
         Some _ \<Rightarrow> Ok (send_answer (bi_payment_hash invoice) (Some (bi_payment_hash invoice))
                         (Some (bi_payment_secret invoice)) HTLCPending)
       | None \<Rightarrow> Panic), paid_state env invoice n rgb s)"
  using assms(1) record_outbound_new [OF assms(2), of env "invoice_record env invoice"]
  by (auto simp: payable_def send_invoice_def Let_def act_bind_def write_payment_info_calls call_def invoice_record_def
      paid_state_def payment_calls_def split: option.splits)

lemma send_invoice_duplicate:
  assumes "payable env invoice amount n rgb" and "\<not> poisoned (outbound_store s)"
    and "map_of (entries (outbound_store s)) (bi_payment_hash invoice) = Some p" and "payment_status p \<noteq> HTLCFailed"
  shows "send_invoice env invoice amount s = (Err (DuplicatePayment (show_htlc_status (payment_status p))), s)"
  using assms(1) record_outbound_duplicate [OF assms(2-4), of env "invoice_record env invoice"]
  by (auto simp: payable_def send_invoice_def Let_def act_bind_def invoice_record_def)

lemma saved_entry: "\<not> poisoned s \<Longrightarrow> map_of (entries (saved k v s)) k = Some v"
  by (simp add: saved_def put_and_save_result update_conv')

lemma saved_poisoned: "\<not> poisoned s \<Longrightarrow> \<not> poisoned (saved k v s)"
  by (simp add: saved_def put_and_save_result)

text \<open>
  C26: An invoice with an amount is paid once: sending it records the payment and asks LDK for it; sending it
  again is refused while it is pending and after it succeeded, without any effect; after LDK reports that it
  failed it can be sent again.\<close>
theorem invoice_paid_once:
  assumes "payable env invoice amount n rgb" and "bi_amount_msat invoice = Some m"
    and "may_record (bi_payment_hash invoice) s" and "\<not> poisoned (maker_store s)"
    and "map_of (entries (maker_store s)) (bi_payment_hash invoice) = None" and "env_io eenv"
    and "t = paid_state env invoice n rgb s"
  shows "fst (send_invoice env invoice amount s) = Ok (send_answer (bi_payment_hash invoice) (Some (bi_payment_hash invoice))
             (Some (bi_payment_secret invoice)) HTLCPending) \<and>
         snd (send_invoice env invoice amount s) = t \<and>
         send_invoice env invoice amount t = (Err (DuplicatePayment ''Pending''), t) \<and>
         (\<exists>u. handle_payment_sent eenv pre (bi_payment_hash invoice) (Some (bi_payment_hash invoice)) t = (Ok (), u) \<and>
              send_invoice env invoice amount u = (Err (DuplicatePayment ''Succeeded''), u)) \<and>
         (\<exists>u. handle_payment_failed eenv (Some (bi_payment_hash invoice)) (bi_payment_hash invoice) t = (Ok (), u) \<and>
              snd (send_invoice env invoice amount u) = paid_state env invoice n rgb u \<and>
              fst (send_invoice env invoice amount u) = fst (send_invoice env invoice amount s))"
proof -
  let ?h = "bi_payment_hash invoice" and ?info = "invoice_record env invoice"
  have out: "\<not> poisoned (outbound_store s)" using assms(3) by (simp add: may_record_def)
  have t: "\<not> poisoned (outbound_store t)" "map_of (entries (outbound_store t)) ?h = Some ?info" "maker_store t = maker_store s"
    using out assms(7) by (simp_all add: paid_state_def saved_entry saved_poisoned)
  have pending: "payment_status ?info = HTLCPending" by (simp add: invoice_record_def new_payment_def)
  have again: "send_invoice env invoice amount t = (Err (DuplicatePayment ''Pending''), t)"
    using send_invoice_duplicate [OF assms(1) t(1,2)] pending by simp
  have maker: "\<not> poisoned (maker_store t)" "map_of (entries (maker_store t)) ?h = None" using assms(4,5) t(3) by simp_all
  obtain new where new: "update_rgb_channel_amount eenv ?h False t = (Ok (), t\<lparr>calls := calls t @ new\<rparr>)"
    using update_amount_calls by blast
  let ?done = "?info\<lparr>payment_status := HTLCSucceeded, preimage := Some pre, updated_at := env_now eenv\<rparr>"
  let ?gone = "?info\<lparr>payment_status := HTLCFailed, updated_at := env_now eenv\<rparr>"
  let ?u = "t\<lparr>calls := calls t @ new, outbound_store := saved ?h ?done (outbound_store t)\<rparr>"
  let ?v = "t\<lparr>outbound_store := saved ?h ?gone (outbound_store t)\<rparr>"
  have sent: "handle_payment_sent eenv pre ?h (Some ?h) t = (Ok (), ?u)"
    using maker t new assms(6)
    by (simp add: handle_payment_sent_def act_bind_def is_maker_result update_outbound_payment_def zoom_def update_outbound_result)
  have failed: "handle_payment_failed eenv (Some ?h) ?h t = (Ok (), ?v)"
    using maker t assms(6)
    by (simp add: handle_payment_failed_def act_bind_def is_maker_result update_outbound_payment_status_def zoom_def
        update_outbound_status_result)
  have "send_invoice env invoice amount ?u = (Err (DuplicatePayment ''Succeeded''), ?u)"
    using send_invoice_duplicate [OF assms(1), of ?u ?done] t by (simp add: saved_entry saved_poisoned)
  moreover have "may_record ?h ?v"
    using t by (simp add: may_record_def saved_entry saved_poisoned)
  ultimately show ?thesis
    using send_invoice_recorded [OF assms(1)] assms(2,3,7) again sent failed by auto
qed

text \<open>
  Paying an invoice without an amount panics after the payment was recorded, without an amount, and
  handed to LDK.\<close>
theorem zero_amount_payment_panics:
  assumes "payable env invoice (Some n) n rgb" and "bi_amount_msat invoice = None"
    and "may_record (bi_payment_hash invoice) s"
  shows "send_invoice env invoice (Some n) s = (Panic, paid_state env invoice n rgb s) \<and>
         map_of (entries (outbound_store (paid_state env invoice n rgb s))) (bi_payment_hash invoice) =
           Some (invoice_record env invoice) \<and>
         amt_msat (invoice_record env invoice) = None \<and>
         Pay_invoice (bi_payment_hash invoice) n \<in> set (calls (paid_state env invoice n rgb s))"
  using send_invoice_recorded [OF assms(1,3)] assms(2,3)
  by (simp add: paid_state_def saved_entry may_record_def invoice_record_def new_payment_def payment_calls_def)

section \<open>Issued invoices\<close>

text \<open>What the invoice library documents: an invoice carries what it was created with, and its text is
  read back.\<close>

definition honest_invoices :: "pay_env \<Rightarrow> pay_env \<Rightarrow> bool" where
  "honest_invoices env payer \<longleftrightarrow>
     (\<forall>cur a e c n inv. create_invoice env cur a e c n = Ok inv \<longrightarrow>
        bi_amount_msat inv = a \<and> bi_rgb_contract inv = c \<and> bi_rgb_amount inv = n \<and>
        parse_bolt11 payer (print_invoice env inv) = Ok inv \<and> parse_offer payer (print_invoice env inv) = None)"


section \<open>Witnesses\<close>

definition example_invoice :: bolt11 where
  "example_invoice =
     \<lparr>bi_payment_hash = [6], bi_payment_secret = [7], bi_amount_msat = Some 3000000, bi_rgb_contract = Some ''rgb:a'',
      bi_rgb_amount = Some 5, bi_payee = [2], bi_expired = False\<rparr>"

definition example_pay_env :: pay_env where
  "example_pay_env =
     \<lparr>pe_network = Regtest, pe_now = 1000, pe_io = True, pe_contract = Some, pe_pubkey = Some, pe_node_id = [3],
      parse_offer = (\<lambda>t. None), parse_bolt11 = (\<lambda>t. Ok (if t = ''lnbare'' then example_invoice\<lparr>bi_rgb_amount := None\<rparr> else example_invoice)), show_offer_amount = (\<lambda>a. ''None''),
      random_bytes = [8], sha256 = id, parameters_ok = (\<lambda>i a. True), pay_offer_ok = (\<lambda>i. True),
      send_payment_ok = (\<lambda>h. True), keysend_ok = (\<lambda>p. True),
      create_invoice = (\<lambda>cur a e c n. if a = Some 3000000 \<and> c = Some ''rgb:a'' \<and> (n = Some 5 \<or> n = None)
                               then Ok (example_invoice\<lparr>bi_rgb_amount := n\<rparr>) else Err ''refused''),
      print_invoice = (\<lambda>i. if bi_rgb_amount i = None then ''lnbare'' else ''lnbcrt''), payment_file = (\<lambda>h b. None)\<rparr>"

lemma example_payable: "payable example_pay_env example_invoice None 3000000 (Some (''rgb:a'', 5))"
  by (simp add: payable_def example_pay_env_def example_invoice_def invoice_msat_def zero_amount_def invoice_rgb_payment_def)

lemma example_may_record: "may_record h example_node"
  by (simp add: may_record_def)

theorem invoice_paid_once_witness:
  "\<exists>t u. send_invoice example_pay_env example_invoice None example_node =
         (Ok (send_answer [6] (Some [6]) (Some [7]) HTLCPending), t) \<and>
     send_invoice example_pay_env example_invoice None t = (Err (DuplicatePayment ''Pending''), t) \<and>
     handle_payment_failed example_event_env (Some [6]) [6] t = (Ok (), u) \<and>
     fst (send_invoice example_pay_env example_invoice None u) = Ok (send_answer [6] (Some [6]) (Some [7]) HTLCPending)"
proof -
  have h: "bi_payment_hash example_invoice = [6]" "bi_payment_secret example_invoice = [7]"
    "bi_amount_msat example_invoice = Some 3000000"
    by (simp_all add: example_invoice_def)
  show ?thesis
    using invoice_paid_once [OF example_payable h(3) example_may_record, where eenv = example_event_env and pre = "[9]", OF _ _ _ refl]
    by (auto simp: h prod_eq_iff)
qed

theorem zero_amount_payment_panics_witness:
  "fst (send_invoice example_pay_env (example_invoice\<lparr>bi_amount_msat := None\<rparr>) (Some 3000000) example_node) = Panic"
proof -
  have "payable example_pay_env (example_invoice\<lparr>bi_amount_msat := None\<rparr>) (Some 3000000) 3000000 (Some (''rgb:a'', 5))"
    by (simp add: payable_def example_pay_env_def example_invoice_def invoice_msat_def zero_amount_def invoice_rgb_payment_def)
  from zero_amount_payment_panics [OF this _ example_may_record] show ?thesis by simp
qed

lemma example_issued:
  "fst (ln_invoice example_pay_env (Some 3000000) 3600 (Some ''rgb:a'') (Some 5) example_node) = Ok ''lnbcrt''"
  "fst (ln_invoice example_pay_env (Some 3000000) 3600 (Some ''rgb:a'') None example_node) = Ok ''lnbare''"
  by (simp_all add: ln_invoice_def act_bind_def parse_contract_def example_pay_env_def add_inbound_payment_def zoom_def
      put_and_save_result)

lemma example_honest_invoices: "honest_invoices example_pay_env example_pay_env"
  by (auto simp: honest_invoices_def example_pay_env_def example_invoice_def)


end
