(* ===== verification/ChannelRoutes.thy ===== *)
theory ChannelRoutes
  imports Peers Events
begin

text \<open>
  The channel handlers of \<open>src/src/routes.rs\<close>: \<open>open_channel\<close>, \<open>close_channel\<close>, \<open>get_channel_id\<close>,
  \<open>list_channels\<close> and \<open>list_peers\<close>, each after its check that the node is unlocked (\<open>Lifecycle\<close>).

  The channel manager, the peer manager and the RGB wallet are foreign: \<open>channel_env\<close> is the record of
  their answers.  The file of channel peers is the file \<open>channel_peer_data\<close> of the LDK directory.
\<close>

section \<open>Requests and the environment\<close>

record open_request =
  oc_peer :: string
  oc_capacity :: u64
  oc_push_msat :: u64
  oc_asset_id :: "string option"
  oc_asset_amount :: "u64 option"
  oc_public :: bool
  oc_anchors :: bool
  oc_fee_base :: "nat option"
  oc_fee_proportional :: "nat option"
  oc_temporary_id :: "string option"

datatype ldk_error = API_misuse string | Other_ldk_error

datatype shutdown_state = Not_shutting_down | Shutting_down

record channel_info =
  ci_channel_id :: channel_id
  ci_counterparty :: pubkey
  ci_shutdown_state :: "shutdown_state option"
  ci_ready :: bool
  ci_capacity_sat :: u64
  ci_outbound_msat :: u64
  ci_inbound_msat :: u64
  ci_next_limit_msat :: u64
  ci_next_minimum_msat :: u64
  ci_usable :: bool
  ci_announced :: bool
  ci_funding :: "(txid \<times> nat) option"
  ci_short_id :: "u64 option"

record 'a channel_env =
  ce_io :: bool
  ce_contract :: "string \<Rightarrow> contract_id option"
  ce_from_slice :: "bytes \<Rightarrow> pubkey option"
  ce_resolve :: "string \<Rightarrow> 'a list option"
  ce_show_addr :: "'a \<Rightarrow> string"
  ce_peer_addr :: "pubkey \<Rightarrow> 'a option"
  ce_connect :: "pubkey \<Rightarrow> 'a \<Rightarrow> (APIError, unit) outcome"
  ce_persist_error :: "APIError option"
  ce_spendable :: "contract_id \<Rightarrow> (APIError, u64) outcome"
  ce_transport :: "string option"
  ce_recipient :: string
  ce_schema :: "contract_id \<Rightarrow> (APIError, AssetSchema) outcome"
  ce_send_begin :: "contract_id \<Rightarrow> (APIError, unit) outcome"
  ce_create :: "channel_id option \<Rightarrow> (ldk_error, channel_id) outcome"
  ce_show_error :: "ldk_error \<Rightarrow> string"
  ce_captured_fee :: "string \<Rightarrow> string option"
  ce_channels :: "channel_info list"
  ce_close :: "channel_id \<Rightarrow> pubkey \<Rightarrow> bool \<Rightarrow> (ldk_error, unit) outcome"
  ce_claimable :: "txid \<times> nat \<Rightarrow> u64 list option"
  ce_alias :: "pubkey \<Rightarrow> string option"
  ce_rgb_info :: "channel_id \<Rightarrow> rgb_info option"
  ce_peers :: "pubkey list"

abbreviation openrgbchannel_min_sat :: u64 where "openrgbchannel_min_sat \<equiv> 30010"
abbreviation openchannel_min_sat :: u64 where "openchannel_min_sat \<equiv> 5506"
abbreviation openchannel_max_sat :: u64 where "openchannel_max_sat \<equiv> 16777215"

section \<open>Opening a channel\<close>

definition requested_temporary_id :: "string option \<Rightarrow> channel_id option handler" where
  "requested_temporary_id t =
     (case t of
        None \<Rightarrow> act_return None
      | Some txt \<Rightarrow>
          act_bind (act_lift (check_channel_id txt)) (\<lambda>i.
          act_bind channel_ids (\<lambda>ids.
            if map_of ids i \<noteq> None then act_lift (Err TemporaryChannelIdAlreadyUsed)
            else act_return (Some i))))"

definition coloured_request ::
  "'a channel_env \<Rightarrow> string option \<Rightarrow> u64 option \<Rightarrow> (APIError, (contract_id \<times> u64) option) outcome" where
  "coloured_request env asset_id asset_amount =
     (case (asset_id, asset_amount) of
        (Some a, Some n) \<Rightarrow>
          if n < 1 then Err (InvalidAmount ''Channel RGB amount must be equal to or higher than 1'')
          else (case ce_contract env a of None \<Rightarrow> Err (InvalidAssetID a) | Some c \<Rightarrow> Ok (Some (c, n)))
      | (None, None) \<Rightarrow> Ok None
      | _ \<Rightarrow> Err IncompleteRGBInfo)"

definition check_amounts :: "open_request \<Rightarrow> (contract_id \<times> u64) option \<Rightarrow> (APIError, unit) outcome" where
  "check_amounts r coloured =
     (if coloured \<noteq> None \<and> oc_capacity r < openrgbchannel_min_sat
      then Err (InvalidAmount ''RGB channel amount must be equal to or higher than 30010 sats'')
      else if oc_capacity r < openchannel_min_sat
      then Err (InvalidAmount ''Channel amount must be equal to or higher than 5506 sats'')
      else if openchannel_max_sat < oc_capacity r
      then Err (InvalidAmount ''Channel amount must be equal to or less than 16777215 sats'')
      else and_then (mul_u64 (oc_capacity r) 1000) (\<lambda>capacity_msat.
        if capacity_msat < oc_push_msat r
        then Err (InvalidAmount ''Channel push amount cannot be higher than the capacity'')
        else guard_or (\<not> (coloured \<noteq> None \<and> \<not> oc_anchors r)) AnchorsRequired))"

abbreviation peer_data_file :: string where "peer_data_file \<equiv> ''channel_peer_data''"

text \<open>The address: the one given, else the one the peer is connected at, else the one in the file.\<close>

definition peer_address :: "'a channel_env \<Rightarrow> pubkey \<Rightarrow> 'a option \<Rightarrow> 'a handler" where
  "peer_address env pk given =
     (case (case given of Some a \<Rightarrow> Some a | None \<Rightarrow> ce_peer_addr env pk) of
        Some a \<Rightarrow> act_return a
      | None \<Rightarrow>
          act_bind (\<lambda>s. (read_channel_peer_data (ce_from_slice env) (ce_resolve env) (map_of (files s) peer_data_file), s)) (\<lambda>peers.
            act_lift (ok_or (InvalidPeerInfo ''cannot find the address for the provided pubkey'') (map_of peers pk))))"

definition connect_and_persist :: "'a channel_env \<Rightarrow> pubkey \<Rightarrow> 'a \<Rightarrow> unit handler" where
  "connect_and_persist env pk a =
     act_bind (call (Connect_peer pk (ce_show_addr env a)) (act_lift (ce_connect env pk a))) (\<lambda>_.
       case ce_persist_error env of
         Some e \<Rightarrow> act_lift (Err e)
       | None \<Rightarrow> act_modify (\<lambda>s. case persist_channel_peer (ce_show_addr env) pk a (map_of (files s) peer_data_file) of
                   Some content \<Rightarrow> s\<lparr>files := AList.update peer_data_file content (files s)\<rparr> | None \<Rightarrow> s))"

text \<open>The amount against the balance, and the trial transaction to an address that is not the channel's.\<close>

definition check_balance :: "'a channel_env \<Rightarrow> (contract_id \<times> u64) option \<Rightarrow> (APIError, string option) outcome" where
  "check_balance env coloured =
     (case coloured of
        None \<Rightarrow> Ok None
      | Some (c, n) \<Rightarrow>
          and_then (ce_spendable env c) (\<lambda>spendable.
            if spendable < n then Err InsufficientAssets
            else and_then (unwrap (ce_transport env)) (\<lambda>e. Ok (Some e))))"

definition trial_funding :: "'a channel_env \<Rightarrow> open_request \<Rightarrow> (contract_id \<times> u64) option \<Rightarrow> AssetSchema option handler" where
  "trial_funding env r coloured =
     (case coloured of
        None \<Rightarrow> act_return None
      | Some (c, n) \<Rightarrow>
          act_bind (act_lift (ce_schema env c)) (\<lambda>schema.
          act_bind (act_lift (case schema of Nia \<Rightarrow> Ok (Fungible n) | Cfa \<Rightarrow> Ok (Fungible n)
                                           | Uda \<Rightarrow> Ok NonFungible | Ifa \<Rightarrow> Panic)) (\<lambda>assignment.
          act_bind (call (Send_begin c (ce_recipient env) (oc_capacity r)
                            (case assignment of Fungible m \<Rightarrow> Some m | _ \<Rightarrow> None))
                      (act_lift (ce_send_begin env c))) (\<lambda>_.
            act_return (Some schema)))))"

definition set_send_lock :: "bool \<Rightarrow> unit handler" where
  "set_send_lock b = act_modify (\<lambda>s. s\<lparr>rgb_send_lock := b\<rparr>)"

text \<open>The error of the channel manager, with the commitment fee when its text names one.\<close>

definition create_error :: "'a channel_env \<Rightarrow> ldk_error \<Rightarrow> (APIError, channel_id) outcome" where
  "create_error env e =
     (case e of
        API_misuse err \<Rightarrow>
          if contains_str ''fee for initial commitment transaction'' err
          then (case ce_captured_fee env err of
                  None \<Rightarrow> Err (InsufficientCapacity 0)
                | Some fee_str \<Rightarrow> and_then (unwrap (parse_u64 fee_str)) (\<lambda>fee. Err (InsufficientCapacity fee)))
          else Err (FailedOpenChannel (ce_show_error env e))
      | Other_ldk_error \<Rightarrow> Err (FailedOpenChannel (ce_show_error env e)))"

definition create_channel ::
  "'a channel_env \<Rightarrow> open_request \<Rightarrow> pubkey \<Rightarrow> channel_id option \<Rightarrow> string option \<Rightarrow> channel_id handler" where
  "create_channel env r pk temporary endpoint =
     call (Create_channel pk (oc_capacity r) (oc_push_msat r) temporary
             (oc_public r, oc_anchors r, oc_fee_base r, oc_fee_proportional r) endpoint)
       (case ce_create env temporary of
          Ok i \<Rightarrow> act_return i
        | Err e \<Rightarrow> act_bind (set_send_lock False) (\<lambda>_. act_lift (create_error env e))
        | Panic \<Rightarrow> act_lift Panic)"

definition write_channel_info :: "channel_id \<Rightarrow> (contract_id \<times> u64) option \<Rightarrow> unit handler" where
  "write_channel_info i coloured =
     (case coloured of
        None \<Rightarrow> act_return ()
      | Some (c, n) \<Rightarrow>
          call (Write_channel_info i c n 0) (call (Write_channel_info i c n 0) (act_return ())))"

definition open_channel :: "'a channel_env \<Rightarrow> open_request \<Rightarrow> string handler" where
  "open_channel env r =
     act_bind (act_get rgb_send_lock) (\<lambda>in_progress.
     act_bind (act_lift (guard_or (\<not> in_progress) OpenChannelInProgress)) (\<lambda>_.
     act_bind (requested_temporary_id (oc_temporary_id r)) (\<lambda>temporary.
     act_bind (act_lift (coloured_request env (oc_asset_id r) (oc_asset_amount r))) (\<lambda>coloured.
     act_bind (act_lift (check_amounts r coloured)) (\<lambda>_.
     act_bind (act_lift (parse_peer_info (ce_from_slice env) (ce_resolve env) (oc_peer r))) (\<lambda>(pk, given).
     act_bind (peer_address env pk given) (\<lambda>a.
     act_bind (connect_and_persist env pk a) (\<lambda>_.
     act_bind (act_lift (check_balance env coloured)) (\<lambda>endpoint.
     act_bind (trial_funding env r coloured) (\<lambda>_.
     act_bind (set_send_lock True) (\<lambda>_.
     act_bind (create_channel env r pk temporary endpoint) (\<lambda>i.
     act_bind (write_channel_info i coloured) (\<lambda>_.
       act_return (hex_str i))))))))))))))"

section \<open>Closing a channel\<close>

definition close_channel :: "'a channel_env \<Rightarrow> string \<Rightarrow> string \<Rightarrow> bool \<Rightarrow> unit handler" where
  "close_channel env channel_text peer_text force =
     act_bind (act_lift (check_channel_id channel_text)) (\<lambda>i.
     act_bind (act_lift (ok_or InvalidPubkey (Option.bind (hex_str_to_vec peer_text) (ce_from_slice env)))) (\<lambda>pk.
     act_bind (act_lift (case List.find (\<lambda>c. ci_channel_id c = i) (ce_channels env) of
                 None \<Rightarrow> Err UnknownChannelId
               | Some c \<Rightarrow> guard_or (ci_shutdown_state c = Some Not_shutting_down)
                             (CannotCloseChannel ''Channel is already being closed''))) (\<lambda>_.
       call (Close_channel i pk force)
         (act_lift (map_err (\<lambda>e. case e of API_misuse err \<Rightarrow> FailedClosingChannel err
                                           | Other_ldk_error \<Rightarrow> CannotCloseChannel (ce_show_error env e))
                      (ce_close env i pk force))))))"

section \<open>Looking at channels and peers\<close>

definition get_channel_id :: "string \<Rightarrow> string handler" where
  "get_channel_id t =
     act_bind (act_lift (check_channel_id t)) (\<lambda>i.
     act_bind channel_ids (\<lambda>ids.
       act_lift (case map_of ids i of Some c \<Rightarrow> Ok (hex_str c) | None \<Rightarrow> Err UnknownTemporaryChannelId)))"

datatype channel_status = Opening | Opened | Closing

record channel_view =
  cv_channel_id :: string
  cv_funding_txid :: "txid option"
  cv_peer_pubkey :: string
  cv_peer_alias :: "string option"
  cv_short_channel_id :: "u64 option"
  cv_status :: channel_status
  cv_ready :: bool
  cv_capacity_sat :: u64
  cv_local_balance_sat :: u64
  cv_outbound_msat :: u64
  cv_inbound_msat :: u64
  cv_next_limit_msat :: u64
  cv_next_minimum_msat :: u64
  cv_is_usable :: bool
  cv_public :: bool
  cv_asset :: "(contract_id \<times> u64 \<times> u64) option"

definition status_of_channel :: "channel_info \<Rightarrow> (APIError, channel_status) outcome" where
  "status_of_channel c =
     and_then (unwrap (ci_shutdown_state c)) (\<lambda>st.
       Ok (if st = Not_shutting_down then (if ci_ready c then Opened else Opening) else Closing))"

definition view_channel :: "'a channel_env \<Rightarrow> channel_info \<Rightarrow> (APIError, channel_view) outcome" where
  "view_channel env c =
     and_then (status_of_channel c) (\<lambda>st.
     and_then (case Option.bind (ci_funding c) (ce_claimable env) of
                 Some balances \<Rightarrow> sum_u64 balances | None \<Rightarrow> Ok 0) (\<lambda>local_balance.
       Ok \<lparr>cv_channel_id = hex_str (ci_channel_id c), cv_funding_txid = map_option fst (ci_funding c),
           cv_peer_pubkey = hex_str (ci_counterparty c), cv_peer_alias = ce_alias env (ci_counterparty c),
           cv_short_channel_id = ci_short_id c, cv_status = st, cv_ready = ci_ready c,
           cv_capacity_sat = ci_capacity_sat c, cv_local_balance_sat = local_balance,
           cv_outbound_msat = ci_outbound_msat c, cv_inbound_msat = ci_inbound_msat c,
           cv_next_limit_msat = ci_next_limit_msat c, cv_next_minimum_msat = ci_next_minimum_msat c,
           cv_is_usable = ci_usable c, cv_public = ci_announced c,
           cv_asset = map_option (\<lambda>i. (rgb_contract_id i, local_rgb_amount i, remote_rgb_amount i))
                        (ce_rgb_info env (ci_channel_id c))\<rparr>))"

definition list_channels :: "'a channel_env \<Rightarrow> channel_view list handler" where
  "list_channels env = act_lift (map_outcome (view_channel env) (ce_channels env))"

definition list_peers :: "'a channel_env \<Rightarrow> string list handler" where
  "list_peers env = act_return (map hex_str (ce_peers env))"

end
