(* ===== verification/Rgb.thy ===== *)
theory Rgb
  imports Settlement
begin

text \<open>
  The methods of the unlocked node over the wallet adapter (\<open>src/src/rgb.rs\<close>): each calls one operation of
  the adapter (\<open>Wallet\<close>, \<open>Utxos\<close>, \<open>Transfers\<close>, \<open>Settlement\<close>) and fixes some of its arguments.  Arguments the
  adapter never reads are left out.
\<close>

section \<open>Assets and balances\<close>

definition rgb_issue_asset_nia ::
  "transfer_env \<Rightarrow> string \<Rightarrow> string \<Rightarrow> nat \<Rightarrow> u64 list \<Rightarrow> asset_nia t_action" where
  "rgb_issue_asset_nia env ticker name precision amounts = issue_asset_nia env ticker name precision amounts"

definition rgb_issue_asset_cfa :: "transfer_env \<Rightarrow> string \<Rightarrow> nat \<Rightarrow> u64 list \<Rightarrow> asset_cfa t_action" where
  "rgb_issue_asset_cfa env name precision amounts = issue_asset_cfa env name precision amounts"

definition rgb_issue_asset_uda :: "asset_uda t_action" where
  "rgb_issue_asset_uda = issue_asset_uda"

definition rgb_get_asset_balance :: "transfer_env \<Rightarrow> contract_id \<Rightarrow> balance t_action" where
  "rgb_get_asset_balance env contract_id = get_asset_balance env contract_id"

definition rgb_get_asset_metadata :: "transfer_env \<Rightarrow> contract_id \<Rightarrow> metadata t_action" where
  "rgb_get_asset_metadata env contract_id = get_asset_metadata env contract_id"

definition rgb_get_btc_balance :: "transfer_env \<Rightarrow> (balance \<times> balance) t_action" where
  "rgb_get_btc_balance env = get_btc_balance env"

definition rgb_list_assets :: "transfer_env \<Rightarrow> assets t_action" where
  "rgb_list_assets env = list_assets env"

definition rgb_list_transactions :: "rgb_transaction list t_action" where
  "rgb_list_transactions = list_transactions"

definition rgb_list_transfers :: "string \<Rightarrow> rgb_transfer list t_action" where
  "rgb_list_transfers asset_id = list_transfers (Some asset_id)"

definition rgb_list_unspents :: "transfer_env \<Rightarrow> unspent list t_action" where
  "rgb_list_unspents env = list_unspents env False"

definition rgb_get_fee_estimation :: "nat \<Rightarrow> nat t_action" where
  "rgb_get_fee_estimation blocks = get_fee_estimation blocks"

definition rgb_get_media_dir :: "string \<Rightarrow> string" where
  "rgb_get_media_dir data_dir = get_media_dir data_dir"

definition rgb_get_send_consignment_path :: "string \<Rightarrow> string \<Rightarrow> string \<Rightarrow> string" where
  "rgb_get_send_consignment_path data_dir asset_id transfer_id = get_send_consignment_path data_dir asset_id transfer_id"

section \<open>Addresses, outputs and plain sends\<close>

definition rgb_get_address :: "transfer_env \<Rightarrow> string t_action" where
  "rgb_get_address env = get_address env"

definition rgb_create_utxos :: "transfer_env \<Rightarrow> nat \<Rightarrow> nat \<Rightarrow> nat \<Rightarrow> bool \<Rightarrow> nat t_action" where
  "rgb_create_utxos env num utxo_size fee_rate skip_sync =
     create_utxos env (Some num) (Some utxo_size) fee_rate skip_sync"

definition rgb_send_btc :: "transfer_env \<Rightarrow> string \<Rightarrow> u64 \<Rightarrow> nat \<Rightarrow> txid t_action" where
  "rgb_send_btc env address amount fee_rate = send_btc env address amount fee_rate"

definition rgb_send_btc_begin :: "transfer_env \<Rightarrow> string \<Rightarrow> u64 \<Rightarrow> nat \<Rightarrow> string t_action" where
  "rgb_send_btc_begin env address amount fee_rate = send_btc_begin env address amount fee_rate"

definition rgb_send_btc_end :: "transfer_env \<Rightarrow> string \<Rightarrow> txid t_action" where
  "rgb_send_btc_end env signed_psbt = send_btc_end env signed_psbt"

definition rgb_sign_psbt :: "transfer_env \<Rightarrow> string \<Rightarrow> string t_action" where
  "rgb_sign_psbt env unsigned_psbt = sign_psbt env unsigned_psbt"

definition rgb_sync :: "transfer_env \<Rightarrow> unit t_action" where
  "rgb_sync env = sync env"

section \<open>Transfers of assets\<close>

definition rgb_send :: "transfer_env \<Rightarrow> (string \<times> recipient list) list \<Rightarrow> nat \<Rightarrow> txid t_action" where
  "rgb_send env recipient_map fee_rate = send env recipient_map fee_rate"

definition rgb_send_begin :: "transfer_env \<Rightarrow> (string \<times> recipient list) list \<Rightarrow> nat \<Rightarrow> string t_action" where
  "rgb_send_begin env recipient_map fee_rate = send_begin env recipient_map fee_rate"

definition rgb_send_end :: "transfer_env \<Rightarrow> string \<Rightarrow> txid t_action" where
  "rgb_send_end env signed_psbt = send_end env signed_psbt"

definition rgb_post_consignment :: "transfer_env \<Rightarrow> string \<Rightarrow> string \<Rightarrow> string \<Rightarrow> txid \<Rightarrow> unit t_action" where
  "rgb_post_consignment env proxy_url recipient_id consignment_path txid =
     post_consignment env proxy_url recipient_id consignment_path txid"

definition rgb_refresh :: "transfer_env \<Rightarrow> unit t_action" where
  "rgb_refresh env = refresh env"

definition rgb_fail_transfers :: "int option \<Rightarrow> bool t_action" where
  "rgb_fail_transfers batch_transfer_idx = fail_transfers batch_transfer_idx"

definition rgb_blind_receive :: "receive_data t_action" where
  "rgb_blind_receive = blind_receive"

definition rgb_witness_receive :: "receive_data t_action" where
  "rgb_witness_receive = witness_receive"

definition rgb_save_new_asset :: "unit t_action" where
  "rgb_save_new_asset = save_new_asset"

definition rgb_upsert_witness :: "txid \<Rightarrow> unit t_action" where
  "rgb_upsert_witness witness_id = upsert_witness witness_id"

lemmas rgb_methods =
  rgb_issue_asset_nia_def rgb_issue_asset_cfa_def rgb_issue_asset_uda_def rgb_get_asset_balance_def
  rgb_get_asset_metadata_def rgb_get_btc_balance_def rgb_list_assets_def rgb_list_unspents_def
  rgb_get_address_def rgb_create_utxos_def rgb_send_btc_def rgb_sync_def rgb_send_def rgb_refresh_def
  rgb_blind_receive_def rgb_witness_receive_def

end
