(* ===== verification/AssetRoutes.thy ===== *)
theory AssetRoutes
  imports Rgb Intercept AssetViews
begin

text \<open>
  The handlers of \<open>src/src/routes.rs\<close> over the RGB wallet: balances, lists, issuance, sends, UTXOs and the
  media of assets, each after its check that the node is unlocked (\<open>Lifecycle\<close>).

  The state joins the wallet of the adapter, the node whose send lock the handlers look at, and the files
  by path that the media handlers read and write.
\<close>

section \<open>State and environment\<close>

record asset_node =
  as_wallet :: transfer_wallet
  as_node :: node
  as_files :: "(string \<times> bytes) list"

type_synonym 'a asset_handler = "(asset_node, APIError, 'a) action"

text \<open>\<open>ae_channel_file\<close>: the RGB file of a channel, absent, or \<open>Some None\<close> when it does not parse.\<close>

record asset_env =
  ae_wallet :: transfer_env
  ae_contract :: "string \<Rightarrow> contract_id option"
  ae_channels :: "channel_id list"
  ae_channel_file :: "channel_id \<Rightarrow> rgb_info option option"
  ae_recipient_info :: "string \<Rightarrow> (rgb_lib_error, unit) outcome"
  ae_data_dir :: string
  ae_digest :: "bytes \<Rightarrow> string"
  ae_file_error :: "string \<Rightarrow> APIError option"

text \<open>The \<open>?\<close> on a result of the wallet: its error becomes one of the interface.\<close>

definition api_result :: "(rgb_lib_error, 'a) outcome \<Rightarrow> (APIError, 'a) outcome" where
  "api_result r =
     (case r of
        Ok a \<Rightarrow> Ok a
      | Err e \<Rightarrow> and_then (from_rgb_lib_error e) Err
      | Panic \<Rightarrow> Panic)"

definition on_wallet :: "'a t_action \<Rightarrow> 'a asset_handler" where
  "on_wallet m s = (case m (as_wallet s) of (r, w) \<Rightarrow> (api_result r, s\<lparr>as_wallet := w\<rparr>))"

text \<open>The check of the handlers that must not run while a channel is being funded.\<close>

definition no_channel_opening :: "unit asset_handler" where
  "no_channel_opening =
     act_bind (act_get (\<lambda>s. rgb_send_lock (as_node s))) (\<lambda>locked. act_lift (guard_or (\<not> locked) OpenChannelInProgress))"

section \<open>Balances\<close>

text \<open>The amounts of one asset over the channels.\<close>

fun offchain_of ::
  "asset_env \<Rightarrow> contract_id \<Rightarrow> u64 \<times> u64 \<Rightarrow> channel_id list \<Rightarrow> (APIError, u64 \<times> u64) outcome" where
  "offchain_of env c acc [] = Ok acc"
| "offchain_of env c acc (i # is) =
     (case ae_channel_file env i of
        None \<Rightarrow> offchain_of env c acc is
      | Some None \<Rightarrow> Panic
      | Some (Some info) \<Rightarrow>
          if rgb_contract_id info = c
          then and_then (add_u64 (fst acc) (local_rgb_amount info)) (\<lambda>outbound.
               and_then (add_u64 (snd acc) (remote_rgb_amount info)) (\<lambda>inbound.
                 offchain_of env c (outbound, inbound) is))
          else offchain_of env c acc is)"

definition asset_balance :: "asset_env \<Rightarrow> string \<Rightarrow> balance_view asset_handler" where
  "asset_balance env asset_id =
     act_bind (act_lift (ok_or (InvalidAssetID asset_id) (ae_contract env asset_id))) (\<lambda>contract_id.
     act_bind (on_wallet (rgb_get_asset_balance (ae_wallet env) contract_id)) (\<lambda>b.
     act_bind (act_lift (offchain_of env contract_id (0, 0) (ae_channels env))) (\<lambda>(outbound, inbound).
       act_return \<lparr>bv_settled = settled_balance b, bv_future = future_balance b, bv_spendable = spendable_balance b,
                   bv_offchain_outbound = outbound, bv_offchain_inbound = inbound\<rparr>)))"

definition asset_metadata :: "asset_env \<Rightarrow> string \<Rightarrow> metadata_view asset_handler" where
  "asset_metadata env asset_id =
     act_bind (act_lift (ok_or (InvalidAssetID asset_id) (ae_contract env asset_id))) (\<lambda>contract_id.
     act_bind (on_wallet (rgb_get_asset_metadata (ae_wallet env) contract_id)) (\<lambda>m.
       act_lift (view_metadata m)))"

definition btc_balance_of :: "asset_env \<Rightarrow> (balance \<times> balance) asset_handler" where
  "btc_balance_of env = on_wallet (rgb_get_btc_balance (ae_wallet env))"

text \<open>The amounts of every asset over the channels, by contract.\<close>

fun offchain_balances ::
  "asset_env \<Rightarrow> (contract_id \<times> u64 \<times> u64) list \<Rightarrow> channel_id list \<Rightarrow>
   (APIError, (contract_id \<times> u64 \<times> u64) list) outcome" where
  "offchain_balances env m [] = Ok m"
| "offchain_balances env m (i # is) =
     (case ae_channel_file env i of
        None \<Rightarrow> offchain_balances env m is
      | Some None \<Rightarrow> Panic
      | Some (Some info) \<Rightarrow>
          (case map_of m (rgb_contract_id info) of
             Some (outbound, inbound) \<Rightarrow>
               and_then (add_u64 outbound (local_rgb_amount info)) (\<lambda>a.
               and_then (add_u64 inbound (remote_rgb_amount info)) (\<lambda>b.
                 offchain_balances env (AList.update (rgb_contract_id info) (a, b) m) is))
           | None \<Rightarrow>
               offchain_balances env
                 (AList.update (rgb_contract_id info) (local_rgb_amount info, remote_rgb_amount info) m) is))"

definition offchain_or_zero :: "(contract_id \<times> u64 \<times> u64) list \<Rightarrow> contract_id \<Rightarrow> u64 \<times> u64" where
  "offchain_or_zero m c = (case map_of m c of Some b \<Rightarrow> b | None \<Rightarrow> (0, 0))"

text \<open>The balance of an asset of the list, with what its channels carry.\<close>

definition with_offchain :: "(contract_id \<times> u64 \<times> u64) list \<Rightarrow> string \<Rightarrow> balance_view \<Rightarrow> balance_view" where
  "with_offchain m asset_id b =
     b\<lparr>bv_offchain_outbound := fst (offchain_or_zero m asset_id),
       bv_offchain_inbound := snd (offchain_or_zero m asset_id)\<rparr>"

record list_assets_view =
  listed_nia :: "nia_view list option"
  listed_uda :: "uda_view list option"
  listed_cfa :: "cfa_view list option"

definition view_assets :: "(contract_id \<times> u64 \<times> u64) list \<Rightarrow> assets \<Rightarrow> list_assets_view" where
  "view_assets m l =
     \<lparr>listed_nia = map_option (map (\<lambda>a. (view_nia a)\<lparr>nia_balance := with_offchain m (an_asset_id a) (nia_balance (view_nia a))\<rparr>))
        (nia_assets l),
      listed_uda = map_option (map (\<lambda>a. (view_uda a)\<lparr>uda_balance := with_offchain m (au_asset_id a) (uda_balance (view_uda a))\<rparr>))
        (uda_assets l),
      listed_cfa = map_option (map (\<lambda>a. (view_cfa a)\<lparr>cfa_balance := with_offchain m (ac_asset_id a) (cfa_balance (view_cfa a))\<rparr>))
        (cfa_assets l)\<rparr>"

definition list_assets_route :: "asset_env \<Rightarrow> list_assets_view asset_handler" where
  "list_assets_route env =
     act_bind (on_wallet (rgb_list_assets (ae_wallet env))) (\<lambda>l.
     act_bind (act_lift (offchain_balances env [] (ae_channels env))) (\<lambda>m.
       act_return (view_assets m l)))"

section \<open>Issuing and sending\<close>

definition issue_asset_nia_route :: "asset_env \<Rightarrow> string \<Rightarrow> string \<Rightarrow> nat \<Rightarrow> u64 list \<Rightarrow> nia_view asset_handler" where
  "issue_asset_nia_route env ticker name precision amounts =
     act_bind no_channel_opening (\<lambda>_.
     act_bind (on_wallet (rgb_issue_asset_nia (ae_wallet env) ticker name precision amounts)) (\<lambda>asset.
       act_return (view_nia asset)))"

definition issue_asset_cfa_route :: "asset_env \<Rightarrow> string \<Rightarrow> nat \<Rightarrow> u64 list \<Rightarrow> cfa_view asset_handler" where
  "issue_asset_cfa_route env name precision amounts =
     act_bind no_channel_opening (\<lambda>_.
     act_bind (on_wallet (rgb_issue_asset_cfa (ae_wallet env) name precision amounts)) (\<lambda>asset.
       act_return (view_cfa asset)))"

definition issue_asset_uda_route :: "uda_view asset_handler" where
  "issue_asset_uda_route =
     act_bind no_channel_opening (\<lambda>_.
     act_bind (on_wallet rgb_issue_asset_uda) (\<lambda>asset. act_return (view_uda asset)))"

definition rgb_invoice :: "bool \<Rightarrow> receive_view asset_handler" where
  "rgb_invoice witness =
     act_bind no_channel_opening (\<lambda>_.
     act_bind (if witness then on_wallet rgb_witness_receive else on_wallet rgb_blind_receive) (\<lambda>d.
       act_return (view_receive d)))"

record send_request =
  sa_asset_id :: string
  sa_recipient_id :: string
  sa_witness_amount :: "u64 option"
  sa_assignment :: Assignment
  sa_transport_endpoints :: "string list"
  sa_fee_rate :: nat

definition send_asset :: "asset_env \<Rightarrow> send_request \<Rightarrow> txid asset_handler" where
  "send_asset env r =
     act_bind no_channel_opening (\<lambda>_.
     act_bind (act_lift (api_result (ae_recipient_info env (sa_recipient_id r)))) (\<lambda>_.
       on_wallet (rgb_send (ae_wallet env)
         [(sa_asset_id r, [\<lparr>rc_recipient_id = sa_recipient_id r, rc_witness_amount = sa_witness_amount r,
                            rc_assignment = into_assignment (sa_assignment r),
                            rc_transport_endpoints = sa_transport_endpoints r\<rparr>])] (sa_fee_rate r))))"

definition send_btc_route :: "asset_env \<Rightarrow> string \<Rightarrow> u64 \<Rightarrow> nat \<Rightarrow> txid asset_handler" where
  "send_btc_route env address amount fee_rate = on_wallet (rgb_send_btc (ae_wallet env) address amount fee_rate)"

definition create_utxos_route :: "asset_env \<Rightarrow> nat option \<Rightarrow> nat option \<Rightarrow> nat \<Rightarrow> bool \<Rightarrow> unit asset_handler" where
  "create_utxos_route env num utxo_size fee_rate skip_sync =
     act_bind (on_wallet (rgb_create_utxos (ae_wallet env) (case num of Some n \<Rightarrow> n | None \<Rightarrow> 4)
                 (case utxo_size of Some n \<Rightarrow> n | None \<Rightarrow> 32000) fee_rate skip_sync)) (\<lambda>_. act_return ())"

section \<open>Plain calls of the wallet\<close>

definition address :: "asset_env \<Rightarrow> string asset_handler" where
  "address env = on_wallet (rgb_get_address (ae_wallet env))"

definition estimate_fee :: "nat \<Rightarrow> nat asset_handler" where
  "estimate_fee blocks = on_wallet (rgb_get_fee_estimation blocks)"

definition fail_transfers_route :: "int option \<Rightarrow> bool asset_handler" where
  "fail_transfers_route batch_transfer_idx = on_wallet (rgb_fail_transfers batch_transfer_idx)"

definition list_transactions_route :: "rgb_transaction list asset_handler" where
  "list_transactions_route =
     act_bind (on_wallet rgb_list_transactions) (\<lambda>txs. act_return (map view_transaction txs))"

definition list_transfers_route :: "string \<Rightarrow> transfer_view list asset_handler" where
  "list_transfers_route asset_id =
     act_bind (on_wallet (rgb_list_transfers asset_id)) (\<lambda>ts. act_return (map view_transfer ts))"

definition list_unspents_route :: "asset_env \<Rightarrow> unspent_view list asset_handler" where
  "list_unspents_route env =
     act_bind (on_wallet (rgb_list_unspents (ae_wallet env))) (\<lambda>us. act_return (map view_unspent us))"

definition refresh_transfers :: "asset_env \<Rightarrow> unit asset_handler" where
  "refresh_transfers env = act_bind (on_wallet (rgb_refresh (ae_wallet env))) (\<lambda>_. act_return ())"

definition sync_route :: "asset_env \<Rightarrow> unit asset_handler" where
  "sync_route env = on_wallet (rgb_sync (ae_wallet env))"

section \<open>Media\<close>

text \<open>\<open>Path::join\<close>: an absolute path replaces the directory.\<close>

definition join_path :: "string \<Rightarrow> string \<Rightarrow> string" where
  "join_path dir p = (if p \<noteq> [] \<and> hd p = CHR ''/'' then p else dir @ ''/'' @ p)"

definition media_path :: "asset_env \<Rightarrow> string \<Rightarrow> string" where
  "media_path env digest = join_path (rgb_get_media_dir (ae_data_dir env)) digest"

definition file_step :: "asset_env \<Rightarrow> string \<Rightarrow> unit asset_handler" where
  "file_step env op = act_lift (case ae_file_error env op of None \<Rightarrow> Ok () | Some e \<Rightarrow> Err e)"

definition set_file :: "string \<Rightarrow> bytes \<Rightarrow> unit asset_handler" where
  "set_file path content = act_modify (\<lambda>s. s\<lparr>as_files := AList.update path content (as_files s)\<rparr>)"

definition read_file :: "asset_env \<Rightarrow> bytes \<Rightarrow> bytes asset_handler" where
  "read_file env content = act_bind (file_step env ''open'') (\<lambda>_. act_bind (file_step env ''read'') (\<lambda>_. act_return content))"

definition get_asset_media :: "asset_env \<Rightarrow> string \<Rightarrow> string asset_handler" where
  "get_asset_media env digest =
     act_bind (act_get (\<lambda>s. map_of (as_files s) (media_path env (map to_lower digest)))) (\<lambda>file.
       case file of
         None \<Rightarrow> act_lift (Err InvalidMediaDigest)
       | Some content \<Rightarrow> act_bind (read_file env content) (\<lambda>b. act_return (hex_str b)))"

text \<open>The uploaded field: the error of the form, no field, or its bytes.\<close>

definition uploaded :: "(unit, (string, bytes) outcome option) outcome \<Rightarrow> (APIError, bytes) outcome" where
  "uploaded field =
     and_then (map_err (\<lambda>_. MediaFileNotProvided) field) (\<lambda>f.
       case f of
         None \<Rightarrow> Err MediaFileNotProvided
       | Some r \<Rightarrow> and_then (map_err (\<lambda>e. Unexpected (''Failed to read bytes: '' @ e)) r) (\<lambda>b.
                     if b = [] then Err MediaFileEmpty else Ok b))"

definition post_asset_media :: "asset_env \<Rightarrow> (unit, (string, bytes) outcome option) outcome \<Rightarrow> string asset_handler" where
  "post_asset_media env field =
     act_bind (act_lift (uploaded field)) (\<lambda>file_bytes.
       let digest = ae_digest env file_bytes; path = media_path env digest
       in act_bind (act_get (\<lambda>s. map_of (as_files s) path)) (\<lambda>old.
          act_bind (case old of
                      None \<Rightarrow> act_return True
                    | Some content \<Rightarrow>
                        act_bind (read_file env content) (\<lambda>existing.
                          if file_bytes \<noteq> existing
                          then act_bind (file_step env ''remove'') (\<lambda>_.
                               act_bind (act_modify (\<lambda>s. s\<lparr>as_files := AList.delete path (as_files s)\<rparr>)) (\<lambda>_.
                                 act_return True))
                          else act_return False)) (\<lambda>write.
          act_bind (if write
                    then act_bind (file_step env ''create'') (\<lambda>_.
                         act_bind (set_file path []) (\<lambda>_.
                         act_bind (file_step env ''write'') (\<lambda>_. set_file path file_bytes)))
                    else act_return ()) (\<lambda>_.
            act_return digest))))"

end
