(* ===== verification/AssetProps.thy ===== *)
theory AssetProps
  imports AssetRoutes WalletProps
begin

text \<open>
  Properties of the handlers over the wallet: the two ways to ask for a balance compared, the media of assets
  stored and read back, and which files the media handler reads.
\<close>

section \<open>Balances\<close>

lemma add_u64_zero [simp]: "add_u64 0 b = Ok b"
  using unsigned_less [of b] by (simp add: add_u64_def)

text \<open>The amounts of one asset, gathered with those of the others or alone.\<close>

lemma offchain_agrees:
  "offchain_balances env m is = Ok m' \<Longrightarrow> offchain_of env c (offchain_or_zero m c) is = Ok (offchain_or_zero m' c)"
proof (induction env m "is" rule: offchain_balances.induct)
  case (2 env m i "is")
  show ?case
  proof (cases "ae_channel_file env i")
    case (Some found)
    then obtain info where info: "found = Some info" using 2(4) by (cases found) auto
    show ?thesis
    proof (cases "map_of m (rgb_contract_id info)")
      case None
      have "offchain_of env c (offchain_or_zero (AList.update (rgb_contract_id info) (local_rgb_amount info, remote_rgb_amount info) m) c) is
          = Ok (offchain_or_zero m' c)"
        using 2(2) [OF Some info None] 2(4) Some info None by simp
      then show ?thesis using Some info None by (auto simp: offchain_or_zero_def update_conv' split: if_splits)
    next
      case (Some p)
      obtain a b where p: "p = (a, b)" by (cases p)
      obtain a' b' where sums: "add_u64 a (local_rgb_amount info) = (Ok a' :: (APIError, u64) outcome)"
          "add_u64 b (remote_rgb_amount info) = (Ok b' :: (APIError, u64) outcome)"
        and rest: "offchain_balances env (AList.update (rgb_contract_id info) (a', b') m) is = Ok m'"
        using 2(4) \<open>ae_channel_file env i = Some found\<close> info Some p by (auto simp: and_then_eq_Ok)
      have "offchain_of env c (offchain_or_zero (AList.update (rgb_contract_id info) (a', b') m) c) is = Ok (offchain_or_zero m' c)"
        using 2(3) [OF \<open>ae_channel_file env i = Some found\<close> info Some p [symmetric] rest] .
      then show ?thesis
        using \<open>ae_channel_file env i = Some found\<close> info Some p sums
        by (auto simp: offchain_or_zero_def update_conv' split: if_splits)
    qed
  qed (use 2 in auto)
qed simp

lemma api_result_Ok [simp]:
  fixes r :: "(rgb_lib_error, 'a) outcome"
  shows "api_result r = Ok a \<longleftrightarrow> r = Ok a"
proof -
  have "from_rgb_lib_error e \<noteq> Err x" for e and x :: APIError
    by (cases e) (simp_all add: sub_u64_def split: if_splits)
  then have "and_then (from_rgb_lib_error e) Err \<noteq> (Ok a :: (APIError, 'a) outcome)" for e and a :: 'a
    by (cases "from_rgb_lib_error e :: (APIError, APIError) outcome") auto
  then show ?thesis by (cases r) (auto simp: api_result_def)
qed

lemma on_wallet_Ok: "on_wallet m s = (Ok a, t) \<longleftrightarrow> (\<exists>w. m (as_wallet s) = (Ok a, w) \<and> t = s\<lparr>as_wallet := w\<rparr>)"
  by (auto simp: on_wallet_def split: prod.splits)

lemma list_all2_right: "list_all2 P xs ys \<Longrightarrow> y \<in> set ys \<Longrightarrow> \<exists>x \<in> set xs. P x y"
  by (induction rule: list_all2_induct) auto

lemma listed_parts:
  assumes "list_assets_route env s = (Ok l, t)" and "represents_locks (as_wallet s) m"
    and "io_error (ae_wallet env) ''read locked'' (wcalls (as_wallet s)) = None"
  obtains as ids offchain where "known_assets (ae_wallet env) (wcalls (as_wallet s)) = Ok ids" "t = s"
    "offchain_balances env [] (ae_channels env) = Ok offchain"
    "l = view_assets offchain \<lparr>nia_assets = Some as, cfa_assets = Some [], uda_assets = Some []\<rparr>"
    "list_all2 (\<lambda>c a. \<exists>held. total_locked c m < 2 ^ 64 \<and>
             get_asset_balance (ae_wallet env) c (as_wallet s) = (Ok (flat_balance held held), as_wallet s) \<and>
             an_balance a = flat_balance held (saturating_sub held (of_nat (total_locked c m))) \<and>
             (\<exists>info. contract_info (ae_wallet env) (wcalls (as_wallet s)) c = Ok info \<and> an_asset_id a = ai_contract_id info)) ids as"
proof -
  obtain r w offchain where listed: "list_assets (ae_wallet env) (as_wallet s) = (Ok r, w)"
    and offchain: "offchain_balances env [] (ae_channels env) = Ok offchain" and t: "t = s\<lparr>as_wallet := w\<rparr>"
    and l: "l = view_assets offchain r"
    using assms(1) by (auto simp: list_assets_route_def act_bind_Ok on_wallet_Ok rgb_methods)
  from listed_assets [OF listed assms(2,3)] show thesis
    using t l offchain by (elim conjE exE) (rule that, simp_all)
qed

text \<open>
  C28: Every asset of the list of assets has the balances the handler for one asset answers, off chain and
  on chain, except for what is spendable: the list takes the amount locked in channels off, the other
  handler does not.  The list has no other kinds of assets.\<close>
theorem listed_balances_agree:
  assumes "list_assets_route env s = (Ok l, t)"
    and "\<And>cs c info. contract_info (ae_wallet env) cs c = Ok info \<Longrightarrow> ai_contract_id info = c"
    and "\<And>cs ids c. known_assets (ae_wallet env) cs = Ok ids \<Longrightarrow> c \<in> set ids \<Longrightarrow> ae_contract env c = Some c"
    and "represents_locks (as_wallet s) m" and "io_error (ae_wallet env) ''read locked'' (wcalls (as_wallet s)) = None"
  shows "t = s \<and> listed_cfa l = Some [] \<and> listed_uda l = Some [] \<and>
     (\<exists>views. listed_nia l = Some views \<and> (\<forall>v \<in> set views.
        \<exists>b. asset_balance env (nia_asset_id v) s = (Ok b, s) \<and>
          nia_balance v = b\<lparr>bv_spendable := saturating_sub (bv_spendable b) (of_nat (total_locked (nia_asset_id v) m))\<rparr>))"
proof -
  obtain as ids offchain where listed: "known_assets (ae_wallet env) (wcalls (as_wallet s)) = Ok ids" "t = s"
    and offchain: "offchain_balances env [] (ae_channels env) = Ok offchain"
    and l: "l = view_assets offchain \<lparr>nia_assets = Some as, cfa_assets = Some [], uda_assets = Some []\<rparr>"
    and each: "list_all2 (\<lambda>c a. \<exists>held. total_locked c m < 2 ^ 64 \<and>
             get_asset_balance (ae_wallet env) c (as_wallet s) = (Ok (flat_balance held held), as_wallet s) \<and>
             an_balance a = flat_balance held (saturating_sub held (of_nat (total_locked c m))) \<and>
             (\<exists>info. contract_info (ae_wallet env) (wcalls (as_wallet s)) c = Ok info \<and> an_asset_id a = ai_contract_id info)) ids as"
    by (rule listed_parts [OF assms(1,4,5)])
  have "\<exists>b. asset_balance env (nia_asset_id v) s = (Ok b, s) \<and>
          nia_balance v = b\<lparr>bv_spendable := saturating_sub (bv_spendable b) (of_nat (total_locked (nia_asset_id v) m))\<rparr>"
    if a: "a \<in> set as" and v: "v = (view_nia a)\<lparr>nia_balance := with_offchain offchain (an_asset_id a) (nia_balance (view_nia a))\<rparr>" for a v
  proof -
    obtain c held info where c: "c \<in> set ids" and held: "get_asset_balance (ae_wallet env) c (as_wallet s) = (Ok (flat_balance held held), as_wallet s)"
      and balance: "an_balance a = flat_balance held (saturating_sub held (of_nat (total_locked c m)))"
      and "contract_info (ae_wallet env) (wcalls (as_wallet s)) c = Ok info" "an_asset_id a = ai_contract_id info"
      using list_all2_right [OF each a] by blast
    then have id: "an_asset_id a = c" using assms(2) by simp
    have "offchain_of env c (0, 0) (ae_channels env) = Ok (offchain_or_zero offchain c)"
      using offchain_agrees [OF offchain, of c] by (simp add: offchain_or_zero_def)
    then show ?thesis
      using assms(3) [OF listed(1) c] held
      by (cases "offchain_or_zero offchain c")
        (simp add: v id asset_balance_def act_bind_def on_wallet_def api_result_def rgb_methods flat_balance_def
          view_nia_def view_balance_def with_offchain_def balance)
  qed
  then show ?thesis using listed(2) by (auto simp: l view_assets_def)
qed

section \<open>Media\<close>

text \<open>What the digest of \<open>sha256\<close> is: a lower case hexadecimal text.\<close>

definition lower_digests :: "asset_env \<Rightarrow> bool" where
  "lower_digests env \<longleftrightarrow> (\<forall>b. map to_lower (ae_digest env b) = ae_digest env b)"

lemma post_media_stored:
  assumes "\<And>op. ae_file_error env op = None" and "b \<noteq> []"
  shows "\<exists>t. post_asset_media env (Ok (Some (Ok b))) s = (Ok (ae_digest env b), t) \<and>
             map_of (as_files t) (media_path env (ae_digest env b)) = Some b"
  using assms(2)
  by (auto simp: post_asset_media_def uploaded_def Let_def act_bind_def read_file_def file_step_def set_file_def assms(1)
      update_conv' split: option.splits)

text \<open>
  C33: A file that was uploaded is read back, by its digest in lower or upper case, as the hexadecimal text of
  its bytes, whatever was stored under its name before.\<close>
theorem media_read_back:
  assumes "\<And>op. ae_file_error env op = None" and "lower_digests env" and "b \<noteq> []"
    and "map to_lower d = ae_digest env b"
  shows "\<exists>t. post_asset_media env (Ok (Some (Ok b))) s = (Ok (ae_digest env b), t) \<and>
             get_asset_media env d t = (Ok (hex_str b), t) \<and>
             (\<exists>c. hex_str_to_vec (hex_str b) = Some c \<and> c = b)"
  using post_media_stored [OF assms(1,3), of s] assms(1,4)
  by (auto simp: get_asset_media_def act_bind_def read_file_def file_step_def)

text \<open>
  The digest of the request is not checked: one that is an absolute path in lower case names that file
  itself, and its content is the answer, outside of the directory of the media.\<close>
theorem media_reads_any_path:
  assumes "map_of (as_files s) (CHR ''/'' # p) = Some content" and "map to_lower p = p"
    and "\<And>op. ae_file_error env op = None"
  shows "get_asset_media env (CHR ''/'' # p) s = (Ok (hex_str content), s)"
proof -
  have "to_lower (CHR ''/'') = CHR ''/''" by code_simp
  then show ?thesis
    using assms by (simp add: get_asset_media_def media_path_def join_path_def act_bind_def read_file_def file_step_def)
qed

section \<open>Witnesses\<close>

definition example_asset_env :: asset_env where
  "example_asset_env =
     \<lparr>ae_wallet = example_tenv, ae_contract = Some, ae_channels = [[1], [2], [3]],
      ae_channel_file = (\<lambda>i. if i = [1] then Some (Some \<lparr>rgb_contract_id = ''rgb:usdt'', local_rgb_amount = 10, remote_rgb_amount = 2\<rparr>)
                            else if i = [2] then Some (Some \<lparr>rgb_contract_id = ''rgb:usdt'', local_rgb_amount = 5, remote_rgb_amount = 0\<rparr>)
                            else None),
      ae_recipient_info = (\<lambda>r. Ok ()), ae_data_dir = ''/data'', ae_digest = (\<lambda>b. map to_lower (hex_str (take 4 b))),
      ae_file_error = (\<lambda>op. None)\<rparr>"

definition example_asset_node :: asset_node where
  "example_asset_node = \<lparr>as_wallet = example_locked_wallet, as_node = example_node, as_files = [(''/etc/shadow'', [7, 255])]\<rparr>"

lemma example_asset_simps [simp]:
  "ae_wallet example_asset_env = example_tenv" "ae_contract example_asset_env = Some"
  "ae_channels example_asset_env = [[1], [2], [3]]" "ae_file_error example_asset_env op = None"
  "as_wallet example_asset_node = example_locked_wallet" "as_files example_asset_node = [(''/etc/shadow'', [7, 255])]"
  by (simp_all add: example_asset_env_def example_asset_node_def)

lemma example_offchain:
  "offchain_balances example_asset_env [] [[1], [2], [3]] = Ok [(''rgb:usdt'', 15, 2)]"
  by (simp add: example_asset_env_def add_u64_def)

lemma example_listing:
  "\<exists>l v. list_assets_route example_asset_env example_asset_node = (Ok l, example_asset_node) \<and> listed_nia l = Some [v] \<and>
       nia_asset_id v = ''rgb:usdt'' \<and> bv_settled (nia_balance v) = 100 \<and> bv_offchain_outbound (nia_balance v) = 15"
proof -
  have held: "get_locked_amount example_tenv ''rgb:usdt'' example_locked_wallet = (Ok 40, example_locked_wallet)"
    using locked_amount_result [OF example_locked, of example_tenv "''rgb:usdt''"] by (simp add: total_locked_def)
  have whole: "example_asset_node\<lparr>as_wallet := example_locked_wallet\<rparr> = example_asset_node"
    "\<not> wm_poisoned example_locked_wallet"
    by (simp_all add: example_asset_node_def example_locked_wallet_def)
  show ?thesis
    by (simp add: list_assets_route_def act_bind_def on_wallet_def api_result_def rgb_methods list_assets_def list_asset_def
        with_manager_def query_def locked_or_zero_def flat_balance_def view_assets_def view_nia_def view_balance_def
        with_offchain_def offchain_or_zero_def example_offchain held whole del: offchain_balances.simps)
qed

theorem listed_balances_agree_witness:
  "\<exists>l v b. list_assets_route example_asset_env example_asset_node = (Ok l, example_asset_node) \<and> listed_nia l = Some [v] \<and>
     asset_balance example_asset_env ''rgb:usdt'' example_asset_node = (Ok b, example_asset_node) \<and>
     bv_settled b = 100 \<and> bv_offchain_outbound b = 15 \<and>
     bv_spendable (nia_balance v) = saturating_sub (bv_spendable b) 40"
proof -
  obtain l v where run: "list_assets_route example_asset_env example_asset_node = (Ok l, example_asset_node)" "listed_nia l = Some [v]"
    and v: "nia_asset_id v = ''rgb:usdt''" "bv_settled (nia_balance v) = 100" "bv_offchain_outbound (nia_balance v) = 15"
    using example_listing by blast
  have "total_locked ''rgb:usdt'' [(''f00d'', 0) \<mapsto> (''rgb:usdt'', 40)] = 40" by (simp add: total_locked_def)
  then show ?thesis
    using listed_balances_agree [OF run(1), of "[(''f00d'', 0) \<mapsto> (''rgb:usdt'', 40)]"] run v example_locked by auto
qed

lemma example_lower: "lower_digests example_asset_env"
proof -
  have "to_lower (to_lower c) = to_lower c" for c by (simp add: to_lower_def)
  then show ?thesis by (simp add: lower_digests_def example_asset_env_def)
qed

theorem media_read_back_witness:
  "\<exists>t. post_asset_media example_asset_env (Ok (Some (Ok [171, 205]))) example_asset_node = (Ok ''abcd'', t) \<and>
       get_asset_media example_asset_env ''ABcd'' t = (Ok ''abcd'', t)"
proof -
  have d: "ae_digest example_asset_env [171, 205] = ''abcd''" "map to_lower ''ABcd'' = ''abcd''" "hex_str [171, 205] = ''abcd''"
    unfolding example_asset_env_def by code_simp+
  show ?thesis
    using media_read_back [OF _ example_lower, of "[171, 205]" "''ABcd''" example_asset_node] d by auto
qed

theorem media_reads_any_path_witness:
  "get_asset_media example_asset_env ''/etc/shadow'' example_asset_node = (Ok ''07ff'', example_asset_node)"
proof -
  have d: "map to_lower ''etc/shadow'' = ''etc/shadow''" "hex_str [7, 255] = ''07ff''" by code_simp+
  then show ?thesis
    using media_reads_any_path [of example_asset_node "''etc/shadow''" "[7, 255]" example_asset_env] by simp
qed

end
