(* ===== verification/ChannelProps.thy ===== *)
theory ChannelProps
  imports ChannelRoutes EventProps AssetProps
begin

text \<open>
  Properties of channels across their handlers and the events of LDK: the send lock an opening takes and
  what releases it, what was checked before a channel is created, and the temporary ids.
\<close>

section \<open>The send lock\<close>

abbreviation lock_is :: "bool \<Rightarrow> node \<Rightarrow> bool" where
  "lock_is b \<equiv> \<lambda>s. rgb_send_lock s = b"

text \<open>The events whose handlers may release the lock.\<close>

fun frees_send_lock :: "ldk_event \<Rightarrow> bool" where
  "frees_send_lock (FundingGenerationReady tmp peer sats script) = True"
| "frees_send_lock (ChannelPending cid txid former) = True"
| "frees_send_lock (DiscardFunding cid) = True"
| "frees_send_lock _ = False"

lemma lock_zoom: "(\<And>x s. rgb_send_lock (put x s) = rgb_send_lock s) \<Longrightarrow> keeps (lock_is b) (zoom get put m)"
  by (simp add: keeps_def zoom_def split: prod.splits)

lemma lock_call: "keeps (lock_is b) m \<Longrightarrow> keeps (lock_is b) (call c m)"
  by (simp add: keeps_def call_def)

lemma lock_call_unwrap [intro, simp]: "keeps (lock_is b) (call_unwrap a c)"
  by (simp add: keeps_def call_unwrap_def Let_def)

lemma lock_fail_locked [intro, simp]: "keeps (lock_is b) (fail_intercepted_locked env i)"
  by (auto simp: keeps_def fail_intercepted_locked_def fail_intercepted_result split: prod.splits outcome.splits)

lemma lock_store_ops [intro, simp]:
  "keeps (lock_is b) (is_maker_swap h)" "keeps (lock_is b) (is_taker_swap h)"
  "keeps (lock_is b) (update_maker_swap_status io now h st)" "keeps (lock_is b) (update_taker_swap_status io now h st)"
  "keeps (lock_is b) (upsert_inbound_payment io now h st2 pre sec amt payee)"
  "keeps (lock_is b) (update_outbound_payment io now pid st2 pre)"
  "keeps (lock_is b) (update_outbound_payment_status io now pid st2)"
  "keeps (lock_is b) (add_channel_id io tmp cid)" "keeps (lock_is b) (delete_channel_id io cid)"
  "keeps (lock_is b) (on_taker m)"
  unfolding store_op_defs by (rule lock_zoom; simp)+

lemma lock_update_loop [intro, simp]: "keeps (lock_is b) (update_amount_loop env h r names)"
  by (induction env h r names rule: update_amount_loop.induct) (auto simp: Let_def intro: lock_call)

lemma lock_update_amount [intro, simp]: "keeps (lock_is b) (update_rgb_channel_amount env h r)"
  unfolding update_rgb_channel_amount_def by (intro keeps_bind keeps_get lock_update_loop)

lemma lock_try_connect [intro, simp]: "keeps (lock_is b) (try_connect env n addrs)"
  by (induction env n addrs rule: try_connect.induct) (auto intro: lock_call)

lemma lock_htlc [intro, simp]: "keeps (lock_is b) (handle_htlc_intercepted env e)"
  unfolding handle_htlc_intercepted_def Let_def
  by (intro keeps_bind; (simp add: keeps_bind fail_intercepted_def split: option.splits)?)

lemma lock_payments [intro, simp]:
  "keeps (lock_is b) (handle_payment_claimable p)"
  "keeps (lock_is b) (handle_payment_claimed env h p amt r)"
  "keeps (lock_is b) (handle_payment_sent env pre h pid)"
  "keeps (lock_is b) (handle_payment_failed env oh ph)"
  "keeps (lock_is b) (handle_payment_forwarded env prev nxt outr inr h)"
  "keeps (lock_is b) (handle_pending_htlcs ms)"
  unfolding handle_payment_claimable_def handle_payment_claimed_def handle_payment_sent_def
    handle_payment_failed_def handle_payment_forwarded_def handle_pending_htlcs_def
  by (auto split: option.splits outcome.splits intro!: keeps_bind lock_call)

lemma lock_rgb_close: "rgb_send_lock (snd (handle_rgb_channel_close env cid txid i s)) = rgb_send_lock s"
  by (auto simp: handle_rgb_channel_close_def remove_file_if_exists_def Let_def split: option.splits outcome.splits)

lemma lock_open_request [intro, simp]: "keeps (lock_is b) (handle_open_channel_request tmp peer)"
  unfolding handle_open_channel_request_def by (rule lock_call) simp

lemma lock_spendable [intro, simp]: "keeps (lock_is b) (handle_spendable_outputs env n cid)"
  unfolding handle_spendable_outputs_def by (rule lock_call) simp

lemma lock_ready [intro, simp]: "keeps (lock_is b) (handle_channel_ready env)"
  unfolding handle_channel_ready_def by (rule lock_call, rule keeps_bind, simp, rule lock_call, simp)

lemma lock_channel_closed [intro, simp]: "keeps (lock_is b) (handle_channel_closed env cid txo)"
proof -
  have "keeps (lock_is b) ((\<lambda>s. case handle_rgb_channel_close env cid txid i s of
      (Panic, t) \<Rightarrow> (Panic, t) | (_, t) \<Rightarrow> (Ok (), t)) :: unit node_action)" for txid i
  proof (rule keepsI)
    fix s :: node assume s: "lock_is b s"
    obtain r t where eq: "handle_rgb_channel_close env cid txid i s = (r, t)" by (cases "handle_rgb_channel_close env cid txid i s")
    then have "lock_is b t" using lock_rgb_close [of env cid txid i s] s by simp
    then show "lock_is b (snd ((case handle_rgb_channel_close env cid txid i s of
        (Panic, t) \<Rightarrow> (Panic, t) | (_, t) \<Rightarrow> (Ok (), t)) :: (unit, unit) outcome \<times> node))"
      by (cases r) (simp_all add: eq)
  qed
  then show ?thesis
    unfolding handle_channel_closed_def by (intro keeps_bind) (auto split: option.splits)
qed

lemma lock_event: "\<not> frees_send_lock ev \<Longrightarrow> keeps (lock_is b) (handle_ldk_events env ev)"
  by (cases ev) (simp_all only: handle_ldk_events.simps frees_send_lock.simps, auto)

definition deliver :: "('z eenv \<times> ldk_event) list \<Rightarrow> node \<Rightarrow> node" where
  "deliver evs s = fold (\<lambda>(env, ev) s. snd (handle_ldk_events env ev s)) evs s"

lemma lock_events:
  "\<forall>(env, ev) \<in> set evs. \<not> frees_send_lock ev \<Longrightarrow> rgb_send_lock (deliver evs s) = rgb_send_lock s"
proof (induction evs arbitrary: s)
  case (Cons e evs)
  obtain env ev where "e = (env, ev)" by (cases e)
  then show ?case
    using Cons lock_event [of ev "rgb_send_lock s" env] by (simp add: deliver_def keeps_def)
qed (simp add: deliver_def)

section \<open>Opening a channel\<close>

lemma channel_ids_same: "channel_ids s = (r, t) \<Longrightarrow> t = s"
  by (auto simp: channel_ids_def zoom_def read_store_def act_bind_def lock_store_def split: if_splits)

lemma requested_id_same: "requested_temporary_id o_id s = (r, t) \<Longrightarrow> t = s"
  by (cases o_id) (auto simp: requested_temporary_id_def act_bind_def dest: channel_ids_same
      split: prod.splits outcome.splits if_splits)

lemma peer_address_same: "peer_address env pk given s = (r, t) \<Longrightarrow> t = s"
  by (auto simp: peer_address_def act_bind_def split: option.splits outcome.splits)

definition trial_calls :: "'a channel_env \<Rightarrow> open_request \<Rightarrow> (contract_id \<times> u64) option \<Rightarrow> ext_call list" where
  "trial_calls env r coloured =
     (case coloured of
        None \<Rightarrow> []
      | Some (c, n) \<Rightarrow> [Send_begin c (ce_recipient env) (oc_capacity r) (if ce_schema env c = Ok Uda then None else Some n)])"

definition info_calls :: "channel_id \<Rightarrow> (contract_id \<times> u64) option \<Rightarrow> ext_call list" where
  "info_calls i coloured =
     (case coloured of None \<Rightarrow> [] | Some (c, n) \<Rightarrow> [Write_channel_info i c n 0, Write_channel_info i c n 0])"

lemma connect_Ok:
  "connect_and_persist env pk a s = (Ok u, t) \<Longrightarrow>
     rgb_send_lock t = rgb_send_lock s \<and> calls t = calls s @ [Connect_peer pk (ce_show_addr env a)] \<and>
     map_of (files t) peer_data_file = persist_channel_peer (ce_show_addr env) pk a (map_of (files s) peer_data_file)"
  by (auto simp: connect_and_persist_def act_bind_Ok call_def act_lift_def act_modify_def persist_channel_peer_def Let_def update_conv'
      split: option.splits)

lemma trial_Ok:
  "trial_funding env r coloured s = (Ok x, t) \<Longrightarrow>
     t = s\<lparr>calls := calls s @ trial_calls env r coloured\<rparr> \<and> (\<forall>c n. coloured = Some (c, n) \<longrightarrow> ce_send_begin env c = Ok ())"
  using AssetSchema.nchotomy
  by (auto simp: trial_funding_def act_bind_Ok call_def act_lift_def trial_calls_def
      split: option.splits AssetSchema.splits Assignment.splits)

lemma create_Ok:
  "create_channel env r pk temporary endpoint s = (Ok i, t) \<Longrightarrow>
     t = s\<lparr>calls := calls s @ [Create_channel pk (oc_capacity r) (oc_push_msat r) temporary
             (oc_public r, oc_anchors r, oc_fee_base r, oc_fee_proportional r) endpoint]\<rparr>"
proof -
  have "create_error env e \<noteq> Ok i" for e
    by (auto simp: create_error_def and_then_eq_Ok split: ldk_error.splits option.splits)
  then show "create_channel env r pk temporary endpoint s = (Ok i, t) \<Longrightarrow> ?thesis"
    by (auto simp: create_channel_def call_def act_bind_Ok act_lift_def split: outcome.splits)
qed

lemma write_info_calls: "write_channel_info i coloured s = (Ok (), s\<lparr>calls := calls s @ info_calls i coloured\<rparr>)"
  by (auto simp: write_channel_info_def info_calls_def call_def split: option.splits)

lemma amounts_Ok:
  assumes "check_amounts r coloured = Ok u"
  shows "5506 \<le> unat (oc_capacity r) \<and> unat (oc_capacity r) \<le> 16777215 \<and>
         unat (oc_push_msat r) \<le> 1000 * unat (oc_capacity r) \<and>
         (coloured \<noteq> None \<longrightarrow> oc_anchors r \<and> 30010 \<le> unat (oc_capacity r))"
proof -
  obtain m where m: "mul_u64 (oc_capacity r) 1000 = (Ok m :: (APIError, u64) outcome)" and push: "\<not> m < oc_push_msat r"
    using assms by (auto simp: check_amounts_def and_then_eq_Ok split: if_splits)
  have "unat m = unat (oc_capacity r) * 1000" using unat_mul_u64 [OF m] by simp
  moreover have "unat (oc_push_msat r) \<le> unat m" using push by (simp add: not_less word_le_nat_alt)
  ultimately show ?thesis
    using assms by (auto simp: check_amounts_def word_less_nat_alt and_then_eq_Ok not_less split: if_splits)
qed

lemma open_channel_parts:
  assumes "open_channel env r s = (Ok tmp, t)"
  obtains coloured pk a u endpoint temporary i given where
    "\<not> rgb_send_lock s" "coloured_request env (oc_asset_id r) (oc_asset_amount r) = Ok coloured"
    "check_amounts r coloured = Ok ()" "connect_and_persist env pk a s = (Ok (), u)"
    "parse_peer_info (ce_from_slice env) (ce_resolve env) (oc_peer r) = Ok (pk, given)"
    "peer_address env pk given s = (Ok a, s)" "requested_temporary_id (oc_temporary_id r) s = (Ok temporary, s)"
    "check_balance env coloured = Ok endpoint" "\<forall>c n. coloured = Some (c, n) \<longrightarrow> ce_send_begin env c = Ok ()" "tmp = hex_str i"
    "t = u\<lparr>rgb_send_lock := True, calls := calls u @ trial_calls env r coloured @
           Create_channel pk (oc_capacity r) (oc_push_msat r) temporary
             (oc_public r, oc_anchors r, oc_fee_base r, oc_fee_proportional r) endpoint # info_calls i coloured\<rparr>"
proof -
  from assms obtain temporary coloured pk given a u endpoint x v w i s1 s2 where unlocked: "\<not> rgb_send_lock s"
    and steps: "requested_temporary_id (oc_temporary_id r) s = (Ok temporary, s1)"
      "coloured_request env (oc_asset_id r) (oc_asset_amount r) = Ok coloured" "check_amounts r coloured = Ok ()"
      "parse_peer_info (ce_from_slice env) (ce_resolve env) (oc_peer r) = Ok (pk, given)"
      "peer_address env pk given s1 = (Ok a, s2)" "connect_and_persist env pk a s2 = (Ok (), u)"
      "check_balance env coloured = Ok endpoint" "trial_funding env r coloured u = (Ok x, v)"
      "create_channel env r pk temporary endpoint (v\<lparr>rgb_send_lock := True\<rparr>) = (Ok i, w)"
    and last: "t = w\<lparr>calls := calls w @ info_calls i coloured\<rparr>" "tmp = hex_str i"
    by (auto simp: open_channel_def act_bind_Ok write_info_calls act_lift_def act_get_def set_send_lock_def act_modify_def
        act_return_def)
  have "s1 = s" "s2 = s" using requested_id_same [OF steps(1)] peer_address_same [OF steps(5)] by auto
  then show ?thesis
    using that [OF unlocked steps(2,3) _ steps(4) _ _ steps(7)] steps(1,5,6) trial_Ok [OF steps(8)] create_Ok [OF steps(9)] last by auto
qed

text \<open>
  C25: A channel that was opened passed every check before anything irreversible: no other opening was under
  way, its capacity and the pushed amount are within the bounds, a coloured one has anchors, the larger
  minimum, an amount the wallet can spend and a trial funding that succeeded.  The peer was connected and
  recorded first, LDK was asked once with what the request said, the information files were written last, and
  the send lock is taken.\<close>
theorem opened_channel_checked:
  assumes "open_channel env r s = (Ok tmp, t)"
  shows "\<not> rgb_send_lock s \<and> rgb_send_lock t \<and>
    5506 \<le> unat (oc_capacity r) \<and> unat (oc_capacity r) \<le> 16777215 \<and>
    unat (oc_push_msat r) \<le> 1000 * unat (oc_capacity r) \<and>
    (\<exists>pk a i temporary endpoint coloured given. tmp = hex_str i \<and>
       parse_peer_info (ce_from_slice env) (ce_resolve env) (oc_peer r) = Ok (pk, given) \<and>
       peer_address env pk given s = (Ok a, s) \<and> requested_temporary_id (oc_temporary_id r) s = (Ok temporary, s) \<and>
       check_balance env coloured = Ok endpoint \<and>
       coloured_request env (oc_asset_id r) (oc_asset_amount r) = Ok coloured \<and>
       calls t = calls s @ Connect_peer pk (ce_show_addr env a) # trial_calls env r coloured @
         Create_channel pk (oc_capacity r) (oc_push_msat r) temporary
           (oc_public r, oc_anchors r, oc_fee_base r, oc_fee_proportional r) endpoint # info_calls i coloured \<and>
       map_of (files t) peer_data_file = persist_channel_peer (ce_show_addr env) pk a (map_of (files s) peer_data_file) \<and>
       (\<forall>c n. coloured = Some (c, n) \<longrightarrow> oc_anchors r \<and> 30010 \<le> unat (oc_capacity r) \<and> 0 < unat n \<and>
          (\<exists>spendable. ce_spendable env c = Ok spendable \<and> n \<le> spendable) \<and> ce_send_begin env c = Ok ()))"
proof -
  from assms obtain coloured pk a u endpoint temporary i given where
    parts: "\<not> rgb_send_lock s" "coloured_request env (oc_asset_id r) (oc_asset_amount r) = Ok coloured"
    "check_amounts r coloured = Ok ()" "connect_and_persist env pk a s = (Ok (), u)"
    "parse_peer_info (ce_from_slice env) (ce_resolve env) (oc_peer r) = Ok (pk, given)"
    "peer_address env pk given s = (Ok a, s)" "requested_temporary_id (oc_temporary_id r) s = (Ok temporary, s)"
    "check_balance env coloured = Ok endpoint" "\<forall>c n. coloured = Some (c, n) \<longrightarrow> ce_send_begin env c = Ok ()" "tmp = hex_str i"
    "t = u\<lparr>rgb_send_lock := True, calls := calls u @ trial_calls env r coloured @
           Create_channel pk (oc_capacity r) (oc_push_msat r) temporary
             (oc_public r, oc_anchors r, oc_fee_base r, oc_fee_proportional r) endpoint # info_calls i coloured\<rparr>"
    by (rule open_channel_parts)
  have coloured: "0 < unat n \<and> (\<exists>spendable. ce_spendable env c = Ok spendable \<and> n \<le> spendable)" if "coloured = Some (c, n)" for c n
    using parts(2,8) that
    by (auto simp: coloured_request_def check_balance_def and_then_eq_Ok unat_gt_0 not_less split: option.splits if_splits)
  show ?thesis
    using parts amounts_Ok [OF parts(3)] connect_Ok [OF parts(4)] coloured
    by (intro conjI exI [of _ pk] exI [of _ a] exI [of _ i] exI [of _ temporary] exI [of _ endpoint] exI [of _ coloured] exI [of _ given]) auto
qed

lemma lock_same: "(\<And>b. keeps (lock_is b) m) \<Longrightarrow> m s = (x, t) \<Longrightarrow> rgb_send_lock t = rgb_send_lock s"
  using keepsD [of "lock_is (rgb_send_lock s)"] by blast

lemma connect_lock: "connect_and_persist env pk a s = (x, t) \<Longrightarrow> rgb_send_lock t = rgb_send_lock s"
  unfolding connect_and_persist_def
  by (erule lock_same [rotated], intro keeps_bind lock_call keeps_lift) (auto simp: keeps_def split: option.splits)

lemma trial_lock: "trial_funding env r coloured s = (x, t) \<Longrightarrow> rgb_send_lock t = rgb_send_lock s"
  unfolding trial_funding_def
  by (erule lock_same [rotated]) (auto split: option.splits intro!: keeps_bind lock_call)

lemma create_unlocks: "create_channel env r pk temporary endpoint s = (Err e, t) \<Longrightarrow> \<not> rgb_send_lock t"
  by (auto simp: create_channel_def call_def act_bind_Err set_send_lock_def act_modify_def act_lift_def split: outcome.splits)

lemma opening_in_progress: "rgb_send_lock s \<Longrightarrow> open_channel env r s = (Err OpenChannelInProgress, s)"
  by (simp add: open_channel_def act_bind_def)

lemma failed_opening:
  assumes "open_channel env r s = (Err e, t)" and "\<not> rgb_send_lock s"
  shows "\<not> rgb_send_lock t"
proof -
  show ?thesis
    using assms
    by (auto simp: open_channel_def act_bind_Err act_lift_def act_get_def act_return_def set_send_lock_def act_modify_def
        write_info_calls dest!: requested_id_same peer_address_same create_unlocks connect_lock trial_lock)
qed

text \<open>
  C31: An opening that succeeded keeps the send lock whatever events follow that do not belong to a funded
  channel, the closing of the refused channel among them: every later opening, issuance, invoice and send of
  an asset is answered with an opening in progress, and nothing happens.\<close>
theorem refused_opening_blocks:
  assumes "open_channel env r s = (Ok tmp, t)" and "\<forall>(e, ev) \<in> set evs. \<not> frees_send_lock ev"
    and "u = deliver evs t" and "as_node a = u"
  shows "open_channel env2 r2 u = (Err OpenChannelInProgress, u) \<and>
         send_asset aenv q a = (Err OpenChannelInProgress, a) \<and>
         issue_asset_nia_route aenv ticker name precision amounts a = (Err OpenChannelInProgress, a) \<and>
         issue_asset_cfa_route aenv name precision amounts a = (Err OpenChannelInProgress, a) \<and>
         issue_asset_uda_route a = (Err OpenChannelInProgress, a) \<and>
         rgb_invoice witness a = (Err OpenChannelInProgress, a)"
proof -
  have "rgb_send_lock t" by (rule open_channel_parts [OF assms(1)]) simp
  then have "rgb_send_lock u" using lock_events [OF assms(2)] assms(3) by simp
  then show ?thesis
    using opening_in_progress [of u] assms(4)
    by (simp add: send_asset_def issue_asset_nia_route_def issue_asset_cfa_route_def issue_asset_uda_route_def rgb_invoice_def
        no_channel_opening_def act_bind_def)
qed

text \<open>
  An opening answered with an error, wherever it fails, leaves the send lock as it found it.\<close>
theorem failed_opening_keeps_lock:
  assumes "open_channel env r s = (Err e, t)"
  shows "rgb_send_lock t = rgb_send_lock s"
proof (cases "rgb_send_lock s")
  case True
  then show ?thesis using opening_in_progress [of s env r] assms by simp
next
  case False
  then show ?thesis using failed_opening [OF assms] by simp
qed

section \<open>Temporary ids\<close>

lemma pending_records_id:
  assumes "\<not> poisoned (channel_ids_store s)" and "env_io env"
  shows "channel_ids_store (snd (handle_channel_pending env cid txid (Some tmp) s)) = saved tmp cid (channel_ids_store s)"
  using assms
  by (auto simp: handle_channel_pending_def add_channel_id_def zoom_def put_and_save_result saved_def call_def act_bind_def
      unlock_rgb_send_def split: option.splits)

lemma ids_read: "\<not> poisoned (channel_ids_store s) \<Longrightarrow> channel_ids s = (Ok (entries (channel_ids_store s)), s)"
  by (simp add: channel_ids_def zoom_def read_store_def act_bind_def lock_store_def)

lemma find_updated: "c \<notin> snd ` set es \<Longrightarrow> List.find (\<lambda>(t, d). d = c) (AList.update k c es) = Some (k, c)"
  by (induction es) auto


section \<open>Witnesses\<close>

definition example_peer_key :: pubkey where
  "example_peer_key = replicate 33 2"

definition example_temporary_id :: channel_id where
  "example_temporary_id = replicate 32 5"

definition example_channel_env :: "string channel_env" where
  "example_channel_env =
     \<lparr>ce_io = True, ce_contract = Some, ce_from_slice = Some, ce_resolve = (\<lambda>t. Some [t]), ce_show_addr = id,
      ce_peer_addr = (\<lambda>p. Some ''1.2.3.4:9735''), ce_connect = (\<lambda>p a. Ok ()), ce_persist_error = None,
      ce_spendable = (\<lambda>c. Ok 100), ce_transport = Some ''rpc://p'', ce_recipient = ''rcpt'', ce_schema = (\<lambda>c. Ok Nia),
      ce_send_begin = (\<lambda>c. Ok ()), ce_create = (\<lambda>t. Ok example_temporary_id), ce_show_error = (\<lambda>e. ''error''),
      ce_captured_fee = (\<lambda>t. None), ce_channels = [], ce_close = (\<lambda>i p f. Ok ()), ce_claimable = (\<lambda>out. None),
      ce_alias = (\<lambda>p. None), ce_rgb_info = (\<lambda>i. None), ce_peers = []\<rparr>"

definition example_open_request :: open_request where
  "example_open_request =
     \<lparr>oc_peer = hex_str example_peer_key, oc_capacity = 40000, oc_push_msat = 0, oc_asset_id = Some ''rgb:a'', oc_asset_amount = Some 10,
      oc_public = True, oc_anchors = True, oc_fee_base = None, oc_fee_proportional = None, oc_temporary_id = None\<rparr>"

lemma example_peer: "parse_peer_info Some (\<lambda>t. Some [t]) (hex_str example_peer_key) = Ok (example_peer_key, None :: string option)"
proof -
  have "length example_peer_key = 33" by (simp add: example_peer_key_def)
  then have "hex_str_to_compressed_pubkey Some (hex_str example_peer_key) = Some example_peer_key"
    by simp
  then show ?thesis using at_not_in_hex [of example_peer_key] by (simp add: parse_peer_info_def Let_def split_on_no_sep)
qed

lemma example_unlocked [simp]: "\<not> rgb_send_lock example_node"
  by (simp add: example_node_def)

lemmas run_opening = open_channel_def act_bind_def requested_temporary_id_def coloured_request_def check_amounts_def mul_u64_def
  peer_address_def connect_and_persist_def persist_channel_peer_def check_balance_def trial_funding_def Let_def
  create_channel_def write_channel_info_def call_def set_send_lock_def create_error_def example_peer

lemma example_opening:
  "\<exists>t. open_channel example_channel_env example_open_request example_node = (Ok (hex_str example_temporary_id), t)"
  by (simp add: run_opening example_channel_env_def example_open_request_def)

lemma example_failed_opening:
  "\<exists>t. open_channel (example_channel_env\<lparr>ce_create := \<lambda>i. Err Other_ldk_error\<rparr>) example_open_request example_node =
     (Err (FailedOpenChannel ''error''), t)"
  by (simp add: run_opening example_channel_env_def example_open_request_def)

theorem opened_channel_checked_witness:
  "\<exists>t. open_channel example_channel_env example_open_request example_node = (Ok (hex_str example_temporary_id), t) \<and>
       rgb_send_lock t \<and> Connect_peer example_peer_key ''1.2.3.4:9735'' \<in> set (calls t)"
proof -
  obtain t where run: "open_channel example_channel_env example_open_request example_node = (Ok (hex_str example_temporary_id), t)"
    using example_opening by blast
  have "parse_peer_info (ce_from_slice example_channel_env) (ce_resolve example_channel_env) (oc_peer example_open_request) =
      Ok (example_peer_key, None)"
    "peer_address example_channel_env example_peer_key None example_node = (Ok ''1.2.3.4:9735'', example_node)"
    "ce_show_addr example_channel_env = id"
    by (simp_all add: example_channel_env_def example_open_request_def example_peer peer_address_def)
  then show ?thesis using opened_channel_checked [OF run] run by auto
qed

theorem failed_opening_keeps_lock_witness:
  "\<exists>e t. open_channel (example_channel_env\<lparr>ce_create := \<lambda>i. Err Other_ldk_error\<rparr>) example_open_request example_node = (Err e, t) \<and>
         \<not> rgb_send_lock t"
proof -
  obtain t where run: "open_channel (example_channel_env\<lparr>ce_create := \<lambda>i. Err Other_ldk_error\<rparr>) example_open_request example_node =
     (Err (FailedOpenChannel ''error''), t)"
    using example_failed_opening by blast
  then show ?thesis using failed_opening_keeps_lock [OF run] by simp
qed

theorem refused_opening_blocks_witness:
  "\<exists>u. u = deliver [(example_event_env, ChannelClosed example_temporary_id None)]
             (snd (open_channel example_channel_env example_open_request example_node)) \<and>
       open_channel example_channel_env example_open_request u = (Err OpenChannelInProgress, u)"
proof -
  let ?evs = "[(example_event_env, ChannelClosed example_temporary_id None)]"
  obtain t where run: "open_channel example_channel_env example_open_request example_node = (Ok (hex_str example_temporary_id), t)"
    using example_opening by blast
  have ev: "\<forall>(e, ev) \<in> set ?evs. \<not> frees_send_lock ev" by simp
  show ?thesis
    using refused_opening_blocks [OF run ev refl, of "example_asset_node\<lparr>as_node := deliver ?evs t\<rparr>" example_channel_env example_open_request] run
    by simp
qed


end
