(* ===== verification/Fees.thy ===== *)
theory Fees
  imports Prelude "HOL-Library.AList"
begin

text \<open>
  The fee estimates and the broadcasts of the Bitcoin client (\<open>src/src/bitcoind.rs\<close>).

  The answers of bitcoind are parameters, an error of the call as \<open>Err\<close>.  A rate of JSON is turned into
  satoshi per 1000 weight by \<open>sat_per_kw\<close>, the rounding of floating point numbers.  A panic ends the
  spawned task that polls.
\<close>

section \<open>The table of fees\<close>

datatype confirmation_target =
    MaximumFeeEstimate
  | UrgentOnChainSweep
  | MinAllowedAnchorChannelRemoteFee
  | MinAllowedNonAnchorChannelRemoteFee
  | AnchorChannelFee
  | NonAnchorChannelFee
  | ChannelCloseMinimum
  | OutputSpendingFee

text \<open>The targets are enumerated, so that a statement about each of them is one about a list.\<close>

instantiation confirmation_target :: enum
begin

definition enum_confirmation_target :: "confirmation_target list" where
  "enum_confirmation_target =
     [MaximumFeeEstimate, UrgentOnChainSweep, MinAllowedAnchorChannelRemoteFee, MinAllowedNonAnchorChannelRemoteFee,
      AnchorChannelFee, NonAnchorChannelFee, ChannelCloseMinimum, OutputSpendingFee]"

definition enum_all_confirmation_target :: "(confirmation_target \<Rightarrow> bool) \<Rightarrow> bool" where
  "enum_all_confirmation_target P \<longleftrightarrow> list_all P enum_class.enum"

definition enum_ex_confirmation_target :: "(confirmation_target \<Rightarrow> bool) \<Rightarrow> bool" where
  "enum_ex_confirmation_target P \<longleftrightarrow> list_ex P enum_class.enum"

instance
proof
  have every: "t \<in> set (enum_class.enum :: confirmation_target list)" for t
    by (cases t) (simp_all add: enum_confirmation_target_def)
  then show "UNIV = set (enum_class.enum :: confirmation_target list)" by auto
  show "distinct (enum_class.enum :: confirmation_target list)" by (simp add: enum_confirmation_target_def)
  show "enum_class.enum_all P \<longleftrightarrow> Ball UNIV P" for P :: "confirmation_target \<Rightarrow> bool"
    using every by (auto simp: enum_all_confirmation_target_def list_all_iff)
  show "enum_class.enum_ex P \<longleftrightarrow> Bex UNIV P" for P :: "confirmation_target \<Rightarrow> bool"
    using every by (auto simp: enum_ex_confirmation_target_def list_ex_iff)
qed

end

type_synonym fee_table = "(confirmation_target \<times> u32) list"

abbreviation min_feerate :: u32 where
  "min_feerate \<equiv> 253"

definition initial_fees :: fee_table where
  "initial_fees =
     [(MaximumFeeEstimate, 50000), (UrgentOnChainSweep, 5000), (MinAllowedAnchorChannelRemoteFee, min_feerate),
      (MinAllowedNonAnchorChannelRemoteFee, min_feerate), (AnchorChannelFee, min_feerate), (NonAnchorChannelFee, 2000),
      (ChannelCloseMinimum, min_feerate), (OutputSpendingFee, min_feerate)]"

text \<open>\<open>fees.get(target).unwrap().store(..)\<close> and \<open>load(..)\<close>.\<close>

definition store_fee :: "confirmation_target \<Rightarrow> u32 \<Rightarrow> (fee_table, 'e, unit) action" where
  "store_fee t n fees =
     (case map_of fees t of None \<Rightarrow> (Panic, fees) | Some _ \<Rightarrow> (Ok (), AList.update t n fees))"

definition get_est_sat_per_1000_weight :: "fee_table \<Rightarrow> confirmation_target \<Rightarrow> ('e, u32) outcome" where
  "get_est_sat_per_1000_weight fees t = unwrap (map_of fees t)"

section \<open>Answers of bitcoind\<close>

record 'f mempool_json =
  mj_errors :: bool
  mj_maxmempool :: "u64 option"
  mj_mempoolminfee :: "'f option"

record 'f fee_json =
  fj_errors :: bool
  fj_feerate :: "'f option"

record fee_response =
  feerate_sat_per_kw :: "u32 option"
  errored :: bool

text \<open>The conversion asserts the default size of the mempool.\<close>

definition mempool_min_fee_response :: "('f \<Rightarrow> u32) \<Rightarrow> 'f mempool_json \<Rightarrow> ('e, fee_response) outcome" where
  "mempool_min_fee_response sat_per_kw j =
     (if mj_maxmempool j = Some 300000000
      then Ok \<lparr>feerate_sat_per_kw = map_option sat_per_kw (mj_mempoolminfee j), errored = mj_errors j\<rparr>
      else Panic)"

definition fee_response_of :: "('f \<Rightarrow> u32) \<Rightarrow> 'f fee_json \<Rightarrow> ('e, fee_response) outcome" where
  "fee_response_of sat_per_kw j =
     Ok \<lparr>feerate_sat_per_kw = map_option sat_per_kw (fj_feerate j), errored = fj_errors j\<rparr>"

record 'f bitcoind =
  bd_rate :: "'f \<Rightarrow> u32"
  bd_mempool :: "(string, 'f mempool_json) outcome"
  bd_estimate :: "nat \<Rightarrow> string \<Rightarrow> (string, 'f fee_json) outcome"

section \<open>The chain of bitcoind\<close>

record blockchain_json =
  cj_blocks :: "nat option"
  cj_bestblockhash :: "string option"
  cj_chain :: "string option"

record blockchain_info =
  latest_height :: nat
  latest_blockhash :: bytes
  chain :: string

text \<open>The conversion of the answer, which unwraps every field; \<open>from_str\<close> is that of a block hash.\<close>

definition blockchain_info_of :: "(string \<Rightarrow> bytes option) \<Rightarrow> blockchain_json \<Rightarrow> ('e, blockchain_info) outcome" where
  "blockchain_info_of from_str j =
     and_then (unwrap (cj_blocks j)) (\<lambda>height.
     and_then (unwrap (cj_bestblockhash j)) (\<lambda>hash_text.
     and_then (unwrap (from_str hash_text)) (\<lambda>hash.
     and_then (unwrap (cj_chain j)) (\<lambda>name.
       Ok \<lparr>latest_height = height, latest_blockhash = hash, chain = name\<rparr>))))"

definition call_blockchain_info ::
  "(string \<Rightarrow> bytes option) \<Rightarrow> (string, blockchain_json) outcome \<Rightarrow> (string, blockchain_info) outcome" where
  "call_blockchain_info from_str answer = and_then answer (blockchain_info_of from_str)"

text \<open>\<open>BitcoindClient::new\<close> up to the table of fees: the client, and a first call, whose error is replaced.\<close>

definition first_call ::
  "(string \<Rightarrow> bytes option) \<Rightarrow> (string, unit) outcome \<Rightarrow> (string, blockchain_json) outcome \<Rightarrow> (string, unit) outcome" where
  "first_call from_str client answer =
     and_then client (\<lambda>_.
     and_then (map_err (\<lambda>_. ''failed to make initial call to bitcoind - please check your RPC user/password and access settings'')
                (call_blockchain_info from_str answer)) (\<lambda>_. Ok ()))"

definition get_blockchain_info ::
  "(string \<Rightarrow> bytes option) \<Rightarrow> (string, blockchain_json) outcome \<Rightarrow> ('e, blockchain_info) outcome" where
  "get_blockchain_info from_str answer = unwrap_res (call_blockchain_info from_str answer)"

section \<open>One round of polling\<close>

definition at_least_minimum :: "fee_response \<Rightarrow> u32 option" where
  "at_least_minimum r = map_option (max min_feerate) (feerate_sat_per_kw r)"

text \<open>An error of the call, or no rate, is the default.\<close>

definition rate_or :: "u32 \<Rightarrow> (string, fee_response) outcome \<Rightarrow> (unit, u32) outcome" where
  "rate_or dflt answer =
     (case answer of
        Ok r \<Rightarrow> Ok (case at_least_minimum r of Some n \<Rightarrow> n | None \<Rightarrow> dflt)
      | Err e \<Rightarrow> Ok dflt
      | Panic \<Rightarrow> Panic)"

definition get_estimate :: "'f bitcoind \<Rightarrow> nat \<Rightarrow> string \<Rightarrow> u32 \<Rightarrow> (unit, u32) outcome" where
  "get_estimate b blocks mode dflt =
     rate_or dflt (and_then (bd_estimate b blocks mode) (fee_response_of (bd_rate b)))"

definition sub_u32 :: "u32 \<Rightarrow> u32 \<Rightarrow> ('e, u32) outcome" where
  "sub_u32 a b = (if b \<le> a then Ok (a - b) else Panic)"

definition poll_fees :: "'f bitcoind \<Rightarrow> (fee_table, unit, unit) action" where
  "poll_fees b =
     act_bind (act_lift (rate_or min_feerate (and_then (bd_mempool b) (mempool_min_fee_response (bd_rate b))))) (\<lambda>mempoolmin.
     act_bind (act_lift (get_estimate b 144 ''ECONOMICAL'' min_feerate)) (\<lambda>background.
     act_bind (act_lift (get_estimate b 18 ''ECONOMICAL'' 2000)) (\<lambda>normal.
     act_bind (act_lift (get_estimate b 6 ''CONSERVATIVE'' 5000)) (\<lambda>high_prio.
     act_bind (act_lift (get_estimate b 2 ''CONSERVATIVE'' 50000)) (\<lambda>very_high_prio.
     act_bind (store_fee MaximumFeeEstimate very_high_prio) (\<lambda>_.
     act_bind (store_fee UrgentOnChainSweep high_prio) (\<lambda>_.
     act_bind (store_fee MinAllowedAnchorChannelRemoteFee mempoolmin) (\<lambda>_.
     act_bind (act_lift (sub_u32 background 250)) (\<lambda>non_anchor.
     act_bind (store_fee MinAllowedNonAnchorChannelRemoteFee non_anchor) (\<lambda>_.
     act_bind (store_fee AnchorChannelFee background) (\<lambda>_.
     act_bind (store_fee NonAnchorChannelFee normal) (\<lambda>_.
     act_bind (store_fee ChannelCloseMinimum background) (\<lambda>_.
       store_fee OutputSpendingFee background)))))))))))))"

text \<open>The polling task over the answers of its rounds; it ends at the first panic.\<close>

fun poll_for_fee_estimates :: "'f bitcoind list \<Rightarrow> fee_table \<Rightarrow> bool \<times> fee_table" where
  "poll_for_fee_estimates [] fees = (True, fees)"
| "poll_for_fee_estimates (b # bs) fees =
     (case poll_fees b fees of
        (Ok _, t) \<Rightarrow> poll_for_fee_estimates bs t
      | (_, t) \<Rightarrow> (False, t))"

section \<open>Broadcasting\<close>

datatype rpc_call = Sendrawtransaction string | Submitpackage "string list"

definition broadcast_call :: "string list \<Rightarrow> rpc_call" where
  "broadcast_call txn = (case txn of [t] \<Rightarrow> Sendrawtransaction t | _ \<Rightarrow> Submitpackage txn)"

text \<open>A refused broadcast is only logged; the text of the error is unwrapped for the log.\<close>

definition broadcast_transactions :: "(rpc_call \<Rightarrow> (string option, unit) outcome) \<Rightarrow> string list \<Rightarrow> (unit, rpc_call) outcome" where
  "broadcast_transactions rpc txn =
     (case rpc (broadcast_call txn) of
        Ok _ \<Rightarrow> Ok (broadcast_call txn)
      | Err e \<Rightarrow> and_then (unwrap e) (\<lambda>_. Ok (broadcast_call txn))
      | Panic \<Rightarrow> Panic)"

section \<open>Properties\<close>

text \<open>A table that has every target, each rate at least the minimum LDK may send, but for the least rate
  accepted from a peer without anchors, which is at least three.\<close>

definition sane_fees :: "fee_table \<Rightarrow> bool" where
  "sane_fees fees \<longleftrightarrow>
     (\<forall>t. \<exists>n. map_of fees t = Some n \<and>
        (if t = MinAllowedNonAnchorChannelRemoteFee then 3 \<le> unat n else 253 \<le> unat n))"

definition default_mempool :: "'f bitcoind \<Rightarrow> bool" where
  "default_mempool b \<longleftrightarrow> (case bd_mempool b of Ok j \<Rightarrow> mj_maxmempool j = Some 300000000 | Err e \<Rightarrow> True | Panic \<Rightarrow> False)"

definition answers :: "'f bitcoind \<Rightarrow> bool" where
  "answers b \<longleftrightarrow> (\<forall>n m. bd_estimate b n m \<noteq> Panic)"

lemma rate_or_at_least:
  assumes "253 \<le> unat dflt" and "answer \<noteq> Panic"
  shows "\<exists>n. rate_or dflt answer = Ok n \<and> 253 \<le> unat n"
proof -
  have "253 \<le> unat (max min_feerate x)" for x :: u32
    by (auto simp: max_def word_le_nat_alt)
  then show ?thesis
    using assms by (cases answer) (auto simp: rate_or_def at_least_minimum_def split: option.splits)
qed

lemma estimate_at_least:
  "answers b \<Longrightarrow> 253 \<le> unat dflt \<Longrightarrow> \<exists>n. get_estimate b blocks mode dflt = Ok n \<and> 253 \<le> unat n"
  unfolding get_estimate_def
  by (rule rate_or_at_least, assumption, cases "bd_estimate b blocks mode") (auto simp: answers_def fee_response_of_def)

lemma store_fee_known: "sane_fees fees \<Longrightarrow> store_fee t n fees = (Ok (), AList.update t n fees)"
  by (auto simp: store_fee_def sane_fees_def split: option.splits)

lemma sane_update:
  "sane_fees fees \<Longrightarrow> (if t = MinAllowedNonAnchorChannelRemoteFee then 3 \<le> unat n else 253 \<le> unat n) \<Longrightarrow>
   sane_fees (AList.update t n fees)"
  by (auto simp: sane_fees_def update_conv')

definition sane_rate :: "fee_table \<Rightarrow> confirmation_target \<Rightarrow> bool" where
  "sane_rate fees t \<longleftrightarrow>
     (case map_of fees t of Some n \<Rightarrow> (if t = MinAllowedNonAnchorChannelRemoteFee then 3 else 253) \<le> unat n | None \<Rightarrow> False)"

lemma sane_fees_rates: "sane_fees fees \<longleftrightarrow> (\<forall>t. sane_rate fees t)"
proof -
  have "sane_rate fees t \<longleftrightarrow> (\<exists>n. map_of fees t = Some n \<and>
        (if t = MinAllowedNonAnchorChannelRemoteFee then 3 \<le> unat n else 253 \<le> unat n))" for t
    by (cases "map_of fees t") (simp_all add: sane_rate_def)
  then show ?thesis by (simp add: sane_fees_def)
qed

lemma every_target: "(\<forall>t :: confirmation_target. P t) \<longleftrightarrow> list_all P enum_class.enum"
  using enum_UNIV [where 'a = confirmation_target] by (auto simp: list_all_iff)

lemma initial_sane: "sane_fees initial_fees"
  by (simp add: sane_fees_rates every_target enum_confirmation_target_def sane_rate_def initial_fees_def)

lemma poll_sane:
  assumes "sane_fees fees" and "default_mempool b" and "answers b"
  shows "\<exists>t. poll_fees b fees = (Ok (), t) \<and> sane_fees t"
proof -
  have "and_then (bd_mempool b) (mempool_min_fee_response (bd_rate b)) \<noteq> Panic"
    using assms(2) by (auto simp: default_mempool_def mempool_min_fee_response_def split: outcome.splits)
  then obtain m where m: "rate_or min_feerate (and_then (bd_mempool b) (mempool_min_fee_response (bd_rate b))) = Ok m" "253 \<le> unat m"
    using rate_or_at_least [of min_feerate] by force
  obtain bg where bg: "get_estimate b 144 ''ECONOMICAL'' min_feerate = Ok bg" "253 \<le> unat bg"
    using estimate_at_least [OF assms(3), of min_feerate] by force
  obtain n where n: "get_estimate b 18 ''ECONOMICAL'' 2000 = Ok n" "253 \<le> unat n"
    using estimate_at_least [OF assms(3), of 2000] by force
  obtain h where h: "get_estimate b 6 ''CONSERVATIVE'' 5000 = Ok h" "253 \<le> unat h"
    using estimate_at_least [OF assms(3), of 5000] by force
  obtain v where v: "get_estimate b 2 ''CONSERVATIVE'' 50000 = Ok v" "253 \<le> unat v"
    using estimate_at_least [OF assms(3), of 50000] by force
  have le: "(250 :: u32) \<le> bg" using bg(2) by (simp add: word_le_nat_alt)
  then have low: "3 \<le> unat (bg - 250)" using bg(2) by (simp add: unat_sub)
  have sub: "sub_u32 bg 250 = Ok (bg - 250)" using le by (simp add: sub_u32_def)
  show ?thesis
    using assms(1) m bg n h v low
    by (simp add: poll_fees_def act_bind_def store_fee_known sane_update sub)
qed


text \<open>
  A bitcoind with a mempool of another size ends the polling: the conversion of its answer panics before
  any rate is stored, and the rates stay as they are whatever bitcoind answers from then on.\<close>
theorem other_mempool_freezes_fees:
  assumes "bd_mempool b = Ok j" and "mj_maxmempool j \<noteq> Some 300000000"
    and "poll_for_fee_estimates bs initial_fees = (True, fees)"
  shows "poll_for_fee_estimates (bs @ b # later) initial_fees = (False, fees)"
proof -
  have stop: "poll_fees b fees = (Panic, fees)" for fees
    using assms(1,2) by (simp add: poll_fees_def mempool_min_fee_response_def rate_or_def)
  have "poll_for_fee_estimates (bs @ b # later) start = (False, fees)"
    if "poll_for_fee_estimates bs start = (True, fees)" for start
    using that by (induction bs arbitrary: start) (auto simp: stop split: prod.splits outcome.splits)
  then show ?thesis using assms(3) .
qed

section \<open>Witnesses\<close>

definition example_bitcoind :: "u64 \<Rightarrow> u32 bitcoind" where
  "example_bitcoind mempool =
     \<lparr>bd_rate = id, bd_mempool = Ok \<lparr>mj_errors = False, mj_maxmempool = Some mempool, mj_mempoolminfee = Some 250\<rparr>,
      bd_estimate = (\<lambda>n m. if n = 144 then Ok \<lparr>fj_errors = False, fj_feerate = Some 1\<rparr> else Err ''timeout'')\<rparr>"


theorem other_mempool_freezes_fees_witness:
  "poll_for_fee_estimates [example_bitcoind 50000000, example_bitcoind 300000000] initial_fees = (False, initial_fees)"
  using other_mempool_freezes_fees [of "example_bitcoind 50000000" _ "[]" initial_fees "[example_bitcoind 300000000]"]
  by (simp add: example_bitcoind_def)

end
