(* ===== verification/Sweeper.thy ===== *)
theory Sweeper
  imports Utxos
begin

text \<open>
  The spender of the outputs of closed channels: \<open>RgbOutputSpender\<close> of \<open>src/src/ldk.rs\<close>, which LDK's sweeper
  calls with the descriptors of the outputs and which moves their assets along.

  The keys manager, the files of the RGB part of LDK and the wallet are parameters; \<open>adapter_answers\<close> says
  that the wallet answers as the adapter of \<open>Utxos\<close> does.  The transactions already made are kept under a
  mutex by the hash of their descriptors, and on disk; a panic while it is held poisons it.
\<close>

section \<open>State and environment\<close>

datatype output_descriptor =
    Static_payment_output "txid \<times> nat"
  | Delayed_payment_output "txid \<times> nat"
  | Static_output "txid \<times> nat"

definition descriptor_txid :: "output_descriptor \<Rightarrow> txid" where
  "descriptor_txid d =
     (case d of Static_payment_output (txid, _) \<Rightarrow> txid | Delayed_payment_output (txid, _) \<Rightarrow> txid | Static_output (txid, _) \<Rightarrow> txid)"

record transfer_info =
  ti_contract_id :: contract_id
  ti_rgb_amount :: u64

type_synonym sweep_output = "u64 \<times> string"

record sweep_request =
  sq_descriptors :: "output_descriptor list"
  sq_outputs :: "sweep_output list"
  sq_change_script :: string
  sq_feerate :: nat
  sq_locktime :: "nat option"

datatype sweep_call =
    Update_sweep_witness nat txid
  | Receive_asset
  | Color_sweep string "(contract_id \<times> nat \<times> u64) list"
  | Post_sweep_consignment string contract_id txid nat

record sweeper =
  sw_txes :: "(u64 \<times> string) list"
  sw_poisoned :: bool
  sw_disk :: "(u64 \<times> string) list"
  sw_files :: "string list"
  sw_calls :: "sweep_call list"

datatype extracted = Extracted string | Missing_input_value string | Extract_failed

record sweep_env =
  se_hash :: "output_descriptor list \<Rightarrow> u64"
  se_transfer_info :: "txid \<Rightarrow> transfer_info option option"
  se_tx_height :: "txid \<Rightarrow> (rgb_lib_error, nat option) outcome"
  se_update_witnesses :: "nat \<Rightarrow> txid \<Rightarrow> (rgb_lib_error, txid list) outcome"
  se_witness_receive :: "sweep_call list \<Rightarrow> (rgb_lib_error, string) outcome"
  se_script_of :: "string \<Rightarrow> string option"
  se_vanilla :: "sweep_request \<Rightarrow> (unit, string) outcome"
  se_create_psbt :: "sweep_request \<Rightarrow> string option"
  se_color :: "string \<Rightarrow> (contract_id \<times> nat \<times> u64) list \<Rightarrow> (rgb_lib_error, string \<times> contract_id list) outcome"
  se_sign :: "output_descriptor list \<Rightarrow> string \<Rightarrow> string option"
  se_extract :: "string \<Rightarrow> extracted"
  se_txid :: "string \<Rightarrow> txid"
  se_save_ok :: "string \<Rightarrow> bool"
  se_endpoint :: "string option"
  se_post :: "sweep_call \<Rightarrow> (unit, (rgb_lib_error, unit) outcome) outcome"
  se_write_ok :: bool

type_synonym 'a sweep_action = "(sweeper, unit, 'a) action"

definition sweep_call :: "sweep_call \<Rightarrow> unit sweep_action" where
  "sweep_call c = act_modify (\<lambda>s. s\<lparr>sw_calls := sw_calls s @ [c]\<rparr>)"

section \<open>The descriptors\<close>

text \<open>What the loop gathers: whether an asset was met, the outputs, and for each asset its output, its amount
  and its recipient.\<close>

record sweep_acc =
  sx_vanilla :: bool
  sx_txouts :: "sweep_output list"
  sx_vout :: nat
  sx_assets :: "(contract_id \<times> nat \<times> u64 \<times> string) list"

definition add_asset :: "sweep_env \<Rightarrow> transfer_info \<Rightarrow> sweep_acc \<Rightarrow> sweep_acc sweep_action" where
  "add_asset env info acc =
     (case map_of (sx_assets acc) (ti_contract_id info) of
        Some (vout, amount, recipient) \<Rightarrow>
          act_bind (act_lift (add_u64 amount (ti_rgb_amount info))) (\<lambda>total_amount.
            act_return (acc\<lparr>sx_vanilla := False,
                            sx_assets := AList.update (ti_contract_id info) (vout, total_amount, recipient) (sx_assets acc)\<rparr>))
      | None \<Rightarrow>
          act_bind (act_get (\<lambda>s. se_witness_receive env (sw_calls s))) (\<lambda>answer.
          act_bind (sweep_call Receive_asset) (\<lambda>_.
          act_bind (act_lift (unwrap_res answer)) (\<lambda>recipient.
          act_bind (act_lift (unwrap (se_script_of env recipient))) (\<lambda>script.
            act_return \<lparr>sx_vanilla = False, sx_txouts = sx_txouts acc @ [(546, script)], sx_vout = sx_vout acc + 1,
                        sx_assets = AList.update (ti_contract_id info) (sx_vout acc, ti_rgb_amount info, recipient) (sx_assets acc)\<rparr>)))))"

definition sweep_descriptor :: "sweep_env \<Rightarrow> output_descriptor \<Rightarrow> sweep_acc \<Rightarrow> sweep_acc sweep_action" where
  "sweep_descriptor env d acc =
     (let txid = descriptor_txid d
      in case se_transfer_info env txid of
           None \<Rightarrow> act_return acc
         | Some None \<Rightarrow> act_lift Panic
         | Some (Some info) \<Rightarrow>
             if ti_rgb_amount info = 0 then act_return acc
             else
               act_bind (act_lift (map_err (\<lambda>_. ()) (se_tx_height env txid))) (\<lambda>closing_height.
               act_bind (act_lift (unwrap closing_height)) (\<lambda>height.
               act_bind (sweep_call (Update_sweep_witness height txid)) (\<lambda>_.
               act_bind (act_lift (unwrap_res (se_update_witnesses env height txid))) (\<lambda>failed.
                 if failed \<noteq> [] then act_lift (Err ()) else add_asset env info acc)))))"

fun sweep_descriptors :: "sweep_env \<Rightarrow> output_descriptor list \<Rightarrow> sweep_acc \<Rightarrow> sweep_acc sweep_action" where
  "sweep_descriptors env [] acc = act_return acc"
| "sweep_descriptors env (d # ds) acc =
     act_bind (sweep_descriptor env d acc) (\<lambda>acc'. sweep_descriptors env ds acc')"

definition start_sweep :: "sweep_output list \<Rightarrow> sweep_acc" where
  "start_sweep outputs = \<lparr>sx_vanilla = True, sx_txouts = outputs, sx_vout = 0, sx_assets = []\<rparr>"

section \<open>The transaction\<close>

definition extract_or_panic :: "sweep_env \<Rightarrow> string \<Rightarrow> (unit, string) outcome" where
  "extract_or_panic env psbt =
     (case se_extract env psbt of Extracted tx \<Rightarrow> Ok tx | Missing_input_value tx \<Rightarrow> Ok tx | Extract_failed \<Rightarrow> Panic)"

text \<open>A consignment is saved, posted and removed; only a failure of the task that posts it counts.\<close>

definition deliver_consignment ::
  "sweep_env \<Rightarrow> txid \<Rightarrow> (contract_id \<times> nat \<times> u64 \<times> string) list \<Rightarrow> contract_id \<Rightarrow> unit sweep_action" where
  "deliver_consignment env closing_txid assets c =
     act_bind (act_lift (unwrap (map_of assets c))) (\<lambda>(vout, _, recipient).
       let path = ''consignment_'' @ closing_txid; post = Post_sweep_consignment recipient c closing_txid (vout + 1)
       in act_bind (act_lift (if se_save_ok env path then Ok () else Panic)) (\<lambda>_.
          act_bind (act_modify (\<lambda>s. s\<lparr>sw_files := List.insert path (sw_files s)\<rparr>)) (\<lambda>_.
          act_bind (act_lift (unwrap (se_endpoint env))) (\<lambda>_.
          act_bind (sweep_call post) (\<lambda>_.
          act_bind (act_lift (se_post env post)) (\<lambda>_.
            act_modify (\<lambda>s. s\<lparr>sw_files := removeAll path (sw_files s)\<rparr>)))))))"

definition coloured_sweep :: "sweep_env \<Rightarrow> sweep_request \<Rightarrow> sweep_acc \<Rightarrow> string sweep_action" where
  "coloured_sweep env r acc =
     act_bind (act_lift (unwrap (se_create_psbt env (r\<lparr>sq_outputs := sx_txouts acc, sq_feerate := 7 * 250\<rparr>)))) (\<lambda>psbt.
     let coloring = map (\<lambda>(c, vout, amount, _). (c, vout, amount)) (sx_assets acc)
     in act_bind (sweep_call (Color_sweep psbt coloring)) (\<lambda>_.
        act_bind (act_lift (unwrap_res (se_color env psbt coloring))) (\<lambda>(coloured, consignments).
        act_bind (act_lift (unwrap (se_sign env (sq_descriptors r) coloured))) (\<lambda>signed.
        act_bind (act_lift (extract_or_panic env signed)) (\<lambda>tx.
        act_bind (act_map (deliver_consignment env (se_txid env tx) (sx_assets acc)) consignments) (\<lambda>_.
        act_bind (act_modify (\<lambda>s. s\<lparr>sw_txes := AList.update (se_hash env (sq_descriptors r)) tx (sw_txes s)\<rparr>)) (\<lambda>_.
        act_bind (act_lift (if se_write_ok env then Ok () else Panic)) (\<lambda>_.
        act_bind (act_modify (\<lambda>s. s\<lparr>sw_disk := sw_txes s\<rparr>)) (\<lambda>_.
          act_return tx)))))))))"

text \<open>The work under the mutex; a panic poisons it.\<close>

definition with_txes :: "'a sweep_action \<Rightarrow> 'a sweep_action" where
  "with_txes m s =
     (if sw_poisoned s then (Panic, s)
      else case m s of (Panic, t) \<Rightarrow> (Panic, t\<lparr>sw_poisoned := True\<rparr>) | res \<Rightarrow> res)"

interpretation txes: poisoning_lock with_txes sw_poisoned "\<lambda>s. s\<lparr>sw_poisoned := True\<rparr>"
  by unfold_locales (simp_all add: with_txes_def)

definition spend_spendable_outputs :: "sweep_env \<Rightarrow> sweep_request \<Rightarrow> string sweep_action" where
  "spend_spendable_outputs env r =
     with_txes (act_bind (act_get (\<lambda>s. map_of (sw_txes s) (se_hash env (sq_descriptors r)))) (\<lambda>known.
       case known of
         Some tx \<Rightarrow> act_return tx
       | None \<Rightarrow>
           act_bind (sweep_descriptors env (sq_descriptors r) (start_sweep (sq_outputs r))) (\<lambda>acc.
             if sx_vanilla acc then act_lift (se_vanilla env (r\<lparr>sq_outputs := sx_txouts acc\<rparr>))
             else coloured_sweep env r acc)))"

text \<open>\<open>read_output_spender_txes\<close> at the start of the node.\<close>

definition restart_sweeper :: "sweeper \<Rightarrow> sweeper" where
  "restart_sweeper s = s\<lparr>sw_txes := sw_disk s, sw_poisoned := False\<rparr>"

section \<open>The adapter as the wallet\<close>

definition adapter_answers :: "sweep_env \<Rightarrow> bool" where
  "adapter_answers env \<longleftrightarrow>
     (\<forall>txid h cs. \<forall>w :: wallet.
        se_tx_height env txid = fst (get_tx_height txid w) \<and>
        se_update_witnesses env h txid = fst (update_witnesses h [txid] w) \<and>
        (\<not> wm_poisoned w \<longrightarrow> se_witness_receive env cs = and_then (fst (witness_receive w)) (\<lambda>d. Ok (rd_recipient_id d))))"

end
