(* ===== verification/SweeperProps.thy ===== *)
theory SweeperProps
  imports Sweeper
begin

text \<open>
  Properties of the spender of the outputs of closed channels: every asset is moved with its whole amount, a
  transaction is made once for its descriptors, and what becomes of it over the adapter of this repository.
\<close>

section \<open>The assets of the descriptors\<close>

text \<open>The asset of a descriptor, when it carries one.\<close>

definition asset_of :: "sweep_env \<Rightarrow> output_descriptor \<Rightarrow> (contract_id \<times> u64) option" where
  "asset_of env d =
     (case se_transfer_info env (descriptor_txid d) of
        Some (Some info) \<Rightarrow> if ti_rgb_amount info = 0 then None else Some (ti_contract_id info, ti_rgb_amount info)
      | _ \<Rightarrow> None)"

definition amounts_of :: "sweep_env \<Rightarrow> contract_id \<Rightarrow> output_descriptor list \<Rightarrow> nat list" where
  "amounts_of env c ds =
     List.map_filter (\<lambda>d. case asset_of env d of Some (k, a) \<Rightarrow> if k = c then Some (unat a) else None | None \<Rightarrow> None) ds"

lemma amounts_of_simps [simp]:
  "amounts_of env c [] = []"
  "amounts_of env c (ds @ [d]) = amounts_of env c ds @
     (case asset_of env d of Some (k, a) \<Rightarrow> if k = c then [unat a] else [] | None \<Rightarrow> [])"
  by (auto simp: amounts_of_def List.map_filter_def split: option.splits)

fun entry_fits :: "(nat \<times> u64 \<times> string) option \<Rightarrow> nat list \<Rightarrow> bool" where
  "entry_fits None amounts \<longleftrightarrow> amounts = []"
| "entry_fits (Some (v, a, rcp)) amounts \<longleftrightarrow> amounts \<noteq> [] \<and> unat a = sum_list amounts"

text \<open>What the loop has gathered after some descriptors.\<close>

definition gathered :: "sweep_env \<Rightarrow> sweep_output list \<Rightarrow> output_descriptor list \<Rightarrow> sweep_acc \<Rightarrow> bool" where
  "gathered env outputs ds acc \<longleftrightarrow>
     (sx_vanilla acc \<longleftrightarrow> sx_assets acc = []) \<and>
     map (\<lambda>(c, v, a, rcp). v) (sx_assets acc) = [0..<sx_vout acc] \<and> distinct (map fst (sx_assets acc)) \<and>
     length (sx_txouts acc) = length outputs + sx_vout acc \<and> take (length outputs) (sx_txouts acc) = outputs \<and>
     (\<forall>c. entry_fits (map_of (sx_assets acc) c) (amounts_of env c ds))"

lemma update_vouts:
  "map_of xs c = Some (v, a, rcp) \<Longrightarrow> map (\<lambda>(c, v, a, rcp). v) (AList.update c (v, b, rcp2) xs) = map (\<lambda>(c, v, a, rcp). v) xs"
  by (induction xs) (auto split: if_splits)

lemma update_new: "map_of xs c = None \<Longrightarrow> AList.update c e xs = xs @ [(c, e)]"
  by (induction xs) (auto split: if_splits)

lemma update_not_Nil: "AList.update c e xs \<noteq> []"
  by (cases xs) auto

lemma gathered_skip:
  "gathered env outputs ds acc \<Longrightarrow> asset_of env d = None \<Longrightarrow> gathered env outputs (ds @ [d]) acc"
  by (simp add: gathered_def)

lemma add_asset_gathered:
  assumes "add_asset env info acc s = (Ok acc', t)" and "gathered env outputs ds acc"
    and "asset_of env d = Some (ti_contract_id info, ti_rgb_amount info)"
  shows "gathered env outputs (ds @ [d]) acc'"
proof (cases "map_of (sx_assets acc) (ti_contract_id info)")
  case None
  then obtain recipient script where acc': "acc' = \<lparr>sx_vanilla = False, sx_txouts = sx_txouts acc @ [(546, script)], sx_vout = sx_vout acc + 1,
      sx_assets = AList.update (ti_contract_id info) (sx_vout acc, ti_rgb_amount info, recipient) (sx_assets acc)\<rparr>"
    using assms(1) by (auto simp: add_asset_def act_bind_Ok act_lift_def act_return_def)
  have fits: "entry_fits (map_of (sx_assets acc) c) (amounts_of env c ds)" for c
    using assms(2) by (simp add: gathered_def)
  have "amounts_of env (ti_contract_id info) ds = []" using fits [of "ti_contract_id info"] None by simp
  then have "entry_fits (map_of (sx_assets acc') c) (amounts_of env c (ds @ [d]))" for c
    using fits [of c] assms(3) by (simp add: acc' update_conv')
  then show ?thesis
    using assms(2) None by (auto simp: gathered_def acc' update_new update_not_Nil distinct_update)
next
  case (Some e)
  then obtain v a rcp total_amount where e: "map_of (sx_assets acc) (ti_contract_id info) = Some (v, a, rcp)"
    and sum: "add_u64 a (ti_rgb_amount info) = (Ok total_amount :: (unit, u64) outcome)"
    and acc': "acc' = acc\<lparr>sx_vanilla := False,
      sx_assets := AList.update (ti_contract_id info) (v, total_amount, rcp) (sx_assets acc)\<rparr>"
    using assms(1) by (cases e) (auto simp: add_asset_def act_bind_Ok act_lift_def act_return_def)
  have fits: "entry_fits (map_of (sx_assets acc) c) (amounts_of env c ds)" for c
    using assms(2) by (simp add: gathered_def)
  have "entry_fits (map_of (sx_assets acc') c) (amounts_of env c (ds @ [d]))" for c
    using fits [of c] fits [of "ti_contract_id info"] assms(3) e unat_add_u64 [OF sum] by (simp add: acc' update_conv')
  then show ?thesis
    using assms(2) e by (auto simp: acc' gathered_def update_vouts update_not_Nil distinct_update)
qed

lemma sweep_descriptor_gathered:
  assumes "sweep_descriptor env d acc s = (Ok acc', t)" and "gathered env outputs ds acc"
  shows "gathered env outputs (ds @ [d]) acc'"
proof (cases "asset_of env d")
  case None
  then have "acc' = acc"
    using assms(1) by (auto simp: sweep_descriptor_def asset_of_def Let_def act_return_def act_lift_def split: option.splits if_splits)
  then show ?thesis using gathered_skip [OF assms(2) None] by simp
next
  case (Some p)
  then obtain info where info: "se_transfer_info env (descriptor_txid d) = Some (Some info)" "ti_rgb_amount info \<noteq> 0"
    "p = (ti_contract_id info, ti_rgb_amount info)"
    by (auto simp: asset_of_def split: option.splits if_splits)
  then obtain u where "add_asset env info acc u = (Ok acc', t)"
    using assms(1) by (auto simp: sweep_descriptor_def Let_def act_bind_Ok act_lift_def split: if_splits)
  then show ?thesis using add_asset_gathered assms(2) Some info(3) by blast
qed

lemma sweep_gathered:
  "sweep_descriptors env ds acc s = (Ok acc', t) \<Longrightarrow> gathered env outputs before acc \<Longrightarrow> gathered env outputs (before @ ds) acc'"
proof (induction ds arbitrary: acc before s)
  case (Cons d ds)
  then obtain acc1 u where one: "sweep_descriptor env d acc s = (Ok acc1, u)" and rest: "sweep_descriptors env ds acc1 u = (Ok acc', t)"
    by (auto simp: act_bind_Ok)
  from Cons.IH [OF rest sweep_descriptor_gathered [OF one Cons.prems(2)]] show ?case by simp
qed simp

lemma start_gathered: "gathered env outputs [] (start_sweep outputs)"
  by (simp add: gathered_def start_sweep_def)

lemma coloured_sweep_Ok:
  assumes "coloured_sweep env r acc s = (Ok tx, t)"
  shows "map_of (sw_txes t) (se_hash env (sq_descriptors r)) = Some tx \<and> sw_disk t = sw_txes t"
  using assms by (auto simp: coloured_sweep_def Let_def act_bind_Ok act_lift_def act_modify_def act_return_def update_conv')


section \<open>Properties\<close>

definition carries_asset :: "sweep_env \<Rightarrow> sweep_request \<Rightarrow> bool" where
  "carries_asset env r \<longleftrightarrow> (\<exists>d \<in> set (sq_descriptors r). asset_of env d \<noteq> None)"

lemma amounts_of_Nil: "amounts_of env c ds = [] \<longleftrightarrow> (\<forall>d \<in> set ds. \<forall>a. asset_of env d \<noteq> Some (c, a))"
  by (induction ds) (auto simp: amounts_of_def List.map_filter_def split: option.splits if_splits)

lemma gathered_vanilla: "gathered env outputs (sq_descriptors r) acc \<Longrightarrow> sx_vanilla acc \<longleftrightarrow> \<not> carries_asset env r"
proof -
  assume g: "gathered env outputs (sq_descriptors r) acc"
  have "carries_asset env r \<longleftrightarrow> (\<exists>c. amounts_of env c (sq_descriptors r) \<noteq> [])"
    by (auto simp: carries_asset_def amounts_of_Nil)
  also have "\<dots> \<longleftrightarrow> sx_assets acc \<noteq> []"
  proof
    assume "\<exists>c. amounts_of env c (sq_descriptors r) \<noteq> []"
    then show "sx_assets acc \<noteq> []" using g by (auto simp: gathered_def)
  next
    assume "sx_assets acc \<noteq> []"
    then obtain c v a rcp where "map_of (sx_assets acc) c = Some (v, a, rcp)"
      by (cases "sx_assets acc") (fastforce split: if_splits)+
    then have "entry_fits (Some (v, a, rcp)) (amounts_of env c (sq_descriptors r))"
      using g unfolding gathered_def by metis
    then show "\<exists>c. amounts_of env c (sq_descriptors r) \<noteq> []" by auto
  qed
  finally show ?thesis using g by (simp add: gathered_def)
qed

lemma coloured_sweep_parts:
  assumes "spend_spendable_outputs env r s = (Ok tx, t)" and "map_of (sw_txes s) (se_hash env (sq_descriptors r)) = None"
    and "carries_asset env r"
  obtains acc u where "\<not> sw_poisoned s" "sweep_descriptors env (sq_descriptors r) (start_sweep (sq_outputs r)) s = (Ok acc, u)"
    "gathered env (sq_outputs r) (sq_descriptors r) acc" "coloured_sweep env r acc u = (Ok tx, t)"
proof -
  from assms(1,2) obtain acc u where u: "\<not> sw_poisoned s"
    "sweep_descriptors env (sq_descriptors r) (start_sweep (sq_outputs r)) s = (Ok acc, u)"
    and rest: "(if sx_vanilla acc then act_lift (se_vanilla env (r\<lparr>sq_outputs := sx_txouts acc\<rparr>)) else coloured_sweep env r acc) u = (Ok tx, t)"
    by (auto simp: spend_spendable_outputs_def txes.locked_Ok act_bind_Ok act_get_def)
  have g: "gathered env (sq_outputs r) (sq_descriptors r) acc"
    using sweep_gathered [OF u(2) start_gathered] by simp
  then have "\<not> sx_vanilla acc" using gathered_vanilla assms(3) by blast
  then show ?thesis using that [OF u g] rest by simp
qed

text \<open>A property of the state that calls and files do not change.\<close>

definition call_stable :: "(sweeper \<Rightarrow> bool) \<Rightarrow> bool" where
  "call_stable P \<longleftrightarrow> (\<forall>s c fs. P s \<longrightarrow> P (s\<lparr>sw_calls := sw_calls s @ [c]\<rparr>) \<and> P (s\<lparr>sw_files := fs\<rparr>))"

lemma call_made: "call_stable (\<lambda>s. c \<in> set (sw_calls s))"
  by (simp add: call_stable_def)

lemma not_poisoned: "call_stable (\<lambda>s. \<not> sw_poisoned s)"
  by (simp add: call_stable_def)

lemma keeps_sweep_call: "call_stable P \<Longrightarrow> keeps P (sweep_call c)"
  by (simp add: call_stable_def keeps_def sweep_call_def)

lemma keeps_files: "call_stable P \<Longrightarrow> keeps P (act_modify (\<lambda>s. s\<lparr>sw_files := f s\<rparr>))"
  by (simp add: call_stable_def keeps_def)

lemma deliver_keeps: "call_stable P \<Longrightarrow> keeps P (deliver_consignment env i as k)"
  unfolding deliver_consignment_def Let_def
  by (rule keeps_bind, rule keeps_lift, simp only: split: prod.split)
    (intro allI impI keeps_bind keeps_sweep_call keeps_lift keeps_files)

lemma add_asset_keeps: "call_stable P \<Longrightarrow> keeps P (add_asset env info acc)"
  unfolding add_asset_def
  by (simp only: split: option.split prod.split)
    (intro conjI allI impI keeps_bind keeps_sweep_call keeps_lift keeps_get keeps_return)

lemma sweep_keeps: "call_stable P \<Longrightarrow> keeps P (sweep_descriptors env ds acc)"
proof (induction ds arbitrary: acc)
  case (Cons d ds)
  have "keeps P (sweep_descriptor env d acc)"
    unfolding sweep_descriptor_def Let_def
    by (simp only: split: option.split if_split)
      (use Cons.prems in \<open>intro conjI allI impI keeps_bind keeps_sweep_call keeps_lift keeps_return add_asset_keeps; simp add: add_asset_keeps\<close>)
  then show ?case using Cons by (simp add: keeps_bind)
qed simp

lemma coloured_sweep_delivers:
  assumes "coloured_sweep env r acc s = (Ok tx, t)" and "call_stable P"
  obtains psbt w where "P (s\<lparr>sw_calls := sw_calls s @ [Color_sweep psbt (map (\<lambda>(c, v, a, rcp). (c, v, a)) (sx_assets acc))]\<rparr>) \<Longrightarrow> P w"
    "sw_calls t = sw_calls w" "sw_poisoned t = sw_poisoned w"
proof -
  let ?coloring = "map (\<lambda>(c, v, a, rcp). (c, v, a)) (sx_assets acc)"
  obtain psbt cs us w where post: "act_map (deliver_consignment env (se_txid env tx) (sx_assets acc)) cs
        (s\<lparr>sw_calls := sw_calls s @ [Color_sweep psbt ?coloring]\<rparr>) = (Ok us, w)"
    and t: "sw_calls t = sw_calls w" "sw_poisoned t = sw_poisoned w"
    using assms(1) by (auto simp: coloured_sweep_def Let_def act_bind_Ok act_lift_def act_modify_def act_return_def sweep_call_def)
  show ?thesis
    using that [OF keepsD [OF keeps_act_map [OF deliver_keeps [OF assms(2)]] _ post] t] by blast
qed

lemma coloured_sweep_calls:
  assumes "coloured_sweep env r acc s = (Ok tx, t)"
  shows "\<exists>psbt. Color_sweep psbt (map (\<lambda>(c, v, a, rcp). (c, v, a)) (sx_assets acc)) \<in> set (sw_calls t)"
    (is "?P t")
proof -
  have stable: "call_stable ?P" by (auto simp: call_stable_def)
  show ?thesis
  proof (rule coloured_sweep_delivers [OF assms stable])
    fix psbt w
    let ?c = "Color_sweep psbt (map (\<lambda>(c, v, a, rcp). (c, v, a)) (sx_assets acc))"
    assume w: "?P (s\<lparr>sw_calls := sw_calls s @ [?c]\<rparr>) \<Longrightarrow> ?P w" and t: "sw_calls t = sw_calls w"
    have "?P (s\<lparr>sw_calls := sw_calls s @ [?c]\<rparr>)" by (rule exI [of _ psbt]) simp
    from w [OF this] show ?thesis by (simp only: t)
  qed
qed

lemma coloured_sweep_sound:
  assumes "coloured_sweep env r acc s = (Ok tx, t)" and "\<not> sw_poisoned s"
  shows "\<not> sw_poisoned t"
  by (rule coloured_sweep_delivers [OF assms(1) not_poisoned]) (use assms(2) in simp)

lemma assets_map: "map_of (map (\<lambda>(c, v, a, rcp). (c, v, a)) as) c = map_option (\<lambda>(v, a, rcp). (v, a)) (map_of as c)"
  by (induction as) (auto split: if_splits)



section \<open>Over the adapter\<close>

lemma plain_prefix:
  "\<forall>p \<in> set plain. se_transfer_info env (descriptor_txid p) \<noteq> Some None \<and> asset_of env p = None \<Longrightarrow>
   sweep_descriptors env (plain @ ds) acc s = sweep_descriptors env ds acc s"
  by (induction plain arbitrary: acc s) (auto simp: sweep_descriptor_def asset_of_def Let_def split: option.splits if_splits)

text \<open>
  With the wallet adapter of this repository, outputs that carry an asset cannot be swept: the height of
  the closing transaction is never known to the adapter, the spender panics on it while it holds the mutex of
  its transactions, and from then on every sweep panics, those of plain outputs too.\<close>
theorem adapter_sweep_poisons:
  assumes "adapter_answers env" and "\<not> sw_poisoned s" and "map_of (sw_txes s) (se_hash env (sq_descriptors r)) = None"
    and "sq_descriptors r = plain @ d # later" and "asset_of env d \<noteq> None"
    and "\<forall>p \<in> set plain. se_transfer_info env (descriptor_txid p) \<noteq> Some None \<and> asset_of env p = None"
  shows "spend_spendable_outputs env r s = (Panic, s\<lparr>sw_poisoned := True\<rparr>) \<and>
         spend_spendable_outputs env2 r2 (s\<lparr>sw_poisoned := True\<rparr>) = (Panic, s\<lparr>sw_poisoned := True\<rparr>)"
proof -
  have height: "se_tx_height env txid = Ok None" for txid
    using assms(1) by (simp add: adapter_answers_def get_tx_height_def)
  obtain info where info: "se_transfer_info env (descriptor_txid d) = Some (Some info)" "ti_rgb_amount info \<noteq> 0"
    using assms(5) by (auto simp: asset_of_def split: option.splits if_splits)
  have step: "sweep_descriptors env (d # later) acc s = (Panic, s)" for acc
    using info by (simp add: sweep_descriptor_def Let_def height act_bind_def)
  have "sweep_descriptors env (sq_descriptors r) (start_sweep (sq_outputs r)) s = (Panic, s)"
    by (simp only: assms(4) plain_prefix [OF assms(6)] step)
  then show ?thesis
    using assms(2,3) by (simp add: spend_spendable_outputs_def txes.locked_dead txes.locked_alive act_bind_def)
qed

section \<open>Witnesses\<close>

text \<open>A wallet that answers, and one that answers as the adapter does.\<close>

definition example_sweep_env :: sweep_env where
  "example_sweep_env =
     \<lparr>se_hash = (\<lambda>ds. of_nat (length ds)),
      se_transfer_info = (\<lambda>txid. if txid = ''aa'' then Some (Some \<lparr>ti_contract_id = ''rgb:a'', ti_rgb_amount = 5\<rparr>)
                                else if txid = ''bb'' then Some (Some \<lparr>ti_contract_id = ''rgb:a'', ti_rgb_amount = 7\<rparr>) else None),
      se_tx_height = (\<lambda>txid. Ok (Some 100)), se_update_witnesses = (\<lambda>h txid. Ok []), se_witness_receive = (\<lambda>cs. Ok ''rcpt''),
      se_script_of = Some, se_vanilla = (\<lambda>r. Ok ''plain''), se_create_psbt = (\<lambda>r. Some ''psbt''),
      se_color = (\<lambda>p as. Ok (p, map fst as)), se_sign = (\<lambda>ds p. Some p), se_extract = Extracted, se_txid = id,
      se_save_ok = (\<lambda>p. True), se_endpoint = Some ''http://p'', se_post = (\<lambda>c. Ok (Ok ())), se_write_ok = True\<rparr>"

definition example_adapter_env :: sweep_env where
  "example_adapter_env = example_sweep_env
     \<lparr>se_tx_height := \<lambda>txid. Ok None,
      se_witness_receive := \<lambda>cs. Err (other ''blind_receive: Not fully implemented'')\<rparr>"

definition example_sweep :: sweep_request where
  "example_sweep =
     \<lparr>sq_descriptors = [Static_output (''cc'', 0), Delayed_payment_output (''aa'', 0), Static_payment_output (''bb'', 0)],
      sq_outputs = [], sq_change_script = ''change'', sq_feerate = 253, sq_locktime = None\<rparr>"

definition fresh_sweeper :: sweeper where
  "fresh_sweeper = \<lparr>sw_txes = [], sw_poisoned = False, sw_disk = [], sw_files = [], sw_calls = []\<rparr>"

lemma example_assets:
  "asset_of example_sweep_env (Static_output (''cc'', 0)) = None"
  "asset_of example_sweep_env (Delayed_payment_output (''aa'', 0)) = Some (''rgb:a'', 5)"
  "asset_of example_sweep_env (Static_payment_output (''bb'', 0)) = Some (''rgb:a'', 7)"
  by (simp_all add: asset_of_def example_sweep_env_def descriptor_txid_def)

lemma example_carries: "carries_asset example_sweep_env example_sweep"
  by (simp add: carries_asset_def example_sweep_def example_assets)

lemma example_swept: "fst (spend_spendable_outputs example_sweep_env example_sweep fresh_sweeper) = Ok ''psbt''"
  by (simp add: spend_spendable_outputs_def with_txes_def act_bind_def sweep_descriptor_def descriptor_txid_def add_asset_def
      sweep_call_def start_sweep_def coloured_sweep_def extract_or_panic_def deliver_consignment_def Let_def add_u64_def
      example_sweep_env_def example_sweep_def fresh_sweeper_def)

lemma fresh_unknown: "map_of (sw_txes fresh_sweeper) h = None"
  by (simp add: fresh_sweeper_def)



theorem adapter_sweep_poisons_witness:
  "spend_spendable_outputs example_adapter_env example_sweep fresh_sweeper = (Panic, fresh_sweeper\<lparr>sw_poisoned := True\<rparr>)"
proof -
  have "adapter_answers example_adapter_env"
    by (simp add: adapter_answers_def example_adapter_env_def example_sweep_env_def get_tx_height_def update_witnesses_def
        witness_receive_def blind_receive_def with_manager_def)
  moreover have "asset_of example_adapter_env = asset_of example_sweep_env" "se_transfer_info example_adapter_env ''cc'' = None"
    by (auto simp: fun_eq_iff asset_of_def example_adapter_env_def example_sweep_env_def)
  moreover have "sq_descriptors example_sweep =
      [Static_output (''cc'', 0)] @ Delayed_payment_output (''aa'', 0) # [Static_payment_output (''bb'', 0)]"
    by (simp add: example_sweep_def)
  ultimately show ?thesis
    using adapter_sweep_poisons [where env = example_adapter_env and s = fresh_sweeper and r = example_sweep,
        OF _ _ fresh_unknown, where plain = "[Static_output (''cc'', 0)]"]
    by (simp add: example_assets fresh_sweeper_def descriptor_txid_def)
qed

end
