(* ===== verification/Startup.thy ===== *)
theory Startup
  imports AssetRoutes Sweeper Fees Peers
begin

text \<open>
  The start of the node: \<open>start_ldk\<close> of \<open>src/src/ldk.rs\<close>, in the order of its stages, and the tasks it
  spawns that live as long as the node.

  Foreign answers (bitcoind, the indexer, the proxy, LDK's persisted state, the wallet) are the record
  \<open>start_env\<close>.  Objects that are only wired together (router, peer manager, gossip, messengers) have no
  part in the state.  A task is named by its kind; \<open>la_tasks\<close> are the tasks in the order they were spawned.
\<close>

section \<open>State and environment\<close>

datatype ldk_task =
    Fee_polling
  | Peer_listener
  | Block_poller
  | Background_processor
  | Reconnection
  | Announcement string "string list"

datatype storage_file =
    Indexer_url_file
  | Bitcoin_network_file
  | Wallet_fingerprint_file
  | Account_xpub_colored_file
  | Account_xpub_vanilla_file
  | Master_fingerprint_file

datatype start_call =
    Set_settlement_executor
  | Set_contract_reloader
  | Watch_channel outpoint

datatype IndexerProtocol = Electrum | Esplora

record launch =
  la_wallet :: transfer_wallet
  la_storage :: "(storage_file \<times> string) list"
  la_tasks :: "ldk_task list"
  la_fees :: fee_table
  la_calls :: "start_call list"
  la_sweeper :: sweeper
  la_node :: "node option"

record unlock_request =
  ur_indexer_url :: "string option"
  ur_proxy_endpoint :: "string option"
  ur_announce_addresses :: "string list"
  ur_announce_alias :: "string option"

text \<open>A file of LDK: absent, readable, or one that does not parse.\<close>

datatype persisted = Absent | Readable | Corrupt

record start_env =
  st_network :: bitcoin_network
  st_show_network :: "bitcoin_network \<Rightarrow> shown"
  st_show_error :: "rgb_lib_error \<Rightarrow> string"
  st_rpc_client :: "(string, unit) outcome"
  st_blockchain :: "nat \<Rightarrow> (string, blockchain_json) outcome"
  st_block_hash :: "string \<Rightarrow> bytes option"
  st_check_indexer :: "string \<Rightarrow> (rgb_lib_error, IndexerProtocol) outcome"
  st_transport :: "string \<Rightarrow> string option"
  st_endpoint :: "string \<Rightarrow> string option"
  st_check_proxy :: "string \<Rightarrow> (rgb_lib_error, unit) outcome"
  st_write_ok :: "storage_file \<Rightarrow> bool"
  st_keys :: "string \<Rightarrow> bytes option"
  st_monitors :: "outpoint list option"
  st_best_block_ok :: bool
  st_manager :: persisted
  st_account :: "string \<Rightarrow> bool \<Rightarrow> (string \<times> string) option"
  st_wallet :: transfer_env
  st_manager_new :: "(string, unit) outcome"
  st_pubkey :: "string option"
  st_dir_ok :: bool
  st_faucet_ok :: bool
  st_sweeper_file :: persisted
  st_synchronize :: "nat \<Rightarrow> (string, unit) outcome"
  st_watch_ok :: "outpoint \<Rightarrow> bool"
  st_inbound_file :: "(payment_hash \<times> PaymentInfo) list option"
  st_outbound_file :: "(bytes \<times> PaymentInfo) list option"
  st_maker_file :: "(payment_hash \<times> SwapData) list option"
  st_taker_file :: "(payment_hash \<times> SwapData) list option"
  st_channel_ids_file :: "(channel_id \<times> channel_id) list option"
  st_files :: "(string \<times> string) list"
  st_recent :: "bytes list"
  st_io :: bool
  st_now :: u64
  st_socket_address :: "string \<Rightarrow> bool"

type_synonym 'a start_action = "(launch, APIError, 'a) action"

definition spawn :: "ldk_task \<Rightarrow> unit start_action" where
  "spawn t = act_modify (\<lambda>s. s\<lparr>la_tasks := la_tasks s @ [t]\<rparr>)"

definition start_call :: "start_call \<Rightarrow> unit start_action" where
  "start_call c = act_modify (\<lambda>s. s\<lparr>la_calls := la_calls s @ [c]\<rparr>)"

text \<open>\<open>fs::write(..).expect(..)\<close>\<close>

definition write_storage :: "start_env \<Rightarrow> storage_file \<Rightarrow> string \<Rightarrow> unit start_action" where
  "write_storage env f content =
     (if st_write_ok env f then act_modify (\<lambda>s. s\<lparr>la_storage := AList.update f content (la_storage s)\<rparr>)
      else act_lift Panic)"

definition on_la_wallet :: "'a t_action \<Rightarrow> (launch, rgb_lib_error, 'a) action" where
  "on_la_wallet m s = (case m (la_wallet s) of (r, w) \<Rightarrow> (r, s\<lparr>la_wallet := w\<rparr>))"

definition map_act_err :: "('e \<Rightarrow> ('f, 'a) outcome) \<Rightarrow> ('s, 'e, 'a) action \<Rightarrow> ('s, 'f, 'a) action" where
  "map_act_err h m s =
     (case m s of (Ok a, t) \<Rightarrow> (Ok a, t) | (Err e, t) \<Rightarrow> (h e, t) | (Panic, t) \<Rightarrow> (Panic, t))"

section \<open>Connections\<close>

text \<open>\<open>BitcoindClient::new\<close>: once the node answers, the table of fees is set up and polled.  \<open>st_blockchain\<close>
  are the answers to the calls for the state of the chain, in order.\<close>

definition bitcoind_new :: "start_env \<Rightarrow> (string, unit) outcome" where
  "bitcoind_new env = first_call (st_block_hash env) (st_rpc_client env) (st_blockchain env 0)"

definition bitcoind_client :: "start_env \<Rightarrow> unit start_action" where
  "bitcoind_client env =
     act_bind (act_lift (map_err FailedBitcoindConnection (bitcoind_new env))) (\<lambda>_.
     act_bind (act_modify (\<lambda>s. s\<lparr>la_fees := initial_fees\<rparr>)) (\<lambda>_. spawn Fee_polling))"

definition chain_name :: "bitcoin_network \<Rightarrow> string" where
  "chain_name n =
     (case n of Mainnet \<Rightarrow> ''main'' | Testnet \<Rightarrow> ''test'' | Testnet4 \<Rightarrow> ''testnet4''
      | Regtest \<Rightarrow> ''regtest'' | Signet \<Rightarrow> ''signet'')"

definition check_chain :: "start_env \<Rightarrow> unit start_action" where
  "check_chain env =
     act_lift (and_then (get_blockchain_info (st_block_hash env) (st_blockchain env 1)) (\<lambda>info.
       guard_or (chain info = chain_name (st_network env)) (NetworkMismatch (chain info) (st_show_network env (st_network env)))))"

definition default_indexer :: "bitcoin_network \<Rightarrow> string" where
  "default_indexer n =
     (case n of
        Regtest \<Rightarrow> ''127.0.0.1:50001''
      | Signet \<Rightarrow> ''ssl://electrum.iriswallet.com:50033''
      | Testnet \<Rightarrow> ''ssl://electrum.iriswallet.com:50013''
      | Testnet4 \<Rightarrow> ''ssl://electrum.iriswallet.com:50053''
      | Mainnet \<Rightarrow> ''ssl://electrum.iriswallet.com:50003'')"

definition indexer_url :: "start_env \<Rightarrow> unlock_request \<Rightarrow> (APIError, string) outcome" where
  "indexer_url env r =
     (case ur_indexer_url r of
        Some url \<Rightarrow> and_then (api_result (st_check_indexer env url)) (\<lambda>_. Ok url)
      | None \<Rightarrow> Ok (default_indexer (st_network env)))"

definition check_rgb_proxy_endpoint :: "start_env \<Rightarrow> string \<Rightarrow> (APIError, unit) outcome" where
  "check_rgb_proxy_endpoint env endpoint =
     and_then (ok_or InvalidProxyEndpoint (st_transport env endpoint)) (\<lambda>transport.
     and_then (unwrap (st_endpoint env transport)) (\<lambda>url.
       api_result (st_check_proxy env url)))"

definition default_proxy :: "bitcoin_network \<Rightarrow> string" where
  "default_proxy n =
     (if n = Regtest then ''rpc://127.0.0.1:3000/json-rpc'' else ''rpcs://proxy.iriswallet.com/0.2/json-rpc'')"

definition chosen_proxy :: "start_env \<Rightarrow> unlock_request \<Rightarrow> (APIError, string) outcome" where
  "chosen_proxy env r =
     (case ur_proxy_endpoint r of
        Some e \<Rightarrow> and_then (check_rgb_proxy_endpoint env e) (\<lambda>_. Ok e)
      | None \<Rightarrow> Ok (default_proxy (st_network env)))"

definition connect_node :: "start_env \<Rightarrow> unlock_request \<Rightarrow> unit start_action" where
  "connect_node env r =
     act_bind (bitcoind_client env) (\<lambda>_.
     act_bind (check_chain env) (\<lambda>_.
     act_bind (act_lift (indexer_url env r)) (\<lambda>url.
     act_bind (act_lift (chosen_proxy env r)) (\<lambda>_.
     act_bind (write_storage env Indexer_url_file url) (\<lambda>_.
       write_storage env Bitcoin_network_file (shown_display (st_show_network env (st_network env))))))))"

section \<open>The state of LDK and the wallet\<close>

text \<open>The keys of LDK, from the mnemonic.\<close>

definition derive_keys :: "start_env \<Rightarrow> string \<Rightarrow> (APIError, bytes) outcome" where
  "derive_keys env mnemonic = unwrap (st_keys env mnemonic)"

text \<open>The channel manager: the answer is whether the node was there before.\<close>

definition read_manager :: "start_env \<Rightarrow> (APIError, bool) outcome" where
  "read_manager env = (case st_manager env of Readable \<Rightarrow> Ok True | Corrupt \<Rightarrow> Panic | Absent \<Rightarrow> Ok False)"

definition read_ldk_state :: "start_env \<Rightarrow> string \<Rightarrow> (APIError, bool \<times> outpoint list) outcome" where
  "read_ldk_state env mnemonic =
     and_then (derive_keys env mnemonic) (\<lambda>_.
     and_then (unwrap (st_monitors env)) (\<lambda>monitors.
     and_then (if st_best_block_ok env then Ok () else Panic) (\<lambda>_.
     and_then (read_manager env) (\<lambda>restarting. Ok (restarting, monitors)))))"

definition start_wallet :: "start_env \<Rightarrow> string \<Rightarrow> unit start_action" where
  "start_wallet env mnemonic =
     act_bind (act_lift (unwrap (st_account env mnemonic False))) (\<lambda>(vanilla, _).
     act_bind (act_lift (unwrap (st_account env mnemonic True))) (\<lambda>(colored, fingerprint).
     act_bind (map_act_err (\<lambda>e. Err (Unexpected (''Failed to create F1r3fly wallet: '' @ st_show_error env e)))
       (on_la_wallet (open_wallet (st_wallet env) (st_manager_new env) (st_pubkey env) (st_dir_ok env) (st_faucet_ok env)))) (\<lambda>_.
     act_bind (map_act_err (\<lambda>e. api_result (Err e)) (on_la_wallet (go_online (st_wallet env)))) (\<lambda>_.
     act_bind (write_storage env Wallet_fingerprint_file fingerprint) (\<lambda>_.
     act_bind (write_storage env Account_xpub_colored_file colored) (\<lambda>_.
     act_bind (write_storage env Account_xpub_vanilla_file vanilla) (\<lambda>_.
     act_bind (write_storage env Master_fingerprint_file fingerprint) (\<lambda>_.
     act_bind (start_call Set_settlement_executor) (\<lambda>_.
       start_call Set_contract_reloader)))))))))"

text \<open>A failure to create the UTXOs for claims is only logged.\<close>

definition prepare_claims :: "start_env \<Rightarrow> unit start_action" where
  "prepare_claims env = map_act_err (\<lambda>_. Ok ()) (on_la_wallet (ensure_claim_utxos_available (st_wallet env)))"

definition start_sweeper :: "start_env \<Rightarrow> unit start_action" where
  "start_sweeper env =
     act_bind (act_modify (\<lambda>s. s\<lparr>la_sweeper := restart_sweeper (la_sweeper s)\<rparr>)) (\<lambda>_.
       act_lift (if st_sweeper_file env = Corrupt then Panic else Ok ()))"

text \<open>Three attempts at synchronising the listeners, from the given attempt on.\<close>

fun synchronize :: "(nat \<Rightarrow> (string, unit) outcome) \<Rightarrow> nat \<Rightarrow> nat \<Rightarrow> (APIError, unit) outcome" where
  "synchronize answer i 0 = Panic"
| "synchronize answer i (Suc n) =
     (case answer i of
        Ok _ \<Rightarrow> Ok ()
      | Err e \<Rightarrow> if n = 0 then Err (FailedBitcoindConnection e) else synchronize answer (Suc i) n
      | Panic \<Rightarrow> Panic)"

definition watch_channel :: "start_env \<Rightarrow> outpoint \<Rightarrow> unit start_action" where
  "watch_channel env funding =
     act_bind (start_call (Watch_channel funding)) (\<lambda>_. act_lift (if st_watch_ok env funding then Ok () else Panic))"

definition sync_chain :: "start_env \<Rightarrow> bool \<Rightarrow> outpoint list \<Rightarrow> unit start_action" where
  "sync_chain env restarting monitors =
     (if restarting
      then act_bind (act_lift (synchronize (st_synchronize env) 0 3)) (\<lambda>_.
           act_bind (act_map (watch_channel env) monitors) (\<lambda>_. act_return ()))
      else act_return ())"

section \<open>Running LDK\<close>

text \<open>The unlocked state, read from the files of LDK.\<close>

definition new_node :: "start_env \<Rightarrow> node" where
  "new_node env =
     \<lparr>maker_store = open_store (st_maker_file env), taker_store = open_store (st_taker_file env),
      inbound_store = open_store (st_inbound_file env), outbound_store = open_store (st_outbound_file env),
      channel_ids_store = open_store (st_channel_ids_file env), calls = [], rgb_send_lock = False, files = st_files env\<rparr>"

definition open_node :: "start_env \<Rightarrow> node start_action" where
  "open_node env s =
     (case fail_outbound_pending_payments (st_io env) (st_now env) (st_recent env) (new_node env) of
        (Ok _, n) \<Rightarrow> (Ok n, s\<lparr>la_node := Some n\<rparr>)
      | (Err e, n) \<Rightarrow> (Err e, s)
      | (Panic, n) \<Rightarrow> (Panic, s))"

definition announced_addresses :: "start_env \<Rightarrow> string list \<Rightarrow> (APIError, string list) outcome" where
  "announced_addresses env as =
     map_outcome (\<lambda>a. if st_socket_address env a then Ok a
                      else Err (InvalidAnnounceAddresses
                             (''failed to parse address '' @ [CHR 0x27] @ a @ [CHR 0x27]))) as"

text \<open>The alias in 32 bytes, filled with zeros.\<close>

definition announced_alias :: "string option \<Rightarrow> (APIError, string) outcome" where
  "announced_alias a =
     (case a of
        Some name \<Rightarrow>
          if 32 < length name then Err (InvalidAnnounceAlias ''cannot be longer than 32 bytes'')
          else Ok (name @ replicate (32 - length name) (CHR 0x00))
      | None \<Rightarrow> Ok (replicate 32 (CHR 0x00)))"

definition announce :: "start_env \<Rightarrow> unlock_request \<Rightarrow> unit start_action" where
  "announce env r =
     act_bind (act_lift (announced_addresses env (ur_announce_addresses r))) (\<lambda>addresses.
     act_bind (act_lift (announced_alias (ur_announce_alias r))) (\<lambda>name.
       spawn (Announcement name addresses)))"

definition start_ldk :: "start_env \<Rightarrow> string \<Rightarrow> unlock_request \<Rightarrow> node start_action" where
  "start_ldk env mnemonic r =
     act_bind (connect_node env r) (\<lambda>_.
     act_bind (act_lift (read_ldk_state env mnemonic)) (\<lambda>(restarting, monitors).
     act_bind (start_wallet env mnemonic) (\<lambda>_.
     act_bind (prepare_claims env) (\<lambda>_.
     act_bind (start_sweeper env) (\<lambda>_.
     act_bind (sync_chain env restarting monitors) (\<lambda>_.
     act_bind (spawn Peer_listener) (\<lambda>_.
     act_bind (spawn Block_poller) (\<lambda>_.
     act_bind (open_node env) (\<lambda>n.
     act_bind (spawn Background_processor) (\<lambda>_.
     act_bind (spawn Reconnection) (\<lambda>_.
     act_bind (announce env r) (\<lambda>_.
       act_return n))))))))))))"

section \<open>The tasks after the start\<close>

text \<open>One turn of the loop that reconnects channel peers: it looks at the stop flag once for every
  disconnected peer, and dials the addresses the file has for it.  The answer is whether the task goes
  on, and what it dialled.\<close>

fun reconnect_disconnected ::
  "(nat \<Rightarrow> bool) \<Rightarrow> (pubkey \<times> 'a) list \<Rightarrow> nat \<Rightarrow> pubkey list \<Rightarrow> bool \<times> (pubkey \<times> 'a) list" where
  "reconnect_disconnected stop info i [] = (True, [])"
| "reconnect_disconnected stop info i (node_id # ids) =
     (if stop i then (False, [])
      else case reconnect_disconnected stop info (Suc i) ids of
             (alive, dialled) \<Rightarrow> (alive, filter (\<lambda>(pk, a). pk = node_id) info @ dialled))"

definition reconnect_turn ::
  "(nat \<Rightarrow> bool) \<Rightarrow> (APIError, (pubkey \<times> 'a) list) outcome \<Rightarrow> pubkey list \<Rightarrow> (pubkey \<Rightarrow> bool) \<Rightarrow>
   bool \<times> (pubkey \<times> 'a) list" where
  "reconnect_turn stop info counterparties connected =
     (case info of
        Ok peers \<Rightarrow> reconnect_disconnected stop peers 0 (filter (\<lambda>pk. \<not> connected pk) counterparties)
      | Err e \<Rightarrow> (True, [])
      | Panic \<Rightarrow> (False, []))"

text \<open>One turn of the announcements: the node is announced while a channel is public.\<close>

definition announcement_turn :: "string \<Rightarrow> string list \<Rightarrow> bool list \<Rightarrow> (string \<times> string list) option" where
  "announcement_turn name addresses announced = (if True \<in> set announced then Some (name, addresses) else None)"

text \<open>Which tasks end once the stop flag is set, the background processor is told to exit and the peer
  port is connected to: the polling of fees and the announcements never look at the flag, and the
  reconnection looks at it only when a channel peer is disconnected.\<close>

definition ends_when_stopped ::
  "(APIError, (pubkey \<times> 'a) list) outcome \<Rightarrow> pubkey list \<Rightarrow> (pubkey \<Rightarrow> bool) \<Rightarrow> ldk_task \<Rightarrow> bool" where
  "ends_when_stopped info counterparties connected t =
     (case t of
        Peer_listener \<Rightarrow> True
      | Block_poller \<Rightarrow> True
      | Background_processor \<Rightarrow> True
      | Reconnection \<Rightarrow> \<not> fst (reconnect_turn (\<lambda>_. True) info counterparties connected)
      | Fee_polling \<Rightarrow> False
      | Announcement name addresses \<Rightarrow> False)"

end
