(* ===== verification/StartupProps.thy ===== *)
theory StartupProps
  imports Startup WalletExample EventProps SweeperProps
begin

text \<open>
  What a start of the node leaves: every task and the stores of its files when it succeeds, the tasks of a
  start that failed, and what goes on running after a stop.
\<close>

section \<open>What the stages keep\<close>

text \<open>A stage that spawns no task and sets no node.\<close>

definition same_run :: "launch \<Rightarrow> launch \<Rightarrow> bool" where
  "same_run s t \<longleftrightarrow> la_tasks t = la_tasks s \<and> la_node t = la_node s \<and> la_fees t = la_fees s"

lemma same_run_trans [trans]: "same_run s t \<Longrightarrow> same_run t u \<Longrightarrow> same_run s u"
  by (simp add: same_run_def)

definition no_task :: "(launch, 'e, 'a) action \<Rightarrow> bool" where
  "no_task m \<longleftrightarrow> (\<forall>s. same_run s (snd (m s)))"

lemma no_taskD: "no_task m \<Longrightarrow> m s = (r, t) \<Longrightarrow> same_run s t"
  unfolding no_task_def by (metis snd_conv)

lemma no_task_lift [intro, simp]: "no_task (act_lift r)" "no_task (act_return a)" "no_task (start_call c)"
  by (simp_all add: no_task_def same_run_def start_call_def)

lemma no_task_bind [intro]:
  assumes "no_task m" and "\<And>a. no_task (f a)"
  shows "no_task (act_bind m f)"
  unfolding no_task_def
proof
  fix s
  obtain r t where m: "m s = (r, t)" by (cases "m s")
  then have "same_run s t" using no_taskD [OF assms(1)] by simp
  moreover have "same_run t (snd (f a t))" for a using assms(2) by (simp add: no_task_def)
  ultimately show "same_run s (snd (act_bind m f s))"
    using m by (cases r) (auto simp: act_bind_def intro: same_run_trans)
qed

lemma no_task_map [intro]: "(\<And>x. no_task (f x)) \<Longrightarrow> no_task (act_map f xs)"
  by (induction xs) auto

lemma no_task_write [intro, simp]: "no_task (write_storage env f c)"
  by (simp add: no_task_def same_run_def write_storage_def)

lemma no_task_wallet [intro, simp]: "no_task (on_la_wallet m)"
  by (simp add: no_task_def same_run_def on_la_wallet_def split: prod.splits)

lemma no_task_map_err [intro]: "no_task m \<Longrightarrow> no_task (map_act_err h m)"
  by (auto simp: no_task_def map_act_err_def split: prod.splits outcome.splits) (metis snd_conv)+

lemma start_wallet_no_task [intro, simp]: "no_task (start_wallet env mnemonic)"
  unfolding start_wallet_def by (auto intro!: no_task_bind no_task_map_err split: prod.splits)

lemma watch_no_task [intro, simp]: "no_task (watch_channel env funding)"
  unfolding watch_channel_def by (intro no_task_bind no_task_lift)

lemma stages_no_task [intro, simp]:
  "no_task (check_chain env)" "no_task (prepare_claims env)" "no_task (start_sweeper env)"
  "no_task (sync_chain env restarting monitors)"
  by (auto simp: check_chain_def prepare_claims_def sync_chain_def
      intro!: no_task_map_err no_task_bind no_task_map)
    (simp add: start_sweeper_def no_task_def same_run_def)

text \<open>The errors of the last stage, and the stages that cannot give them.\<close>

definition announce_error :: "APIError \<Rightarrow> bool" where
  "announce_error e \<longleftrightarrow> (\<exists>x. e = InvalidAnnounceAddresses x \<or> e = InvalidAnnounceAlias x)"

definition other_errors :: "'a start_action \<Rightarrow> bool" where
  "other_errors m \<longleftrightarrow> (\<forall>s e. fst (m s) = Err e \<longrightarrow> \<not> announce_error e)"

lemma other_errorsD: "other_errors m \<Longrightarrow> m s = (Err e, t) \<Longrightarrow> \<not> announce_error e"
  unfolding other_errors_def by (metis fst_conv)

lemma other_errors_bind [intro]:
  "other_errors m \<Longrightarrow> (\<And>a. other_errors (f a)) \<Longrightarrow> other_errors (act_bind m f)"
  unfolding other_errors_def act_bind_def
  by (auto split: prod.splits outcome.splits) (metis fst_conv)+

lemma unwrap_res_not_Err [simp]: "unwrap_res r \<noteq> Err e"
  by (cases r) simp_all

lemma rgb_error_other: "from_rgb_lib_error e = Ok e' \<Longrightarrow> \<not> announce_error e'" "from_rgb_lib_error e \<noteq> Err u"
  by (cases e; auto simp: announce_error_def and_then_eq_Ok and_then_eq_Err)+

lemma api_result_other: "api_result r = Err e \<Longrightarrow> \<not> announce_error e"
  by (cases r) (auto simp: api_result_def and_then_eq_Err rgb_error_other)

lemma other_errors_basic [intro, simp]:
  "other_errors (act_return a)" "other_errors (spawn t)" "other_errors (start_call c)"
  "other_errors (write_storage env f content)" "other_errors (act_lift (unwrap x))" "other_errors (act_modify g)"
  "other_errors (act_lift (if b then Ok u else Panic))" "other_errors (act_lift (if b then Panic else Ok u))"
  by (simp_all add: other_errors_def spawn_def start_call_def write_storage_def)

lemma other_errors_map [intro]: "(\<And>x. other_errors (f x)) \<Longrightarrow> other_errors (act_map f xs)"
  by (induction xs) (simp_all add: other_errors_bind)

lemma other_errors_wallet:
  "other_errors (map_act_err (\<lambda>e. api_result (Err e)) m)" "other_errors (map_act_err (\<lambda>e. Err (Unexpected (f e))) m')"
  "other_errors (map_act_err (\<lambda>_. Ok ()) m'')"
  by (auto simp: other_errors_def map_act_err_def announce_error_def dest: api_result_other split: prod.splits outcome.splits)

lemma synchronize_other: "synchronize f i n = Err e \<Longrightarrow> \<not> announce_error e"
  by (induction f i n rule: synchronize.induct) (auto simp: announce_error_def split: outcome.splits if_splits)

lemma read_state_other: "read_ldk_state env mnemonic \<noteq> Err e"
  by (auto simp: read_ldk_state_def derive_keys_def read_manager_def and_then_eq_Err split: persisted.splits if_splits)

lemma start_wallet_other [intro, simp]: "other_errors (start_wallet env mnemonic)"
  unfolding start_wallet_def by (auto intro!: other_errors_bind other_errors_wallet split: prod.splits)

lemma connections_other:
  "indexer_url env r = Err e \<Longrightarrow> \<not> announce_error e" "chosen_proxy env r = Err e \<Longrightarrow> \<not> announce_error e"
  "guard_or b (NetworkMismatch c n) = Err e \<Longrightarrow> \<not> announce_error e"
  by (auto simp: indexer_url_def chosen_proxy_def check_rgb_proxy_endpoint_def and_then_eq_Err guard_or_def ok_or_def
      dest: api_result_other split: option.splits if_splits) (auto simp: announce_error_def)

lemma pending_not_Err: "fail_outbound_pending_payments io now recent s \<noteq> (Err e, t)"
  by (auto simp: fail_outbound_pending_payments_def zoom_def fail_pending_def act_bind_Err lock_store_def save_store_def
      panic_locked_def split: prod.splits if_splits)

lemma stages_other [intro, simp]:
  "other_errors (prepare_claims env)" "other_errors (start_sweeper env)" "other_errors (sync_chain env restarting monitors)"
  "other_errors (connect_node env r)" "other_errors (open_node env)"
proof -
  show "other_errors (prepare_claims env)" unfolding prepare_claims_def by (rule other_errors_wallet)
  show "other_errors (start_sweeper env)" unfolding start_sweeper_def by (intro other_errors_bind other_errors_basic)
  have "other_errors (act_lift (synchronize (st_synchronize env) 0 3))"
    by (simp add: other_errors_def synchronize_other)
  then show "other_errors (sync_chain env restarting monitors)"
    unfolding sync_chain_def watch_channel_def by (auto intro!: other_errors_bind other_errors_map)
  have "other_errors (bitcoind_client env)"
    unfolding bitcoind_client_def
    by (intro other_errors_bind other_errors_basic)
      (cases "bitcoind_new env"; simp add: other_errors_def announce_error_def)
  moreover have "other_errors (check_chain env)"
    by (auto simp: check_chain_def other_errors_def and_then_eq_Err connections_other get_blockchain_info_def)
  ultimately show "other_errors (connect_node env r)"
    unfolding connect_node_def
    by (intro other_errors_bind other_errors_basic) (auto simp: other_errors_def connections_other)
  show "other_errors (open_node env)"
    by (simp add: other_errors_def open_node_def pending_not_Err split: prod.splits outcome.splits)
qed

section \<open>Tasks of a start\<close>

lemma connect_node_split:
  "connect_node env r s =
     (case bitcoind_new env of
        Ok _ \<Rightarrow> act_bind (check_chain env) (\<lambda>_.
                act_bind (act_lift (indexer_url env r)) (\<lambda>url.
                act_bind (act_lift (chosen_proxy env r)) (\<lambda>_.
                act_bind (write_storage env Indexer_url_file url) (\<lambda>_.
                  write_storage env Bitcoin_network_file (shown_display (st_show_network env (st_network env)))))))
                (s\<lparr>la_fees := initial_fees, la_tasks := la_tasks s @ [Fee_polling]\<rparr>)
      | Err e \<Rightarrow> (Err (FailedBitcoindConnection e), s)
      | Panic \<Rightarrow> (Panic, s))"
  by (cases "bitcoind_new env") (simp_all add: connect_node_def bitcoind_client_def act_bind_def spawn_def)

lemma connect_node_run:
  assumes "connect_node env r s = (res, t)"
  shows "if bitcoind_new env = Ok () then same_run (s\<lparr>la_fees := initial_fees, la_tasks := la_tasks s @ [Fee_polling]\<rparr>) t
         else t = s \<and> (\<forall>u. res \<noteq> Ok u)"
proof (cases "bitcoind_new env")
  case (Ok u)
  have "no_task (act_bind (check_chain env) (\<lambda>_.
                act_bind (act_lift (indexer_url env r)) (\<lambda>url.
                act_bind (act_lift (chosen_proxy env r)) (\<lambda>_.
                act_bind (write_storage env Indexer_url_file url) (\<lambda>_.
                  write_storage env Bitcoin_network_file (shown_display (st_show_network env (st_network env))))))))"
    by (intro no_task_bind no_task_lift stages_no_task no_task_write)
  then show ?thesis using assms Ok by (auto simp: connect_node_split dest: no_taskD)
qed (use assms in \<open>auto simp: connect_node_split\<close>)

definition on_its_chain :: "start_env \<Rightarrow> bool" where
  "on_its_chain env \<longleftrightarrow>
     (\<exists>j. st_blockchain env 1 = Ok j \<and> cj_chain j = Some (chain_name (st_network env)))"

lemma chain_checked:
  assumes "get_blockchain_info h answer = Ok info" shows "\<exists>j. answer = Ok j \<and> cj_chain j = Some (chain info)"
  using assms
  by (cases answer)
    (auto simp: get_blockchain_info_def call_blockchain_info_def blockchain_info_of_def unwrap_def split: option.splits)

lemma connect_node_Ok:
  assumes "connect_node env r s = (Ok u, t)"
  shows "bitcoind_new env = Ok () \<and> on_its_chain env
    \<and> (\<exists>e. chosen_proxy env r = Ok e)
    \<and> (\<exists>url. indexer_url env r = Ok url \<and> map_of (la_storage t) Indexer_url_file = Some url)"
  using assms
  by (auto simp: connect_node_split on_its_chain_def act_bind_Ok check_chain_def and_then_eq_Ok write_storage_def update_conv'
      dest!: chain_checked split: outcome.splits if_splits)

text \<open>The stages between the connections and the tasks, and those after them.\<close>

definition prepare :: "start_env \<Rightarrow> string \<Rightarrow> bool \<Rightarrow> outpoint list \<Rightarrow> unit start_action" where
  "prepare env mnemonic restarting monitors =
     act_bind (start_wallet env mnemonic) (\<lambda>_.
     act_bind (prepare_claims env) (\<lambda>_.
     act_bind (start_sweeper env) (\<lambda>_. sync_chain env restarting monitors)))"

lemma act_bind_assoc: "act_bind (act_bind m f) g = act_bind m (\<lambda>a. act_bind (f a) g)"
  by (auto simp: act_bind_def fun_eq_iff split: prod.splits outcome.splits)

lemma modify_twice:
  "act_bind (act_modify f) (\<lambda>_. act_bind (act_modify g) k) = act_bind (act_modify (\<lambda>s. g (f s))) k"
  by (simp add: fun_eq_iff)

lemma start_ldk_split:
  "start_ldk env mnemonic r =
     act_bind (connect_node env r) (\<lambda>_.
     act_bind (act_lift (read_ldk_state env mnemonic)) (\<lambda>(restarting, monitors).
     act_bind (prepare env mnemonic restarting monitors) (\<lambda>_.
     act_bind (act_modify (\<lambda>s. s\<lparr>la_tasks := la_tasks s @ [Peer_listener, Block_poller]\<rparr>)) (\<lambda>_.
     act_bind (open_node env) (\<lambda>n.
     act_bind (act_modify (\<lambda>s. s\<lparr>la_tasks := la_tasks s @ [Background_processor, Reconnection]\<rparr>)) (\<lambda>_.
     act_bind (announce env r) (\<lambda>_. act_return n)))))))"
  by (simp add: start_ldk_def prepare_def act_bind_assoc spawn_def modify_twice cong: prod.case_cong)

lemma prepare_no_task [intro, simp]: "no_task (prepare env mnemonic restarting monitors)"
  unfolding prepare_def by (intro no_task_bind start_wallet_no_task stages_no_task)

lemma prepare_other [intro, simp]: "other_errors (prepare env mnemonic restarting monitors)"
  unfolding prepare_def by (intro other_errors_bind start_wallet_other stages_other)

lemma open_node_cases:
  "open_node env s = (res, t) \<Longrightarrow> (\<exists>n. res = Ok n \<and> t = s\<lparr>la_node := Some n\<rparr>) \<or> res = Panic \<and> t = s"
  using pending_not_Err
  by (fastforce simp: open_node_def split: prod.splits outcome.splits)

lemma announce_cases:
  "announce env r s = (res, t) \<Longrightarrow>
   (case (announced_addresses env (ur_announce_addresses r), announced_alias (ur_announce_alias r)) of
      (Ok as, Ok name) \<Rightarrow> res = Ok () \<and> t = s\<lparr>la_tasks := la_tasks s @ [Announcement name as]\<rparr>
    | (Ok as, Err e) \<Rightarrow> res = Err e \<and> t = s
    | (Err e, _) \<Rightarrow> res = Err e \<and> t = s
    | _ \<Rightarrow> t = s \<and> res = Panic)"
  by (auto simp: announce_def act_bind_def spawn_def split: outcome.splits)

lemma announcing_errors:
  "announced_addresses env as = Err e \<Longrightarrow> announce_error e" "announced_alias a = Err e \<Longrightarrow> announce_error e"
  "announced_addresses env as \<noteq> Panic" "announced_alias a \<noteq> Panic"
proof -
  show "announced_addresses env as = Err e \<Longrightarrow> announce_error e"
    unfolding announced_addresses_def
    by (induction as) (auto simp: and_then_eq_Err announce_error_def split: if_splits)
  show "announced_addresses env as \<noteq> Panic"
    unfolding announced_addresses_def
  proof (induction as)
    case (Cons a as)
    then show ?case
      by (cases "map_outcome (\<lambda>a. if st_socket_address env a then Ok a
        else Err (InvalidAnnounceAddresses (''failed to parse address '' @ [CHR 0x27] @ a @ [CHR 0x27]))) as") auto
  qed simp
qed (auto simp: announced_alias_def announce_error_def split: option.splits if_splits)

lemma failed_run:
  assumes "start_ldk env mnemonic r s = (Err e, t)"
  shows "if announce_error e
         then la_tasks t = la_tasks s @ [Fee_polling, Peer_listener, Block_poller, Background_processor, Reconnection]
              \<and> la_node t \<noteq> None
         else (la_tasks t = la_tasks s \<or> la_tasks t = la_tasks s @ [Fee_polling]) \<and> la_node t = la_node s"
proof -
  consider
      "connect_node env r s = (Err e, t)"
    | u v b ms where "connect_node env r s = (Ok u, v)" "prepare env mnemonic b ms v = (Err e, t)"
    | u v b ms w x n y where "connect_node env r s = (Ok u, v)" "prepare env mnemonic b ms v = (Ok x, w)"
        "open_node env (w\<lparr>la_tasks := la_tasks w @ [Peer_listener, Block_poller]\<rparr>) = (Ok n, y)"
        "announce env r (y\<lparr>la_tasks := la_tasks y @ [Background_processor, Reconnection]\<rparr>) = (Err e, t)"
    using assms read_state_other [of env mnemonic] open_node_cases
    by (fastforce simp: start_ldk_split act_bind_Err split: prod.splits)
  then show ?thesis
  proof cases
    case 1
    then have "\<not> announce_error e" using other_errorsD stages_other(4) by blast
    then show ?thesis using connect_node_run [OF 1] by (auto simp: same_run_def split: if_splits)
  next
    case 2
    then have "\<not> announce_error e" using other_errorsD prepare_other by blast
    then show ?thesis
      using connect_node_run [OF 2(1)] no_taskD [OF prepare_no_task 2(2)] by (auto simp: same_run_def split: if_splits)
  next
    case 3
    have "announce_error e \<and> t = y\<lparr>la_tasks := la_tasks y @ [Background_processor, Reconnection]\<rparr>"
      using announce_cases [OF 3(4)] announcing_errors by (auto split: outcome.splits)
    moreover have "y = w\<lparr>la_tasks := la_tasks w @ [Peer_listener, Block_poller], la_node := Some n\<rparr>"
      using open_node_cases [OF 3(3)] by auto
    ultimately show ?thesis
      using connect_node_run [OF 3(1)] no_taskD [OF prepare_no_task 3(2)] by (auto simp: same_run_def split: if_splits)
  qed
qed

lemma started_run:
  assumes "start_ldk env mnemonic r s = (Ok n, t)"
  obtains u v b ms w x y as name where
    "connect_node env r s = (Ok u, v)" "read_ldk_state env mnemonic = Ok (b, ms)" "prepare env mnemonic b ms v = (Ok x, w)"
    "open_node env (w\<lparr>la_tasks := la_tasks w @ [Peer_listener, Block_poller]\<rparr>) = (Ok n, y)"
    "announced_addresses env (ur_announce_addresses r) = Ok as" "announced_alias (ur_announce_alias r) = Ok name"
    "t = y\<lparr>la_tasks := la_tasks y @ [Background_processor, Reconnection, Announcement name as]\<rparr>"
proof -
  obtain u v b ms w x y z where run:
    "connect_node env r s = (Ok u, v)" "read_ldk_state env mnemonic = Ok (b, ms)" "prepare env mnemonic b ms v = (Ok x, w)"
    "open_node env (w\<lparr>la_tasks := la_tasks w @ [Peer_listener, Block_poller]\<rparr>) = (Ok n, y)"
    "announce env r (y\<lparr>la_tasks := la_tasks y @ [Background_processor, Reconnection]\<rparr>) = (Ok z, t)"
    using assms by (fastforce simp: start_ldk_split act_bind_Ok split: prod.splits)
  obtain as name where "announced_addresses env (ur_announce_addresses r) = Ok as"
    "announced_alias (ur_announce_alias r) = Ok name"
    "t = y\<lparr>la_tasks := la_tasks y @ [Background_processor, Reconnection, Announcement name as]\<rparr>"
    using announce_cases [OF run(5)] by (auto split: outcome.splits)
  then show thesis by (rule that [OF run(1-4)])
qed

lemma announced_all: "announced_addresses env as = Ok bs \<Longrightarrow> bs = as \<and> (\<forall>a \<in> set as. st_socket_address env a)"
  unfolding announced_addresses_def
  by (induction as arbitrary: bs) (auto simp: and_then_eq_Ok split: if_splits)

lemma announced_alias_Ok: "announced_alias a = Ok name \<Longrightarrow> length name = 32 \<and> (\<forall>x. a = Some x \<longrightarrow> take (length x) name = x)"
  by (auto simp: announced_alias_def split: option.splits if_splits)

lemma opened_node:
  assumes "open_node env s = (Ok n, t)"
  shows "\<not> rgb_send_lock n \<and> calls n = [] \<and> files n = st_files env
    \<and> maker_store n = open_store (st_maker_file env) \<and> taker_store n = open_store (st_taker_file env)
    \<and> inbound_store n = open_store (st_inbound_file env) \<and> channel_ids_store n = open_store (st_channel_ids_file env)
    \<and> entries (outbound_store n) = map (fail_if_not_recent (st_now env) (st_recent env))
          (case st_outbound_file env of Some m \<Rightarrow> m | None \<Rightarrow> [])
    \<and> \<not> poisoned (outbound_store n)"
  using assms
  by (auto simp: open_node_def new_node_def fail_outbound_pending_payments_def zoom_def fail_pending_def act_bind_def
      lock_store_def save_store_def panic_locked_def simp del: map_map
      split: prod.splits outcome.splits if_splits)

lemma started_tasks:
  assumes "start_ldk env mnemonic r s = (Ok n, t)"
  obtains name y z where "on_its_chain env" "open_node env y = (Ok n, z)"
    "announced_alias (ur_announce_alias r) = Ok name" "la_node t = Some n" "la_fees t = initial_fees"
    "la_tasks t = la_tasks s @ [Fee_polling, Peer_listener, Block_poller, Background_processor, Reconnection,
                                Announcement name (ur_announce_addresses r)]"
proof (rule started_run [OF assms])
  fix u v b ms w x y as name
  assume run: "connect_node env r s = (Ok u, v)" "prepare env mnemonic b ms v = (Ok x, w)"
    "open_node env (w\<lparr>la_tasks := la_tasks w @ [Peer_listener, Block_poller]\<rparr>) = (Ok n, y)"
    and named: "announced_addresses env (ur_announce_addresses r) = Ok as" "announced_alias (ur_announce_alias r) = Ok name"
    and t: "t = y\<lparr>la_tasks := la_tasks y @ [Background_processor, Reconnection, Announcement name as]\<rparr>"
  have "same_run (s\<lparr>la_fees := initial_fees, la_tasks := la_tasks s @ [Fee_polling]\<rparr>) w"
    using connect_node_run [OF run(1)] connect_node_Ok [OF run(1)] no_taskD [OF prepare_no_task run(2)]
    by (auto intro: same_run_trans)
  moreover have "y = w\<lparr>la_tasks := la_tasks w @ [Peer_listener, Block_poller], la_node := Some n\<rparr>"
    using open_node_cases [OF run(3)] by auto
  ultimately show thesis
    using t connect_node_Ok [OF run(1)] announced_all [OF named(1)]
    by (intro that [OF _ run(3) named(2)]) (simp_all add: same_run_def)
qed

section \<open>Properties\<close>

text \<open>
  C35: a node that started is connected to the chain it is configured for, has spawned its tasks in this
  order, with an alias of 32 bytes, has no channel opening under way, and has the stores of its files,
  where an outbound payment is pending only if LDK still knows it.
\<close>

theorem started_node:
  assumes "start_ldk env mnemonic r s = (Ok n, t)"
  shows "on_its_chain env \<and> la_node t = Some n \<and> la_fees t = initial_fees \<and>
    (\<exists>name. length name = 32 \<and> (\<forall>a. ur_announce_alias r = Some a \<longrightarrow> take (length a) name = a) \<and>
       la_tasks t = la_tasks s @ [Fee_polling, Peer_listener, Block_poller, Background_processor, Reconnection,
                                  Announcement name (ur_announce_addresses r)]) \<and>
    \<not> rgb_send_lock n \<and> maker_store n = open_store (st_maker_file env) \<and> taker_store n = open_store (st_taker_file env) \<and>
    inbound_store n = open_store (st_inbound_file env) \<and> channel_ids_store n = open_store (st_channel_ids_file env) \<and>
    map fst (entries (outbound_store n)) = map fst (entries (open_store (st_outbound_file env))) \<and>
    (\<forall>(k, p) \<in> set (entries (outbound_store n)). payment_status p = HTLCPending \<longrightarrow> k \<in> set (st_recent env))"
proof -
  obtain name y z where "on_its_chain env" "open_node env y = (Ok n, z)"
    "announced_alias (ur_announce_alias r) = Ok name" "la_node t = Some n" "la_fees t = initial_fees"
    "la_tasks t = la_tasks s @ [Fee_polling, Peer_listener, Block_poller, Background_processor, Reconnection,
                                Announcement name (ur_announce_addresses r)]"
    by (rule started_tasks [OF assms])
  then show ?thesis
    using opened_node announced_alias_Ok by (auto simp: fail_if_not_recent_def split: if_splits option.splits)
qed

text \<open>
  A start that fails before its tasks leaves at most the polling of fees; one that fails on the
  addresses or the alias to announce leaves every task but the announcements, the background processor
  and the listener among them, with nothing that could stop them.
\<close>

theorem failed_start_leaves_tasks:
  assumes "start_ldk env mnemonic r s = (Err e, t)"
  shows "\<exists>left. la_tasks t = la_tasks s @ left \<and>
    (if announce_error e
     then left = [Fee_polling, Peer_listener, Block_poller, Background_processor, Reconnection] \<and> la_node t \<noteq> None
     else (left = [] \<or> left = [Fee_polling]) \<and> la_node t = la_node s)"
  using failed_run [OF assms] by (auto split: if_splits)

text \<open>
  The attempts to synchronise: it succeeds as soon as one of three answers does, and a third error is
  the error of the start.
\<close>

theorem three_attempts:
  assumes "\<And>i. i < 3 \<Longrightarrow> answer i \<noteq> Panic"
  shows "synchronize answer 0 3 =
    (if \<exists>i < 3. answer i = Ok () then Ok ()
     else (case answer 2 of Err e \<Rightarrow> Err (FailedBitcoindConnection e) | _ \<Rightarrow> Panic))"
proof -
  have "(\<exists>i < 3. answer i = Ok ()) \<longleftrightarrow> answer 0 = Ok () \<or> answer 1 = Ok () \<or> answer 2 = Ok ()"
    by (auto simp: eval_nat_numeral less_Suc_eq)
  then show ?thesis
    using assms [of 0] assms [of 1] assms [of 2]
    by (cases "answer 0"; cases "answer 1"; cases "answer 2") (simp_all add: eval_nat_numeral)
qed


section \<open>Example\<close>

definition claim_ready_env :: transfer_env where
  "claim_ready_env = example_tenv\<lparr>list_utxos := \<lambda>cs f. Ok [example_utxos ! 1, example_utxos ! 1]\<rparr>"

definition example_start_env :: start_env where
  "example_start_env =
     \<lparr>st_network = Regtest, st_show_network = (\<lambda>n. \<lparr>shown_display = ''Regtest'', shown_debug = ''Regtest''\<rparr>),
      st_show_error = (\<lambda>e. ''error''), st_rpc_client = Ok (),
      st_blockchain = (\<lambda>i. Ok \<lparr>cj_blocks = Some 100, cj_bestblockhash = Some ''00ff'', cj_chain = Some ''regtest''\<rparr>),
      st_block_hash = (\<lambda>h. Some [0, 255]), st_check_indexer = (\<lambda>u. Ok Electrum),
      st_transport = Some, st_endpoint = Some, st_check_proxy = (\<lambda>u. Ok ()), st_write_ok = (\<lambda>f. True),
      st_keys = (\<lambda>m. Some [1]), st_monitors = Some [(''aa'', 0)], st_best_block_ok = True, st_manager = Readable,
      st_account = (\<lambda>m c. Some (''xpub'', ''fingerprint'')), st_wallet = claim_ready_env,
      st_manager_new = Ok (), st_pubkey = None, st_dir_ok = True, st_faucet_ok = True, st_sweeper_file = Absent,
      st_synchronize = (\<lambda>i. if i = 0 then Err ''timeout'' else Ok ()), st_watch_ok = (\<lambda>c. True),
      st_inbound_file = None, st_outbound_file = Some [([1], example_payment HTLCPending)], st_maker_file = None,
      st_taker_file = None, st_channel_ids_file = None, st_files = [], st_recent = [], st_io = True, st_now = 9,
      st_socket_address = (\<lambda>a. a \<noteq> [])\<rparr>"

definition example_unlock :: "string option \<Rightarrow> unlock_request" where
  "example_unlock name =
     \<lparr>ur_indexer_url = Some ''127.0.0.1:50001'', ur_proxy_endpoint = None, ur_announce_addresses = [''1.2.3.4:9735''],
      ur_announce_alias = name\<rparr>"

definition fresh_launch :: launch where
  "fresh_launch =
     \<lparr>la_wallet = example_wallet, la_storage = [], la_tasks = [], la_fees = [], la_calls = [], la_sweeper = fresh_sweeper,
      la_node = None\<rparr>"

lemma example_connects:
  "connect_node example_start_env (example_unlock name) s =
     (Ok (), s\<lparr>la_fees := initial_fees, la_tasks := la_tasks s @ [Fee_polling],
               la_storage := AList.update Bitcoin_network_file ''Regtest''
                               (AList.update Indexer_url_file ''127.0.0.1:50001'' (la_storage s))\<rparr>)"
  by (simp add: connect_node_split example_start_env_def example_unlock_def act_bind_def check_chain_def chain_name_def
      indexer_url_def chosen_proxy_def write_storage_def api_result_def
      bitcoind_new_def first_call_def get_blockchain_info_def call_blockchain_info_def blockchain_info_of_def)

lemma example_wallet_opens:
  assumes "\<not> wm_poisoned w"
  shows "\<exists>v. open_wallet claim_ready_env (Ok ()) None b c w = (Ok (), v) \<and> \<not> wm_poisoned v"
    and "\<exists>v. go_online claim_ready_env w = (Ok (), v) \<and> \<not> wm_poisoned v"
    and "ensure_claim_utxos_available claim_ready_env w = (Ok (), w)"
  using assms
  by (simp_all add: open_wallet_def go_online_def ensure_claim_utxos_available_def claim_ready_env_def example_utxos_def
      list_unspents_def with_manager_def query_def effect_def failed_def act_bind_def claim_sized_def to_unspent_def
      wallet_or_def)

lemma example_prepares:
  assumes "\<not> wm_poisoned (la_wallet s)"
  shows "\<exists>t. prepare example_start_env m True [(''aa'', 0)] s = (Ok (), t)"
proof -
  obtain v w where "open_wallet claim_ready_env (Ok ()) None True True (la_wallet s) = (Ok (), v)"
    "go_online claim_ready_env v = (Ok (), w)" "\<not> wm_poisoned w"
    using example_wallet_opens assms by metis
  then show ?thesis
    by (simp add: prepare_def example_start_env_def start_wallet_def prepare_claims_def start_sweeper_def sync_chain_def
        act_bind_def map_act_err_def on_la_wallet_def example_wallet_opens watch_channel_def start_call_def
        write_storage_def eval_nat_numeral)
qed

lemma example_opens: "\<exists>n. open_node example_start_env s = (Ok n, s\<lparr>la_node := Some n\<rparr>)"
  by (simp add: open_node_def example_start_env_def new_node_def fail_outbound_pending_payments_def zoom_def
      fail_pending_def act_bind_def lock_store_def save_store_def)

lemma example_start_simps:
  "read_ldk_state example_start_env m = Ok (True, [(''aa'', 0)])"
  "announced_addresses example_start_env (ur_announce_addresses (example_unlock name)) = Ok [''1.2.3.4:9735'']"
  "ur_announce_alias (example_unlock name) = name"
  by (simp_all add: read_ldk_state_def derive_keys_def read_manager_def example_start_env_def example_unlock_def announced_addresses_def)

lemma example_start:
  assumes "\<not> wm_poisoned (la_wallet s)"
  shows "\<exists>n t. start_ldk example_start_env m (example_unlock name) s = (and_then (announced_alias name) (\<lambda>_. Ok n), t)"
proof -
  obtain t where t: "prepare example_start_env m True [(''aa'', 0)]
      (snd (connect_node example_start_env (example_unlock name) s)) = (Ok (), t)"
    using example_prepares [of "snd (connect_node example_start_env (example_unlock name) s)" m] assms
    by (auto simp: example_connects)
  obtain n where "open_node example_start_env (t\<lparr>la_tasks := la_tasks t @ [Peer_listener, Block_poller]\<rparr>) =
      (Ok n, t\<lparr>la_tasks := la_tasks t @ [Peer_listener, Block_poller], la_node := Some n\<rparr>)"
    using example_opens [of "t\<lparr>la_tasks := la_tasks t @ [Peer_listener, Block_poller]\<rparr>"] by auto
  then show ?thesis
    using t by (cases "announced_alias name")
      (simp_all add: start_ldk_split example_connects act_bind_def announce_def example_start_simps spawn_def)
qed

lemma example_started:
  assumes "\<not> wm_poisoned (la_wallet s)"
  obtains n t where "start_ldk example_start_env m (example_unlock None) s = (Ok n, t)"
  using example_start [OF assms, of m None] by (auto simp: announced_alias_def)

lemma example_launch [simp]: "\<not> wm_poisoned (la_wallet fresh_launch)" "la_tasks fresh_launch = []"
  by (simp_all add: fresh_launch_def example_wallet_def)

definition long_name :: string where
  "long_name = replicate 33 (CHR ''x'')"

lemma long_name_refused: "announced_alias (Some long_name) = Err (InvalidAnnounceAlias ''cannot be longer than 32 bytes'')"
  by (simp add: announced_alias_def long_name_def)

theorem started_node_witness:
  "\<exists>n t. start_ldk example_start_env ''words'' (example_unlock None) fresh_launch = (Ok n, t) \<and>
     la_node t = Some n \<and> maker_store n = open_store None"
proof -
  obtain n t where run: "start_ldk example_start_env ''words'' (example_unlock None) fresh_launch = (Ok n, t)"
    by (rule example_started [OF example_launch(1)])
  show ?thesis using started_node [OF run] run by (auto simp: example_start_env_def)
qed

theorem failed_start_leaves_tasks_witness:
  "\<exists>e t. start_ldk example_start_env ''words'' (example_unlock (Some long_name)) fresh_launch = (Err e, t) \<and>
     la_tasks t = [Fee_polling, Peer_listener, Block_poller, Background_processor, Reconnection]"
proof -
  obtain t where run: "start_ldk example_start_env ''words'' (example_unlock (Some long_name)) fresh_launch =
      (Err (InvalidAnnounceAlias ''cannot be longer than 32 bytes''), t)"
    using example_start [OF example_launch(1), of _ "Some long_name"] by (auto simp: long_name_refused)
  show ?thesis using failed_start_leaves_tasks [OF run] run by (auto simp: announce_error_def)
qed

theorem three_attempts_witness:
  "synchronize (\<lambda>i. if i = 2 then Ok () else Err ''timeout'') 0 3 = Ok ()
   \<and> synchronize (\<lambda>i. Err ''timeout'') 0 3 = Err (FailedBitcoindConnection ''timeout'')"
  using three_attempts [of "\<lambda>i. if i = 2 then Ok () else Err ''timeout''"] three_attempts [of "\<lambda>i. Err ''timeout''"]
  by auto


end
