(* ===== verification/UnlockProps.thy ===== *)
theory UnlockProps
  imports LifecycleProps StartupProps
begin

text \<open>
  The start of LDK inside the unlock of the node: which unlocks leave an instance that nothing names, and
  that unlocks whose announcement is well-formed leave none.
\<close>

section \<open>Starts as answers of the environment\<close>

text \<open>The answers of a lifecycle environment are those of the starts of its instances: each has its
  environment, its request and the state it starts from.\<close>

definition starts_by :: "'k lifecycle_env \<Rightarrow> (nat \<Rightarrow> start_env \<times> unlock_request \<times> launch) \<Rightarrow> bool" where
  "starts_by lenv start \<longleftrightarrow>
     (\<forall>n m. case start n of (env, r, s) \<Rightarrow>
        (case start_ldk env m r s of (res, t) \<Rightarrow>
           le_start lenv n m = and_then res (\<lambda>_. Ok ()) \<and>
           (le_left lenv n m \<longleftrightarrow> (\<forall>x. res \<noteq> Ok x) \<and> Background_processor \<in> set (drop (length (la_tasks s)) (la_tasks t)))))"

lemma panicked_run:
  assumes "start_ldk env mnemonic r s = (Panic, t)"
  shows "\<exists>left. la_tasks t = la_tasks s @ left \<and> Background_processor \<notin> set left"
proof -
  have bound: "act_bind m f s = (Panic, t) \<longleftrightarrow> m s = (Panic, t) \<or> (\<exists>a u. m s = (Ok a, u) \<and> f a u = (Panic, t))"
    for m :: "'a start_action" and f :: "'a \<Rightarrow> 'b start_action" and s t
    by (auto simp: act_bind_def split: prod.splits outcome.splits)
  consider
      "connect_node env r s = (Panic, t)"
    | u where "connect_node env r s = (Ok u, t)"
    | u v b ms where "connect_node env r s = (Ok u, v)" "prepare env mnemonic b ms v = (Panic, t)"
    | u v b ms w x where "connect_node env r s = (Ok u, v)" "prepare env mnemonic b ms v = (Ok x, w)"
        "open_node env (w\<lparr>la_tasks := la_tasks w @ [Peer_listener, Block_poller]\<rparr>) = (Panic, t)"
    | y where "announce env r y = (Panic, t)"
    using assms by (fastforce simp: start_ldk_split bound split: prod.splits)
  then show ?thesis
  proof cases
    case 1
    then show ?thesis using connect_node_run [OF 1] by (auto simp: same_run_def split: if_splits)
  next
    case 2
    then show ?thesis using connect_node_run [OF 2] by (auto simp: same_run_def split: if_splits)
  next
    case 3
    then show ?thesis
      using connect_node_run [OF 3(1)] no_taskD [OF prepare_no_task 3(2)] by (auto simp: same_run_def split: if_splits)
  next
    case 4
    then show ?thesis
      using connect_node_run [OF 4(1)] no_taskD [OF prepare_no_task 4(2)] open_node_cases [OF 4(3)]
      by (auto simp: same_run_def split: if_splits)
  next
    case 5
    then show ?thesis using announce_cases [OF 5] announcing_errors by (auto split: outcome.splits)
  qed
qed

lemma left_iff:
  assumes "starts_by lenv start" and "start n = (env, r, s)"
  shows "le_left lenv n m \<longleftrightarrow> (\<exists>e. fst (start_ldk env m r s) = Err e \<and> announce_error e)"
proof -
  obtain res t where run: "start_ldk env m r s = (res, t)" by (cases "start_ldk env m r s")
  then have left: "le_left lenv n m \<longleftrightarrow> (\<forall>x. res \<noteq> Ok x) \<and> Background_processor \<in> set (drop (length (la_tasks s)) (la_tasks t))"
    using assms unfolding starts_by_def by (auto split: prod.splits)
  show ?thesis
    using left run failed_run [of env m r s _ t] panicked_run [of env m r s t]
    by (cases res) (auto split: if_splits)
qed

lemma announce_error_causes:
  assumes "start_ldk env m r s = (Err e, t)" and "announce_error e"
  shows "announced_addresses env (ur_announce_addresses r) = Err e \<or> announced_alias (ur_announce_alias r) = Err e"
proof -
  have late: "\<exists>y. announce env r y = (Err e, t)"
  proof (rule ccontr)
    assume "\<nexists>y. announce env r y = (Err e, t)"
    then consider "connect_node env r s = (Err e, t)" | v b ms where "prepare env m b ms v = (Err e, t)"
      using assms(1) read_state_other [of env m] open_node_cases
      by (fastforce simp: start_ldk_split act_bind_Err split: prod.splits)
    then show False
      using other_errorsD [OF stages_other(4)] other_errorsD [OF prepare_other] assms(2) by cases blast+
  qed
  then obtain y where "announce env r y = (Err e, t)" by blast
  then show ?thesis using announce_cases [of env r y "Err e" t] by (auto split: outcome.splits)
qed

section \<open>Properties\<close>

lemma second_unlock:
  assumes "settled s" and "unlocked_state s = None" and "read_mnemonic env pw s = Ok m"
    and "le_start env (next_ldk s) m = Err e" and "le_left env (next_ldk s) m"
    and "le_start env (Suc (next_ldk s)) m = Ok ()" and "le_stops env 0"
  shows "\<exists>u v w. run_alone env 8 (Unlock pw) (Arrived, s) = (Done (Err e), u)
    \<and> run_alone env 8 (Unlock pw) (Arrived, u) = (Done (Ok Empty), v)
    \<and> live v = [Suc (next_ldk s), next_ldk s] \<and> services v = Some (Suc (next_ldk s))
    \<and> run_alone env 8 Lock (Arrived, v) = (Done (Ok Empty), w) \<and> live w = [next_ldk s] \<and> services w = None"
proof -
  let ?u = "s\<lparr>live := [next_ldk s], next_ldk := Suc (next_ldk s)\<rparr>"
  let ?v = "s\<lparr>unlocked_state := Some (Suc (next_ldk s)), services := Some (Suc (next_ldk s)),
              live := [Suc (next_ldk s), next_ldk s], next_ldk := Suc (Suc (next_ldk s))\<rparr>"
  have s: "\<not> changing s" "guard s = None" "live s = []" using assms(1,2) by (simp_all add: settled_def quiet_def)
  have unmarked: "x\<lparr>changing := False, guard := None\<rparr> = x" if "\<not> changing x" "guard x = None" for x :: lifecycle
    using that by (rule unmark)
  have "run_alone env 8 (Unlock pw) (Arrived, s) = (Done (Err e), ?u)"
    using s assms(2-5) by (simp add: runs_alone [OF assms(1)] answer_def leave_started_def)
  moreover have "run_alone env 8 (Unlock pw) (Arrived, ?u) = (Done (Ok Empty), ?v)"
    using s assms(2,3,6) unmarked [of s]
    by (simp add: step_defs eight_steps read_mnemonic_def mnemonic_file_def)
  moreover obtain w where "run_alone env 8 Lock (Arrived, ?v) = (Done (Ok Empty), w)" "live w = [next_ldk s]" "services w = None"
    using lock_leaves_other [where s = ?v and env = env and g = "Suc (next_ldk s)" and h = "next_ldk s"] s assms(7) by auto
  ultimately show ?thesis by (intro exI [of _ ?u] exI [of _ ?v] exI [of _ w]) simp
qed


text \<open>
  C36: as long as every unlock has addresses that parse and an alias of at most 32 bytes, no failed unlock
  leaves an instance: with one request that locks or unlocks among any plain ones, at most one instance of
  LDK runs at any time.
\<close>

theorem announced_unlocks_run_one_ldk:
  assumes "starts_by lenv start"
    and "\<And>n env r l. start n = (env, r, l) \<Longrightarrow> (\<forall>a \<in> set (ur_announce_addresses r). st_socket_address env a)
           \<and> (\<forall>a. ur_announce_alias r = Some a \<longrightarrow> length a \<le> 32)"
    and "reachable lenv rs s0 (s, ps)" and "settled s0"
    and "c < length rs" and "rs ! c = Lock \<or> (\<exists>pw. rs ! c = Unlock pw)"
    and "\<forall>i < length rs. i \<noteq> c \<longrightarrow> plain (rs ! i) \<or> rs ! i = Shutdown"
  shows "length (live s) \<le> 1 \<and> (\<forall>res. ps ! c = Done res \<longrightarrow> quiet s \<and> (changing s \<longleftrightarrow> res = Panic))"
proof (rule one_changer [OF assms(3-7)])
  fix n m
  obtain env r l where st: "start n = (env, r, l)" by (cases "start n")
  have "announced_addresses env as \<noteq> Err e" if "\<forall>a \<in> set as. st_socket_address env a" for as e
    using that unfolding announced_addresses_def by (induction as) (auto simp: and_then_eq_Err)
  moreover have "announced_alias (ur_announce_alias r) \<noteq> Err e" for e
    using assms(2) [OF st] by (auto simp: announced_alias_def split: option.splits if_splits)
  ultimately show "\<not> le_left lenv n m"
    using left_iff [OF assms(1) st] announce_error_causes [of env m r l] assms(2) [OF st]
    by (auto simp: prod_eq_iff)
qed

section \<open>Example\<close>

text \<open>The environment whose answers are those of given starts.\<close>

definition with_starts ::
  "'k lifecycle_env \<Rightarrow> (nat \<Rightarrow> start_env \<times> unlock_request \<times> launch) \<Rightarrow> 'k lifecycle_env" where
  "with_starts lenv start =
     lenv\<lparr>le_start := \<lambda>n m. case start n of (env, r, s) \<Rightarrow> and_then (fst (start_ldk env m r s)) (\<lambda>_. Ok ()),
          le_left := \<lambda>n m. case start n of (env, r, s) \<Rightarrow>
            (\<forall>x. fst (start_ldk env m r s) \<noteq> Ok x) \<and>
            Background_processor \<in> set (drop (length (la_tasks s)) (la_tasks (snd (start_ldk env m r s))))\<rparr>"

lemma starts_by_with [simp]: "starts_by (with_starts lenv start) start"
  by (auto simp: starts_by_def with_starts_def split: prod.splits)

lemma with_starts_read [simp]:
  "read_mnemonic (with_starts lenv start) pw s = read_mnemonic lenv pw s" "le_stops (with_starts lenv start) = le_stops lenv"
  by (simp_all add: with_starts_def read_mnemonic_def)

definition example_starts :: "nat \<Rightarrow> start_env \<times> unlock_request \<times> launch" where
  "example_starts n = (example_start_env, example_unlock (if n = 0 then Some long_name else None), fresh_launch)"


theorem announced_unlocks_run_one_ldk_witness:
  "\<exists>s ps. reachable (with_starts example_lc_env (\<lambda>n. (example_start_env, example_unlock None, fresh_launch)))
            [Use, Unlock ''password''] (example_lc example_tree) (s, ps)
     \<and> ps = [Done (Err LockedNode), Starting ''skill lamp''] \<and> length (live s) \<le> 1"
proof -
  let ?env = "with_starts example_lc_env (\<lambda>n. (example_start_env, example_unlock None, fresh_launch))"
  have "run_schedule ?env [Use, Unlock ''password''] [0, 1, 0, 1, 1]
      (example_lc example_tree, map (\<lambda>_. Arrived) [Use, Unlock ''password''])
    = Some ((example_lc example_tree)\<lparr>changing := True\<rparr>, [Done (Err LockedNode), Starting ''skill lamp''])"
    by (simp add: step_defs)
  then have r: "reachable ?env [Use, Unlock ''password''] (example_lc example_tree)
      ((example_lc example_tree)\<lparr>changing := True\<rparr>, [Done (Err LockedNode), Starting ''skill lamp''])"
    by (rule schedule_reachable)
  have "length (live ((example_lc example_tree)\<lparr>changing := True\<rparr>)) \<le> 1"
    using announced_unlocks_run_one_ldk [OF starts_by_with _ r example_settled, of 1]
    by (simp add: less_Suc_eq example_unlock_def example_start_env_def)
  with r show ?thesis by (intro exI conjI) (assumption, simp_all)
qed

end
