(* ===== verification/NodeRoutes.thy ===== *)
theory NodeRoutes
  imports Startup PayRoutes ChannelRoutes
begin

text \<open>
  The handlers of \<open>src/src/routes.rs\<close> that report on the node or decode texts: \<open>node_info\<close>,
  \<open>network_info\<close>, \<open>decode_ln_invoice\<close>, \<open>decode_rgb_invoice\<close>, \<open>check_indexer_url\<close>,
  \<open>check_proxy_endpoint\<close>, and the ones that sign a message or send an onion message.
\<close>

section \<open>Environment\<close>

text \<open>A claimable balance of LDK, as far as the handler distinguishes them.\<close>

datatype ldk_balance =
    Claimable_on_close u64 u64
  | Maybe_timeout_htlc u64 bool
  | Other_balance u64

record rgb_invoice_data =
  ri_recipient_id :: string
  ri_asset_schema :: "AssetSchema option"
  ri_asset_id :: "string option"
  ri_assignment :: Assignment
  ri_network :: bitcoin_network
  ri_expiration :: "int option"
  ri_endpoints :: "string list"

datatype chain_network = Net_bitcoin | Net_testnet | Net_testnet4 | Net_regtest | Net_signet

datatype RecipientType = Blind | Witness

text \<open>The contents of an onion message, which it writes as they are.\<close>

record user_onion_message =
  om_tlv_type :: u64
  om_data :: bytes

definition write_onion_message :: "user_onion_message \<Rightarrow> bytes" where
  "write_onion_message m = om_data m"

record node_env =
  ne_balances :: "ldk_balance list"
  ne_claimable :: "ldk_balance \<Rightarrow> u64"
  ne_network_nodes :: nat
  ne_network_channels :: nat
  ne_node_id :: pubkey
  ne_best_height :: nat
  ne_network :: bitcoin_network
  ne_max_upload :: nat
  ne_expiry :: "bolt11 \<Rightarrow> nat"
  ne_timestamp :: "bolt11 \<Rightarrow> nat"
  ne_payee :: "bolt11 \<Rightarrow> pubkey option"
  ne_invoice_network :: "bolt11 \<Rightarrow> chain_network"
  ne_rgb_invoice :: "string \<Rightarrow> (rgb_lib_error, rgb_invoice_data) outcome"
  ne_recipient_type :: "string \<Rightarrow> (rgb_lib_error, RecipientType) outcome"
  ne_from_slice :: "bytes \<Rightarrow> pubkey option"
  ne_send_onion :: "pubkey \<Rightarrow> user_onion_message \<Rightarrow> (string, unit) outcome"
  ne_sign :: "string \<Rightarrow> string"

section \<open>Reports\<close>

definition close_fees :: "ldk_balance \<Rightarrow> u64" where
  "close_fees b = (case b of Claimable_on_close amount fee \<Rightarrow> fee | _ \<Rightarrow> 0)"

definition pending_outbound :: "ldk_balance \<Rightarrow> u64" where
  "pending_outbound b = (case b of Maybe_timeout_htlc amount outbound \<Rightarrow> if outbound then amount else 0 | _ \<Rightarrow> 0)"

text \<open>\<open>get_wallet_data\<close>: the adapter has no account keys to show.\<close>

definition account_xpubs :: "string \<times> string" where
  "account_xpubs = ([], [])"

record node_view =
  nv_pubkey :: string
  nv_num_channels :: nat
  nv_num_usable_channels :: nat
  nv_local_balance_sat :: u64
  nv_eventual_close_fees_sat :: u64
  nv_pending_outbound_payments_sat :: u64
  nv_num_peers :: nat
  nv_account_xpubs :: "string \<times> string"
  nv_max_media_upload_size_mb :: nat
  nv_rgb_htlc_min_msat :: u64
  nv_rgb_channel_capacity_min_sat :: u64
  nv_channel_capacity_min_sat :: u64
  nv_channel_capacity_max_sat :: u64
  nv_channel_asset_min_amount :: u64
  nv_channel_asset_max_amount :: u64
  nv_network_nodes :: nat
  nv_network_channels :: nat

definition node_info :: "node_env \<Rightarrow> 'a channel_env \<Rightarrow> node_view handler" where
  "node_info env cenv =
     act_bind (act_lift (sum_u64 (map (ne_claimable env) (ne_balances env)))) (\<lambda>local_balance.
     act_bind (act_lift (sum_u64 (map close_fees (ne_balances env)))) (\<lambda>fees.
     act_bind (act_lift (sum_u64 (map pending_outbound (ne_balances env)))) (\<lambda>pending.
       act_return
         \<lparr>nv_pubkey = hex_str (ne_node_id env), nv_num_channels = length (ce_channels cenv),
          nv_num_usable_channels = length (filter ci_usable (ce_channels cenv)), nv_local_balance_sat = local_balance,
          nv_eventual_close_fees_sat = fees, nv_pending_outbound_payments_sat = pending,
          nv_num_peers = length (ce_peers cenv), nv_account_xpubs = account_xpubs,
          nv_max_media_upload_size_mb = ne_max_upload env, nv_rgb_htlc_min_msat = htlc_min_msat,
          nv_rgb_channel_capacity_min_sat = openrgbchannel_min_sat, nv_channel_capacity_min_sat = openchannel_min_sat,
          nv_channel_capacity_max_sat = openchannel_max_sat, nv_channel_asset_min_amount = 1,
          nv_channel_asset_max_amount = - 1, nv_network_nodes = ne_network_nodes env,
          nv_network_channels = ne_network_channels env\<rparr>)))"

definition into_network :: "bitcoin_network \<Rightarrow> bitcoin_network" where
  "into_network n =
     (case n of Mainnet \<Rightarrow> Mainnet | Testnet \<Rightarrow> Testnet | Testnet4 \<Rightarrow> Testnet4 | Regtest \<Rightarrow> Regtest | Signet \<Rightarrow> Signet)"

definition of_chain_network :: "chain_network \<Rightarrow> bitcoin_network" where
  "of_chain_network n =
     (case n of Net_bitcoin \<Rightarrow> Mainnet | Net_testnet \<Rightarrow> Testnet | Net_testnet4 \<Rightarrow> Testnet4
      | Net_regtest \<Rightarrow> Regtest | Net_signet \<Rightarrow> Signet)"

definition network_info :: "node_env \<Rightarrow> (bitcoin_network \<times> nat) handler" where
  "network_info env = act_return (into_network (ne_network env), ne_best_height env)"

section \<open>Decoding\<close>

record decoded_invoice =
  dl_amt_msat :: "u64 option"
  dl_expiry_sec :: nat
  dl_timestamp :: nat
  dl_asset_id :: "contract_id option"
  dl_asset_amount :: "u64 option"
  dl_payment_hash :: string
  dl_payment_secret :: string
  dl_payee_pubkey :: "string option"
  dl_network :: bitcoin_network

text \<open>Neither decoder looks at the state: the future that would take its lock is never awaited.\<close>

definition decode_ln_invoice :: "node_env \<Rightarrow> pay_env \<Rightarrow> string \<Rightarrow> (APIError, decoded_invoice) outcome" where
  "decode_ln_invoice env penv invoice_text =
     and_then (map_err InvalidInvoice (parse_bolt11 penv invoice_text)) (\<lambda>i.
       Ok \<lparr>dl_amt_msat = bi_amount_msat i, dl_expiry_sec = ne_expiry env i, dl_timestamp = ne_timestamp env i,
           dl_asset_id = bi_rgb_contract i, dl_asset_amount = bi_rgb_amount i,
           dl_payment_hash = hex_str (bi_payment_hash i), dl_payment_secret = hex_str (bi_payment_secret i),
           dl_payee_pubkey = map_option hex_str (ne_payee env i), dl_network = of_chain_network (ne_invoice_network env i)\<rparr>)"

record decoded_rgb_invoice = rgb_invoice_data +
  dr_recipient_type :: RecipientType

definition into_recipient_type :: "RecipientType \<Rightarrow> RecipientType" where
  "into_recipient_type t = (case t of Blind \<Rightarrow> Blind | Witness \<Rightarrow> Witness)"


definition decode_rgb_invoice :: "node_env \<Rightarrow> string \<Rightarrow> (APIError, decoded_rgb_invoice) outcome" where
  "decode_rgb_invoice env invoice_text =
     and_then (api_result (ne_rgb_invoice env invoice_text)) (\<lambda>d.
     and_then (api_result (ne_recipient_type env (ri_recipient_id d))) (\<lambda>recipient_type.
     and_then (case ri_asset_schema d of None \<Rightarrow> Ok None | Some sc \<Rightarrow> and_then (into_schema sc) (\<lambda>x. Ok (Some x))) (\<lambda>schema.
       Ok \<lparr>ri_recipient_id = ri_recipient_id d, ri_asset_schema = schema, ri_asset_id = ri_asset_id d,
           ri_assignment = of_lib_assignment (ri_assignment d), ri_network = into_network (ri_network d),
           ri_expiration = ri_expiration d, ri_endpoints = ri_endpoints d, dr_recipient_type = into_recipient_type recipient_type\<rparr>)))"

definition into_protocol :: "IndexerProtocol \<Rightarrow> IndexerProtocol" where
  "into_protocol p = (case p of Electrum \<Rightarrow> Electrum | Esplora \<Rightarrow> Esplora)"

definition check_indexer_url :: "start_env \<Rightarrow> string \<Rightarrow> (APIError, IndexerProtocol) outcome" where
  "check_indexer_url env url = and_then (api_result (st_check_indexer env url)) (\<lambda>p. Ok (into_protocol p))"

definition check_proxy_endpoint :: "start_env \<Rightarrow> string \<Rightarrow> (APIError, unit) outcome" where
  "check_proxy_endpoint env endpoint = check_rgb_proxy_endpoint env endpoint"

section \<open>Messages\<close>

text \<open>The slice after the end of the trimmed message.\<close>

definition sign_message :: "node_env \<Rightarrow> string \<Rightarrow> string handler" where
  "sign_message env raw =
     (let message = trim raw in act_return (ne_sign env (drop (length message) message)))"

definition onion_path :: "node_env \<Rightarrow> string list \<Rightarrow> (APIError, pubkey list) outcome" where
  "onion_path env node_ids =
     map_outcome (\<lambda>t. ok_or (InvalidNodeIds (''Couldn'' @ [CHR 0x27] @ ''t parse peer_pubkey '' @ [CHR 0x27] @ t @ [CHR 0x27]))
                        (Option.bind (hex_str_to_vec t) (ne_from_slice env))) node_ids"

definition send_onion_message :: "node_env \<Rightarrow> string list \<Rightarrow> u64 \<Rightarrow> string \<Rightarrow>
   (APIError, pubkey \<times> user_onion_message) outcome" where
  "send_onion_message env node_ids tlv_type data_text =
     and_then (guard_or (node_ids \<noteq> []) (InvalidNodeIds ''sendonionmessage requires at least one node id for the path'')) (\<lambda>_.
     and_then (onion_path env node_ids) (\<lambda>path.
     and_then (guard_or (\<not> tlv_type < 64) (InvalidTlvType ''need an integral message type above 64'')) (\<lambda>_.
     and_then (ok_or (InvalidOnionData ''need a hex data string'') (hex_str_to_vec data_text)) (\<lambda>message.
     and_then (unwrap (if path = [] then None else Some (last path))) (\<lambda>destination.
     and_then (map_err FailedSendingOnionMessage (ne_send_onion env destination \<lparr>om_tlv_type = tlv_type, om_data = message\<rparr>)) (\<lambda>_.
       Ok (destination, \<lparr>om_tlv_type = tlv_type, om_data = message\<rparr>)))))))"

end
