(* ===== verification/NodeProps.thy ===== *)
theory NodeProps
  imports NodeRoutes PayProps EventProps
begin

text \<open>
  The life of an invoice over the handlers and the events of the node, what is signed of a message, and
  where an onion message goes.
\<close>

section \<open>The life of an invoice\<close>

lemma add_inbound_result:
  "\<not> poisoned (inbound_store s) \<Longrightarrow> add_inbound_payment True h p s = (Ok (), s\<lparr>inbound_store := saved h p (inbound_store s)\<rparr>)"
  by (simp add: add_inbound_payment_def zoom_def put_and_save_result saved_def)

lemma saved_map: "\<not> poisoned x \<Longrightarrow> map_of (entries (saved h p x)) k = (if k = h then Some p else map_of (entries x) k)"
  by (simp add: saved_def put_and_save_result update_conv')

lemma issued_record:
  assumes "ln_invoice env a expiry_sec asset n s = (Ok invoice_text, t)" and "pe_io env" and "\<not> poisoned (inbound_store s)"
  obtains contract inv where "create_invoice env (currency_of (pe_network env)) a expiry_sec contract n = Ok inv" "invoice_text = print_invoice env inv"
    "contract = (case asset of None \<Rightarrow> None | Some x \<Rightarrow> pe_contract env x)" "asset = None \<longleftrightarrow> contract = None"
    "t = s\<lparr>inbound_store := saved (bi_payment_hash inv)
           (new_payment env (Some (bi_payment_secret inv)) a (pe_node_id env)) (inbound_store s)\<rparr>"
  using assms
  by (auto simp: ln_invoice_def act_bind_Ok guard_or_def act_lift_def and_then_eq_Ok add_inbound_result parse_contract_def
      split: option.splits if_splits outcome.splits elim!: map_err.elims)

lemma invoice_status_known:
  assumes "parse_bolt11 env invoice_text = Ok i" and "\<not> poisoned (inbound_store t)"
    and "map_of (entries (inbound_store t)) (bi_payment_hash i) = Some p"
  shows "invoice_status env invoice_text t = (Ok (status_of_invoice i p), t)"
  using assms
  by (simp add: invoice_status_def inbound_payments_def act_bind_def zoom_def read_store_def lock_store_def)

text \<open>
  C39: an invoice this node issues is decoded with the amount, the asset and the amount of asset it was
  issued with; its payment is recorded as pending under its hash and shown so until it is claimed, and the
  event that claims it makes its status succeeded.
\<close>

theorem issued_invoice_settles:
  assumes "ln_invoice env a expiry_sec asset n s = (Ok invoice_text, t)" and "honest_invoices env env" and "pe_io env"
    and "\<not> poisoned (inbound_store s)" and "\<not> poisoned (maker_store s)" and "env_io eenv"
  shows "\<exists>h d. decode_ln_invoice nenv env invoice_text = Ok d \<and> dl_amt_msat d = a \<and> dl_asset_amount d = n \<and>
    dl_asset_id d = (case asset of None \<Rightarrow> None | Some x \<Rightarrow> pe_contract env x) \<and> dl_payment_hash d = hex_str h \<and>
    (\<exists>p. t = s\<lparr>inbound_store := saved h p (inbound_store s)\<rparr> \<and> amt_msat p = a \<and> payment_status p = HTLCPending) \<and>
    (\<exists>st. invoice_status env invoice_text t = (Ok st, t) \<and> st \<in> {InvoicePending, InvoiceExpired}) \<and>
    (map_of (entries (maker_store s)) h = None \<longrightarrow>
       (\<exists>u. handle_payment_claimed eenv h purpose m (Some r) t = (Ok (), u) \<and>
            invoice_status env invoice_text u = (Ok InvoiceSucceeded, u)))"
proof -
  obtain contract inv where made: "create_invoice env (currency_of (pe_network env)) a expiry_sec contract n = Ok inv" "invoice_text = print_invoice env inv"
      "contract = (case asset of None \<Rightarrow> None | Some x \<Rightarrow> pe_contract env x)"
    and t: "t = s\<lparr>inbound_store := saved (bi_payment_hash inv)
           (new_payment env (Some (bi_payment_secret inv)) a (pe_node_id env)) (inbound_store s)\<rparr>"
    by (rule issued_record [OF assms(1,3,4)])
  let ?h = "bi_payment_hash inv"
  let ?p = "new_payment env (Some (bi_payment_secret inv)) a (pe_node_id env)"
  have inv: "parse_bolt11 env invoice_text = Ok inv" "bi_amount_msat inv = a" "bi_rgb_contract inv = contract" "bi_rgb_amount inv = n"
    using assms(2) made unfolding honest_invoices_def by blast+
  have decoded: "\<exists>d. decode_ln_invoice nenv env invoice_text = Ok d \<and> dl_amt_msat d = a \<and> dl_asset_amount d = n
      \<and> dl_asset_id d = contract \<and> dl_payment_hash d = hex_str ?h"
    by (simp add: decode_ln_invoice_def inv)
  have sound: "\<not> poisoned (inbound_store t)" "map_of (entries (inbound_store t)) ?h = Some ?p"
    using assms(4) by (simp_all add: t saved_map saved_poisoned)
  have pending: "\<exists>st. invoice_status env invoice_text t = (Ok st, t) \<and> st \<in> {InvoicePending, InvoiceExpired}"
    using invoice_status_known [OF inv(1) sound] by (simp add: status_of_invoice_def new_payment_def)
  have "\<exists>u. handle_payment_claimed eenv ?h purpose m (Some r) t = (Ok (), u) \<and>
            invoice_status env invoice_text u = (Ok InvoiceSucceeded, u)" if "map_of (entries (maker_store s)) ?h = None"
  proof -
    have "\<not> poisoned (maker_store t)" "map_of (entries (maker_store t)) ?h = None" using assms(5) that by (simp_all add: t)
    from claimed_payment_recorded [OF this(1) sound(1) this(2) assms(6), of purpose m r] obtain u where
      claimed: "handle_payment_claimed eenv ?h purpose m (Some r) t = (Ok (), u)"
      and u: "inbound_store u = saved ?h (?p\<lparr>payment_status := HTLCSucceeded, preimage := purpose_preimage purpose,
                         secret := purpose_secret purpose, updated_at := env_now eenv\<rparr>) (inbound_store t)"
      using sound(2) by auto
    have "invoice_status env invoice_text u = (Ok InvoiceSucceeded, u)"
      using invoice_status_known [OF inv(1), of u] sound(1) by (simp add: u saved_map saved_poisoned status_of_invoice_def)
    then show ?thesis using claimed by blast
  qed
  moreover have "\<exists>p. t = s\<lparr>inbound_store := saved ?h p (inbound_store s)\<rparr> \<and> amt_msat p = a \<and> payment_status p = HTLCPending"
    by (intro exI [of _ ?p]) (simp add: t new_payment_def)
  moreover obtain d where "decode_ln_invoice nenv env invoice_text = Ok d" "dl_amt_msat d = a" "dl_asset_amount d = n"
    "dl_asset_id d = contract" "dl_payment_hash d = hex_str ?h"
    using decoded by blast
  ultimately show ?thesis using pending unfolding made(3) by (intro exI [of _ ?h] exI [of _ d]) simp
qed

text \<open>The network an invoice of a currency is for.\<close>

definition currency_network :: "currency \<Rightarrow> chain_network" where
  "currency_network c =
     (case c of Bitcoin_currency \<Rightarrow> Net_bitcoin | Testnet_currency \<Rightarrow> Net_testnet | Regtest_currency \<Rightarrow> Net_regtest
      | Signet_currency \<Rightarrow> Net_signet)"

text \<open>
  An issued invoice is decoded with the network of its node, except for a node on testnet4, whose invoices
  are decoded as those of testnet.
\<close>

theorem issued_invoice_network:
  assumes "ln_invoice env a expiry_sec asset n s = (Ok invoice_text, t)" and "honest_invoices env env" and "pe_io env"
    and "\<not> poisoned (inbound_store s)"
    and "\<And>a e c n inv. create_invoice env (currency_of (pe_network env)) a e c n = Ok inv \<Longrightarrow>
           ne_invoice_network nenv inv = currency_network (currency_of (pe_network env))"
  shows "\<exists>d. decode_ln_invoice nenv env invoice_text = Ok d \<and>
     dl_network d = (if pe_network env = Testnet4 then Testnet else pe_network env)"
proof -
  obtain contract inv where made: "create_invoice env (currency_of (pe_network env)) a expiry_sec contract n = Ok inv"
      "invoice_text = print_invoice env inv"
    by (rule issued_record [OF assms(1,3,4)])
  then have "parse_bolt11 env invoice_text = Ok inv"
    using assms(2) unfolding honest_invoices_def by blast
  then show ?thesis
    using assms(5) [OF made(1)]
    by (cases "pe_network env") (simp_all add: decode_ln_invoice_def of_chain_network_def currency_network_def currency_of_def)
qed

section \<open>Messages\<close>

text \<open>
  The signature does not depend on the message: it is always that of the empty message.
\<close>

theorem signature_ignores_message:
  "sign_message env message s = (Ok (ne_sign env []), s)"
  by (simp add: sign_message_def Let_def)

lemma map_outcome_total: "(\<And>x. x \<in> set xs \<Longrightarrow> \<exists>y. f x = Ok y) \<Longrightarrow> \<exists>ys. map_outcome f xs = Ok ys"
proof (induction xs)
  case (Cons x xs)
  obtain y ys where "f x = Ok y" "map_outcome f xs = Ok ys" using Cons.IH Cons.prems by fastforce
  then show ?case by simp
qed simp

text \<open>
  An onion message goes to the last node of the path alone; the nodes before it must parse, and are
  then left out, so the request is that for the last node.
\<close>

theorem onion_message_skips_path:
  assumes "\<And>t. t \<in> set nodes \<Longrightarrow> Option.bind (hex_str_to_vec t) (ne_from_slice env) \<noteq> None"
  shows "send_onion_message env (nodes @ [t]) tlv_type data_text = send_onion_message env [t] tlv_type data_text"
proof -
  have "\<exists>p. onion_path env nodes = Ok p"
    using assms unfolding onion_path_def by (intro map_outcome_total) auto
  then obtain p where path: "onion_path env nodes = Ok p" by blast
  have append: "onion_path env (nodes @ [t]) = and_then (onion_path env [t]) (\<lambda>q. Ok (p @ q))"
    using path unfolding onion_path_def map_outcome_append by simp
  have "q \<noteq> []" if "onion_path env [t] = Ok q" for q
    using that by (auto simp: onion_path_def and_then_eq_Ok)
  then show ?thesis
    by (cases "onion_path env [t]") (simp_all add: send_onion_message_def append)
qed

section \<open>Example\<close>

definition example_node_env :: node_env where
  "example_node_env =
     \<lparr>ne_balances = [], ne_claimable = (\<lambda>b. 0), ne_network_nodes = 1, ne_network_channels = 1, ne_node_id = [2], ne_best_height = 100,
      ne_network = Regtest, ne_max_upload = 5, ne_expiry = (\<lambda>i. 3600), ne_timestamp = (\<lambda>i. 1), ne_payee = (\<lambda>i. None),
      ne_invoice_network = (\<lambda>i. Net_regtest), ne_rgb_invoice = (\<lambda>t. Err (RL_InvalidInvoice ''bad'')), ne_recipient_type = (\<lambda>t. Ok Blind),
      ne_from_slice = (\<lambda>b. if length b = 2 then Some b else None), ne_send_onion = (\<lambda>p c. Ok ()), ne_sign = (\<lambda>m. m @ ''sig'')\<rparr>"

theorem issued_invoice_settles_witness:
  "\<exists>h t u. ln_invoice example_pay_env (Some 3000000) 3600 (Some ''rgb:a'') (Some 5) example_node = (Ok ''lnbcrt'', t) \<and>
     handle_payment_claimed example_event_env h (SpontaneousPayment [5]) 3000000 (Some [3]) t = (Ok (), u) \<and>
     invoice_status example_pay_env ''lnbcrt'' u = (Ok InvoiceSucceeded, u)"
proof -
  obtain t where run: "ln_invoice example_pay_env (Some 3000000) 3600 (Some ''rgb:a'') (Some 5) example_node = (Ok ''lnbcrt'', t)"
    using example_issued(1) by (cases "ln_invoice example_pay_env (Some 3000000) 3600 (Some ''rgb:a'') (Some 5) example_node") auto
  have "pe_io example_pay_env" "\<not> poisoned (inbound_store example_node)" "\<not> poisoned (maker_store example_node)"
    "env_io example_event_env"
    by (simp_all add: example_pay_env_def)
  from issued_invoice_settles [OF run example_honest_invoices this, where nenv = example_node_env and purpose = "SpontaneousPayment [5]" and r = "[3]" and m = 3000000]
  obtain h u where "handle_payment_claimed example_event_env h (SpontaneousPayment [5]) 3000000 (Some [3]) t = (Ok (), u)"
    "invoice_status example_pay_env ''lnbcrt'' u = (Ok InvoiceSucceeded, u)" by auto
  with run show ?thesis by blast
qed

theorem issued_invoice_network_witness:
  "\<exists>t d. ln_invoice example_pay_env (Some 3000000) 3600 (Some ''rgb:a'') (Some 5) example_node = (Ok ''lnbcrt'', t) \<and>
     decode_ln_invoice example_node_env example_pay_env ''lnbcrt'' = Ok d \<and> dl_network d = Regtest"
proof -
  obtain t where run: "ln_invoice example_pay_env (Some 3000000) 3600 (Some ''rgb:a'') (Some 5) example_node = (Ok ''lnbcrt'', t)"
    using example_issued(1) by (cases "ln_invoice example_pay_env (Some 3000000) 3600 (Some ''rgb:a'') (Some 5) example_node") auto
  have "pe_io example_pay_env" "\<not> poisoned (inbound_store example_node)" "pe_network example_pay_env = Regtest"
    by (simp_all add: example_pay_env_def)
  from issued_invoice_network [OF run example_honest_invoices this(1,2), where nenv = example_node_env] this(3) run
  show ?thesis by (auto simp: example_node_env_def currency_of_def currency_network_def)
qed

theorem onion_message_skips_path_witness:
  "send_onion_message example_node_env [''0102'', ''0304''] 64 ''ff'' = send_onion_message example_node_env [''0304''] 64 ''ff''"
proof -
  have "Option.bind (hex_str_to_vec ''0102'') (ne_from_slice example_node_env) \<noteq> None" by code_simp
  then show ?thesis using onion_message_skips_path [of "[''0102'']" example_node_env "''0304''" 64 "''ff''"] by simp
qed

end
