(* ===== verification/Spec2Isabelle.thy ===== *)
theory Spec2Isabelle
  imports Prelude Errors Utils Swap Stores Auth Backup Peers Intercept Events EventProps SwapRoutes SwapProps
    Lifecycle LifecycleProps AssetData Wallet AssetViews Utxos Transfers Settlement WalletExample WalletProps TransferProps SettlementProps ChannelClose
    PayRoutes PayProps ChannelRoutes ChannelProps Rgb AssetRoutes AssetProps Fees Sweeper SweeperProps
    Startup StartupProps UnlockProps NodeRoutes NodeProps
begin

text \<open>
  A verification development for the RGB Lightning node (\<open>src/src/\<close>): a daemon that runs LDK with channels
  that carry RGB assets, an RGB wallet over a Bitcoin wallet, atomic swaps between two nodes, and an HTTP API.

  \<^bold>\<open>The parts and how they meet.\<close>  A request passes the authentication middleware (\<open>auth.rs\<close>) and reaches a
  handler of \<open>routes.rs\<close>.  The handlers of the life of the node (\<open>init\<close>, \<open>unlock\<close>, \<open>lock\<close>, \<open>backup\<close>, \<open>restore\<close>,
  \<open>change_password\<close>, \<open>shutdown\<close>) change the state under a mark and a mutex; \<open>unlock\<close> runs \<open>start_ldk\<close>
  (\<open>ldk.rs\<close>), which opens the wallet, the stores and LDK and spawns the tasks.  The other handlers work on the
  unlocked node: they call the channel manager, write the stores (payments, swaps, channel ids, each a map
  under a mutex with its file) and call the RGB wallet through \<open>rgb.rs\<close>, which calls the wallet adapter
  (\<open>f1r3fly_rgb_adapter.rs\<close>).  LDK calls back with events (\<open>handle_ldk_events\<close>): they fund coloured
  channels with the adapter, update the same stores, forward the HTLCs of swaps, and settle the assets of
  closed channels; its sweeper spends the outputs of closed channels with their assets.  \<open>bitcoind.rs\<close> feeds
  LDK with fee rates and takes its broadcasts.

  \<^bold>\<open>Theories of the model.\<close>
  \<^item> \<open>Prelude\<close>: words, \<open>outcome\<close> (a Rust \<open>Result\<close> with a third case for panics), actions on a state, checked
    arithmetic, the string operations of the standard library.  \<open>Errors\<close>: \<open>error.rs\<close>.  \<open>Utils\<close>: \<open>utils.rs\<close>.
  \<^item> \<open>Swap\<close>: \<open>swap.rs\<close>.  \<open>SwapRoutes\<close>: the swap handlers.  \<open>Intercept\<close>: the event \<open>HTLCIntercepted\<close>, the
    taker's side of a swap, with the state \<open>node\<close> all handlers and events share.
  \<^item> \<open>Stores\<close>: the five persisted stores of \<open>ldk.rs\<close> and \<open>disk.rs\<close>; \<open>Peers\<close>: the file of channel peers.
  \<^item> \<open>Events\<close>: the other events of LDK.  \<open>Sweeper\<close>: \<open>RgbOutputSpender\<close>.  \<open>Fees\<close>: \<open>bitcoind.rs\<close>.
  \<^item> \<open>Auth\<close>: arguments, middleware and revocation.  \<open>Backup\<close>: \<open>backup.rs\<close>.
  \<^item> \<open>Wallet\<close>, \<open>Utxos\<close>, \<open>Transfers\<close>, \<open>Settlement\<close>: the adapter, one theory after the other on the same state
    \<open>wallet\<close>; \<open>Rgb\<close>: \<open>rgb.rs\<close>.  \<open>AssetData\<close>: what the adapter answers with; \<open>AssetViews\<close>: the types of the
    interface for it, and the conversions.
  \<^item> \<open>PayRoutes\<close>, \<open>ChannelRoutes\<close>, \<open>AssetRoutes\<close>, \<open>NodeRoutes\<close>: the handlers of the unlocked node.
  \<^item> \<open>Lifecycle\<close>: \<open>AppState\<close> and the handlers that change it, as tasks with a step relation; \<open>Startup\<close>:
    \<open>start_ldk\<close>, stage by stage, and what its tasks do in a turn.

  A definition has the name of the function it models where Isabelle allows it; \<open>rgb_\<close> is before the methods of
  \<open>rgb.rs\<close> and \<open>_route\<close> after handlers whose name the adapter also has.  The check that the node is unlocked
  stands in \<open>Lifecycle\<close>, not before every handler.

  \<^bold>\<open>Conventions.\<close>  A function that may fail is an \<open>outcome\<close> or an action \<open>'s \<Rightarrow> outcome \<times> 's\<close>: \<open>Err\<close> is an early
  return, \<open>Panic\<close> an \<open>unwrap\<close>, an \<open>expect\<close>, an overflow or a poisoned mutex.  The build is the debug profile, so
  overflow panics.  A panic with a mutex held sets the \<open>poisoned\<close> field of its owner, and later uses panic.
  Calls to foreign code with an effect are appended to a list in the state (\<open>calls\<close>, \<open>wcalls\<close>, \<open>sw_calls\<close>,
  \<open>la_calls\<close>), in order, and answers may depend on that list.  Log messages are left out.

  \<^bold>\<open>Parameters.\<close>  Foreign code is the records of answers \<open>ldk_env\<close> and \<open>event_env\<close> (LDK, files of its RGB
  part), \<open>wallet_env\<close> and \<open>transfer_env\<close> (wallet manager, Esplora, proxy), \<open>swap_env\<close>, \<open>pay_env\<close>,
  \<open>channel_env\<close>, \<open>asset_env\<close>, \<open>node_env\<close> (what the handlers ask), \<open>sweep_env\<close>, \<open>bitcoind\<close>, \<open>start_env\<close>,
  \<open>lifecycle_env\<close>, \<open>biscuit\<close> and \<open>backup_ops\<close>.  What a theorem relies on is a named hypothesis (for example
  \<open>honest_invoices\<close>: a printed invoice is parsed as it was; \<open>answers\<close>: bitcoind does not panic),
  shown to hold for a concrete record in its witness.

  \<^bold>\<open>What the lemmas show.\<close>
  \<^item> Swaps (\<open>Swap\<close>, \<open>SwapProps\<close>, \<open>Intercept\<close>): swap strings are read back; an offer can be taken; the route of
    an executed swap; which intercepted HTLCs are forwarded and what that does.
  \<^item> Stores and events (\<open>Stores\<close>, \<open>EventProps\<close>, \<open>Peers\<close>): memory and disk agree in every run with failing
    writes, panics and restarts; every event keeps the stores well-formed; the peers file refines a map;
    coloured funding happens in order.
  \<^item> Authentication and backup (\<open>Auth\<close>, \<open>Backup\<close>): exactly which requests pass; revoked tokens stay refused,
    also those derived from them and after a restart; a backup is restored to the same files.
  \<^item> Life of the node (\<open>LifecycleProps\<close>, \<open>StartupProps\<close>, \<open>UnlockProps\<close>), by rule induction over every
    interleaving: bodies exclude each other; the mnemonic is stored once; every request is answered; what a
    start leaves when it succeeds or fails; when two instances of LDK run at the same time.
  \<^item> Wallet (\<open>WalletProps\<close>, \<open>TransferProps\<close>, \<open>SettlementProps\<close>, \<open>ChannelClose\<close>): the locked UTXOs refine a
    table; order of effects of sends and fundings, also when tried again; settled keys and witnesses agree
    with what the event handler claims; claims are recorded once.
  \<^item> Handlers over components (\<open>PayProps\<close>, \<open>ChannelProps\<close>, \<open>AssetProps\<close>, \<open>NodeProps\<close>, \<open>SweeperProps\<close>, \<open>Fees\<close>): an
    invoice is paid once, decoded and settled; every check before a channel opens and what the send lock
    blocks; two ways to ask for a balance agree; a sweep moves every asset once; fee rates stay usable.
  Theorems of the kind error state how the code behaves where it fails, on a concrete run or in general.

  \<^bold>\<open>Interfaces.\<close>  \<open>field_codec\<close> (a printed field without the separator is read back) is interpreted for the
  fields of swap strings and of the peers file; \<open>component\<close> (a part of a state with its update) for the five
  stores of the node; \<open>persisted_map\<close> (a map with its copy on disk and a reload) for the stores;
  \<open>poisoning_lock\<close> (an action under a mutex, which a panic poisons) for the wallet manager and the sweeper.
  The targets of fees are an instance of \<open>enum\<close>.

  \<^bold>\<open>Bounds.\<close>  No definition has fuel that could cut a run short: loops recurse on their input, the chunks of a
  file on what is left of it, and the waits of \<open>connect_peer_if_necessary\<close> on the list of what happens.  Eight
  steps are enough for a request that runs alone, seven per request in any schedule.
  The start synchronises at most three times, as the code does.

  \<^bold>\<open>Not modelled.\<close>  The structs serde derives for the bodies of requests and of plain answers; \<open>main.rs\<close> beyond its routes and the shutdown wait (logging, the HTTP server, middleware layers) and
  \<open>no_cancel\<close>, which spawns the body of a handler so that a dropped connection does not stop it; the logger and
  readers around LDK deserialisation in \<open>disk.rs\<close>; TLV encodings generated by macros of LDK; the block source
  of \<open>bitcoind.rs\<close>, which passes calls on; objects of LDK that \<open>start_ldk\<close> only wires together; dead and
  forwarding code of the adapter; failing system calls of \<open>backup.rs\<close>, passed on by \<open>?\<close>.  They keep no state of
  their own, or are calls of libraries that are not under \<open>src/\<close>.
\<close>

end
